(* ===== verification/Go_Lib.thy ===== *)
theory Go_Lib
  imports Main "HOL-Library.Multiset" "HOL-Library.Signed_Division"
begin

text \<open>
  The part of the Go language and of its standard library that the modelled packages use:
  byte strings and the functions of \<open>strings\<close>, the conversions of \<open>strconv\<close>, 64-bit
  integer arithmetic, \<open>path.Clean\<close>, \<open>sort.Slice\<close>, \<open>rand.Shuffle\<close> and error values.
  A Go string is a list of bytes (\<open>char\<close>). Shared lemmas are collected in
  \<open>go_simps\<close>.
\<close>

named_theorems go_simps

section \<open>strings\<close>

definition HasPrefix :: "string \<Rightarrow> string \<Rightarrow> bool" where
  "HasPrefix s p \<longleftrightarrow> take (length p) s = p"

definition HasSuffix :: "string \<Rightarrow> string \<Rightarrow> bool" where
  "HasSuffix s p \<longleftrightarrow> HasPrefix (rev s) (rev p)"

definition TrimPrefix :: "string \<Rightarrow> string \<Rightarrow> string" where
  "TrimPrefix s p = (if HasPrefix s p then drop (length p) s else s)"

definition TrimSuffix :: "string \<Rightarrow> string \<Rightarrow> string" where
  "TrimSuffix s p = (if HasSuffix s p then take (length s - length p) s else s)"

fun Contains :: "string \<Rightarrow> string \<Rightarrow> bool" where
  "Contains [] sub = (sub = [])"
| "Contains (c # s) sub = (HasPrefix (c # s) sub \<or> Contains s sub)"

text \<open>
  \<open>strings.Cut\<close>: \<open>None\<close> when the separator does not occur.
\<close>

fun Cut :: "string \<Rightarrow> string \<Rightarrow> (string \<times> string) option" where
  "Cut [] sep = (if sep = [] then Some ([], []) else None)"
| "Cut (c # s) sep =
     (if HasPrefix (c # s) sep then Some ([], drop (length sep) (c # s))
      else map_option (\<lambda>(a, b). (c # a, b)) (Cut s sep))"

text \<open>
  \<open>strings.Split\<close> for a one-byte separator: always at least one part.
\<close>

fun Split :: "string \<Rightarrow> char \<Rightarrow> string list" where
  "Split [] sep = [[]]"
| "Split (c # s) sep =
     (if c = sep then [] # Split s sep
      else (case Split s sep of [] \<Rightarrow> [[c]] | p # ps \<Rightarrow> (c # p) # ps))"

fun Join :: "string list \<Rightarrow> string \<Rightarrow> string" where
  "Join [] sep = []"
| "Join [p] sep = p"
| "Join (p # q # ps) sep = p @ sep @ Join (q # ps) sep"

text \<open>
  The UTF-8 encodings of the runes for which \<open>unicode.IsSpace\<close> holds: the six ASCII ones,
  U+0085, U+00A0, U+1680, U+2000 to U+200A, U+2028, U+2029, U+202F, U+205F and U+3000.
\<close>

definition space_runes :: "string list" where
  "space_runes =
     [[CHR 0x09], [CHR 0x0A], [CHR 0x0B], [CHR 0x0C], [CHR 0x0D], [CHR 0x20],
      [CHR 0xC2, CHR 0x85], [CHR 0xC2, CHR 0xA0], [CHR 0xE1, CHR 0x9A, CHR 0x80],
      [CHR 0xE2, CHR 0x80, CHR 0x80], [CHR 0xE2, CHR 0x80, CHR 0x81],
      [CHR 0xE2, CHR 0x80, CHR 0x82], [CHR 0xE2, CHR 0x80, CHR 0x83],
      [CHR 0xE2, CHR 0x80, CHR 0x84], [CHR 0xE2, CHR 0x80, CHR 0x85],
      [CHR 0xE2, CHR 0x80, CHR 0x86], [CHR 0xE2, CHR 0x80, CHR 0x87],
      [CHR 0xE2, CHR 0x80, CHR 0x88], [CHR 0xE2, CHR 0x80, CHR 0x89],
      [CHR 0xE2, CHR 0x80, CHR 0x8A], [CHR 0xE2, CHR 0x80, CHR 0xA8],
      [CHR 0xE2, CHR 0x80, CHR 0xA9], [CHR 0xE2, CHR 0x80, CHR 0xAF],
      [CHR 0xE2, CHR 0x81, CHR 0x9F], [CHR 0xE3, CHR 0x80, CHR 0x80]]"

function trim_with :: "string list \<Rightarrow> string \<Rightarrow> string" where
  "trim_with ws s =
     (case find (\<lambda>w. w \<noteq> [] \<and> HasPrefix s w) ws of
        None \<Rightarrow> s
      | Some w \<Rightarrow> trim_with ws (drop (length w) s))"
  by pat_completeness auto
termination
proof (relation "measure (\<lambda>(ws, s). length s)", goal_cases)
  case (2 ws s w)
  then have "w \<noteq> []" and "take (length w) s = w"
    by (auto simp: find_Some_iff HasPrefix_def)
  then show ?case by (cases s) auto
qed simp

declare trim_with.simps [simp del]

definition TrimLeftSpace :: "string \<Rightarrow> string" where
  "TrimLeftSpace s = trim_with space_runes s"

definition TrimRightSpace :: "string \<Rightarrow> string" where
  "TrimRightSpace s = rev (trim_with (map rev space_runes) (rev s))"

definition TrimSpace :: "string \<Rightarrow> string" where
  "TrimSpace s = TrimRightSpace (TrimLeftSpace s)"

definition ascii_lower :: "char \<Rightarrow> char" where
  "ascii_lower c = (if 65 \<le> (of_char c :: nat) \<and> (of_char c :: nat) \<le> 90
     then char_of (of_char c + 32 :: nat) else c)"

text \<open>
  \<open>strings.ToLower\<close>: ASCII letters, and the two runes outside ASCII whose lower case is an
  ASCII letter (U+0130 and U+212A). The lower case of every other rune is outside ASCII; those
  bytes are left as they are, which no comparison with an ASCII literal can tell apart.
\<close>

fun ToLower :: "string \<Rightarrow> string" where
  "ToLower [] = []"
| "ToLower (c # s) =
     (if c = CHR 0xC4 \<and> take 1 s = [CHR 0xB0] then CHR ''i'' # ToLower (drop 1 s)
      else if c = CHR 0xE2 \<and> take 2 s = [CHR 0x84, CHR 0xAA] then CHR ''k'' # ToLower (drop 2 s)
      else ascii_lower c # ToLower s)"

text \<open>
  \<open>strings.EqualFold\<close> against an ASCII literal without the letters k and s, the only ones
  with a simple case folding outside ASCII.
\<close>

definition EqualFold :: "string \<Rightarrow> string \<Rightarrow> bool" where
  "EqualFold s t \<longleftrightarrow> map ascii_lower s = map ascii_lower t"

section \<open>strconv\<close>

definition is_digit :: "char \<Rightarrow> bool" where
  "is_digit c \<longleftrightarrow> 48 \<le> (of_char c :: nat) \<and> (of_char c :: nat) \<le> 57"

definition digits_val :: "int \<Rightarrow> string \<Rightarrow> int" where
  "digits_val b ds = foldl (\<lambda>a c. a * b + (int (of_char c) - 48)) 0 ds"

text \<open>\<open>strconv.ParseInt(s, 10, 64)\<close>; \<open>None\<close> is a non-nil error.\<close>

definition ParseInt64 :: "string \<Rightarrow> int option" where
  "ParseInt64 s =
     (let (neg, ds) = (case s of [] \<Rightarrow> (False, [])
                       | c # cs \<Rightarrow> if c = CHR ''-'' then (True, cs)
                                  else if c = CHR ''+'' then (False, cs) else (False, s))
      in if ds = [] \<or> \<not> list_all is_digit ds then None
         else let v = digits_val 10 ds
              in if neg then (if v \<le> 2 ^ 63 then Some (- v) else None)
                 else (if v < 2 ^ 63 then Some v else None))"

text \<open>\<open>strconv.ParseUint(s, 8, 32)\<close>.\<close>

definition ParseUintOctal32 :: "string \<Rightarrow> int option" where
  "ParseUintOctal32 s =
     (if s = [] \<or> \<not> list_all (\<lambda>c. is_digit c \<and> (of_char c :: nat) \<le> 55) s then None
      else let v = digits_val 8 s in if v < 2 ^ 32 then Some v else None)"

definition ParseBool :: "string \<Rightarrow> bool option" where
  "ParseBool s =
     (if s \<in> set [''1'', ''t'', ''T'', ''TRUE'', ''true'', ''True''] then Some True
      else if s \<in> set [''0'', ''f'', ''F'', ''FALSE'', ''false'', ''False''] then Some False
      else None)"

text \<open>Decimal rendering (\<open>strconv.Itoa\<close>, the verb \<open>%d\<close>).\<close>

function show_digits :: "int \<Rightarrow> string" where
  "show_digits n = (if n < 10 then [char_of (n + 48)]
                    else show_digits (n div 10) @ [char_of (n mod 10 + 48)])"
  by pat_completeness auto

termination
  by (relation "measure nat") auto

declare show_digits.simps [simp del]

definition Itoa :: "int \<Rightarrow> string" where
  "Itoa i = (if i < 0 then CHR ''-'' # show_digits (- i) else show_digits i)"

section \<open>64-bit integers\<close>

text \<open>The value of an \<open>int64\<close> computation: two's complement wrap-around.\<close>

definition i64 :: "int \<Rightarrow> int" where
  "i64 x = (x + 2 ^ 63) mod 2 ^ 64 - 2 ^ 63"

definition in64 :: "int \<Rightarrow> bool" where
  "in64 x \<longleftrightarrow> - (2 ^ 63) \<le> x \<and> x < 2 ^ 63"

section \<open>path.Clean\<close>

text \<open>
  One path element at a time, with the elements kept so far in reverse order.
\<close>

definition clean_step :: "bool \<Rightarrow> string list \<Rightarrow> string \<Rightarrow> string list" where
  "clean_step rooted st c =
     (if c = [] \<or> c = ''.'' then st
      else if c = ''..'' then
        (case st of
           [] \<Rightarrow> if rooted then [] else [c]
         | t # ts \<Rightarrow> if t = ''..'' then c # st else ts)
      else c # st)"

definition Clean :: "string \<Rightarrow> string" where
  "Clean p =
     (let rooted = HasPrefix p ''/'';
          els = rev (foldl (clean_step rooted) [] (Split p (CHR ''/'')))
      in if rooted then ''/'' @ Join els ''/''
         else if els = [] then ''.'' else Join els ''/'')"

section \<open>sort.Slice and rand.Shuffle\<close>

text \<open>
  \<open>sort.Slice\<close> as an insertion sort over the comparison function. Go's sort is not stable; the
  comparison functions of the modelled code never call two different elements equal.
\<close>

fun insert_by :: "('a \<Rightarrow> 'a \<Rightarrow> bool) \<Rightarrow> 'a \<Rightarrow> 'a list \<Rightarrow> 'a list" where
  "insert_by lt x [] = [x]"
| "insert_by lt x (y # ys) = (if lt y x then y # insert_by lt x ys else x # y # ys)"

definition sort_slice :: "('a \<Rightarrow> 'a \<Rightarrow> bool) \<Rightarrow> 'a list \<Rightarrow> 'a list" where
  "sort_slice lt xs = foldr (insert_by lt) xs []"

text \<open>
  \<open>rand.Shuffle\<close>: for i from n-1 down to 1, swap element i with element j, where j is a random
  number up to i. The random source is the function \<open>rnd\<close>, reduced to the range.
\<close>

definition swap_at :: "nat \<Rightarrow> nat \<Rightarrow> 'a list \<Rightarrow> 'a list" where
  "swap_at i j xs = (if i < length xs \<and> j < length xs then xs[i := xs ! j, j := xs ! i] else xs)"

fun shuffle_from :: "(nat \<Rightarrow> nat) \<Rightarrow> nat \<Rightarrow> 'a list \<Rightarrow> 'a list" where
  "shuffle_from rnd 0 xs = xs"
| "shuffle_from rnd (Suc i) xs = shuffle_from rnd i (swap_at (Suc i) (rnd (Suc i) mod (Suc i + 1)) xs)"

definition Shuffle :: "(nat \<Rightarrow> nat) \<Rightarrow> 'a list \<Rightarrow> 'a list" where
  "Shuffle rnd xs = shuffle_from rnd (length xs - 1) xs"

section \<open>Errors\<close>

text \<open>
  An error is made by \<open>errors.New\<close> or by \<open>fmt.Errorf\<close>, kept as its format and arguments:
  \<open>Str\<close> for \<open>%s\<close>, \<open>Dec\<close> for \<open>%d\<close>, \<open>Quo\<close> for \<open>%q\<close>, \<open>Wrap\<close> for \<open>%w\<close> and \<open>Val\<close> for an
  error printed with \<open>%v\<close> (which \<open>errors.Is\<close> does not look into). A \<open>%q\<close> argument
  prints between double quotes; its escape sequences are not expanded in the error text.
\<close>

datatype go_error = ErrNew string | Errorf string "go_arg list"
and go_arg = Str string | Dec int | Quo string | Wrap go_error | Val go_error

fun errors_Is :: "go_error \<Rightarrow> go_error \<Rightarrow> bool" and arg_Is :: "go_arg \<Rightarrow> go_error \<Rightarrow> bool" where
  "errors_Is (ErrNew m) t = (ErrNew m = t)"
| "errors_Is (Errorf f as) t = (Errorf f as = t \<or> list_ex (\<lambda>a. arg_Is a t) as)"
| "arg_Is (Wrap e) t = errors_Is e t"
| "arg_Is (Str _) t = False"
| "arg_Is (Dec _) t = False"
| "arg_Is (Quo _) t = False"
| "arg_Is (Val _) t = False"

text \<open>The text of an error: each verb of the format takes the next argument.\<close>

fun render :: "string \<Rightarrow> string list \<Rightarrow> string" where
  "render [] as = []"
| "render [c] as = [c]"
| "render (c # d # f) as =
     (if c = CHR ''%'' then (case as of [] \<Rightarrow> c # d # render f [] | a # as' \<Rightarrow> a @ render f as')
      else c # render (d # f) as)"

fun Error :: "go_error \<Rightarrow> string" and arg_text :: "go_arg \<Rightarrow> string" where
  "Error (ErrNew m) = m"
| "Error (Errorf f as) = render f (map arg_text as)"
| "arg_text (Str s) = s"
| "arg_text (Dec i) = Itoa i"
| "arg_text (Quo s) = [CHR 0x22] @ s @ [CHR 0x22]"
| "arg_text (Wrap e) = Error e"
| "arg_text (Val e) = Error e"

section \<open>Lemmas: strings\<close>

lemma HasPrefix_iff: "HasPrefix s p \<longleftrightarrow> (\<exists>r. s = p @ r)"
  unfolding HasPrefix_def by (metis append_take_drop_id append_eq_conv_conj)

lemma HasSuffix_iff: "HasSuffix s p \<longleftrightarrow> (\<exists>r. s = r @ p)"
  unfolding HasSuffix_def HasPrefix_iff by (metis rev_append rev_rev_ident)

lemma HasPrefix_Nil [simp]: "HasPrefix s []"
  by (simp add: HasPrefix_def)

lemma HasPrefix_Cons [simp]: "HasPrefix (c # s) (d # p) \<longleftrightarrow> c = d \<and> HasPrefix s p"
  by (auto simp: HasPrefix_def)

lemma Nil_HasPrefix [simp]: "HasPrefix [] p \<longleftrightarrow> p = []"
  by (auto simp: HasPrefix_def)

lemma HasPrefix_append [simp]: "HasPrefix (p @ s) p"
  by (simp add: HasPrefix_iff)

lemma Contains_iff: "Contains s sub \<longleftrightarrow> (\<exists>a b. s = a @ sub @ b)"
proof (induction s)
  case (Cons c s)
  have "(\<exists>a b. c # s = a @ sub @ b) \<longleftrightarrow> (\<exists>b. c # s = sub @ b) \<or> (\<exists>a b. s = a @ sub @ b)"
    by (auto simp: Cons_eq_append_conv)
  then show ?case by (simp add: Cons.IH HasPrefix_iff)
qed auto

lemma Contains_char: "Contains s [c] \<longleftrightarrow> c \<in> set s"
  by (auto simp: Contains_iff in_set_conv_decomp)

lemma Cut_Some: "Cut s sep = Some (a, b) \<Longrightarrow> s = a @ sep @ b"
  by (induction s arbitrary: a b) (auto simp: HasPrefix_iff split: if_splits)

lemma Cut_None: "Cut s [c] = None \<longleftrightarrow> c \<notin> set s"
  by (induction s) auto

lemma Cut_char: "Cut s [c] = (if c \<in> set s then Some (takeWhile (\<lambda>x. x \<noteq> c) s, tl (dropWhile (\<lambda>x. x \<noteq> c) s)) else None)"
  by (induction s) auto

lemma Split_not_Nil [simp]: "Split s c \<noteq> []"
  by (induction s) (auto split: list.splits)

lemma Join_Split: "Join (Split s c) [c] = s"
proof (induction s)
  case (Cons a s)
  then show ?case
    by (cases "Split s c"; cases "tl (Split s c)") auto
qed simp

lemma Split_no_sep: "p \<in> set (Split s c) \<Longrightarrow> c \<notin> set p"
  by (induction s arbitrary: p) (auto split: if_splits list.splits)

lemma trim_with_suffix: "\<exists>p. s = p @ trim_with ws s"
proof (induction ws s rule: trim_with.induct)
  case (1 ws s)
  show ?case
  proof (cases "find (\<lambda>w. w \<noteq> [] \<and> HasPrefix s w) ws")
    case None
    then show ?thesis by (subst trim_with.simps) simp
  next
    case (Some w)
    with 1 obtain p where p: "drop (length w) s = p @ trim_with ws (drop (length w) s)" by blast
    have "s = take (length w) s @ drop (length w) s" by simp
    also have "\<dots> = (take (length w) s @ p) @ trim_with ws s"
      by (subst p, subst (2) trim_with.simps) (simp add: Some)
    finally show ?thesis by blast
  qed
qed

lemma trim_with_done: "w \<in> set ws \<Longrightarrow> w \<noteq> [] \<Longrightarrow> \<not> HasPrefix (trim_with ws s) w"
proof (induction ws s rule: trim_with.induct)
  case (1 ws s)
  show ?case
  proof (cases "find (\<lambda>w. w \<noteq> [] \<and> HasPrefix s w) ws")
    case None
    then have "trim_with ws s = s" by (subst trim_with.simps) simp
    with None 1 show ?thesis by (auto simp: find_None_iff)
  next
    case (Some v)
    then show ?thesis
      using 1 by (subst trim_with.simps) simp
  qed
qed

lemma trim_with_fixed: "(\<And>w. w \<in> set ws \<Longrightarrow> w \<noteq> [] \<Longrightarrow> \<not> HasPrefix s w) \<Longrightarrow> trim_with ws s = s"
  by (subst trim_with.simps) (auto simp: find_None_iff split: option.splits dest!: find_Some_iff [THEN iffD1] nth_mem)

lemma trim_with_idem [simp]: "trim_with ws (trim_with ws s) = trim_with ws s"
  by (rule trim_with_fixed) (rule trim_with_done)

lemma TrimRightSpace_prefix: "\<exists>q. s = TrimRightSpace s @ q"
proof -
  obtain p where "rev s = p @ trim_with (map rev space_runes) (rev s)"
    using trim_with_suffix by blast
  then have "s = rev (trim_with (map rev space_runes) (rev s)) @ rev p"
    by (metis rev_append rev_rev_ident)
  then show ?thesis unfolding TrimRightSpace_def by blast
qed

lemma TrimSpace_sublist: "\<exists>a b. s = a @ TrimSpace s @ b"
proof -
  obtain a where a: "s = a @ TrimLeftSpace s"
    unfolding TrimLeftSpace_def using trim_with_suffix by blast
  obtain b where b: "TrimLeftSpace s = TrimSpace s @ b"
    unfolding TrimSpace_def using TrimRightSpace_prefix by blast
  have "s = a @ TrimSpace s @ b"
    by (subst a, subst b) (rule refl)
  then show ?thesis by blast
qed

lemma TrimSpace_idem [simp]: "TrimSpace (TrimSpace s) = TrimSpace s"
proof -
  obtain b where b: "TrimLeftSpace s = TrimSpace s @ b"
    unfolding TrimSpace_def using TrimRightSpace_prefix by blast
  have "TrimLeftSpace (TrimSpace s) = TrimSpace s"
    unfolding TrimLeftSpace_def
  proof (rule trim_with_fixed)
    fix w assume w: "w \<in> set space_runes" "w \<noteq> []"
    then have "\<not> HasPrefix (TrimLeftSpace s) w"
      unfolding TrimLeftSpace_def by (rule trim_with_done)
    then show "\<not> HasPrefix (TrimSpace s) w"
      using b by (auto simp: HasPrefix_iff)
  qed
  then have "TrimSpace (TrimSpace s) = TrimRightSpace (TrimSpace s)"
    by (simp add: TrimSpace_def)
  also have "\<dots> = TrimSpace s"
    by (simp add: TrimSpace_def TrimRightSpace_def)
  finally show ?thesis .
qed

lemma TrimSpace_Nil [simp]: "TrimSpace [] = []"
  by (metis TrimSpace_sublist append_is_Nil_conv)

lemma TrimSpace_fixed:
  assumes "s \<noteq> []"
    and "hd s \<notin> hd ` set space_runes" and "last s \<notin> last ` set space_runes"
  shows "TrimSpace s = s"
proof -
  have L: "TrimLeftSpace s = s"
    unfolding TrimLeftSpace_def
    by (rule trim_with_fixed) (use assms(1,2) in \<open>auto simp: HasPrefix_iff image_iff\<close>)
  have "trim_with (map rev space_runes) (rev s) = rev s"
  proof (rule trim_with_fixed)
    fix w assume w: "w \<in> set (map rev space_runes)" "w \<noteq> []"
    then obtain v where v: "v \<in> set space_runes" "w = rev v" by auto
    show "\<not> HasPrefix (rev s) w"
    proof
      assume "HasPrefix (rev s) w"
      then obtain r where "rev s = rev v @ r" using v by (auto simp: HasPrefix_iff)
      then have "s = rev r @ v" by (metis rev_append rev_rev_ident)
      with v w have "last s = last v" by auto
      with v assms(3) show False by auto
    qed
  qed
  then show ?thesis by (simp add: TrimSpace_def L TrimRightSpace_def)
qed

definition plain_char :: "char \<Rightarrow> bool" where
  "plain_char c \<longleftrightarrow> 33 \<le> (of_char c :: nat) \<and> (of_char c :: nat) \<le> 126"

lemma TrimSpace_plain:
  assumes "plain_char (hd s)" and "plain_char (last s)"
  shows "TrimSpace s = s"
proof (cases "s = []")
  case False
  moreover have "c \<in> hd ` set space_runes \<or> c \<in> last ` set space_runes \<Longrightarrow> \<not> plain_char c" for c
    by (auto simp: space_runes_def plain_char_def)
  ultimately show ?thesis using assms by (blast intro: TrimSpace_fixed)
qed simp

section \<open>Lemmas: integers\<close>

lemma i64_id [simp]: "in64 x \<Longrightarrow> i64 x = x"
  by (simp add: i64_def in64_def)

lemma in64_i64 [simp]: "in64 (i64 x)"
  by (simp add: in64_def i64_def)

lemma in64I: "- 9223372036854775808 \<le> x \<Longrightarrow> x \<le> 9223372036854775807 \<Longrightarrow> in64 x"
  by (simp add: in64_def)

lemma digits_val_nonneg: "list_all is_digit ds \<Longrightarrow> 0 \<le> digits_val 10 ds"
proof -
  have "list_all is_digit ds \<Longrightarrow> 0 \<le> a \<Longrightarrow>
    0 \<le> foldl (\<lambda>a c. a * 10 + (int (of_char c) - 48)) a ds" for a
    by (induction ds arbitrary: a) (auto simp: is_digit_def)
  then show "list_all is_digit ds \<Longrightarrow> 0 \<le> digits_val 10 ds" by (simp add: digits_val_def)
qed

lemma ParseInt64_in64: "ParseInt64 s = Some v \<Longrightarrow> in64 v"
  using digits_val_nonneg [of s] digits_val_nonneg [of "tl s"]
  by (auto simp: ParseInt64_def in64_def Let_def split: list.splits if_splits)

section \<open>Lemmas: sorting and shuffling\<close>

text \<open>Decimal rendering and reading.\<close>

lemma digit_char:
  assumes "0 \<le> d" and "d < 10"
  shows "is_digit (char_of (d + 48))" and "int (of_char (char_of (d + 48 :: int))) = d + 48"
proof -
  have "(of_char (char_of (d + 48)) :: int) = d + 48" using assms by simp
  then show int: "int (of_char (char_of (d + 48 :: int))) = d + 48" by (simp only: of_nat_of_char)
  then show "is_digit (char_of (d + 48))" using assms by (simp add: is_digit_def)
qed

lemma digits_val_append1: "digits_val b (ds @ [c]) = digits_val b ds * b + (int (of_char c) - 48)"
  by (simp add: digits_val_def)

lemma show_digits_sound:
  "0 \<le> n \<Longrightarrow> list_all is_digit (show_digits n) \<and> digits_val 10 (show_digits n) = n \<and> show_digits n \<noteq> [] \<and>
     (10 \<le> n \<longrightarrow> hd (show_digits n) \<noteq> CHR ''0'')"
proof (induction n rule: show_digits.induct)
  case (1 n)
  show ?case
  proof (cases "n < 10")
    case True
    then show ?thesis using 1 digit_char [of n] by (simp add: show_digits.simps [of n] digits_val_def)
  next
    case False
    let ?m = "n div 10"
    have m: "list_all is_digit (show_digits ?m)" "digits_val 10 (show_digits ?m) = ?m" "show_digits ?m \<noteq> []"
      "10 \<le> ?m \<longrightarrow> hd (show_digits ?m) \<noteq> CHR ''0''"
      using 1 False by auto
    have hd: "hd (show_digits ?m) \<noteq> CHR ''0''"
    proof (cases "10 \<le> ?m")
      case False
      have "1 \<le> ?m" using \<open>\<not> n < 10\<close> by simp
      then have "int (of_char (char_of (?m + 48 :: int))) \<noteq> 48" using False digit_char(2) [of ?m] by simp
      then have "char_of (?m + 48) \<noteq> CHR ''0''" by (auto simp del: of_nat_of_char)
      then show ?thesis using False by (simp add: show_digits.simps [of ?m])
    qed (use m in simp)
    have "show_digits n = show_digits ?m @ [char_of (n mod 10 + 48)]"
      using False by (simp add: show_digits.simps [of n])
    then show ?thesis
      using m hd digit_char [of "n mod 10"] by (simp add: digits_val_append1)
  qed
qed

lemma length_show_digits: "0 \<le> n \<Longrightarrow> n < 10 ^ k \<Longrightarrow> 0 < k \<Longrightarrow> length (show_digits n) \<le> k"
proof (induction k arbitrary: n)
  case (Suc k)
  show ?case
  proof (cases "n < 10")
    case False
    then have "0 < k" using Suc.prems by (cases k) auto
    moreover have "n div 10 < 10 ^ k" using Suc.prems by (simp add: div_less_iff_less_mult algebra_simps)
    ultimately show ?thesis using Suc.IH [of "n div 10"] Suc.prems False by (simp add: show_digits.simps [of n])
  qed (simp add: show_digits.simps [of n])
qed simp

lemma mset_insert_by [simp]: "mset (insert_by lt x xs) = add_mset x (mset xs)"
  by (induction xs) auto

lemma mset_sort_slice [simp]: "mset (sort_slice lt xs) = mset xs"
  unfolding sort_slice_def by (induction xs) auto

lemma set_insert_by [simp]: "set (insert_by lt x xs) = insert x (set xs)"
  by (induction xs) auto

lemma set_sort_slice [simp]: "set (sort_slice lt xs) = set xs"
  by (metis mset_sort_slice set_mset_mset)

lemma length_sort_slice [simp]: "length (sort_slice lt xs) = length xs"
  by (metis mset_sort_slice size_mset)

lemma distinct_sort_slice [simp]: "distinct (map f (sort_slice lt xs)) \<longleftrightarrow> distinct (map f xs)"
  by (metis mset_sort_slice mset_map distinct_count_atmost_1 set_mset_mset)

lemma sorted_insert_by:
  assumes asym: "\<And>x y. lt x y \<Longrightarrow> \<not> lt y x"
    and trans: "\<And>x y z. \<not> lt y x \<Longrightarrow> \<not> lt z y \<Longrightarrow> \<not> lt z x"
  shows "sorted_wrt (\<lambda>a b. \<not> lt b a) xs \<Longrightarrow> sorted_wrt (\<lambda>a b. \<not> lt b a) (insert_by lt x xs)"
  by (induction xs) (auto dest: asym trans)

lemma sorted_sort_slice:
  assumes "\<And>x y. lt x y \<Longrightarrow> \<not> lt y x"
    and "\<And>x y z. \<not> lt y x \<Longrightarrow> \<not> lt z y \<Longrightarrow> \<not> lt z x"
  shows "sorted_wrt (\<lambda>a b. \<not> lt b a) (sort_slice lt xs)"
proof (induction xs)
  case Nil
  show ?case by (simp add: sort_slice_def)
next
  case (Cons x xs)
  have "sort_slice lt (x # xs) = insert_by lt x (sort_slice lt xs)"
    by (simp add: sort_slice_def)
  with sorted_insert_by [of lt, OF assms Cons] show ?case by simp
qed

lemma mset_swap_at [simp]: "mset (swap_at i j xs) = mset xs"
  by (simp add: swap_at_def mset_swap)

lemma mset_shuffle_from [simp]: "mset (shuffle_from rnd i xs) = mset xs"
  by (induction i arbitrary: xs) auto

lemma mset_Shuffle [simp]: "mset (Shuffle rnd xs) = mset xs"
  by (simp add: Shuffle_def)

lemma set_Shuffle [simp]: "set (Shuffle rnd xs) = set xs"
  by (metis mset_Shuffle set_mset_mset)

lemma length_Shuffle [simp]: "length (Shuffle rnd xs) = length xs"
  by (metis mset_Shuffle size_mset)

lemma distinct_Shuffle [simp]: "distinct (Shuffle rnd xs) \<longleftrightarrow> distinct xs"
  by (metis mset_Shuffle mset_eq_imp_distinct_iff)

section \<open>Lemmas: clean paths\<close>

definition safe_elem :: "string \<Rightarrow> bool" where
  "safe_elem c \<longleftrightarrow> c \<noteq> [] \<and> c \<noteq> ''.'' \<and> c \<noteq> ''..'' \<and> CHR ''/'' \<notin> set c"

lemma clean_step_safe:
  assumes "CHR ''/'' \<notin> set c" and "list_all safe_elem st"
  shows "list_all safe_elem (clean_step True st c)"
  using assms by (auto simp: clean_step_def safe_elem_def split: list.splits)

lemma foldl_clean_step_safe:
  "\<forall>c \<in> set cs. CHR ''/'' \<notin> set c \<Longrightarrow> list_all safe_elem st \<Longrightarrow>
   list_all safe_elem (foldl (clean_step True) st cs)"
  by (induction cs arbitrary: st) (auto intro: clean_step_safe)

lemma Clean_rooted_safe:
  assumes "HasPrefix p ''/''"
  shows "\<exists>els. list_all safe_elem els \<and> Clean p = ''/'' @ Join els ''/''"
proof -
  let ?els = "rev (foldl (clean_step True) [] (Split p (CHR ''/'')))"
  have "list_all safe_elem ?els"
    using foldl_clean_step_safe [of "Split p (CHR ''/'')" "[]"] Split_no_sep by auto
  moreover have "Clean p = ''/'' @ Join ?els ''/''"
    using assms by (simp add: Clean_def)
  ultimately show ?thesis by blast
qed

lemma foldl_clean_step_id:
  "list_all safe_elem cs \<Longrightarrow> foldl (clean_step r) st cs = rev cs @ st"
  by (induction cs arbitrary: st) (auto simp: clean_step_def safe_elem_def)

lemma Split_Join:
  "cs \<noteq> [] \<Longrightarrow> \<forall>c \<in> set cs. sep \<notin> set c \<Longrightarrow> Split (Join cs [sep]) sep = cs"
proof (induction cs rule: list_nonempty_induct)
  case (single c)
  have "sep \<notin> set c \<Longrightarrow> Split c sep = [c]" by (induction c) auto
  with single show ?case by simp
next
  case (cons c cs)
  have step: "sep \<notin> set c \<Longrightarrow> Split (c @ sep # s) sep = c # Split s sep" for s
    by (induction c) auto
  from cons show ?case by (cases cs) (auto simp: step)
qed

lemma Clean_idem_rooted:
  assumes "list_all safe_elem els"
  shows "Clean (''/'' @ Join els ''/'') = ''/'' @ Join els ''/''"
proof (cases "els = []")
  case False
  have "Split (''/'' @ Join els ''/'') (CHR ''/'') = [] # els"
    using False assms Split_Join [of els "CHR ''/''"] by (auto simp: safe_elem_def list_all_iff)
  then show ?thesis
    using assms foldl_clean_step_id [of els True "[]"] by (simp add: Clean_def clean_step_def)
qed (simp add: Clean_def clean_step_def)

lemma Clean_fixed_safe:
  assumes "Clean p = p" and "HasPrefix p ''/''"
  shows "\<exists>els. list_all safe_elem els \<and> p = ''/'' @ Join els ''/''"
  using Clean_rooted_safe [OF assms(2)] assms(1) by metis

section \<open>Lemmas: errors\<close>

lemma errors_Is_refl [simp]: "errors_Is e e"
  by (cases e) auto

end
