(* ===== verification/Effects.thy ===== *)
theory Effects
  imports Go_Lib "HOL-Library.State_Monad"
begin

text \<open>
  Stateful Go code as computations of the state monad. A loop over a slice is \<open>for_each\<close>, a loop
  whose body may return from the enclosing function is \<open>for_ret\<close>. The locale \<open>effect_rel\<close> carries
  a relation between the states before and after a computation through every construct of the
  monad, so that a fact about the primitive operations of a component becomes a fact about all
  the code built from them; its rules are collected in \<open>eff_intros\<close>.
\<close>

named_theorems eff_intros

abbreviation ret :: "'a \<Rightarrow> ('s, 'a) state" where
  "ret \<equiv> State_Monad.return"

fun for_each :: "'a list \<Rightarrow> ('a \<Rightarrow> ('s, unit) state) \<Rightarrow> ('s, unit) state" where
  "for_each [] f = ret ()"
| "for_each (x # xs) f = do { f x; for_each xs f }"

fun for_ret :: "'a list \<Rightarrow> ('a \<Rightarrow> ('s, 'r option) state) \<Rightarrow> ('s, 'r option) state" where
  "for_ret [] f = ret None"
| "for_ret (x # xs) f = do {
     r \<leftarrow> f x;
     (case r of Some v \<Rightarrow> ret (Some v) | None \<Rightarrow> for_ret xs f) }"

definition gets :: "('s \<Rightarrow> 'a) \<Rightarrow> ('s, 'a) state" where
  "gets f = State (\<lambda>s. (f s, s))"

definition modify :: "('s \<Rightarrow> 's) \<Rightarrow> ('s, unit) state" where
  "modify f = State (\<lambda>s. ((), f s))"

text \<open>
  The early return on error: \<open>if err != nil { return err }\<close> after a call whose result is an error
  or a value.
\<close>

definition bindE :: "('s, 'e + 'a) state \<Rightarrow> ('a \<Rightarrow> ('s, 'e + 'b) state) \<Rightarrow> ('s, 'e + 'b) state" where
  "bindE m f = do { r \<leftarrow> m; case r of Inl e \<Rightarrow> ret (Inl e) | Inr x \<Rightarrow> f x }"

lemma run_gets [simp]: "run_state (gets f) s = (f s, s)"
  by (simp add: gets_def)

lemma run_modify [simp]: "run_state (modify f) s = ((), f s)"
  by (simp add: modify_def)

abbreviation exec :: "('s, 'a) state \<Rightarrow> 's \<Rightarrow> 's" where
  "exec m s \<equiv> snd (run_state m s)"

abbreviation result :: "('s, 'a) state \<Rightarrow> 's \<Rightarrow> 'a" where
  "result m s \<equiv> fst (run_state m s)"

lemma exec_bind: "exec (State_Monad.bind m f) s = exec (f (result m s)) (exec m s)"
  by (simp split: prod.splits)

lemma result_bind: "result (State_Monad.bind m f) s = result (f (result m s)) (exec m s)"
  by (simp split: prod.splits)

lemma run_bindE:
  "run_state (bindE m f) s =
     (case run_state m s of (Inl e, s') \<Rightarrow> (Inl e, s') | (Inr x, s') \<Rightarrow> run_state (f x) s')"
  by (auto simp: bindE_def split: prod.splits sum.splits)

lemma run_for_each_append:
  "run_state (for_each (xs @ ys) f) s = run_state (for_each ys f) (exec (for_each xs f) s)"
  by (induction xs arbitrary: s) (auto split: prod.splits)

lemma exec_for_each_Cons: "exec (for_each (x # xs) f) s = exec (for_each xs f) (exec (f x) s)"
  by (simp split: prod.splits)

lemma exec_bindE: "exec (bindE m f) s = (case result m s of Inl _ \<Rightarrow> exec m s | Inr x \<Rightarrow> exec (f x) (exec m s))"
  by (simp add: bindE_def exec_bind split: sum.split del: run_state_bind)

lemma result_bindE: "result (bindE m f) s = (case result m s of Inl e \<Rightarrow> Inl e | Inr x \<Rightarrow> result (f x) (exec m s))"
  by (simp add: bindE_def result_bind split: sum.split del: run_state_bind)

locale effect_rel =
  fixes R :: "'s \<Rightarrow> 's \<Rightarrow> bool"
  assumes R_refl: "R s s"
    and R_trans: "R s t \<Longrightarrow> R t u \<Longrightarrow> R s u"
begin

lemma eff_ret [eff_intros]: "state_io_rel R (ret x)"
  by (rule state_io_relI) (simp add: R_refl)

lemma eff_gets [eff_intros]: "state_io_rel R (gets f)"
  by (rule state_io_relI) (simp add: R_refl)

lemma eff_bind [eff_intros]:
  "state_io_rel R m \<Longrightarrow> (\<And>x. state_io_rel R (f x)) \<Longrightarrow> state_io_rel R (State_Monad.bind m f)"
  by (rule state_io_relI) (auto split: prod.splits intro: R_trans dest: state_io_relD)

lemma eff_if [eff_intros]:
  "(b \<Longrightarrow> state_io_rel R m) \<Longrightarrow> (\<not> b \<Longrightarrow> state_io_rel R n) \<Longrightarrow> state_io_rel R (if b then m else n)"
  by simp

lemma eff_case_option [eff_intros]:
  "state_io_rel R m \<Longrightarrow> (\<And>x. state_io_rel R (f x)) \<Longrightarrow>
   state_io_rel R (case r of None \<Rightarrow> m | Some x \<Rightarrow> f x)"
  by (cases r) auto

lemma eff_case_sum [eff_intros]:
  "(\<And>x. state_io_rel R (f x)) \<Longrightarrow> (\<And>x. state_io_rel R (g x)) \<Longrightarrow>
   state_io_rel R (case r of Inl x \<Rightarrow> f x | Inr x \<Rightarrow> g x)"
  by (cases r) auto

lemma eff_case_prod [eff_intros]:
  "(\<And>x y. state_io_rel R (f x y)) \<Longrightarrow> state_io_rel R (case p of (x, y) \<Rightarrow> f x y)"
  by (cases p) auto

lemma eff_case_list [eff_intros]:
  "state_io_rel R m \<Longrightarrow> (\<And>x xs. state_io_rel R (f x xs)) \<Longrightarrow>
   state_io_rel R (case l of [] \<Rightarrow> m | x # xs \<Rightarrow> f x xs)"
  by (cases l) auto

lemma eff_bindE [eff_intros]:
  "state_io_rel R m \<Longrightarrow> (\<And>x. state_io_rel R (f x)) \<Longrightarrow> state_io_rel R (bindE m f)"
  unfolding bindE_def by (intro eff_bind eff_case_sum eff_ret)

lemma eff_let [eff_intros]: "(\<And>x. state_io_rel R (f x)) \<Longrightarrow> state_io_rel R (let x = v in f x)"
  by simp

lemma eff_for_each [eff_intros]:
  "(\<And>x. state_io_rel R (f x)) \<Longrightarrow> state_io_rel R (for_each xs f)"
  by (induction xs) (auto intro!: eff_intros)

lemma eff_for_ret [eff_intros]:
  "(\<And>x. state_io_rel R (f x)) \<Longrightarrow> state_io_rel R (for_ret xs f)"
  by (induction xs) (auto intro!: eff_intros split: option.split)

end

text \<open>
  An invariant is the relation that keeps a predicate; \<open>keeps\<close> names it.
\<close>

definition keeps :: "('s \<Rightarrow> bool) \<Rightarrow> 's \<Rightarrow> 's \<Rightarrow> bool" where
  "keeps I s t \<longleftrightarrow> (I s \<longrightarrow> I t)"

lemma effect_rel_keeps: "effect_rel (keeps I)"
  by unfold_locales (auto simp: keeps_def)

lemma keepsD: "state_io_rel (keeps I) m \<Longrightarrow> I s \<Longrightarrow> I (exec m s)"
  by (auto simp: state_io_rel_def keeps_def)

lemma keepsI: "(\<And>s. I s \<Longrightarrow> I (exec m s)) \<Longrightarrow> state_io_rel (keeps I) m"
  by (auto simp: state_io_rel_def keeps_def)

end
