(* ===== verification/Orch_Types.thy ===== *)
theory Orch_Types
  imports Go_Lib "HOL-Library.List_Lexorder" "HOL-Library.Char_ord"
begin

text \<open>
  Package \<open>sandboxd-orch/types\<close>: the objects of the orchestrator, and the replies of the sbxlet
  client (package \<open>sandboxd-orch/client\<close>). A time is its number of nanoseconds since the Unix
  epoch, a pointer to a time an option. A Go map is an association list in one of its iteration
  orders; a nil map and an empty one are both the empty list, which no modelled code tells apart.
\<close>

section \<open>Phases and states\<close>

text \<open>The string types \<open>NodeState\<close> (whose zero value is the empty string) and \<open>SandboxPhase\<close>.\<close>

datatype NodeState = NodeStateEmpty | NodeStateUnknown | NodeStateReady | NodeStateNotReady

datatype SandboxPhase =
  SandboxPhasePending | SandboxPhaseScheduled | SandboxPhaseRunning | SandboxPhaseFailed | SandboxPhaseDeleting

section \<open>Nodes and externals\<close>

record ObjectMeta =
  om_Labels :: "(string \<times> string) list"

record NodeResources =
  nr_CapacityCPUMilli :: int
  nr_CapacityMemoryBytes :: int
  nr_AllocatableCPUMilli :: int
  nr_AllocatableMemory :: int
  nr_UsedCPUMilli :: int
  nr_UsedMemoryBytes :: int
  nr_AvailableCPUMilli :: int
  nr_AvailableMemory :: int
  nr_MaxAllocPercent :: int
  nr_External :: string
  nr_UpdatedAt :: "int option"

record Node =
  n_ID :: string
  n_Metadata :: ObjectMeta
  n_IP :: string
  n_Port :: int
  n_Unschedulable :: bool
  n_State :: NodeState
  n_Source :: string
  n_LastError :: string
  n_SuccessStreak :: int
  n_FailureStreak :: int
  n_CreatedAt :: int
  n_UpdatedAt :: int
  n_LastHeartbeat :: "int option"
  n_Resources :: NodeResources
  n_SbxletBaseURL :: string

record RegisterNodeRequest =
  rn_ID :: string
  rn_IP :: string
  rn_Port :: int
  rn_Unschedulable :: bool

record NodeObjectSpec =
  nos_IP :: string
  nos_Port :: int
  nos_Unschedulable :: bool

record CreateNodeObjectRequest =
  cn_ID :: string
  cn_Metadata :: ObjectMeta
  cn_Spec :: NodeObjectSpec

text \<open>
  In a patch the metadata and its labels are pointers or a map that may be nil, and a label of the
  map may be nil; JSON tells a missing label map (\<open>None\<close>) from an empty one (\<open>Some []\<close>).
\<close>

record PatchNodeObjectMeta =
  pm_Labels :: "(string \<times> string option) list option"

record PatchNodeObjectSpec =
  ps_Unschedulable :: "bool option"

record PatchNodeObjectRequest =
  pn_Metadata :: "PatchNodeObjectMeta option"
  pn_Spec :: PatchNodeObjectSpec

record ExternalObjectSpec =
  es_NodeID :: string
  es_External :: string

record CreateExternalObjectRequest =
  ce_ID :: string
  ce_Spec :: ExternalObjectSpec

record External =
  ex_ID :: string
  ex_NodeID :: string
  ex_External :: string
  ex_CreatedAt :: int
  ex_UpdatedAt :: int

section \<open>Sandboxes\<close>

record SandboxVolumeSpec =
  sv_Name :: string
  sv_EphemeralStorage :: string

record SandboxVolumeMount =
  svm_Name :: string
  svm_MountPath :: string
  svm_ReadOnly :: bool

record SandboxTmpfsMount =
  stm_MountPath :: string
  stm_Options :: string

record OrchReadinessProbeSpec =
  orp_Protocol :: string
  orp_Port :: int
  orp_Path :: string
  orp_InitialDelaySeconds :: int
  orp_PeriodSeconds :: int
  orp_TimeoutSeconds :: int
  orp_SuccessThreshold :: int
  orp_FailureThreshold :: int

record SandboxResource =
  sr_CPU :: string
  sr_Memory :: string
  sr_EphemeralStorage :: string

record SandboxContainerSpec =
  sc_Name :: string
  sc_Image :: string
  sc_Args :: "string list"
  sc_Env :: "string list"
  sc_WorkDir :: string
  sc_CapAdd :: "string list"
  sc_CapDrop :: "string list"
  sc_SecurityOpt :: "string list"
  sc_ReadOnly :: bool
  sc_Tmpfs :: "SandboxTmpfsMount list"
  sc_VolumeMounts :: "SandboxVolumeMount list"
  sc_Resource :: SandboxResource

record SandboxPortSpec =
  sp_HostPort :: int
  sp_ContainerPort :: int
  sp_Protocol :: string

record SandboxSpec =
  ss_Egress :: bool
  ss_TTLSeconds :: int
  ss_NodeSelector :: "(string \<times> string) list"
  ss_Ports :: "SandboxPortSpec list"
  ss_Volumes :: "SandboxVolumeSpec list"
  ss_Containers :: "SandboxContainerSpec list"
  ss_ReadinessProbe :: "OrchReadinessProbeSpec option"

record SandboxPortAssign =
  pa_HostPort :: int
  pa_ContainerPort :: int
  pa_Protocol :: string

record SandboxStatus =
  st_Phase :: SandboxPhase
  st_NodeName :: string
  st_External :: string
  st_IP :: string
  st_AssignedPorts :: "SandboxPortAssign list"
  st_SandboxdID :: string
  st_ExpireAt :: "int option"
  st_LastError :: string

record Sandbox =
  sb_ID :: string
  sb_Spec :: SandboxSpec
  sb_Status :: SandboxStatus
  sb_CreatedAt :: int
  sb_UpdatedAt :: int

record CreateSandboxObjectRequest =
  co_ID :: string
  co_Spec :: SandboxSpec

text \<open>
  What a status is after it was written as JSON and read back: \<open>MarshalJSON\<close> and
  \<open>UnmarshalJSON\<close> both trim the external address, everything else is kept.
\<close>

definition SandboxStatus_json :: "SandboxStatus \<Rightarrow> SandboxStatus" where
  "SandboxStatus_json st = st\<lparr> st_External := TrimSpace (st_External st) \<rparr>"

definition NodeResources_json :: "NodeResources \<Rightarrow> NodeResources" where
  "NodeResources_json r = r\<lparr> nr_External := TrimSpace (nr_External r) \<rparr>"

section \<open>Replies of the sbxlet client\<close>

record ContainerSyncStatus =
  cy_Name :: string
  cy_Phase :: string
  cy_Error :: string
  cy_TaskStatus :: string

record SandboxSyncStatus =
  sy_ID :: string
  sy_IP :: string
  sy_Phase :: string
  sy_Error :: string
  sy_UnhealthyContainers :: "ContainerSyncStatus list"

record SandboxStatusesResponse =
  sr_Items :: "SandboxSyncStatus list"
  sr_Missing :: "string list"

section \<open>Times\<close>

definition zero_time :: int where
  "zero_time = - 62135596800 * 1000000000"

text \<open>
  The text \<open>RFC3339Nano\<close> of a time in UTC orders first by the whole seconds. Within a second
  the text ends in \<open>Z\<close> or in a dot, the fraction without its trailing zeros, and \<open>Z\<close>.
\<close>

fun trim_zeros :: "string \<Rightarrow> string" where
  "trim_zeros s = rev (dropWhile (\<lambda>c. c = CHR ''0'') (rev s))"

definition frac_text :: "int \<Rightarrow> string" where
  "frac_text t =
     (let n = t mod 1000000000; ds = show_digits n
      in if n = 0 then ''Z''
         else ''.'' @ trim_zeros (replicate (9 - length ds) (CHR ''0'') @ ds) @ ''Z'')"

definition rfc3339_less :: "int \<Rightarrow> int \<Rightarrow> bool" where
  "rfc3339_less a b \<longleftrightarrow> a div 1000000000 < b div 1000000000
     \<or> a div 1000000000 = b div 1000000000 \<and> frac_text a < frac_text b"

section \<open>Maps\<close>

text \<open>Reading, writing and deleting a key of a Go map.\<close>

fun map_put :: "'k \<Rightarrow> 'v \<Rightarrow> ('k \<times> 'v) list \<Rightarrow> ('k \<times> 'v) list" where
  "map_put k v [] = [(k, v)]"
| "map_put k v ((k', v') # m) = (if k = k' then (k, v) # m else (k', v') # map_put k v m)"

definition map_del :: "'k \<Rightarrow> ('k \<times> 'v) list \<Rightarrow> ('k \<times> 'v) list" where
  "map_del k m = filter (\<lambda>(k', _). k' \<noteq> k) m"

lemma map_of_put [simp]: "map_of (map_put k v m) = (map_of m)(k \<mapsto> v)"
  by (induction m) auto

lemma map_of_del [simp]: "map_of (map_del k m) = (map_of m)(k := None)"
  by (induction m) (auto simp: map_del_def)

lemma keys_put [simp]: "fst ` set (map_put k v m) = insert k (fst ` set m)"
  by (induction k v m rule: map_put.induct) (simp_all add: insert_commute)

lemma distinct_put: "distinct (map fst m) \<Longrightarrow> distinct (map fst (map_put k v m))"
  by (induction k v m rule: map_put.induct) simp_all

lemma distinct_del: "distinct (map fst m) \<Longrightarrow> distinct (map fst (map_del k m))"
  by (simp add: map_del_def distinct_map_filter)

end
