(* ===== verification/Orch_Config.thy ===== *)
theory Orch_Config
  imports Complex_Main Go_Lib
begin

text \<open>
  Package \<open>sandboxd-orch/config\<close>: the configuration of the orchestrator, its defaults and the
  normalisation every loaded configuration goes through. A duration is a number of nanoseconds.
\<close>

text \<open>A \<open>float64\<close> as far as the code looks at it: the comparison with zero.\<close>

datatype float64 = NaN | PosInf | NegInf | Fin rat

definition float_le0 :: "float64 \<Rightarrow> bool" where
  "float_le0 x = (case x of NaN \<Rightarrow> False | PosInf \<Rightarrow> False | NegInf \<Rightarrow> True | Fin r \<Rightarrow> r \<le> 0)"

definition second :: int where "second = 1000000000"

definition defaultHTTPAddr :: string where "defaultHTTPAddr = '':8082''"

definition defaultSQLitePath :: string where "defaultSQLitePath = ''/var/lib/sandboxd/orchestrator.db''"

definition defaultLogFilePrefix :: string where "defaultLogFilePrefix = ''orchestrator''"

definition defaultPortMin :: int where "defaultPortMin = 10000"

definition defaultPortMax :: int where "defaultPortMax = 32767"

record Config =
  AppEnv :: string
  HTTPAddr :: string
  SharedSecret :: string
  LogDir :: string
  LogFilePrefix :: string
  SQLitePath :: string
  HeartbeatInterval :: int
  ProbeTimeout :: int
  SandboxOpTimeout :: int
  HeartbeatParallel :: bool
  HeartbeatMaxParallel :: int
  ResourceSyncInterval :: int
  ResourcePersistMinInt :: int
  ResourcePersistMaxInt :: int
  ReadySuccessThreshold :: int
  NotReadyFailureThreshold :: int
  ShutdownTimeout :: int
  SchedulerInterval :: int
  ReconcileInterval :: int
  StatusSyncInterval :: int
  StatusSyncTimeout :: int
  StatusSyncBatchSize :: int
  StatusSyncMaxParallel :: int
  HostPortMin :: int
  HostPortMax :: int
  CreateRPS :: float64
  CreateBurst :: int

definition DefaultConfig :: Config where
  "DefaultConfig = \<lparr>
     AppEnv = [],
     HTTPAddr = defaultHTTPAddr,
     SharedSecret = [],
     LogDir = [],
     LogFilePrefix = defaultLogFilePrefix,
     SQLitePath = defaultSQLitePath,
     HeartbeatInterval = 10 * second,
     ProbeTimeout = 3 * second,
     SandboxOpTimeout = 60 * second,
     HeartbeatParallel = False,
     HeartbeatMaxParallel = 4,
     ResourceSyncInterval = 30 * second,
     ResourcePersistMinInt = 30 * second,
     ResourcePersistMaxInt = 300 * second,
     ReadySuccessThreshold = 2,
     NotReadyFailureThreshold = 2,
     ShutdownTimeout = 5 * second,
     SchedulerInterval = 3 * second,
     ReconcileInterval = 5 * second,
     StatusSyncInterval = 20 * second,
     StatusSyncTimeout = 5 * second,
     StatusSyncBatchSize = 50,
     StatusSyncMaxParallel = 4,
     HostPortMin = defaultPortMin,
     HostPortMax = defaultPortMax,
     CreateRPS = Fin 20,
     CreateBurst = 40 \<rparr>"

text \<open>
  \<open>normalize\<close>: a conditional assignment per field. Each reads only the field it assigns, except
  that the check of the maximal port reads the minimal port that was just normalised.
\<close>

definition normalize :: "Config \<Rightarrow> Config" where
  "normalize cfg =
     (let minp = (if HostPortMin cfg < 1 then defaultPortMin else HostPortMin cfg) in
      cfg\<lparr>
        HTTPAddr := (if HTTPAddr cfg = [] then defaultHTTPAddr else HTTPAddr cfg),
        LogFilePrefix := (if LogFilePrefix cfg = [] then defaultLogFilePrefix else LogFilePrefix cfg),
        SQLitePath := (if SQLitePath cfg = [] then defaultSQLitePath else SQLitePath cfg),
        ReadySuccessThreshold := (if ReadySuccessThreshold cfg < 1 then 1 else ReadySuccessThreshold cfg),
        NotReadyFailureThreshold := (if NotReadyFailureThreshold cfg < 1 then 1 else NotReadyFailureThreshold cfg),
        HeartbeatMaxParallel := (if HeartbeatMaxParallel cfg < 1 then 1 else HeartbeatMaxParallel cfg),
        ResourceSyncInterval := (if ResourceSyncInterval cfg \<le> 0 then 30 * second else ResourceSyncInterval cfg),
        ResourcePersistMinInt := (if ResourcePersistMinInt cfg \<le> 0 then 30 * second else ResourcePersistMinInt cfg),
        ResourcePersistMaxInt := (if ResourcePersistMaxInt cfg \<le> 0 then 300 * second else ResourcePersistMaxInt cfg),
        SchedulerInterval := (if SchedulerInterval cfg \<le> 0 then 3 * second else SchedulerInterval cfg),
        ReconcileInterval := (if ReconcileInterval cfg \<le> 0 then 5 * second else ReconcileInterval cfg),
        StatusSyncInterval := (if StatusSyncInterval cfg \<le> 0 then 20 * second else StatusSyncInterval cfg),
        StatusSyncTimeout := (if StatusSyncTimeout cfg \<le> 0 then 5 * second else StatusSyncTimeout cfg),
        StatusSyncBatchSize := (if StatusSyncBatchSize cfg < 1 then 50 else StatusSyncBatchSize cfg),
        StatusSyncMaxParallel := (if StatusSyncMaxParallel cfg < 1 then 4 else StatusSyncMaxParallel cfg),
        SandboxOpTimeout := (if SandboxOpTimeout cfg \<le> 0 then 60 * second else SandboxOpTimeout cfg),
        HostPortMin := minp,
        HostPortMax := (if HostPortMax cfg < minp then defaultPortMax else HostPortMax cfg),
        CreateRPS := (if float_le0 (CreateRPS cfg) then Fin 20 else CreateRPS cfg),
        CreateBurst := (if CreateBurst cfg < 1 then 40 else CreateBurst cfg),
        HeartbeatInterval := (if HeartbeatInterval cfg \<le> 0 then 10 * second else HeartbeatInterval cfg),
        ProbeTimeout := (if ProbeTimeout cfg \<le> 0 then 3 * second else ProbeTimeout cfg),
        ShutdownTimeout := (if ShutdownTimeout cfg \<le> 0 then 5 * second else ShutdownTimeout cfg) \<rparr>)"

section \<open>Lemmas\<close>

text \<open>What \<open>normalize\<close> does to each field.\<close>

lemma normalize_fields:
  "AppEnv (normalize c) = AppEnv c"
  "SharedSecret (normalize c) = SharedSecret c"
  "HeartbeatParallel (normalize c) = HeartbeatParallel c"
  "HTTPAddr (normalize c) = (if HTTPAddr c = [] then defaultHTTPAddr else HTTPAddr c)"
  "LogFilePrefix (normalize c) = (if LogFilePrefix c = [] then defaultLogFilePrefix else LogFilePrefix c)"
  "SQLitePath (normalize c) = (if SQLitePath c = [] then defaultSQLitePath else SQLitePath c)"
  "ReadySuccessThreshold (normalize c) = (if ReadySuccessThreshold c < 1 then 1 else ReadySuccessThreshold c)"
  "NotReadyFailureThreshold (normalize c) = (if NotReadyFailureThreshold c < 1 then 1 else NotReadyFailureThreshold c)"
  "HeartbeatMaxParallel (normalize c) = (if HeartbeatMaxParallel c < 1 then 1 else HeartbeatMaxParallel c)"
  "ResourceSyncInterval (normalize c) = (if ResourceSyncInterval c \<le> 0 then 30 * second else ResourceSyncInterval c)"
  "ResourcePersistMinInt (normalize c) = (if ResourcePersistMinInt c \<le> 0 then 30 * second else ResourcePersistMinInt c)"
  "ResourcePersistMaxInt (normalize c) = (if ResourcePersistMaxInt c \<le> 0 then 300 * second else ResourcePersistMaxInt c)"
  "SchedulerInterval (normalize c) = (if SchedulerInterval c \<le> 0 then 3 * second else SchedulerInterval c)"
  "ReconcileInterval (normalize c) = (if ReconcileInterval c \<le> 0 then 5 * second else ReconcileInterval c)"
  "StatusSyncInterval (normalize c) = (if StatusSyncInterval c \<le> 0 then 20 * second else StatusSyncInterval c)"
  "StatusSyncTimeout (normalize c) = (if StatusSyncTimeout c \<le> 0 then 5 * second else StatusSyncTimeout c)"
  "StatusSyncBatchSize (normalize c) = (if StatusSyncBatchSize c < 1 then 50 else StatusSyncBatchSize c)"
  "StatusSyncMaxParallel (normalize c) = (if StatusSyncMaxParallel c < 1 then 4 else StatusSyncMaxParallel c)"
  "SandboxOpTimeout (normalize c) = (if SandboxOpTimeout c \<le> 0 then 60 * second else SandboxOpTimeout c)"
  "HostPortMin (normalize c) = (if HostPortMin c < 1 then defaultPortMin else HostPortMin c)"
  "HostPortMax (normalize c) = (if HostPortMax c < HostPortMin (normalize c) then defaultPortMax else HostPortMax c)"
  "CreateRPS (normalize c) = (if float_le0 (CreateRPS c) then Fin 20 else CreateRPS c)"
  "CreateBurst (normalize c) = (if CreateBurst c < 1 then 40 else CreateBurst c)"
  "HeartbeatInterval (normalize c) = (if HeartbeatInterval c \<le> 0 then 10 * second else HeartbeatInterval c)"
  "ProbeTimeout (normalize c) = (if ProbeTimeout c \<le> 0 then 3 * second else ProbeTimeout c)"
  "ShutdownTimeout (normalize c) = (if ShutdownTimeout c \<le> 0 then 5 * second else ShutdownTimeout c)"
  by (simp_all add: normalize_def Let_def)

lemma normalize_idem_ports:
  "HostPortMin (normalize (normalize c)) = HostPortMin (normalize c)"
  "HostPortMax (normalize (normalize c)) = HostPortMax (normalize c)"
  by (simp_all add: normalize_fields defaultPortMin_def defaultPortMax_def)

end
