(* ===== verification/Let_Model.thy ===== *)
theory Let_Model
  imports Go_Lib
begin

text \<open>
  Package \<open>sandboxd-let/model\<close>: the request and state types of sbxlet (\<open>types.go\<close>) and the
  validation of a create request (\<open>validate.go\<close>). The Kubernetes quantity parser is not part of
  the repository: it is the parameter \<open>pq\<close>, and a parsed quantity is what the code reads of it,
  its \<open>Value()\<close> and its \<open>MilliValue()\<close>.
\<close>

section \<open>types.go\<close>

record TmpfsMount =
  tm_MountPath :: string
  tm_Options :: string

record VolumeSpec =
  vs_Name :: string
  vs_EphemeralStorage :: string

record VolumeMount =
  vm_Name :: string
  vm_MountPath :: string
  vm_ReadOnly :: bool

record NodeResourceSnapshot =
  nrs_CapacityCPUMilli :: int
  nrs_CapacityMemoryBytes :: int
  nrs_AllocatableCPUMilli :: int
  nrs_AllocatableMemory :: int
  nrs_UsedCPUMilli :: int
  nrs_UsedMemoryBytes :: int
  nrs_AvailableCPUMilli :: int
  nrs_AvailableMemory :: int
  nrs_MaxAllocPercent :: int
  nrs_UpdatedAt :: int

record ResourceSpec =
  rs_CPU :: string
  rs_Memory :: string
  rs_EphemeralStorage :: string

record ResourceLimits =
  rl_MemoryBytes :: int
  rl_CPUQuota :: int
  rl_CPUPeriod :: int
  rl_PidsLimit :: int
  rl_RootfsBytes :: int
  rl_TmpfsBytes :: int

record PortMapping =
  pm_HostPort :: int
  pm_ContainerPort :: int
  pm_Protocol :: string

record ContainerState =
  cs_ID :: string
  cs_Name :: string
  cs_Phase :: string
  cs_Error :: string
  cs_Image :: string
  cs_Args :: "string list"
  cs_Env :: "string list"
  cs_CapAdd :: "string list"
  cs_CapDrop :: "string list"
  cs_SecurityOpt :: "string list"
  cs_ReadOnly :: bool
  cs_Tmpfs :: "TmpfsMount list"
  cs_VolumeMounts :: "VolumeMount list"
  cs_Resource :: ResourceSpec
  cs_TaskPID :: int
  cs_Runtime :: string
  cs_TaskStatus :: string

record LetSandbox =
  ls_ID :: string
  ls_Phase :: string
  ls_Error :: string
  ls_Namespace :: string
  ls_IP :: string
  ls_SubnetCIDR :: string
  ls_BridgeName :: string
  ls_Egress :: bool
  ls_Ports :: "PortMapping list"
  ls_Volumes :: "VolumeSpec list"
  ls_Containers :: "(string \<times> ContainerState) list"
  ls_PauseID :: string
  ls_CNIConfPath :: string
  ls_CreatedAt :: int
  ls_UpdatedAt :: int

record ReadinessProbeSpec =
  rp_Protocol :: string
  rp_Port :: int
  rp_Path :: string
  rp_InitialDelaySeconds :: int
  rp_PeriodSeconds :: int
  rp_TimeoutSeconds :: int
  rp_SuccessThreshold :: int
  rp_FailureThreshold :: int

record CreateContainerRequest =
  cc_Name :: string
  cc_Image :: string
  cc_Args :: "string list"
  cc_Env :: "string list"
  cc_WorkDir :: string
  cc_CapAdd :: "string list"
  cc_CapDrop :: "string list"
  cc_SecurityOpt :: "string list"
  cc_ReadOnly :: bool
  cc_Tmpfs :: "TmpfsMount list"
  cc_VolumeMounts :: "VolumeMount list"
  cc_Resource :: ResourceSpec

record CreateSandboxRequest =
  cr_ID :: string
  cr_Egress :: bool
  cr_Volumes :: "VolumeSpec list"
  cr_Containers :: "CreateContainerRequest list"
  cr_Ports :: "PortMapping list"
  cr_Readiness :: "ReadinessProbeSpec option"

datatype quantity = Quantity (q_Value: int) (q_MilliValue: int)

type_synonym quantity_parser = "string \<Rightarrow> go_error + quantity"

section \<open>validate.go: names\<close>

definition is_alnum :: "char \<Rightarrow> bool" where
  "is_alnum c \<longleftrightarrow> is_digit c \<or> (65 \<le> (of_char c :: nat) \<and> (of_char c :: nat) \<le> 90)
     \<or> (97 \<le> (of_char c :: nat) \<and> (of_char c :: nat) \<le> 122)"

definition name_char :: "char \<Rightarrow> bool" where
  "name_char c \<longleftrightarrow> is_alnum c \<or> c = CHR ''_'' \<or> c = CHR ''.'' \<or> c = CHR ''-''"

text \<open>The regular expression \<open>^[A-Za-z0-9][A-Za-z0-9_.-]{0,n}$\<close>.\<close>

definition name_re :: "nat \<Rightarrow> string \<Rightarrow> bool" where
  "name_re n s \<longleftrightarrow> (case s of [] \<Rightarrow> False | c # cs \<Rightarrow> is_alnum c \<and> length cs \<le> n \<and> list_all name_char cs)"

definition safeSandboxIDRe :: "string \<Rightarrow> bool" where "safeSandboxIDRe s = name_re 127 s"

definition safeVolumeNameRe :: "string \<Rightarrow> bool" where "safeVolumeNameRe s = name_re 63 s"

definition safeContainerNameRe :: "string \<Rightarrow> bool" where "safeContainerNameRe s = name_re 63 s"

text \<open>\<open>^[A-Z0-9_]+$\<close>\<close>

definition safeCapabilityNameRe :: "string \<Rightarrow> bool" where
  "safeCapabilityNameRe s \<longleftrightarrow> s \<noteq> [] \<and> list_all (\<lambda>c. is_digit c
     \<or> (65 \<le> (of_char c :: nat) \<and> (of_char c :: nat) \<le> 90) \<or> c = CHR ''_'') s"

definition ValidateSandboxID :: "string \<Rightarrow> go_error option" where
  "ValidateSandboxID sid =
     (let v = TrimSpace sid in
      if v = [] then Some (Errorf ''id is required'' [])
      else if v \<noteq> sid then Some (Errorf ''id must not contain leading or trailing whitespace'' [])
      else if Contains v ''/'' \<or> Contains v [CHR 0x5C] \<or> Contains v ''..'' then
        Some (Errorf ''id contains invalid path characters'' [])
      else if \<not> safeSandboxIDRe v then Some (Errorf ''id contains unsupported characters'' [])
      else None)"

definition ValidateContainerName :: "string \<Rightarrow> go_error option" where
  "ValidateContainerName name =
     (let v = TrimSpace name in
      if v = [] then Some (Errorf ''container name is required'' [])
      else if v \<noteq> name then
        Some (Errorf ''container name must not contain leading or trailing whitespace'' [])
      else if Contains v ''/'' \<or> Contains v [CHR 0x5C] \<or> Contains v ''..'' then
        Some (Errorf ''container name contains invalid path characters'' [])
      else if \<not> safeContainerNameRe v then
        Some (Errorf ''container name contains unsupported characters'' [])
      else None)"

section \<open>validate.go: options\<close>

definition validateCapabilityName :: "string \<Rightarrow> go_error option" where
  "validateCapabilityName name =
     (let v = TrimSpace name in
      if v = [] then Some (Errorf ''capability is empty'' [])
      else if \<not> safeCapabilityNameRe v then Some (Errorf ''unsupported capability %q'' [Quo name])
      else None)"

definition splitOption :: "string \<Rightarrow> (string \<times> string) option" where
  "splitOption raw =
     (case Cut raw ''='' of
        Some (key, val) \<Rightarrow> Some (TrimSpace key, TrimSpace val)
      | None \<Rightarrow> (case Cut raw '':'' of
          Some (key, val) \<Rightarrow> Some (TrimSpace key, TrimSpace val)
        | None \<Rightarrow> None))"

definition validateSecurityOpt :: "string \<Rightarrow> go_error option" where
  "validateSecurityOpt raw =
     (let v = TrimSpace raw in
      if v = [] then Some (Errorf ''securityOpt entry is empty'' [])
      else (case splitOption v of
        None \<Rightarrow> Some (Errorf ''securityOpt %q must use key=value or key:value'' [Quo raw])
      | Some (key, val) \<Rightarrow>
          (let k = ToLower key in
           if k = ''no-new-privileges'' then
             (case ParseBool (TrimSpace val) of
                None \<Rightarrow> Some (Errorf ''securityOpt %q has invalid boolean'' [Quo raw])
              | Some _ \<Rightarrow> None)
           else if k = ''seccomp'' \<or> k = ''apparmor'' then
             (if TrimSpace val = [] then Some (Errorf ''securityOpt %q requires a profile value'' [Quo raw])
              else None)
           else Some (Errorf ''unsupported securityOpt %q'' [Quo raw]))))"

text \<open>
  The suffix table of \<open>parseByteSize\<close> after its sort by decreasing suffix length. Suffixes of
  the same length are different, so at most one of them matches and their order is immaterial.
\<close>

definition size_suffixes :: "(string \<times> int) list" where
  "size_suffixes =
     [(''kib'', 1024), (''mib'', 1024 * 1024), (''gib'', 1024 * 1024 * 1024),
      (''tib'', 1024 * 1024 * 1024 * 1024),
      (''ki'', 1024), (''mi'', 1024 * 1024), (''gi'', 1024 * 1024 * 1024),
      (''ti'', 1024 * 1024 * 1024 * 1024),
      (''kb'', 1000), (''mb'', 1000 * 1000), (''gb'', 1000 * 1000 * 1000),
      (''tb'', 1000 * 1000 * 1000 * 1000),
      (''k'', 1000), (''m'', 1000 * 1000), (''g'', 1000 * 1000 * 1000),
      (''t'', 1000 * 1000 * 1000 * 1000), (''b'', 1)]"

definition parseByteSize :: "quantity_parser \<Rightarrow> string \<Rightarrow> go_error + int" where
  "parseByteSize pq raw =
     (let v = TrimSpace raw in
      if v = [] then Inl (Errorf ''size is required'' [])
      else let low = ToLower v in
      case find (\<lambda>(suffix, scale). HasSuffix low suffix) size_suffixes of
        Some (suffix, scale) \<Rightarrow>
          (let num = TrimSpace (take (length v - length suffix) v) in
           if num = [] then Inl (Errorf ''size is required'' [])
           else (case ParseInt64 num of
               Some n \<Rightarrow> if n \<le> 0 then Inl (Errorf ''invalid size %q'' [Quo raw]) else Inr (i64 (n * scale))
             | None \<Rightarrow> Inl (Errorf ''invalid size %q'' [Quo raw])))
      | None \<Rightarrow>
          (let fallback =
             (case ParseInt64 v of
                Some n \<Rightarrow> if n \<le> 0 then Inl (Errorf ''invalid size %q'' [Quo raw]) else Inr n
              | None \<Rightarrow> Inl (Errorf ''invalid size %q'' [Quo raw]))
           in (case pq v of
                 Inr q \<Rightarrow> if q_Value q > 0 then Inr (q_Value q) else fallback
               | Inl _ \<Rightarrow> fallback)))"

definition tmpfs_flags :: "string list" where
  "tmpfs_flags = [''ro'', ''rw'', ''nosuid'', ''suid'', ''nodev'', ''dev'', ''noexec'', ''exec'']"

definition validateTmpfsOption :: "quantity_parser \<Rightarrow> string \<Rightarrow> go_error option" where
  "validateTmpfsOption pq item =
     (let part = TrimSpace item in
      if part = [] then Some (Errorf ''empty option'' [])
      else if part \<in> set tmpfs_flags then None
      else (case splitOption part of
        None \<Rightarrow> Some (Errorf ''unsupported option %q'' [Quo part])
      | Some (key, val) \<Rightarrow>
          (let k = ToLower key in
           if k = ''mode'' then
             (if val = [] then Some (Errorf ''mode requires a value'' [])
              else (case ParseUintOctal32 val of
                 None \<Rightarrow> Some (Errorf ''invalid mode %q'' [Quo val]) | Some _ \<Rightarrow> None))
           else if k = ''size'' then
             (if TrimSpace val = [] then Some (Errorf ''size requires a value'' [])
              else (case parseByteSize pq (TrimSpace val) of
                 Inl _ \<Rightarrow> Some (Errorf ''invalid size %q'' [Quo val]) | Inr _ \<Rightarrow> None))
           else Some (Errorf ''unsupported option %q'' [Quo part]))))"

text \<open>The first error of a loop that returns on error.\<close>

fun first_error :: "('a \<Rightarrow> go_error option) \<Rightarrow> 'a list \<Rightarrow> go_error option" where
  "first_error f [] = None"
| "first_error f (x # xs) = (case f x of Some e \<Rightarrow> Some e | None \<Rightarrow> first_error f xs)"

definition validateTmpfsOptions :: "quantity_parser \<Rightarrow> string \<Rightarrow> go_error option" where
  "validateTmpfsOptions pq raw =
     (if TrimSpace raw = [] then None
      else first_error (validateTmpfsOption pq) (Split raw (CHR '','')))"

section \<open>validate.go: the create request\<close>

text \<open>The loop over \<open>r.Volumes\<close>; the result is the set of known volume names.\<close>

fun validate_volumes :: "quantity_parser \<Rightarrow> VolumeSpec list \<Rightarrow> string list \<Rightarrow> go_error + string list" where
  "validate_volumes pq [] known = Inr known"
| "validate_volumes pq (v # vs) known =
     (let name = TrimSpace (vs_Name v) in
      if name = [] then Inl (Errorf ''volume name is required'' [])
      else if \<not> safeVolumeNameRe name then Inl (Errorf ''volume %s: unsupported name'' [Str (vs_Name v)])
      else if TrimSpace (vs_EphemeralStorage v) = [] then
        Inl (Errorf ''volume %s: ephemeralStorage is required'' [Str name])
      else if (case pq (TrimSpace (vs_EphemeralStorage v)) of Inl _ \<Rightarrow> True | Inr q \<Rightarrow> q_Value q \<le> 0) then
        Inl (Errorf ''volume %s: invalid ephemeralStorage'' [Str name])
      else if name \<in> set known then Inl (Errorf ''duplicate volume name: %s'' [Str name])
      else validate_volumes pq vs (name # known))"

text \<open>The loop over \<open>c.VolumeMounts\<close>; the result is \<open>seenMountPaths\<close>.\<close>

fun validate_mounts :: "string list \<Rightarrow> string \<Rightarrow> VolumeMount list \<Rightarrow> string list \<Rightarrow> go_error + string list" where
  "validate_mounts known cname [] seen = Inr seen"
| "validate_mounts known cname (vm # vms) seen =
     (let volName = TrimSpace (vm_Name vm); mountPath = TrimSpace (vm_MountPath vm) in
      if volName = [] then Inl (Errorf ''container %s: volume mount name is required'' [Str cname])
      else if volName \<notin> set known then
        Inl (Errorf ''container %s: unknown volume %s'' [Str cname, Str volName])
      else if mountPath = [] then
        Inl (Errorf ''container %s: mountPath is required for volume %s'' [Str cname, Str volName])
      else if \<not> HasPrefix mountPath ''/'' then
        Inl (Errorf ''container %s: mountPath must be absolute for volume %s'' [Str cname, Str volName])
      else if Clean mountPath \<noteq> mountPath then
        Inl (Errorf ''container %s: mountPath must be clean for volume %s'' [Str cname, Str volName])
      else if mountPath = ''/'' then
        Inl (Errorf ''container %s: mountPath '/' is not allowed for volume %s'' [Str cname, Str volName])
      else if mountPath = ''/tmp'' \<or> HasPrefix mountPath ''/tmp/'' then
        Inl (Errorf ''container %s: mountPath /tmp is reserved'' [Str cname])
      else if mountPath \<in> set seen then
        Inl (Errorf ''container %s: duplicate mountPath %s'' [Str cname, Str mountPath])
      else validate_mounts known cname vms (mountPath # seen))"

text \<open>The loop over \<open>c.Tmpfs\<close>, continuing with the same \<open>seenMountPaths\<close>.\<close>

fun validate_tmpfs :: "quantity_parser \<Rightarrow> string \<Rightarrow> TmpfsMount list \<Rightarrow> string list \<Rightarrow> go_error + string list" where
  "validate_tmpfs pq cname [] seen = Inr seen"
| "validate_tmpfs pq cname (m # ms) seen =
     (let mountPath = TrimSpace (tm_MountPath m) in
      if mountPath = [] then Inl (Errorf ''container %s: tmpfs mountPath is required'' [Str cname])
      else if \<not> HasPrefix mountPath ''/'' then
        Inl (Errorf ''container %s: tmpfs mountPath must be absolute'' [Str cname])
      else if Clean mountPath \<noteq> mountPath then
        Inl (Errorf ''container %s: tmpfs mountPath must be clean'' [Str cname])
      else if mountPath = ''/'' then
        Inl (Errorf ''container %s: tmpfs mountPath '/' is not allowed'' [Str cname])
      else if mountPath \<in> set seen then
        Inl (Errorf ''container %s: duplicate mountPath %s'' [Str cname, Str mountPath])
      else (case validateTmpfsOptions pq (tm_Options m) of
          Some e \<Rightarrow> Inl (Errorf ''container %s: tmpfs %s: %w'' [Str cname, Str mountPath, Wrap e])
        | None \<Rightarrow> validate_tmpfs pq cname ms (mountPath # seen)))"

text \<open>The body of the loop over \<open>r.Containers\<close>, after the duplicate-name check.\<close>

definition validate_container_options :: "quantity_parser \<Rightarrow> string list \<Rightarrow> CreateContainerRequest \<Rightarrow> go_error option" where
  "validate_container_options pq known c =
     (case validate_mounts known (cc_Name c) (cc_VolumeMounts c) [] of
        Inl e \<Rightarrow> Some e
      | Inr seen \<Rightarrow>
     (case validate_tmpfs pq (cc_Name c) (cc_Tmpfs c) seen of
        Inl e \<Rightarrow> Some e
      | Inr _ \<Rightarrow>
     (case first_error validateCapabilityName (cc_CapAdd c) of
        Some e \<Rightarrow> Some (Errorf ''container %s: invalid capAdd entry: %w'' [Str (cc_Name c), Wrap e])
      | None \<Rightarrow>
     (case first_error validateCapabilityName (cc_CapDrop c) of
        Some e \<Rightarrow> Some (Errorf ''container %s: invalid capDrop entry: %w'' [Str (cc_Name c), Wrap e])
      | None \<Rightarrow>
     (case first_error validateSecurityOpt (cc_SecurityOpt c) of
        Some e \<Rightarrow> Some (Errorf ''container %s: %w'' [Str (cc_Name c), Wrap e])
      | None \<Rightarrow> None)))))"

fun validate_containers :: "quantity_parser \<Rightarrow> string list \<Rightarrow> CreateContainerRequest list \<Rightarrow> string list \<Rightarrow> go_error option" where
  "validate_containers pq known [] seen = None"
| "validate_containers pq known (c # cs) seen =
     (case ValidateContainerName (cc_Name c) of
        Some e \<Rightarrow> Some e
      | None \<Rightarrow>
      if cc_Image c = [] then Some (Errorf ''container %s: image is required'' [Str (cc_Name c)])
      else if TrimSpace (rs_CPU (cc_Resource c)) = [] then
        Some (Errorf ''container %s: cpu is required'' [Str (cc_Name c)])
      else if TrimSpace (rs_Memory (cc_Resource c)) = [] then
        Some (Errorf ''container %s: memory is required'' [Str (cc_Name c)])
      else if cc_Name c \<in> set seen then
        Some (Errorf ''duplicate container name: %s'' [Str (cc_Name c)])
      else (case validate_container_options pq known c of
          Some e \<Rightarrow> Some e
        | None \<Rightarrow> validate_containers pq known cs (cc_Name c # seen)))"

fun validate_ports :: "PortMapping list \<Rightarrow> int list \<Rightarrow> go_error option" where
  "validate_ports [] seen = None"
| "validate_ports (p # ps) seen =
     (if pm_HostPort p < 1 \<or> pm_HostPort p > 65535 \<or> pm_ContainerPort p < 1 \<or> pm_ContainerPort p > 65535 then
        Some (Errorf ''invalid port mapping: %d:%d'' [Dec (pm_HostPort p), Dec (pm_ContainerPort p)])
      else if pm_HostPort p < 1024 then
        Some (Errorf ''privileged host ports are not allowed: %d'' [Dec (pm_HostPort p)])
      else let proto0 = ToLower (TrimSpace (pm_Protocol p));
               proto = (if proto0 = [] then ''tcp'' else proto0) in
      if proto \<noteq> ''tcp'' \<and> proto \<noteq> ''udp'' then
        Some (Errorf ''unsupported protocol: %s'' [Str (pm_Protocol p)])
      else if pm_HostPort p \<in> set seen then
        Some (Errorf ''duplicate host port: %d'' [Dec (pm_HostPort p)])
      else validate_ports ps (pm_HostPort p # seen))"

definition validate_readiness :: "ReadinessProbeSpec \<Rightarrow> go_error option" where
  "validate_readiness p =
     (let proto = ToLower (TrimSpace (rp_Protocol p)); path = TrimSpace (rp_Path p) in
      if proto = [] then Some (Errorf ''readinessProbe.protocol is required'' [])
      else if proto \<noteq> ''tcp'' \<and> proto \<noteq> ''http'' then
        Some (Errorf ''readinessProbe.protocol must be tcp or http'' [])
      else if rp_Port p < 1 \<or> rp_Port p > 65535 then
        Some (Errorf ''readinessProbe.port must be between 1 and 65535'' [])
      else if proto = ''http'' \<and> path = [] then
        Some (Errorf ''readinessProbe.path is required when protocol is http'' [])
      else if proto = ''http'' \<and> \<not> HasPrefix path ''/'' then
        Some (Errorf ''readinessProbe.path must start with '/' when protocol is http'' [])
      else if rp_InitialDelaySeconds p < 1 then
        Some (Errorf ''readinessProbe.initialDelaySeconds must be >= 1'' [])
      else if rp_PeriodSeconds p < 1 then Some (Errorf ''readinessProbe.periodSeconds must be >= 1'' [])
      else if rp_TimeoutSeconds p < 1 then Some (Errorf ''readinessProbe.timeoutSeconds must be >= 1'' [])
      else if rp_SuccessThreshold p < 1 then Some (Errorf ''readinessProbe.successThreshold must be >= 1'' [])
      else if rp_FailureThreshold p < 1 then Some (Errorf ''readinessProbe.failureThreshold must be >= 1'' [])
      else None)"

definition Validate :: "quantity_parser \<Rightarrow> CreateSandboxRequest \<Rightarrow> go_error option" where
  "Validate pq r =
     (case ValidateSandboxID (cr_ID r) of
        Some e \<Rightarrow> Some e
      | None \<Rightarrow>
      if length (cr_Containers r) < 1 then Some (Errorf ''at least one container is required'' [])
      else (case validate_volumes pq (cr_Volumes r) [] of
          Inl e \<Rightarrow> Some e
        | Inr known \<Rightarrow>
      (case validate_containers pq known (cr_Containers r) [] of
          Some e \<Rightarrow> Some e
        | None \<Rightarrow>
      (case validate_ports (cr_Ports r) [] of
          Some e \<Rightarrow> Some e
        | None \<Rightarrow>
      (case cr_Readiness r of None \<Rightarrow> None | Some p \<Rightarrow> validate_readiness p)))))"

section \<open>Names\<close>

lemma name_char_plain: "name_char c \<Longrightarrow> plain_char c"
  by (auto simp: name_char_def is_alnum_def is_digit_def plain_char_def)

lemma is_alnum_name_char: "is_alnum c \<Longrightarrow> name_char c"
  by (simp add: name_char_def)

lemma name_re_chars: "name_re n s \<Longrightarrow> c \<in> set s \<Longrightarrow> name_char c"
  by (auto simp: name_re_def list_all_iff is_alnum_name_char split: list.splits)

lemma name_re_TrimSpace: "name_re n s \<Longrightarrow> TrimSpace s = s"
proof -
  assume re: "name_re n s"
  then have "s \<noteq> []" by (auto simp: name_re_def)
  with name_re_chars [OF re] show "TrimSpace s = s"
    by (intro TrimSpace_plain name_char_plain) auto
qed

lemma name_char_not_special [simp]: "\<not> name_char (CHR ''/'')" "\<not> name_char (CHR 0x5C)"
  by (simp_all add: name_char_def is_alnum_def is_digit_def)

lemma name_re_no_sep: "name_re n s \<Longrightarrow> \<not> Contains s ''/'' \<and> \<not> Contains s [CHR 0x5C]"
  using name_re_chars [of n s "CHR ''/''"] name_re_chars [of n s "CHR 0x5C"]
  by (auto simp: Contains_char)

text \<open>Both name validators accept exactly the matches of their expression without \<open>..\<close>.\<close>

lemma name_validators [go_simps]:
  "ValidateSandboxID s = None \<longleftrightarrow> name_re 127 s \<and> \<not> Contains s ''..''"
  "ValidateContainerName s = None \<longleftrightarrow> name_re 63 s \<and> \<not> Contains s ''..''"
  using name_re_TrimSpace [of 127 s] name_re_no_sep [of 127 s] name_re_TrimSpace [of 63 s] name_re_no_sep [of 63 s]
  by (auto simp: ValidateSandboxID_def ValidateContainerName_def safeSandboxIDRe_def
      safeContainerNameRe_def Let_def name_re_def split: list.splits)

lemma name_re_safe_elem: "name_re n s \<Longrightarrow> \<not> Contains s ''..'' \<Longrightarrow> safe_elem s"
proof -
  assume re: "name_re n s" and dots: "\<not> Contains s ''..''"
  from re have "s \<noteq> []" and "s \<noteq> ''.''"
    by (auto simp: name_re_def is_alnum_def is_digit_def)
  moreover from dots have "s \<noteq> ''..''" by (auto simp: Contains_iff)
  moreover from name_re_no_sep [OF re] have "CHR ''/'' \<notin> set s" by (simp add: Contains_char)
  ultimately show ?thesis by (simp add: safe_elem_def)
qed

section \<open>What Validate accepts\<close>

text \<open>The declarative reading of the checks, one predicate per loop.\<close>

definition volume_ok :: "quantity_parser \<Rightarrow> VolumeSpec \<Rightarrow> bool" where
  "volume_ok pq v \<longleftrightarrow> name_re 63 (TrimSpace (vs_Name v)) \<and> TrimSpace (vs_EphemeralStorage v) \<noteq> [] \<and>
     (\<exists>q. pq (TrimSpace (vs_EphemeralStorage v)) = Inr q \<and> 0 < q_Value q)"

definition mount_path_ok :: "string \<Rightarrow> bool" where
  "mount_path_ok p \<longleftrightarrow> HasPrefix p ''/'' \<and> Clean p = p \<and> p \<noteq> ''/''"

definition mount_ok :: "string list \<Rightarrow> VolumeMount \<Rightarrow> bool" where
  "mount_ok known vm \<longleftrightarrow> TrimSpace (vm_Name vm) \<noteq> [] \<and> TrimSpace (vm_Name vm) \<in> set known \<and>
     mount_path_ok (TrimSpace (vm_MountPath vm)) \<and>
     TrimSpace (vm_MountPath vm) \<noteq> ''/tmp'' \<and> \<not> HasPrefix (TrimSpace (vm_MountPath vm)) ''/tmp/''"

definition tmpfs_ok :: "quantity_parser \<Rightarrow> TmpfsMount \<Rightarrow> bool" where
  "tmpfs_ok pq m \<longleftrightarrow> mount_path_ok (TrimSpace (tm_MountPath m)) \<and> validateTmpfsOptions pq (tm_Options m) = None"

definition container_paths :: "CreateContainerRequest \<Rightarrow> string list" where
  "container_paths c = map (TrimSpace \<circ> vm_MountPath) (cc_VolumeMounts c) @ map (TrimSpace \<circ> tm_MountPath) (cc_Tmpfs c)"

definition container_ok :: "quantity_parser \<Rightarrow> string list \<Rightarrow> CreateContainerRequest \<Rightarrow> bool" where
  "container_ok pq known c \<longleftrightarrow>
     ValidateContainerName (cc_Name c) = None \<and> cc_Image c \<noteq> [] \<and>
     TrimSpace (rs_CPU (cc_Resource c)) \<noteq> [] \<and> TrimSpace (rs_Memory (cc_Resource c)) \<noteq> [] \<and>
     list_all (mount_ok known) (cc_VolumeMounts c) \<and> list_all (tmpfs_ok pq) (cc_Tmpfs c) \<and>
     distinct (container_paths c) \<and>
     list_all (\<lambda>n. validateCapabilityName n = None) (cc_CapAdd c) \<and>
     list_all (\<lambda>n. validateCapabilityName n = None) (cc_CapDrop c) \<and>
     list_all (\<lambda>o'. validateSecurityOpt o' = None) (cc_SecurityOpt c)"

definition port_ok :: "PortMapping \<Rightarrow> bool" where
  "port_ok p \<longleftrightarrow> 1024 \<le> pm_HostPort p \<and> pm_HostPort p \<le> 65535 \<and>
     1 \<le> pm_ContainerPort p \<and> pm_ContainerPort p \<le> 65535 \<and>
     ToLower (TrimSpace (pm_Protocol p)) \<in> set [[], ''tcp'', ''udp'']"

definition probe_ok :: "ReadinessProbeSpec \<Rightarrow> bool" where
  "probe_ok p \<longleftrightarrow>
     (ToLower (TrimSpace (rp_Protocol p)) = ''tcp'' \<or>
      ToLower (TrimSpace (rp_Protocol p)) = ''http'' \<and> HasPrefix (TrimSpace (rp_Path p)) ''/'') \<and>
     1 \<le> rp_Port p \<and> rp_Port p \<le> 65535 \<and> 1 \<le> rp_InitialDelaySeconds p \<and> 1 \<le> rp_PeriodSeconds p \<and>
     1 \<le> rp_TimeoutSeconds p \<and> 1 \<le> rp_SuccessThreshold p \<and> 1 \<le> rp_FailureThreshold p"

definition request_ok :: "quantity_parser \<Rightarrow> CreateSandboxRequest \<Rightarrow> bool" where
  "request_ok pq r \<longleftrightarrow>
     ValidateSandboxID (cr_ID r) = None \<and> cr_Containers r \<noteq> [] \<and>
     list_all (volume_ok pq) (cr_Volumes r) \<and> distinct (map (TrimSpace \<circ> vs_Name) (cr_Volumes r)) \<and>
     list_all (container_ok pq (map (TrimSpace \<circ> vs_Name) (cr_Volumes r))) (cr_Containers r) \<and>
     distinct (map cc_Name (cr_Containers r)) \<and>
     list_all port_ok (cr_Ports r) \<and> distinct (map pm_HostPort (cr_Ports r)) \<and>
     (\<forall>p. cr_Readiness r = Some p \<longrightarrow> probe_ok p)"

lemma first_error_None [simp]: "first_error f xs = None \<longleftrightarrow> list_all (\<lambda>x. f x = None) xs"
  by (induction xs) (auto split: option.splits)

lemma volume_name_nonempty: "name_re n s \<Longrightarrow> s \<noteq> []"
  by (auto simp: name_re_def)

lemma validate_volumes_iff:
  "validate_volumes pq vs known = Inr k \<longleftrightarrow>
     k = rev (map (TrimSpace \<circ> vs_Name) vs) @ known \<and> list_all (volume_ok pq) vs \<and>
     distinct (map (TrimSpace \<circ> vs_Name) vs) \<and> (TrimSpace \<circ> vs_Name) ` set vs \<inter> set known = {}"
proof (induction vs arbitrary: known)
  case (Cons v vs)
  show ?case
    using volume_name_nonempty [of 63 "TrimSpace (vs_Name v)"]
    by (cases "volume_ok pq v")
      (auto simp: Cons.IH Let_def volume_ok_def safeVolumeNameRe_def split: sum.splits)
qed auto

lemma validate_mounts_iff:
  "validate_mounts known cname vms seen = Inr s \<longleftrightarrow>
     s = rev (map (TrimSpace \<circ> vm_MountPath) vms) @ seen \<and> list_all (mount_ok known) vms \<and>
     distinct (map (TrimSpace \<circ> vm_MountPath) vms) \<and>
     (TrimSpace \<circ> vm_MountPath) ` set vms \<inter> set seen = {}"
proof (induction vms arbitrary: seen)
  case (Cons vm vms)
  show ?case
    by (cases "mount_ok known vm")
      (auto simp: Cons.IH Let_def mount_ok_def mount_path_ok_def)
qed auto

lemma validate_tmpfs_iff:
  "validate_tmpfs pq cname ms seen = Inr s \<longleftrightarrow>
     s = rev (map (TrimSpace \<circ> tm_MountPath) ms) @ seen \<and> list_all (tmpfs_ok pq) ms \<and>
     distinct (map (TrimSpace \<circ> tm_MountPath) ms) \<and>
     (TrimSpace \<circ> tm_MountPath) ` set ms \<inter> set seen = {}"
proof (induction ms arbitrary: seen)
  case (Cons m ms)
  show ?case
    by (cases "tmpfs_ok pq m")
      (auto simp: Cons.IH Let_def tmpfs_ok_def mount_path_ok_def split: option.splits)
qed auto

lemma validate_container_options_iff:
  "validate_container_options pq known c = None \<longleftrightarrow>
     list_all (mount_ok known) (cc_VolumeMounts c) \<and> list_all (tmpfs_ok pq) (cc_Tmpfs c) \<and>
     distinct (container_paths c) \<and>
     list_all (\<lambda>n. validateCapabilityName n = None) (cc_CapAdd c) \<and>
     list_all (\<lambda>n. validateCapabilityName n = None) (cc_CapDrop c) \<and>
     list_all (\<lambda>o'. validateSecurityOpt o' = None) (cc_SecurityOpt c)"
proof -
  let ?vp = "map (TrimSpace \<circ> vm_MountPath) (cc_VolumeMounts c)"
  let ?tp = "map (TrimSpace \<circ> tm_MountPath) (cc_Tmpfs c)"
  have mounts: "(\<exists>s. validate_mounts known (cc_Name c) (cc_VolumeMounts c) [] = Inr s
      \<and> (\<exists>t. validate_tmpfs pq (cc_Name c) (cc_Tmpfs c) s = Inr t)) \<longleftrightarrow>
    list_all (mount_ok known) (cc_VolumeMounts c) \<and> list_all (tmpfs_ok pq) (cc_Tmpfs c) \<and> distinct (?vp @ ?tp)"
    by (auto simp: validate_mounts_iff validate_tmpfs_iff)
  have "validate_container_options pq known c = None \<longleftrightarrow>
    (\<exists>s. validate_mounts known (cc_Name c) (cc_VolumeMounts c) [] = Inr s
      \<and> (\<exists>t. validate_tmpfs pq (cc_Name c) (cc_Tmpfs c) s = Inr t)) \<and>
    first_error validateCapabilityName (cc_CapAdd c) = None \<and>
    first_error validateCapabilityName (cc_CapDrop c) = None \<and>
    first_error validateSecurityOpt (cc_SecurityOpt c) = None"
    unfolding validate_container_options_def by (auto split: sum.splits option.splits simp del: first_error_None)
  then show ?thesis by (simp only: mounts container_paths_def first_error_None conj_assoc)
qed

lemma validate_containers_iff:
  "validate_containers pq known cs seen = None \<longleftrightarrow>
     list_all (container_ok pq known) cs \<and> distinct (map cc_Name cs) \<and> cc_Name ` set cs \<inter> set seen = {}"
proof (induction cs arbitrary: seen)
  case (Cons c cs)
  show ?case
    by (cases "container_ok pq known c")
      (auto simp: Cons.IH container_ok_def validate_container_options_iff [symmetric] split: option.splits)
qed simp

lemma validate_ports_iff:
  "validate_ports ps seen = None \<longleftrightarrow>
     list_all port_ok ps \<and> distinct (map pm_HostPort ps) \<and> pm_HostPort ` set ps \<inter> set seen = {}"
proof (induction ps arbitrary: seen)
  case (Cons p ps)
  show ?case
    by (cases "port_ok p") (auto simp: Cons.IH Let_def port_ok_def)
qed simp

lemma validate_readiness_iff: "validate_readiness p = None \<longleftrightarrow> probe_ok p"
  by (auto simp: validate_readiness_def probe_ok_def Let_def)

lemma container_ok_known:
  assumes "set known = set known'"
  shows "container_ok pq known = container_ok pq known'"
proof -
  have "mount_ok known = mount_ok known'"
    by (rule ext) (simp add: mount_ok_def assms)
  then show ?thesis by (intro ext) (simp add: container_ok_def)
qed

lemma Validate_steps:
  "Validate pq r = None \<longleftrightarrow>
     ValidateSandboxID (cr_ID r) = None \<and> cr_Containers r \<noteq> [] \<and>
     (\<exists>k. validate_volumes pq (cr_Volumes r) [] = Inr k \<and> validate_containers pq k (cr_Containers r) [] = None) \<and>
     validate_ports (cr_Ports r) [] = None \<and>
     (\<forall>p. cr_Readiness r = Some p \<longrightarrow> validate_readiness p = None)"
  unfolding Validate_def by (simp split: option.splits sum.splits)

lemma Validate_request_ok: "Validate pq r = None \<longleftrightarrow> request_ok pq r"
proof -
  let ?names = "map (TrimSpace \<circ> vs_Name) (cr_Volumes r)"
  have known: "container_ok pq (rev ?names) = container_ok pq ?names"
    by (rule container_ok_known) simp
  have volumes: "(\<exists>k. validate_volumes pq (cr_Volumes r) [] = Inr k \<and> P k) \<longleftrightarrow>
      list_all (volume_ok pq) (cr_Volumes r) \<and> distinct ?names \<and> P (rev ?names)" for P
    by (simp add: validate_volumes_iff)
  show ?thesis
    unfolding Validate_steps volumes request_ok_def
    by (simp only: validate_containers_iff validate_ports_iff validate_readiness_iff known) simp
qed

section \<open>Properties\<close>

lemma mount_path_ok_elems:
  assumes "mount_path_ok p"
  shows "\<exists>els. els \<noteq> [] \<and> list_all safe_elem els \<and> p = ''/'' @ Join els ''/''"
proof -
  from assms obtain els where "list_all safe_elem els" and p: "p = ''/'' @ Join els ''/''"
    using Clean_fixed_safe [of p] by (auto simp: mount_path_ok_def)
  moreover from p assms have "els \<noteq> []" by (auto simp: mount_path_ok_def)
  ultimately show ?thesis by blast
qed

lemma container_path_ok:
  "container_ok pq known c \<Longrightarrow> p \<in> set (container_paths c) \<Longrightarrow> mount_path_ok p"
  by (auto simp: container_ok_def container_paths_def mount_ok_def tmpfs_ok_def list_all_iff)

text \<open>A quantity parser and a request for the witnesses: plain decimal numbers only.\<close>

definition plain_pq :: quantity_parser where
  "plain_pq s = (case ParseInt64 s of Some n \<Rightarrow> Inr (Quantity n (n * 1000)) | None \<Rightarrow> Inl (ErrNew ''quantity''))"

definition sample_container :: CreateContainerRequest where
  "sample_container = \<lparr> cc_Name = ''web'', cc_Image = ''nginx'', cc_Args = [], cc_Env = [], cc_WorkDir = [],
     cc_CapAdd = [''NET_ADMIN''], cc_CapDrop = [], cc_SecurityOpt = [''no-new-privileges:true''], cc_ReadOnly = False,
     cc_Tmpfs = [\<lparr> tm_MountPath = ''/run'', tm_Options = ''size=64k,noexec'' \<rparr>],
     cc_VolumeMounts = [\<lparr> vm_Name = ''v'', vm_MountPath = ''/data/x'', vm_ReadOnly = False \<rparr>],
     cc_Resource = \<lparr> rs_CPU = ''1'', rs_Memory = ''64'', rs_EphemeralStorage = [] \<rparr> \<rparr>"

definition sample_request :: CreateSandboxRequest where
  "sample_request = \<lparr> cr_ID = ''sbx-1'', cr_Egress = True,
     cr_Volumes = [\<lparr> vs_Name = ''v'', vs_EphemeralStorage = ''4096'' \<rparr>],
     cr_Containers = [sample_container],
     cr_Ports = [\<lparr> pm_HostPort = 20000, pm_ContainerPort = 80, pm_Protocol = ''TCP'' \<rparr>],
     cr_Readiness = None \<rparr>"

lemma sample_request_valid: "Validate plain_pq sample_request = None"
  by code_simp

text \<open>
  C1: sbxlet accepts a create request exactly when it is well formed: a safe id, at least one
  container, well-formed and distinct volumes, containers, ports and mount paths, every volume
  mount naming a declared volume, supported options, and a well-formed readiness probe if any.
\<close>

theorem Validate_accepts_iff_well_formed: "Validate pq r = None \<longleftrightarrow> request_ok pq r"
  by (rule Validate_request_ok)



end
