(* ===== verification/Orch_Client.thy ===== *)
theory Orch_Client
  imports Orch_Types Let_Model
begin

text \<open>
  Package \<open>sandboxd-orch/client\<close>: the HTTP client of the orchestrator for sbxlet. The network is
  a parameter of the code that calls the client: a request gets a transport error or a response.
  A response carries its raw body and what \<open>json.Unmarshal\<close> makes of it.
\<close>

section \<open>Requests and responses\<close>

record 'a http_response =
  hr_StatusCode :: int
  hr_Status :: string
  hr_raw :: string
  hr_json :: "go_error + 'a"

text \<open>
  The body of most replies is read as a \<open>map[string]any\<close>: nil for a JSON null, otherwise a map of
  which the code looks at the entry \<open>ok\<close> and at what the map is as a \<open>NodeStatus\<close>.
\<close>

datatype ok_field = OkMissing | OkBool bool | OkOther

record NodeStatus =
  ns_OK :: bool
  ns_Resources :: NodeResources

datatype map_reply = NilMap | MapReply (mr_ok: ok_field) (mr_status: "go_error + NodeStatus")

definition zero_NodeResources :: NodeResources where
  "zero_NodeResources = \<lparr> nr_CapacityCPUMilli = 0, nr_CapacityMemoryBytes = 0, nr_AllocatableCPUMilli = 0,
     nr_AllocatableMemory = 0, nr_UsedCPUMilli = 0, nr_UsedMemoryBytes = 0, nr_AvailableCPUMilli = 0,
     nr_AvailableMemory = 0, nr_MaxAllocPercent = 0, nr_External = [], nr_UpdatedAt = None \<rparr>"

definition ok_map :: map_reply where
  "ok_map = MapReply (OkBool True) (Inr \<lparr> ns_OK = True, ns_Resources = zero_NodeResources \<rparr>)"

datatype rpc_call =
    CallHealthz string
  | CallNodeStatus string
  | CallReconcile string
  | CallCreate string CreateSandboxRequest
  | CallDelete string string
  | CallStatuses string "string list"
  | CallList string string int
  | CallGet string string
  | CallContainerLogs string string string
  | CallSandboxLogs string string

section \<open>do.go\<close>

text \<open>
  \<open>doInto\<close>: \<open>None\<close> when the body is empty and the target is left as it was. The URL of a node
  is well formed and the requests can be encoded, so that no request fails before it is sent.
\<close>

definition doInto :: "string \<Rightarrow> string \<Rightarrow> go_error + 'a http_response \<Rightarrow> go_error + 'a option" where
  "doInto method path resp =
     (case resp of
        Inl err \<Rightarrow> Inl err
      | Inr r \<Rightarrow>
          if hr_StatusCode r \<ge> 400 then
            (let msg0 = TrimSpace (hr_raw r);
                 msg = (if msg0 = [] then hr_Status r else msg0)
             in Inl (Errorf ''sandboxd %s %s failed: %s'' [Str method, Str path, Str msg]))
          else if hr_raw r = [] then Inr None
          else (case hr_json r of
              Inl err \<Rightarrow> Inl (Errorf ''decode sandboxd response: %w'' [Wrap err])
            | Inr v \<Rightarrow> Inr (Some v)))"

definition do_map :: "string \<Rightarrow> string \<Rightarrow> go_error + map_reply http_response \<Rightarrow> go_error + map_reply" where
  "do_map method path resp =
     (case doInto method path resp of
        Inl err \<Rightarrow> Inl err
      | Inr None \<Rightarrow> Inr ok_map
      | Inr (Some NilMap) \<Rightarrow> Inr ok_map
      | Inr (Some m) \<Rightarrow> Inr m)"

section \<open>client.go, nodes.go and sandboxes.go\<close>

text \<open>\<open>New\<close> drops the slashes at the end of the base URL.\<close>

definition New_baseURL :: "string \<Rightarrow> string" where
  "New_baseURL u = rev (dropWhile (\<lambda>c. c = CHR ''/'') (rev u))"

text \<open>\<open>url.PathEscape\<close>\<close>

definition upper_hex :: "nat \<Rightarrow> char" where
  "upper_hex n = (if n < 10 then char_of (48 + n) else char_of (55 + n))"

definition PathEscape :: "string \<Rightarrow> string" where
  "PathEscape s = concat (map (\<lambda>c. if is_alnum c \<or> c \<in> set ''-_.~$&+=:@'' then [c]
     else [CHR ''%'', upper_hex (of_char c div 16), upper_hex (of_char c mod 16)]) s)"

text \<open>\<open>url.QueryEscape\<close>, and \<open>url.Values.Encode\<close> on pairs that are sorted by key\<close>

definition QueryEscape :: "string \<Rightarrow> string" where
  "QueryEscape s = concat (map (\<lambda>c. if is_alnum c \<or> c \<in> set ''-_.~'' then [c] else if c = CHR '' '' then ''+''
     else [CHR ''%'', upper_hex (of_char c div 16), upper_hex (of_char c mod 16)]) s)"

definition Encode :: "(string \<times> string) list \<Rightarrow> string" where
  "Encode q = Join (map (\<lambda>(k, v). QueryEscape k @ ''='' @ QueryEscape v) q) ''&''"

text \<open>The paths of the requests.\<close>

definition sandbox_path :: "string \<Rightarrow> string" where
  "sandbox_path sid = ''/v1/sandboxes/'' @ PathEscape sid"

definition container_logs_path :: "string \<Rightarrow> string \<Rightarrow> string" where
  "container_logs_path sandboxID containerName =
     ''/v1/sandboxes/'' @ PathEscape sandboxID @ ''/containers/'' @ PathEscape containerName @ ''/logs''"

definition sandbox_logs_path :: "string \<Rightarrow> string" where
  "sandbox_logs_path sandboxID = ''/v1/sandboxes/'' @ PathEscape sandboxID @ ''/logs''"

definition list_path :: "string \<Rightarrow> int \<Rightarrow> string" where
  "list_path cursor limit =
     (let q = (if cursor \<noteq> [] then [(''cursor'', cursor)] else []) @ (if limit > 0 then [(''limit'', Itoa limit)] else []);
          qs = Encode q
      in ''/v1/sandboxes'' @ (if qs \<noteq> [] then ''?'' @ qs else []))"

text \<open>The method and the path of every request.\<close>

fun rpc_request :: "rpc_call \<Rightarrow> string \<times> string" where
  "rpc_request (CallHealthz _) = (''GET'', ''/healthz'')"
| "rpc_request (CallNodeStatus _) = (''GET'', ''/v1/node/status'')"
| "rpc_request (CallReconcile _) = (''POST'', ''/v1/reconcile'')"
| "rpc_request (CallCreate _ _) = (''POST'', ''/v1/sandboxes'')"
| "rpc_request (CallDelete _ sid) = (''DELETE'', sandbox_path sid)"
| "rpc_request (CallStatuses _ _) = (''POST'', ''/v1/sandboxes/statuses'')"
| "rpc_request (CallList _ cursor limit) = (''GET'', list_path cursor limit)"
| "rpc_request (CallGet _ sid) = (''GET'', sandbox_path sid)"
| "rpc_request (CallContainerLogs _ sid name) = (''GET'', container_logs_path sid name)"
| "rpc_request (CallSandboxLogs _ sid) = (''GET'', sandbox_logs_path sid)"

definition client_Healthz :: "go_error + map_reply http_response \<Rightarrow> go_error option" where
  "client_Healthz resp =
     (case do_map ''GET'' ''/healthz'' resp of
        Inl err \<Rightarrow> Some err
      | Inr out \<Rightarrow>
          (case out of
             MapReply (OkBool True) _ \<Rightarrow> None
           | _ \<Rightarrow> Some (Errorf ''healthz not ok'' [])))"

definition client_NodeStatus :: "go_error + map_reply http_response \<Rightarrow> go_error + NodeStatus" where
  "client_NodeStatus resp =
     (case do_map ''GET'' ''/v1/node/status'' resp of
        Inl err \<Rightarrow> Inl err
      | Inr out \<Rightarrow>
          (case mr_status out of
             Inl err \<Rightarrow> Inl err
           | Inr st \<Rightarrow> if \<not> ns_OK st then Inl (Errorf ''node status not ok'' []) else Inr st))"

definition client_Reconcile :: "go_error + map_reply http_response \<Rightarrow> go_error + map_reply" where
  "client_Reconcile resp = do_map ''POST'' ''/v1/reconcile'' resp"

definition client_CreateSandbox :: "go_error + map_reply http_response \<Rightarrow> go_error + map_reply" where
  "client_CreateSandbox resp = do_map ''POST'' ''/v1/sandboxes'' resp"

definition client_DeleteSandbox :: "string \<Rightarrow> go_error + map_reply http_response \<Rightarrow> go_error + map_reply" where
  "client_DeleteSandbox sid resp = do_map ''DELETE'' (sandbox_path sid) resp"

definition client_SandboxStatuses ::
  "go_error + SandboxStatusesResponse http_response \<Rightarrow> go_error + SandboxStatusesResponse" where
  "client_SandboxStatuses resp =
     (case doInto ''POST'' ''/v1/sandboxes/statuses'' resp of
        Inl err \<Rightarrow> Inl err
      | Inr None \<Rightarrow> Inr \<lparr> sr_Items = [], sr_Missing = [] \<rparr>
      | Inr (Some r) \<Rightarrow> Inr r)"

definition client_ListSandboxes :: "string \<Rightarrow> int \<Rightarrow> go_error + map_reply http_response \<Rightarrow> go_error + map_reply" where
  "client_ListSandboxes cursor limit resp = do_map ''GET'' (list_path cursor limit) resp"

definition client_GetSandbox :: "string \<Rightarrow> go_error + map_reply http_response \<Rightarrow> go_error + map_reply" where
  "client_GetSandbox sid resp = do_map ''GET'' (sandbox_path sid) resp"

definition client_GetContainerLogs :: "string \<Rightarrow> string \<Rightarrow> go_error + map_reply http_response \<Rightarrow> go_error + map_reply" where
  "client_GetContainerLogs sandboxID containerName resp = do_map ''GET'' (container_logs_path sandboxID containerName) resp"

definition client_GetSandboxLogs :: "string \<Rightarrow> go_error + map_reply http_response \<Rightarrow> go_error + map_reply" where
  "client_GetSandboxLogs sandboxID resp = do_map ''GET'' (sandbox_logs_path sandboxID) resp"

section \<open>Lemmas\<close>

lemma doInto_ok_status:
  "doInto m p resp = Inr v \<Longrightarrow> \<exists>r. resp = Inr r \<and> hr_StatusCode r < 400"
  by (auto simp: doInto_def Let_def split: sum.splits if_splits)

lemma do_map_not_nil: "do_map m p resp = Inr out \<Longrightarrow> out \<noteq> NilMap"
  by (auto simp: do_map_def ok_map_def split: sum.splits option.splits map_reply.splits)

lemma PathEscape_name: "name_re n s \<Longrightarrow> PathEscape s = s"
proof -
  assume re: "name_re n s"
  have "PathEscape s = concat (map (\<lambda>c. [c]) s)"
    unfolding PathEscape_def
    by (rule arg_cong [of _ _ concat], rule map_cong)
      (use name_re_chars [OF re] in \<open>auto simp: name_char_def\<close>)
  then show ?thesis by (simp add: concat_map_singleton)
qed

end
