(* ===== verification/Orch_Repo.thy ===== *)
theory Orch_Repo
  imports Effects Orch_Types Orch_Config Orch_Client
begin

text \<open>
  Package \<open>sandboxd-orch/repo\<close>: the SQLite store of the orchestrator. A table is the list of its
  rows in the order they were inserted; a statement is a function on the database that fails on a
  violated constraint of the schema (\<open>migrations.go\<close>) or when the environment makes it fail
  (a lost connection, a cancelled context), and then has no effect. The store has one connection
  (\<open>SetMaxOpenConns(1)\<close>), so that a transaction is not interleaved with other statements.
\<close>

section \<open>The schema\<close>

record node_row =
  nd_name :: string
  nd_ip :: string
  nd_port :: int
  nd_unschedulable :: bool
  nd_labels :: "(string \<times> string) list"
  nd_source :: string
  nd_created_at :: int
  nd_updated_at :: int

record node_status_row =
  hb_name :: string
  hb_state :: NodeState
  hb_success_streak :: int
  hb_failure_streak :: int
  hb_last_error :: string
  hb_last_heartbeat_at :: "int option"
  hb_updated_at :: int

text \<open>The columns of \<open>node_resources\<close> are those of \<open>NodeResources\<close>, between the name and the time.\<close>

record node_resources_row =
  rr_name :: string
  rr_res :: NodeResources
  rr_updated_at :: int

record sandbox_row =
  sx_id :: string
  sx_spec :: SandboxSpec
  sx_status :: SandboxStatus
  sx_created_at :: int
  sx_updated_at :: int

record sandbox_port_row =
  po_sandbox_id :: string
  po_node_name :: string
  po_host_port :: int
  po_container_port :: int
  po_protocol :: string
  po_created_at :: int

record node_external_row =
  xt_external_id :: string
  xt_node_id :: string
  xt_external :: string
  xt_created_at :: int
  xt_updated_at :: int

record orch_db =
  db_nodes :: "node_row list"
  db_status :: "node_status_row list"
  db_resources :: "node_resources_row list"
  db_sandboxes :: "sandbox_row list"
  db_ports :: "sandbox_port_row list"
  db_externals :: "node_external_row list"

definition empty_db :: orch_db where
  "empty_db = \<lparr> db_nodes = [], db_status = [], db_resources = [], db_sandboxes = [], db_ports = [], db_externals = [] \<rparr>"

section \<open>The environment and the state\<close>

text \<open>
  Every interaction with the world takes a number, its tick: the environment says what the clock
  shows, whether the database statement fails, what the random source gives, whether the context
  is done and what sbxlet replies at that tick. All theorems hold for every environment.
\<close>

record orch_env =
  e_cfg :: Config
  e_pq :: quantity_parser
  e_now :: "nat \<Rightarrow> int"
  e_fault :: "nat \<Rightarrow> go_error option"
  e_rand :: "nat \<Rightarrow> nat \<Rightarrow> nat"
  e_done :: "nat \<Rightarrow> bool"
  e_map_reply :: "nat \<Rightarrow> rpc_call \<Rightarrow> go_error + map_reply http_response"
  e_statuses_reply :: "nat \<Rightarrow> rpc_call \<Rightarrow> go_error + SandboxStatusesResponse http_response"

record ResourceCacheEntry =
  ce_Current :: NodeResources
  ce_LastPersisted :: NodeResources
  ce_LastPersistedAt :: int

text \<open>
  The state: the database, the resource cache, the requests sent to nodes, the arguments of the
  goroutines \<open>refreshSandboxIPSoon\<close> that were started, and the next tick.
\<close>

record orch_state =
  os_db :: orch_db
  os_cache :: "(string \<times> ResourceCacheEntry) list"
  os_calls :: "rpc_call list"
  os_spawned :: "(string \<times> string) list"
  os_tick :: nat

type_synonym 'a orch = "(orch_state, 'a) state"

definition tick :: "nat orch" where
  "tick = State (\<lambda>s. (os_tick s, s\<lparr> os_tick := Suc (os_tick s) \<rparr>))"

definition time_Now :: "orch_env \<Rightarrow> int orch" where
  "time_Now E = do { t \<leftarrow> tick; ret (e_now E t) }"

text \<open>One SQL statement.\<close>

definition stmt :: "orch_env \<Rightarrow> (orch_db \<Rightarrow> go_error + 'a \<times> orch_db) \<Rightarrow> (go_error + 'a) orch" where
  "stmt E f = do {
     t \<leftarrow> tick;
     case e_fault E t of
       Some err \<Rightarrow> ret (Inl err)
     | None \<Rightarrow> do {
         db \<leftarrow> gets os_db;
         case f db of
           Inl err \<Rightarrow> ret (Inl err)
         | Inr (x, db') \<Rightarrow> do { modify (os_db_update (\<lambda>_. db')); ret (Inr x) } } }"

definition query :: "orch_env \<Rightarrow> (orch_db \<Rightarrow> 'a) \<Rightarrow> (go_error + 'a) orch" where
  "query E g = stmt E (\<lambda>db. Inr (g db, db))"

definition change :: "orch_env \<Rightarrow> (orch_db \<Rightarrow> orch_db) \<Rightarrow> (go_error + unit) orch" where
  "change E h = stmt E (\<lambda>db. Inr ((), h db))"

text \<open>\<open>BeginTx\<close>, the body, \<open>Commit\<close>; the deferred \<open>Rollback\<close> undoes the body after an error.\<close>

definition transaction :: "orch_env \<Rightarrow> (go_error + 'a) orch \<Rightarrow> (go_error + 'a) orch" where
  "transaction E body = do {
     db0 \<leftarrow> gets os_db;
     r \<leftarrow> bindE (query E (\<lambda>_. ())) (\<lambda>_. bindE body (\<lambda>x. bindE (query E (\<lambda>_. ())) (\<lambda>_. ret (Inr x))));
     case r of
       Inl err \<Rightarrow> do { modify (os_db_update (\<lambda>_. db0)); ret (Inl err) }
     | Inr x \<Rightarrow> ret (Inr x) }"

section \<open>Tables\<close>

definition update_where :: "('r \<Rightarrow> bool) \<Rightarrow> ('r \<Rightarrow> 'r) \<Rightarrow> 'r list \<Rightarrow> 'r list" where
  "update_where P f rows = map (\<lambda>r. if P r then f r else r) rows"

definition delete_where :: "('r \<Rightarrow> bool) \<Rightarrow> 'r list \<Rightarrow> 'r list" where
  "delete_where P rows = filter (\<lambda>r. \<not> P r) rows"

text \<open>\<open>INSERT ... ON CONFLICT DO UPDATE\<close>, and \<open>DO NOTHING\<close> with the identity as the update.\<close>

definition upsert :: "('r \<Rightarrow> bool) \<Rightarrow> ('r \<Rightarrow> 'r) \<Rightarrow> 'r \<Rightarrow> 'r list \<Rightarrow> 'r list" where
  "upsert P f new rows = (if list_ex P rows then update_where P f rows else rows @ [new])"

definition sql_ErrNoRows :: go_error where
  "sql_ErrNoRows = ErrNew ''sql: no rows in result set''"

definition ErrPortReservationConflict :: go_error where
  "ErrPortReservationConflict = ErrNew ''port reservation conflict''"

definition ErrExternalConflict :: go_error where
  "ErrExternalConflict = ErrNew ''external object conflict''"

definition constraint_failed :: "string \<Rightarrow> go_error" where
  "constraint_failed c = Errorf ''constraint failed: %s'' [Str c]"

text \<open>\<open>Scan\<close> of a single row: no row is an error.\<close>

definition one_row :: "'a option \<Rightarrow> go_error + 'a" where
  "one_row r = (case r of None \<Rightarrow> Inl sql_ErrNoRows | Some x \<Rightarrow> Inr x)"

section \<open>node\_repo.go\<close>

definition UpsertNode ::
  "orch_env \<Rightarrow> string \<Rightarrow> string \<Rightarrow> int \<Rightarrow> bool \<Rightarrow> (string \<times> string) list \<Rightarrow> string \<Rightarrow> (go_error + unit) orch" where
  "UpsertNode E nid ip port unschedulable labels source = do {
     now \<leftarrow> time_Now E;
     bindE (change E (db_nodes_update (upsert (\<lambda>r. nd_name r = nid)
        (\<lambda>r. r\<lparr> nd_ip := ip, nd_port := port, nd_unschedulable := unschedulable,
                 nd_labels := labels, nd_source := source, nd_updated_at := now \<rparr>)
        \<lparr> nd_name = nid, nd_ip = ip, nd_port = port, nd_unschedulable = unschedulable,
          nd_labels = labels, nd_source = source, nd_created_at = now, nd_updated_at = now \<rparr>)))
     (\<lambda>_. bindE (change E (db_status_update (upsert (\<lambda>r. hb_name r = nid) (\<lambda>r. r)
        \<lparr> hb_name = nid, hb_state = NodeStateUnknown, hb_success_streak = 0, hb_failure_streak = 0,
          hb_last_error = [], hb_last_heartbeat_at = None, hb_updated_at = now \<rparr>)))
     (\<lambda>_. change E (db_resources_update (upsert (\<lambda>r. rr_name r = nid) (\<lambda>r. r)
        \<lparr> rr_name = nid, rr_res = zero_NodeResources\<lparr> nr_External := ''(none)'' \<rparr>, rr_updated_at = now \<rparr>)))) }"

text \<open>Deleting a row of \<open>nodes\<close> deletes the externals that reference it.\<close>

definition delete_node_row :: "string \<Rightarrow> orch_db \<Rightarrow> orch_db" where
  "delete_node_row nid db = db\<lparr> db_nodes := delete_where (\<lambda>r. nd_name r = nid) (db_nodes db),
     db_externals := delete_where (\<lambda>x. xt_node_id x = nid) (db_externals db) \<rparr>"

definition repo_DeleteNode :: "orch_env \<Rightarrow> string \<Rightarrow> (go_error + unit) orch" where
  "repo_DeleteNode E nid =
     bindE (change E (db_ports_update (delete_where (\<lambda>p. po_node_name p = nid))))
     (\<lambda>_. bindE (change E (db_resources_update (delete_where (\<lambda>r. rr_name r = nid))))
     (\<lambda>_. bindE (change E (db_status_update (delete_where (\<lambda>r. hb_name r = nid))))
     (\<lambda>_. change E (delete_node_row nid))))"

definition SetNodeUnschedulable :: "orch_env \<Rightarrow> string \<Rightarrow> bool \<Rightarrow> (go_error + unit) orch" where
  "SetNodeUnschedulable E nid unschedulable = do {
     now \<leftarrow> time_Now E;
     change E (db_nodes_update (update_where (\<lambda>r. nd_name r = nid)
       (\<lambda>r. r\<lparr> nd_unschedulable := unschedulable, nd_updated_at := now \<rparr>))) }"

text \<open>The joined row of a node as \<open>scanRowScanner\<close> reads it, with the base URL the callers add.\<close>

definition node_url :: "string \<Rightarrow> int \<Rightarrow> string" where
  "node_url ip port = ''http://'' @ ip @ '':'' @ Itoa port"

definition scan_node :: "orch_db \<Rightarrow> node_row \<Rightarrow> Node" where
  "scan_node db n =
     (let s = find (\<lambda>r. hb_name r = nd_name n) (db_status db);
          r = find (\<lambda>r. rr_name r = nd_name n) (db_resources db);
          ne = find (\<lambda>x. xt_node_id x = nd_name n) (db_externals db);
          res = (case r of None \<Rightarrow> zero_NodeResources\<lparr> nr_External := ''(none)'' \<rparr> | Some row \<Rightarrow> rr_res row)
      in \<lparr> n_ID = nd_name n, n_Metadata = \<lparr> om_Labels = nd_labels n \<rparr>, n_IP = nd_ip n, n_Port = nd_port n,
           n_Unschedulable = nd_unschedulable n,
           n_State = (case s of None \<Rightarrow> NodeStateUnknown | Some row \<Rightarrow> hb_state row),
           n_Source = nd_source n,
           n_LastError = (case s of None \<Rightarrow> [] | Some row \<Rightarrow> hb_last_error row),
           n_SuccessStreak = (case s of None \<Rightarrow> 0 | Some row \<Rightarrow> hb_success_streak row),
           n_FailureStreak = (case s of None \<Rightarrow> 0 | Some row \<Rightarrow> hb_failure_streak row),
           n_CreatedAt = nd_created_at n, n_UpdatedAt = nd_updated_at n,
           n_LastHeartbeat = (case s of None \<Rightarrow> None | Some row \<Rightarrow> hb_last_heartbeat_at row),
           n_Resources = res\<lparr> nr_External := (case ne of Some x \<Rightarrow> xt_external x | None \<Rightarrow> nr_External res) \<rparr>,
           n_SbxletBaseURL = node_url (nd_ip n) (nd_port n) \<rparr>)"

definition select_node :: "string \<Rightarrow> orch_db \<Rightarrow> Node option" where
  "select_node nid db = map_option (scan_node db) (find (\<lambda>n. nd_name n = nid) (db_nodes db))"

definition GetNode :: "orch_env \<Rightarrow> string \<Rightarrow> (go_error + Node) orch" where
  "GetNode E nid = bindE (query E (select_node nid)) (\<lambda>r. ret (one_row r))"

definition repo_ListNodes :: "orch_env \<Rightarrow> (go_error + Node list) orch" where
  "repo_ListNodes E = query E (\<lambda>db. sort_slice (\<lambda>a b. n_ID a < n_ID b) (map (scan_node db) (db_nodes db)))"

definition UpdateHeartbeat ::
  "orch_env \<Rightarrow> string \<Rightarrow> NodeState \<Rightarrow> int \<Rightarrow> int \<Rightarrow> string \<Rightarrow> int option \<Rightarrow> (go_error + unit) orch" where
  "UpdateHeartbeat E nid st successStreak failureStreak lastError beatAt = do {
     updated \<leftarrow> time_Now E;
     let row = \<lparr> hb_name = nid, hb_state = st, hb_success_streak = successStreak,
        hb_failure_streak = failureStreak, hb_last_error = lastError,
        hb_last_heartbeat_at = beatAt, hb_updated_at = updated \<rparr> in
     change E (db_status_update (upsert (\<lambda>r. hb_name r = nid) (\<lambda>_. row) row)) }"

definition UpdateNodeResources :: "orch_env \<Rightarrow> string \<Rightarrow> NodeResources \<Rightarrow> (go_error + unit) orch" where
  "UpdateNodeResources E nid res = do {
     updated \<leftarrow> time_Now E;
     let row = \<lparr> rr_name = nid, rr_res = res, rr_updated_at = updated \<rparr> in
     change E (db_resources_update (upsert (\<lambda>r. rr_name r = nid) (\<lambda>_. row) row)) }"

definition adjust_usage :: "int \<Rightarrow> int \<Rightarrow> NodeResources \<Rightarrow> NodeResources" where
  "adjust_usage cpuDelta memDelta r = r\<lparr>
     nr_UsedCPUMilli := max 0 (nr_UsedCPUMilli r + cpuDelta),
     nr_UsedMemoryBytes := max 0 (nr_UsedMemoryBytes r + memDelta),
     nr_AvailableCPUMilli := max 0 (nr_AllocatableCPUMilli r - max 0 (nr_UsedCPUMilli r + cpuDelta)),
     nr_AvailableMemory := max 0 (nr_AllocatableMemory r - max 0 (nr_UsedMemoryBytes r + memDelta)) \<rparr>"

definition AdjustNodeResourceUsage :: "orch_env \<Rightarrow> string \<Rightarrow> int \<Rightarrow> int \<Rightarrow> (go_error + unit) orch" where
  "AdjustNodeResourceUsage E nid cpuDelta memDelta = do {
     now \<leftarrow> time_Now E;
     change E (db_resources_update (update_where (\<lambda>r. rr_name r = nid)
       (\<lambda>r. r\<lparr> rr_res := adjust_usage cpuDelta memDelta (rr_res r), rr_updated_at := now \<rparr>))) }"

definition set_resources_external :: "string \<Rightarrow> string \<Rightarrow> int \<Rightarrow> orch_db \<Rightarrow> orch_db" where
  "set_resources_external nid external now = db_resources_update (update_where (\<lambda>r. rr_name r = nid)
     (\<lambda>r. r\<lparr> rr_res := (rr_res r)\<lparr> nr_External := external \<rparr>, rr_updated_at := now \<rparr>))"

definition insert_external :: "node_external_row \<Rightarrow> orch_db \<Rightarrow> go_error + unit \<times> orch_db" where
  "insert_external x db =
     (if xt_external_id x \<in> xt_external_id ` set (db_externals db) then Inl (constraint_failed ''node_externals.external_id'')
      else if xt_node_id x \<in> xt_node_id ` set (db_externals db) then Inl (constraint_failed ''node_externals.node_id'')
      else if xt_node_id x \<notin> nd_name ` set (db_nodes db) then Inl (constraint_failed ''FOREIGN KEY'')
      else Inr ((), db\<lparr> db_externals := db_externals db @ [x] \<rparr>))"

definition SetNodeExternal :: "orch_env \<Rightarrow> string \<Rightarrow> string \<Rightarrow> string \<Rightarrow> (go_error + unit) orch" where
  "SetNodeExternal E externalID nodeID external = do {
     now \<leftarrow> time_Now E;
     transaction E
       (bindE (query E (\<lambda>db. map_option xt_node_id (find (\<lambda>x. xt_external_id x = externalID) (db_externals db))))
       (\<lambda>r1. let byIDNode = (case r1 of None \<Rightarrow> [] | Some v \<Rightarrow> v) in
        if byIDNode \<noteq> [] \<and> byIDNode \<noteq> nodeID then
          ret (Inl (Errorf ''%w: external id %s already bound to node %s''
            [Wrap ErrExternalConflict, Str externalID, Str byIDNode]))
        else
          bindE (query E (\<lambda>db. map_option xt_external_id (find (\<lambda>x. xt_node_id x = nodeID) (db_externals db))))
          (\<lambda>r2. let byNodeID = (case r2 of None \<Rightarrow> [] | Some v \<Rightarrow> v) in
           if byNodeID \<noteq> [] \<and> byNodeID \<noteq> externalID then
             ret (Inl (Errorf ''%w: node %s already bound to external id %s''
               [Wrap ErrExternalConflict, Str nodeID, Str byNodeID]))
           else
             bindE (if byIDNode \<noteq> [] then
                 change E (db_externals_update (update_where (\<lambda>x. xt_external_id x = externalID)
                   (\<lambda>x. x\<lparr> xt_external := external, xt_updated_at := now \<rparr>)))
               else
                 stmt E (insert_external \<lparr> xt_external_id = externalID, xt_node_id = nodeID,
                   xt_external = external, xt_created_at = now, xt_updated_at = now \<rparr>))
             (\<lambda>_. change E (set_resources_external nodeID external now))))) }"

definition DeleteNodeExternal :: "orch_env \<Rightarrow> string \<Rightarrow> (go_error + unit) orch" where
  "DeleteNodeExternal E nodeID =
     bindE (change E (db_externals_update (delete_where (\<lambda>x. xt_node_id x = nodeID))))
     (\<lambda>_. do { now \<leftarrow> time_Now E; change E (set_resources_external nodeID ''(none)'' now) })"

definition repo_DeleteExternal :: "orch_env \<Rightarrow> string \<Rightarrow> (go_error + unit) orch" where
  "repo_DeleteExternal E xid =
     bindE (query E (\<lambda>db. find (\<lambda>x. xt_external_id x = xid) (db_externals db)))
     (\<lambda>r. bindE (ret (one_row r))
     (\<lambda>x. bindE (change E (db_externals_update (delete_where (\<lambda>x. xt_external_id x = xid))))
     (\<lambda>_. do { now \<leftarrow> time_Now E; change E (set_resources_external (xt_node_id x) ''(none)'' now) })))"

definition scan_external :: "node_external_row \<Rightarrow> External" where
  "scan_external x = \<lparr> ex_ID = xt_external_id x, ex_NodeID = xt_node_id x, ex_External = xt_external x,
     ex_CreatedAt = xt_created_at x, ex_UpdatedAt = xt_updated_at x \<rparr>"

definition repo_ListExternals :: "orch_env \<Rightarrow> (go_error + External list) orch" where
  "repo_ListExternals E =
     query E (\<lambda>db. sort_slice (\<lambda>a b. ex_ID a < ex_ID b) (map scan_external (db_externals db)))"

definition repo_GetExternal :: "orch_env \<Rightarrow> string \<Rightarrow> (go_error + External) orch" where
  "repo_GetExternal E xid =
     bindE (query E (\<lambda>db. map_option scan_external (find (\<lambda>x. xt_external_id x = xid) (db_externals db))))
     (\<lambda>r. ret (one_row r))"

section \<open>sandbox\_repo.go\<close>

definition insert_sandbox :: "sandbox_row \<Rightarrow> orch_db \<Rightarrow> go_error + unit \<times> orch_db" where
  "insert_sandbox x db =
     (if sx_id x \<in> sx_id ` set (db_sandboxes db) then Inl (constraint_failed ''sandboxes.id'')
      else Inr ((), db\<lparr> db_sandboxes := db_sandboxes db @ [x] \<rparr>))"

definition repo_CreateSandbox :: "orch_env \<Rightarrow> Sandbox \<Rightarrow> (go_error + unit) orch" where
  "repo_CreateSandbox E sbx = do {
     now \<leftarrow> time_Now E;
     let created = (if sb_CreatedAt sbx = zero_time then now else sb_CreatedAt sbx) in
     stmt E (insert_sandbox \<lparr> sx_id = sb_ID sbx, sx_spec = sb_Spec sbx,
       sx_status = SandboxStatus_json (sb_Status sbx), sx_created_at = created, sx_updated_at = now \<rparr>) }"

definition scan_sandbox :: "sandbox_row \<Rightarrow> Sandbox" where
  "scan_sandbox x = \<lparr> sb_ID = sx_id x, sb_Spec = sx_spec x, sb_Status = SandboxStatus_json (sx_status x),
     sb_CreatedAt = sx_created_at x, sb_UpdatedAt = sx_updated_at x \<rparr>"

definition select_sandbox :: "string \<Rightarrow> orch_db \<Rightarrow> Sandbox option" where
  "select_sandbox sid db = map_option scan_sandbox (find (\<lambda>x. sx_id x = sid) (db_sandboxes db))"

definition repo_GetSandbox :: "orch_env \<Rightarrow> string \<Rightarrow> (go_error + Sandbox) orch" where
  "repo_GetSandbox E sid = bindE (query E (select_sandbox sid)) (\<lambda>r. ret (one_row r))"

definition select_sandboxes :: "orch_db \<Rightarrow> Sandbox list" where
  "select_sandboxes db =
     map scan_sandbox (sort_slice (\<lambda>a b. rfc3339_less (sx_created_at a) (sx_created_at b)) (db_sandboxes db))"

definition repo_ListSandboxes :: "orch_env \<Rightarrow> (go_error + Sandbox list) orch" where
  "repo_ListSandboxes E = query E select_sandboxes"

definition set_status_where :: "(sandbox_row \<Rightarrow> bool) \<Rightarrow> SandboxStatus \<Rightarrow> int \<Rightarrow> orch_db \<Rightarrow> orch_db" where
  "set_status_where P st now = db_sandboxes_update (update_where P
     (\<lambda>x. x\<lparr> sx_status := SandboxStatus_json st, sx_updated_at := now \<rparr>))"

definition UpdateSandboxStatus :: "orch_env \<Rightarrow> string \<Rightarrow> SandboxStatus \<Rightarrow> (go_error + unit) orch" where
  "UpdateSandboxStatus E sid st = do {
     now \<leftarrow> time_Now E;
     change E (set_status_where (\<lambda>x. sx_id x = sid) st now) }"

definition UpdateSandboxStatusIfUnchanged ::
  "orch_env \<Rightarrow> string \<Rightarrow> SandboxStatus \<Rightarrow> int \<Rightarrow> (go_error + bool) orch" where
  "UpdateSandboxStatusIfUnchanged E sid st expectedUpdatedAt = do {
     now \<leftarrow> time_Now E;
     let P = (\<lambda>x. sx_id x = sid \<and> sx_updated_at x = expectedUpdatedAt) in
     stmt E (\<lambda>db. let affected = length (filter P (db_sandboxes db))
                  in Inr (affected = 1, set_status_where P st now db)) }"

text \<open>Deleting a row of \<open>sandboxes\<close> deletes the ports that reference it.\<close>

definition delete_sandbox_row :: "string \<Rightarrow> orch_db \<Rightarrow> orch_db" where
  "delete_sandbox_row sid db = db\<lparr> db_sandboxes := delete_where (\<lambda>x. sx_id x = sid) (db_sandboxes db),
     db_ports := delete_where (\<lambda>p. po_sandbox_id p = sid) (db_ports db) \<rparr>"

definition ReleaseSandboxPorts :: "orch_env \<Rightarrow> string \<Rightarrow> (go_error + unit) orch" where
  "ReleaseSandboxPorts E sid = change E (db_ports_update (delete_where (\<lambda>p. po_sandbox_id p = sid)))"

definition repo_DeleteSandbox :: "orch_env \<Rightarrow> string \<Rightarrow> (go_error + unit) orch" where
  "repo_DeleteSandbox E sid =
     bindE (change E (db_ports_update (delete_where (\<lambda>p. po_sandbox_id p = sid))))
     (\<lambda>_. change E (delete_sandbox_row sid))"

definition insert_port :: "sandbox_port_row \<Rightarrow> orch_db \<Rightarrow> go_error + unit \<times> orch_db" where
  "insert_port p db =
     (if (po_node_name p, po_host_port p) \<in> (\<lambda>q. (po_node_name q, po_host_port q)) ` set (db_ports db) then
        Inl (constraint_failed ''sandbox_ports.node_name, sandbox_ports.host_port'')
      else if po_sandbox_id p \<notin> sx_id ` set (db_sandboxes db) then Inl (constraint_failed ''FOREIGN KEY'')
      else Inr ((), db\<lparr> db_ports := db_ports db @ [p] \<rparr>))"

text \<open>The two loops of the reservation: check that no port is taken, then insert the rows.\<close>

fun check_ports :: "orch_env \<Rightarrow> string \<Rightarrow> SandboxPortAssign list \<Rightarrow> (go_error + unit) orch" where
  "check_ports E nodeName [] = ret (Inr ())"
| "check_ports E nodeName (p # ps) =
     bindE (query E (\<lambda>db. length (filter (\<lambda>q. po_node_name q = nodeName \<and> po_host_port q = pa_HostPort p) (db_ports db))))
     (\<lambda>cnt. if cnt > 0 then
         ret (Inl (Errorf ''%w: host port already reserved on node %s: %d''
           [Wrap ErrPortReservationConflict, Str nodeName, Dec (pa_HostPort p)]))
       else check_ports E nodeName ps)"

fun insert_ports :: "orch_env \<Rightarrow> string \<Rightarrow> string \<Rightarrow> SandboxPortAssign list \<Rightarrow> (go_error + unit) orch" where
  "insert_ports E sandboxID nodeName [] = ret (Inr ())"
| "insert_ports E sandboxID nodeName (p # ps) = do {
     now \<leftarrow> time_Now E;
     r \<leftarrow> stmt E (insert_port \<lparr> po_sandbox_id = sandboxID, po_node_name = nodeName, po_host_port = pa_HostPort p,
       po_container_port = pa_ContainerPort p, po_protocol = pa_Protocol p, po_created_at = now \<rparr>);
     case r of
       Inl err \<Rightarrow> ret (Inl (Errorf ''%w: %v'' [Wrap ErrPortReservationConflict, Val err]))
     | Inr _ \<Rightarrow> insert_ports E sandboxID nodeName ps }"

definition ReserveSandboxPortsAndSchedule ::
  "orch_env \<Rightarrow> string \<Rightarrow> string \<Rightarrow> SandboxPortAssign list \<Rightarrow> (go_error + unit) orch" where
  "ReserveSandboxPortsAndSchedule E sandboxID nodeName ports =
     transaction E
       (bindE (check_ports E nodeName ports)
       (\<lambda>_. bindE (insert_ports E sandboxID nodeName ports)
       (\<lambda>_. bindE (repo_GetSandbox E sandboxID)
       (\<lambda>sbx. UpdateSandboxStatus E sandboxID ((sb_Status sbx)\<lparr> st_NodeName := nodeName,
          st_Phase := SandboxPhaseScheduled, st_AssignedPorts := ports \<rparr>)))))"

definition NodeUsedHostPorts :: "orch_env \<Rightarrow> string \<Rightarrow> (go_error + int list) orch" where
  "NodeUsedHostPorts E nodeName =
     query E (\<lambda>db. map po_host_port (filter (\<lambda>p. po_node_name p = nodeName) (db_ports db)))"

end
