(* ===== verification/Orch_Store.thy ===== *)
theory Orch_Store
  imports Orch_Repo
begin

text \<open>
  Laws of the store. The locale \<open>db_relation\<close> lifts a reflexive and transitive relation between
  databases to computations: single statements, transactions and everything composed of them.
  \<open>sandbox_repo\<close> and \<open>node_repo\<close> are the contracts of the two Go interfaces \<open>SandboxRepo\<close> and
  \<open>NodeRepo\<close>: each of their operations keeps the relation. The services are proved against these
  contracts; the interpretations at the end show that the store implements them for the integrity
  of the database and for the identity of the stored sandboxes.
\<close>

section \<open>Tables\<close>

lemma update_where_key [simp]:
  "(\<And>r. P r \<Longrightarrow> key (f r) = key r) \<Longrightarrow> map key (update_where P f rows) = map key rows"
  by (simp add: update_where_def)

lemma set_update_where_key [simp]:
  "(\<And>r. P r \<Longrightarrow> key (f r) = key r) \<Longrightarrow> key ` set (update_where P f rows) = key ` set rows"
  by (metis set_map update_where_key)

lemma update_where_Nil [simp]: "update_where P f [] = []"
  by (simp add: update_where_def)

lemma set_delete_where [simp]: "set (delete_where P rows) = {r \<in> set rows. \<not> P r}"
  by (auto simp: delete_where_def)

lemma image_other_keys [simp]: "key ` {r \<in> S. key r \<noteq> k} = key ` S - {k}"
  by auto

lemma ball_update_where:
  assumes "\<forall>r \<in> set rows. C r" and "\<And>r. r \<in> set rows \<Longrightarrow> P r \<Longrightarrow> C (f r)"
  shows "\<forall>r \<in> set (update_where P f rows). C r"
  using assms by (auto simp: update_where_def)

lemma distinct_delete_where [simp]: "distinct (map key rows) \<Longrightarrow> distinct (map key (delete_where P rows))"
  by (simp add: delete_where_def distinct_map_filter)

lemma distinct_upsert:
  assumes "distinct (map key rows)" and "\<And>r. P r \<longleftrightarrow> key r = k" and "key new = k"
    and "\<And>r. P r \<Longrightarrow> key (f r) = key r"
  shows "distinct (map key (upsert P f new rows))"
proof (cases "list_ex P rows")
  case True
  have "map key (update_where P f rows) = map key rows"
    by (rule update_where_key) (rule assms(4))
  with True assms(1) show ?thesis by (simp add: upsert_def)
qed (use assms in \<open>auto simp: upsert_def list_ex_iff\<close>)

lemma set_upsert_key:
  assumes "\<And>r. P r \<longleftrightarrow> key r = k" and "key new = k" and "\<And>r. P r \<Longrightarrow> key (f r) = key r"
  shows "key ` set (upsert P f new rows) = insert k (key ` set rows)"
proof (cases "list_ex P rows")
  case True
  have "key ` set (update_where P f rows) = key ` set rows"
    by (rule set_update_where_key) (rule assms(3))
  with True assms(1) show ?thesis by (auto simp: upsert_def list_ex_iff image_iff)
qed (use assms in \<open>auto simp: upsert_def list_ex_iff\<close>)

lemma find_update_where:
  assumes "\<And>r. P r \<Longrightarrow> key (f r) = key r" and "\<And>r. P r \<longleftrightarrow> key r = k"
  shows "find (\<lambda>r. key r = k) (update_where P f rows) = map_option f (find (\<lambda>r. key r = k) rows)"
  using assms by (induction rows) (auto simp: update_where_def)

lemma find_append: "find P (xs @ ys) = (case find P xs of None \<Rightarrow> find P ys | Some x \<Rightarrow> Some x)"
  by (induction xs) auto

lemma find_update_where_other:
  assumes "\<And>r. P r \<Longrightarrow> key r \<noteq> k" and "\<And>r. P r \<Longrightarrow> key (f r) = key r"
  shows "find (\<lambda>r. key r = k) (update_where P f rows) = find (\<lambda>r. key r = k) rows"
  using assms by (induction rows) (auto simp: update_where_def)

lemma find_SomeD: "find P xs = Some x \<Longrightarrow> P x \<and> x \<in> set xs"
  by (induction xs) (auto split: if_splits)

lemma find_key_Some: "find (\<lambda>r. key r = k) rows = Some r \<Longrightarrow> r \<in> set rows \<and> key r = k"
  by (auto simp: find_Some_iff in_set_conv_nth)

lemma find_key_distinct:
  "distinct (map key rows) \<Longrightarrow> r \<in> set rows \<Longrightarrow> find (\<lambda>x. key x = key r) rows = Some r"
  by (induction rows) (auto simp: image_iff)

section \<open>Relations between databases\<close>

locale db_relation =
  fixes Q :: "orch_db \<Rightarrow> orch_db \<Rightarrow> bool"
  assumes Q_refl: "Q db db"
    and Q_trans: "Q db db' \<Longrightarrow> Q db' db'' \<Longrightarrow> Q db db''"
begin

lemma eff_db: "effect_rel (\<lambda>s t. Q (os_db s) (os_db t))"
  by unfold_locales (auto intro: Q_refl Q_trans)

end

sublocale db_relation \<subseteq> eff: effect_rel "\<lambda>s t. Q (os_db s) (os_db t)"
  by (rule eff_db)

context db_relation
begin

lemmas db_intros = eff.eff_ret eff.eff_gets eff.eff_bind eff.eff_if eff.eff_case_option eff.eff_case_sum
  eff.eff_case_prod eff.eff_case_list eff.eff_bindE eff.eff_let eff.eff_for_each eff.eff_for_ret

abbreviation keeps_db :: "'a orch \<Rightarrow> bool" where
  "keeps_db m \<equiv> state_io_rel (\<lambda>s t. Q (os_db s) (os_db t)) m"

lemma db_modify: "(\<And>s. os_db (g s) = os_db s) \<Longrightarrow> keeps_db (modify g)"
  by (rule state_io_relI) (auto simp: Q_refl)

lemma db_tick: "keeps_db tick"
  by (rule state_io_relI) (auto simp: tick_def Q_refl)

lemma db_time_Now: "keeps_db (time_Now E)"
  unfolding time_Now_def by (intro db_intros db_tick)

lemma db_stmt:
  assumes "\<And>db x db'. f db = Inr (x, db') \<Longrightarrow> Q db db'"
  shows "keeps_db (stmt E f)"
proof (rule state_io_relI)
  fix s v t
  assume "run_state (stmt E f) s = (v, t)"
  then show "Q (os_db s) (os_db t)"
    using assms [of "os_db s"] Q_refl
    by (auto simp: stmt_def tick_def split: option.splits sum.splits prod.splits)
qed

lemma db_query: "keeps_db (query E g)"
  unfolding query_def by (rule db_stmt) (auto simp: Q_refl)

lemma db_change: "(\<And>db. Q db (h db)) \<Longrightarrow> keeps_db (change E h)"
  unfolding change_def by (rule db_stmt) auto

lemma db_transaction:
  assumes "keeps_db body"
  shows "keeps_db (transaction E body)"
proof (rule state_io_relI)
  fix s v t
  assume run: "run_state (transaction E body) s = (v, t)"
  let ?m = "bindE (query E (\<lambda>_. ())) (\<lambda>_. bindE body (\<lambda>x. bindE (query E (\<lambda>_. ())) (\<lambda>_. ret (Inr x))))"
  have "keeps_db ?m" by (intro db_intros db_query assms)
  then have "Q (os_db s) (os_db (exec ?m s))"
    by (auto simp: state_io_rel_def)
  with run show "Q (os_db s) (os_db t)"
    by (auto simp: transaction_def Q_refl split: prod.splits sum.splits)
qed

lemma db_GetNode: "keeps_db (GetNode E nid)"
  unfolding GetNode_def by (intro db_intros db_query)

lemma db_ListNodes: "keeps_db (repo_ListNodes E)"
  unfolding repo_ListNodes_def by (intro db_query)

lemma db_GetSandbox: "keeps_db (repo_GetSandbox E sid)"
  unfolding repo_GetSandbox_def by (intro db_intros db_query)

lemma db_ListSandboxes: "keeps_db (repo_ListSandboxes E)"
  unfolding repo_ListSandboxes_def by (intro db_query)

lemma db_NodeUsedHostPorts: "keeps_db (NodeUsedHostPorts E n)"
  unfolding NodeUsedHostPorts_def by (intro db_query)

lemma db_check_ports: "keeps_db (check_ports E n ps)"
  by (induction ps) (auto intro!: db_intros db_query)

lemma db_insert_ports:
  assumes "\<And>p db db'. insert_port p db = Inr ((), db') \<Longrightarrow> Q db db'"
  shows "keeps_db (insert_ports E sid n ps)"
  by (induction ps) (auto intro!: db_intros db_time_Now db_stmt assms)

lemmas db_reads = db_GetNode db_ListNodes db_GetSandbox db_ListSandboxes db_NodeUsedHostPorts
  db_tick db_time_Now db_query

end

section \<open>The contracts\<close>

text \<open>What the operations of \<open>SandboxRepo\<close>, except \<open>CreateSandbox\<close>, and of the usage counters keep.\<close>

locale sandbox_repo = db_relation +
  assumes op_UpdateSandboxStatus: "keeps_db (UpdateSandboxStatus E sid st)"
    and op_UpdateSandboxStatusIfUnchanged: "keeps_db (UpdateSandboxStatusIfUnchanged E sid st upd)"
    and op_DeleteSandbox: "keeps_db (repo_DeleteSandbox E sid)"
    and op_Reserve: "keeps_db (ReserveSandboxPortsAndSchedule E sid n ps)"
    and op_ReleaseSandboxPorts: "keeps_db (ReleaseSandboxPorts E sid)"
    and op_AdjustNodeResourceUsage: "keeps_db (AdjustNodeResourceUsage E n c m)"
begin

lemmas sandbox_repo_ops = op_UpdateSandboxStatus op_UpdateSandboxStatusIfUnchanged op_DeleteSandbox
  op_Reserve op_ReleaseSandboxPorts op_AdjustNodeResourceUsage

end

text \<open>What the operations of \<open>NodeRepo\<close> keep.\<close>

locale node_repo = sandbox_repo +
  assumes op_UpsertNode: "keeps_db (UpsertNode E nid ip port u labels source)"
    and op_DeleteNode: "keeps_db (repo_DeleteNode E nid)"
    and op_SetNodeUnschedulable: "keeps_db (SetNodeUnschedulable E nid u)"
    and op_UpdateHeartbeat: "keeps_db (UpdateHeartbeat E nid state ss fs e b)"
    and op_UpdateNodeResources: "keeps_db (UpdateNodeResources E nid res)"
    and op_SetNodeExternal: "keeps_db (SetNodeExternal E xid nid x)"
    and op_DeleteNodeExternal: "keeps_db (DeleteNodeExternal E nid)"
    and op_DeleteExternal: "keeps_db (repo_DeleteExternal E xid)"
begin

lemmas node_repo_ops = op_UpsertNode op_DeleteNode op_SetNodeUnschedulable op_UpdateHeartbeat
  op_UpdateNodeResources op_SetNodeExternal op_DeleteNodeExternal op_DeleteExternal

end

text \<open>A contract that also covers the insertion of sandboxes.\<close>

locale full_repo = node_repo +
  assumes op_CreateSandbox: "keeps_db (repo_CreateSandbox E sbx)"

text \<open>
  A relation that every single SQL statement of the package keeps is kept by every operation: the
  statements are the ones with which \<open>node_repo.go\<close> and \<open>sandbox_repo.go\<close> change the tables.
\<close>

locale sql_statements = db_relation +
  assumes Q_upsert_node: "nd_name new = k \<Longrightarrow> (\<And>r. nd_name r = k \<Longrightarrow> nd_name (f r) = k) \<Longrightarrow>
      Q db (db_nodes_update (upsert (\<lambda>r. nd_name r = k) f new) db)"
    and Q_update_nodes: "(\<And>r. nd_name (f r) = nd_name r) \<Longrightarrow> Q db (db_nodes_update (update_where P f) db)"
    and Q_delete_node: "Q db (delete_node_row nid db)"
    and Q_upsert_status: "hb_name newh = k \<Longrightarrow> (\<And>r. hb_name r = k \<Longrightarrow> hb_name (h r) = k) \<Longrightarrow>
      Q db (db_status_update (upsert (\<lambda>r. hb_name r = k) h newh) db)"
    and Q_delete_status: "Q db (db_status_update (delete_where S) db)"
    and Q_upsert_resources: "rr_name newr = k \<Longrightarrow> (\<And>r. rr_name r = k \<Longrightarrow> rr_name (g r) = k) \<Longrightarrow>
      Q db (db_resources_update (upsert (\<lambda>r. rr_name r = k) g newr) db)"
    and Q_update_resources: "(\<And>r. rr_name (g r) = rr_name r) \<Longrightarrow> Q db (db_resources_update (update_where R g) db)"
    and Q_delete_resources: "Q db (db_resources_update (delete_where R) db)"
    and Q_insert_external: "insert_external x db = Inr (u, db') \<Longrightarrow> Q db db'"
    and Q_update_externals: "(\<And>x. xt_external_id (e x) = xt_external_id x) \<Longrightarrow>
      (\<And>x. xt_node_id (e x) = xt_node_id x) \<Longrightarrow> Q db (db_externals_update (update_where X e) db)"
    and Q_delete_externals: "Q db (db_externals_update (delete_where X) db)"
    and Q_update_sandboxes: "Q db (set_status_where Z st now db)"
    and Q_delete_sandbox: "Q db (delete_sandbox_row sid db)"
    and Q_insert_port: "insert_port p db = Inr (u, db') \<Longrightarrow> Q db db'"
    and Q_delete_ports: "Q db (db_ports_update (delete_where O') db)"
begin

lemma Q_set_external: "Q db (set_resources_external n x now db)"
  unfolding set_resources_external_def by (rule Q_update_resources) simp

lemma stmt_UpdateIfUnchanged:
  "keeps_db (stmt E (\<lambda>db. let affected = length (filter Z (db_sandboxes db)) in Inr (affected = 1, set_status_where Z st now db)))"
  by (rule db_stmt) (auto simp: Let_def Q_update_sandboxes)

lemmas stmt_intros = db_intros db_change db_stmt db_query db_time_Now db_transaction Q_set_external
  Q_delete_node Q_delete_status Q_delete_resources Q_delete_externals Q_update_sandboxes
  Q_delete_sandbox Q_delete_ports stmt_UpdateIfUnchanged

lemma node_repo_contract: "node_repo Q"
proof unfold_locales
  fix E sid st upd n ps c m nid ip port u labels source state ss fs e b res xid x
  show "keeps_db (UpdateSandboxStatus E sid st)"
    unfolding UpdateSandboxStatus_def by (intro stmt_intros)
  show "keeps_db (UpdateSandboxStatusIfUnchanged E sid st upd)"
    unfolding UpdateSandboxStatusIfUnchanged_def by (intro db_intros db_time_Now stmt_UpdateIfUnchanged)
  show "keeps_db (repo_DeleteSandbox E sid)"
    unfolding repo_DeleteSandbox_def by (intro stmt_intros)
  show "keeps_db (ReserveSandboxPortsAndSchedule E sid n ps)"
    unfolding ReserveSandboxPortsAndSchedule_def UpdateSandboxStatus_def
    by (intro stmt_intros db_check_ports db_insert_ports db_GetSandbox Q_insert_port)
  show "keeps_db (ReleaseSandboxPorts E sid)"
    unfolding ReleaseSandboxPorts_def by (intro stmt_intros)
  show "keeps_db (AdjustNodeResourceUsage E n c m)"
    unfolding AdjustNodeResourceUsage_def by (intro stmt_intros Q_update_resources) simp
  show "keeps_db (UpsertNode E nid ip port u labels source)"
    unfolding UpsertNode_def
    by (intro stmt_intros Q_upsert_node Q_upsert_status Q_upsert_resources) simp_all
  show "keeps_db (repo_DeleteNode E nid)"
    unfolding repo_DeleteNode_def by (intro stmt_intros)
  show "keeps_db (SetNodeUnschedulable E nid u)"
    unfolding SetNodeUnschedulable_def by (intro stmt_intros Q_update_nodes) simp
  show "keeps_db (UpdateHeartbeat E nid state ss fs e b)"
    unfolding UpdateHeartbeat_def Let_def by (intro stmt_intros Q_upsert_status) simp_all
  show "keeps_db (UpdateNodeResources E nid res)"
    unfolding UpdateNodeResources_def Let_def by (intro stmt_intros Q_upsert_resources) simp_all
  show "keeps_db (SetNodeExternal E xid nid x)"
    unfolding SetNodeExternal_def by (intro stmt_intros Q_update_externals Q_insert_external) simp_all
  show "keeps_db (DeleteNodeExternal E nid)"
    unfolding DeleteNodeExternal_def by (intro stmt_intros)
  show "keeps_db (repo_DeleteExternal E xid)"
    unfolding repo_DeleteExternal_def by (intro stmt_intros)
qed

end

sublocale sql_statements \<subseteq> node_repo
  by (rule node_repo_contract)

locale sql_all = sql_statements +
  assumes Q_insert_sandbox: "TrimSpace (st_External (sx_status y)) = st_External (sx_status y) \<Longrightarrow>
    insert_sandbox y db = Inr (u, db') \<Longrightarrow> Q db db'"
begin

lemma full_repo_contract: "full_repo Q"
proof unfold_locales
  fix E sbx
  show "keeps_db (repo_CreateSandbox E sbx)"
    unfolding repo_CreateSandbox_def Let_def
    by (intro stmt_intros, erule Q_insert_sandbox [rotated]) (simp add: SandboxStatus_json_def)
qed

end

sublocale sql_all \<subseteq> full_repo
  by (rule full_repo_contract)

section \<open>Integrity of the database\<close>

text \<open>
  The constraints of the schema as an invariant: names, ids, host ports per node and external
  bindings are unique, and the foreign keys of ports and externals refer to existing rows. The
  last conjunct is about the stored values: the external address of a status has no blanks at its
  ends.
\<close>

definition port_key :: "sandbox_port_row \<Rightarrow> string \<times> int" where
  "port_key p = (po_node_name p, po_host_port p)"

definition db_wf :: "orch_db \<Rightarrow> bool" where
  "db_wf db \<longleftrightarrow>
     distinct (map nd_name (db_nodes db)) \<and> distinct (map hb_name (db_status db)) \<and>
     distinct (map rr_name (db_resources db)) \<and> distinct (map sx_id (db_sandboxes db)) \<and>
     distinct (map port_key (db_ports db)) \<and>
     distinct (map xt_external_id (db_externals db)) \<and> distinct (map xt_node_id (db_externals db)) \<and>
     (\<forall>p \<in> set (db_ports db). po_sandbox_id p \<in> sx_id ` set (db_sandboxes db)) \<and>
     (\<forall>x \<in> set (db_externals db). xt_node_id x \<in> nd_name ` set (db_nodes db)) \<and>
     (\<forall>x \<in> set (db_sandboxes db). TrimSpace (st_External (sx_status x)) = st_External (sx_status x))"

lemma db_wf_empty: "db_wf empty_db"
  by (simp add: db_wf_def empty_db_def)

definition keeps_wf :: "orch_db \<Rightarrow> orch_db \<Rightarrow> bool" where
  "keeps_wf db db' \<longleftrightarrow> (db_wf db \<longrightarrow> db_wf db')"

lemma keeps_wfI: "(db_wf db \<Longrightarrow> db_wf db') \<Longrightarrow> keeps_wf db db'"
  by (simp add: keeps_wf_def)

lemma keeps_wf_refl: "keeps_wf db db"
  by (simp add: keeps_wf_def)

lemma keeps_wf_trans: "keeps_wf db db' \<Longrightarrow> keeps_wf db' db'' \<Longrightarrow> keeps_wf db db''"
  by (simp add: keeps_wf_def)

lemma wf_nodes_upsert:
  assumes "\<And>r. nd_name r = k \<Longrightarrow> nd_name (f r) = k" and "nd_name new = k"
  shows "keeps_wf db (db_nodes_update (upsert (\<lambda>r. nd_name r = k) f new) db)"
proof (rule keeps_wfI)
  assume wf: "db_wf db"
  let ?rows = "upsert (\<lambda>r. nd_name r = k) f new (db_nodes db)"
  have "nd_name ` set ?rows = insert k (nd_name ` set (db_nodes db))"
    by (rule set_upsert_key) (use assms in auto)
  moreover have "distinct (map nd_name ?rows)"
    by (rule distinct_upsert [where k = k]) (use assms wf in \<open>auto simp: db_wf_def\<close>)
  ultimately show "db_wf (db_nodes_update (upsert (\<lambda>r. nd_name r = k) f new) db)"
    using wf by (auto simp: db_wf_def)
qed

lemma wf_status_upsert:
  assumes "\<And>r. hb_name r = k \<Longrightarrow> hb_name (f r) = k" and "hb_name new = k"
  shows "keeps_wf db (db_status_update (upsert (\<lambda>r. hb_name r = k) f new) db)"
  by (rule keeps_wfI) (use assms in \<open>auto simp: db_wf_def intro!: distinct_upsert [where k = k]\<close>)

lemma wf_resources_upsert:
  assumes "\<And>r. rr_name r = k \<Longrightarrow> rr_name (f r) = k" and "rr_name new = k"
  shows "keeps_wf db (db_resources_update (upsert (\<lambda>r. rr_name r = k) f new) db)"
  by (rule keeps_wfI) (use assms in \<open>auto simp: db_wf_def intro!: distinct_upsert [where k = k]\<close>)

lemma wf_updates:
  "(\<And>r. P r \<Longrightarrow> nd_name (f r) = nd_name r) \<Longrightarrow> keeps_wf db (db_nodes_update (update_where P f) db)"
  "(\<And>r. R r \<Longrightarrow> rr_name (g r) = rr_name r) \<Longrightarrow> keeps_wf db (db_resources_update (update_where R g) db)"
  by (auto intro!: keeps_wfI simp: db_wf_def)

lemma wf_externals_update:
  assumes "\<And>x. X x \<Longrightarrow> xt_external_id (h x) = xt_external_id x" and "\<And>x. X x \<Longrightarrow> xt_node_id (h x) = xt_node_id x"
  shows "keeps_wf db (db_externals_update (update_where X h) db)"
proof (rule keeps_wfI)
  assume wf: "db_wf db"
  then have "\<forall>x \<in> set (update_where X h (db_externals db)). xt_node_id x \<in> nd_name ` set (db_nodes db)"
    by (intro ball_update_where) (auto simp: db_wf_def assms)
  with wf show "db_wf (db_externals_update (update_where X h) db)"
    by (simp add: db_wf_def assms)
qed

lemma wf_deletes:
  "keeps_wf db (db_ports_update (delete_where P) db)"
  "keeps_wf db (db_resources_update (delete_where R) db)"
  "keeps_wf db (db_status_update (delete_where S) db)"
  "keeps_wf db (db_externals_update (delete_where X) db)"
  "keeps_wf db (delete_node_row nid db)"
  "keeps_wf db (delete_sandbox_row sid db)"
  by (auto intro!: keeps_wfI simp: db_wf_def delete_node_row_def delete_sandbox_row_def)

lemma wf_set_status: "keeps_wf db (set_status_where P st now db)"
proof (rule keeps_wfI)
  assume wf: "db_wf db"
  let ?f = "\<lambda>x. x\<lparr> sx_status := SandboxStatus_json st, sx_updated_at := now \<rparr>"
  have "\<forall>x \<in> set (update_where P ?f (db_sandboxes db)).
      TrimSpace (st_External (sx_status x)) = st_External (sx_status x)"
    using wf by (intro ball_update_where) (auto simp: db_wf_def SandboxStatus_json_def)
  with wf show "db_wf (set_status_where P st now db)"
    by (simp add: db_wf_def set_status_where_def)
qed

lemma wf_set_external: "keeps_wf db (set_resources_external n x now db)"
  unfolding set_resources_external_def by (rule wf_updates) simp

lemma wf_inserts:
  "insert_external x db = Inr (u, db') \<Longrightarrow> keeps_wf db db'"
  "insert_port p db = Inr (u, db') \<Longrightarrow> keeps_wf db db'"
  by (auto intro!: keeps_wfI simp: db_wf_def insert_external_def insert_port_def port_key_def split: if_splits)

lemma wf_insert_sandbox:
  "insert_sandbox x db = Inr (u, db') \<Longrightarrow> TrimSpace (st_External (sx_status x)) = st_External (sx_status x) \<Longrightarrow>
   keeps_wf db db'"
  by (auto intro!: keeps_wfI simp: db_wf_def insert_sandbox_def split: if_splits)

interpretation wf_repo: sql_all keeps_wf
  by unfold_locales
    (auto intro: keeps_wf_refl keeps_wf_trans wf_nodes_upsert wf_status_upsert wf_resources_upsert
      wf_updates wf_externals_update wf_deletes wf_set_status wf_inserts wf_insert_sandbox)

section \<open>Identity of the sandboxes\<close>

text \<open>
  What no operation but the creation changes: which sandboxes there are, except that one may be
  deleted, and the specification and the creation time of each.
\<close>

definition sandbox_identity :: "sandbox_row \<Rightarrow> string \<times> SandboxSpec \<times> int" where
  "sandbox_identity x = (sx_id x, sx_spec x, sx_created_at x)"

definition no_new_sandbox :: "orch_db \<Rightarrow> orch_db \<Rightarrow> bool" where
  "no_new_sandbox db db' \<longleftrightarrow>
     sandbox_identity ` set (db_sandboxes db') \<subseteq> sandbox_identity ` set (db_sandboxes db)"

lemma set_status_identity:
  "sandbox_identity ` set (db_sandboxes (set_status_where P st now db)) = sandbox_identity ` set (db_sandboxes db)"
  by (simp add: set_status_where_def sandbox_identity_def)

interpretation id_repo: sql_statements no_new_sandbox
  by unfold_locales
    (auto simp: no_new_sandbox_def set_status_identity delete_node_row_def delete_sandbox_row_def
      insert_external_def insert_port_def split: if_splits)

end
