(* ===== verification/Orch_Validate.thy ===== *)
theory Orch_Validate
  imports Orch_Types Orch_Client
begin

text \<open>
  The checks the orchestrator makes on its input: \<open>service/validation.go\<close> for nodes, with the part
  of package \<open>net\<close> it uses, and \<open>validateSandboxCreate\<close> of \<open>service/sandbox_ops.go\<close> for sandboxes.
\<close>

definition ErrInvalidInput :: go_error where
  "ErrInvalidInput = ErrNew ''invalid input''"

definition invalid :: "string \<Rightarrow> go_error" where
  "invalid msg = Errorf (''%w: '' @ msg) [Wrap ErrInvalidInput]"

section \<open>net.ParseIP\<close>

text \<open>An address is its 16 bytes; an IPv4 address is the last 4 of them after a fixed prefix.\<close>

definition v4_prefix :: "nat list" where
  "v4_prefix = replicate 10 0 @ [255, 255]"

definition v4_field :: "string \<Rightarrow> nat option" where
  "v4_field f =
     (if f = [] \<or> \<not> list_all is_digit f \<or> length f > 3 then None
      else if length f > 1 \<and> hd f = CHR ''0'' then None
      else let v = nat (digits_val 10 f) in if v > 255 then None else Some v)"

definition parse_v4 :: "string \<Rightarrow> nat list option" where
  "parse_v4 s = (case map v4_field (Split s (CHR ''.'')) of
     [Some a, Some b, Some c, Some d] \<Rightarrow> Some [a, b, c, d] | _ \<Rightarrow> None)"

definition hex_val :: "char \<Rightarrow> nat option" where
  "hex_val c = (let n = of_char c in
     if 48 \<le> n \<and> n \<le> 57 then Some (n - 48)
     else if 97 \<le> n \<and> n \<le> 102 then Some (n - 87)
     else if 65 \<le> n \<and> n \<le> 70 then Some (n - 55) else None)"

definition hex_group :: "string \<Rightarrow> string" where
  "hex_group s = takeWhile (\<lambda>c. hex_val c \<noteq> None) s"

definition hex_num :: "string \<Rightarrow> nat" where
  "hex_num s = foldl (\<lambda>a c. 16 * a + the (hex_val c)) 0 s"

text \<open>
  The loop over the groups of an IPv6 address. \<open>k\<close> counts the groups still to come, \<open>bs\<close> are the
  bytes so far, \<open>ell\<close> is the position of the double colon. The result keeps what was not read.
\<close>

fun v6_groups :: "nat \<Rightarrow> nat list \<Rightarrow> nat option \<Rightarrow> string \<Rightarrow> (nat list \<times> nat option \<times> string) option" where
  "v6_groups 0 bs ell s = Some (bs, ell, s)"
| "v6_groups (Suc k) bs ell s =
     (let g = hex_group s; s1 = drop (length g) s in
      if g = [] \<or> length g > 4 then None
      else if s1 \<noteq> [] \<and> hd s1 = CHR ''.'' then
        (if ell = None \<and> length bs \<noteq> 12 then None
         else if length bs + 4 > 16 then None
         else (case parse_v4 s of None \<Rightarrow> None | Some b4 \<Rightarrow> Some (bs @ b4, ell, [])))
      else let bs1 = bs @ [hex_num g div 256, hex_num g mod 256] in
        (case s1 of
           [] \<Rightarrow> Some (bs1, ell, [])
         | c # s2 \<Rightarrow>
             if c \<noteq> CHR '':'' \<or> s2 = [] then None
             else if hd s2 = CHR '':'' then
               (if ell \<noteq> None then None
                else if tl s2 = [] then Some (bs1, Some (length bs1), [])
                else v6_groups k bs1 (Some (length bs1)) (tl s2))
             else v6_groups k bs1 ell s2))"

definition parse_v6 :: "string \<Rightarrow> nat list option" where
  "parse_v6 s =
     (let dc = HasPrefix s ''::''; s0 = (if dc then drop 2 s else s); ell0 = (if dc then Some 0 else None) in
      if dc \<and> s0 = [] then Some (replicate 16 0)
      else (case v6_groups 8 [] ell0 s0 of
          None \<Rightarrow> None
        | Some (bs, ell, rest) \<Rightarrow>
            if rest \<noteq> [] then None
            else if length bs < 16 then
              (case ell of None \<Rightarrow> None
               | Some e \<Rightarrow> Some (take e bs @ replicate (16 - length bs) 0 @ drop e bs))
            else if ell \<noteq> None then None else Some bs))"

text \<open>The first dot or colon decides the kind of the address; an address with a zone is refused.\<close>

definition ParseIP :: "string \<Rightarrow> nat list option" where
  "ParseIP s =
     (case find (\<lambda>c. c = CHR ''.'' \<or> c = CHR '':'' \<or> c = CHR ''%'') s of
        None \<Rightarrow> None
      | Some c \<Rightarrow>
          if c = CHR ''.'' then map_option (\<lambda>b. v4_prefix @ b) (parse_v4 s)
          else if c = CHR '':'' then (if CHR ''%'' \<in> set s then None else parse_v6 s)
          else None)"

definition To4 :: "nat list \<Rightarrow> nat list option" where
  "To4 ip = (if take 12 ip = v4_prefix then Some (drop 12 ip) else None)"

definition IsUnspecified :: "nat list \<Rightarrow> bool" where
  "IsUnspecified ip \<longleftrightarrow> ip = v4_prefix @ [0, 0, 0, 0] \<or> ip = replicate 16 0"

text \<open>The masks of the next predicates, as divisions and remainders of a byte.\<close>

definition IsMulticast :: "nat list \<Rightarrow> bool" where
  "IsMulticast ip = (case To4 ip of Some b \<Rightarrow> b ! 0 div 16 = 14 | None \<Rightarrow> ip ! 0 = 255)"

definition IsInterfaceLocalMulticast :: "nat list \<Rightarrow> bool" where
  "IsInterfaceLocalMulticast ip \<longleftrightarrow> ip ! 0 = 255 \<and> ip ! 1 mod 16 = 1"

definition IsLinkLocalMulticast :: "nat list \<Rightarrow> bool" where
  "IsLinkLocalMulticast ip =
     (case To4 ip of Some b \<Rightarrow> b ! 0 = 224 \<and> b ! 1 = 0 \<and> b ! 2 = 0 | None \<Rightarrow> ip ! 0 = 255 \<and> ip ! 1 mod 16 = 2)"

definition IsLinkLocalUnicast :: "nat list \<Rightarrow> bool" where
  "IsLinkLocalUnicast ip =
     (case To4 ip of Some b \<Rightarrow> b ! 0 = 169 \<and> b ! 1 = 254 | None \<Rightarrow> ip ! 0 = 254 \<and> ip ! 1 div 64 = 2)"

section \<open>validation.go\<close>

definition rejectUnsafeNodeIP :: "nat list \<Rightarrow> go_error option" where
  "rejectUnsafeNodeIP ip =
     (if IsUnspecified ip then Some (invalid ''unspecified ip is not allowed'')
      else if IsMulticast ip \<or> IsInterfaceLocalMulticast ip \<or> IsLinkLocalMulticast ip then
        Some (invalid ''multicast ip is not allowed'')
      else if IsLinkLocalUnicast ip then Some (invalid ''link-local ip is not allowed'')
      else None)"

definition validateNodeInput :: "string \<Rightarrow> string \<Rightarrow> int \<Rightarrow> go_error option" where
  "validateNodeInput nid ip port =
     (if TrimSpace nid = [] then Some (invalid ''id is required'')
      else (case ParseIP (TrimSpace ip) of
        None \<Rightarrow> Some (invalid ''invalid ip'')
      | Some parsed \<Rightarrow>
          (case rejectUnsafeNodeIP parsed of
             Some err \<Rightarrow> Some err
           | None \<Rightarrow> if port < 1 \<or> port > 65535 then Some (invalid ''invalid port'') else None)))"

section \<open>sandbox\_ops.go: validateSandboxCreate\<close>

definition parseCPUMilli :: "quantity_parser \<Rightarrow> string \<Rightarrow> go_error + int" where
  "parseCPUMilli pq raw = (case pq (TrimSpace raw) of Inl err \<Rightarrow> Inl err | Inr q \<Rightarrow> Inr (q_MilliValue q))"

definition parseMemoryBytes :: "quantity_parser \<Rightarrow> string \<Rightarrow> go_error + int" where
  "parseMemoryBytes pq raw = (case pq (TrimSpace raw) of Inl err \<Rightarrow> Inl err | Inr q \<Rightarrow> Inr (q_Value q))"

fun create_volumes :: "quantity_parser \<Rightarrow> SandboxVolumeSpec list \<Rightarrow> string list \<Rightarrow> go_error + string list" where
  "create_volumes pq [] known = Inr known"
| "create_volumes pq (v # vs) known =
     (let name = TrimSpace (sv_Name v) in
      if name = [] then Inl (invalid ''volume name is required'')
      else if \<not> safeVolumeNameRe name then
        Inl (Errorf ''%w: invalid volume name %s'' [Wrap ErrInvalidInput, Str (sv_Name v)])
      else if TrimSpace (sv_EphemeralStorage v) = [] then
        Inl (Errorf ''%w: volume %s ephemeral_storage is required'' [Wrap ErrInvalidInput, Str name])
      else (case parseMemoryBytes pq (sv_EphemeralStorage v) of
          Inl _ \<Rightarrow> Inl (Errorf ''%w: invalid ephemeral_storage for volume %s'' [Wrap ErrInvalidInput, Str name])
        | Inr sizeBytes \<Rightarrow>
            if sizeBytes \<le> 0 then
              Inl (Errorf ''%w: invalid ephemeral_storage for volume %s'' [Wrap ErrInvalidInput, Str name])
            else if name \<in> set known then
              Inl (Errorf ''%w: duplicate volume name %s'' [Wrap ErrInvalidInput, Str name])
            else create_volumes pq vs (name # known)))"

fun create_mounts :: "string list \<Rightarrow> string \<Rightarrow> SandboxVolumeMount list \<Rightarrow> string list \<Rightarrow> go_error + string list" where
  "create_mounts known cname [] seen = Inr seen"
| "create_mounts known cname (vm # vms) seen =
     (let volName = TrimSpace (svm_Name vm); mountPath = TrimSpace (svm_MountPath vm);
          args = [Wrap ErrInvalidInput, Str cname, Str volName] in
      if volName = [] then
        Inl (Errorf ''%w: container %s volume mount name is required'' [Wrap ErrInvalidInput, Str cname])
      else if volName \<notin> set known then Inl (Errorf ''%w: container %s references unknown volume %s'' args)
      else if mountPath = [] then Inl (Errorf ''%w: container %s mount_path is required for volume %s'' args)
      else if \<not> HasPrefix mountPath ''/'' then
        Inl (Errorf ''%w: container %s mount_path must be absolute for volume %s'' args)
      else if Clean mountPath \<noteq> mountPath then
        Inl (Errorf ''%w: container %s mount_path must be clean for volume %s'' args)
      else if mountPath = ''/'' then
        Inl (Errorf ''%w: container %s mount_path '/' is not allowed for volume %s'' args)
      else if mountPath = ''/tmp'' \<or> HasPrefix mountPath ''/tmp/'' then
        Inl (Errorf ''%w: container %s mount_path /tmp is reserved'' [Wrap ErrInvalidInput, Str cname])
      else if mountPath \<in> set seen then
        Inl (Errorf ''%w: container %s duplicate mount_path %s'' [Wrap ErrInvalidInput, Str cname, Str mountPath])
      else create_mounts known cname vms (mountPath # seen))"

fun create_tmpfs :: "string \<Rightarrow> SandboxTmpfsMount list \<Rightarrow> string list \<Rightarrow> go_error + string list" where
  "create_tmpfs cname [] seen = Inr seen"
| "create_tmpfs cname (tm # tms) seen =
     (let mountPath = TrimSpace (stm_MountPath tm); args = [Wrap ErrInvalidInput, Str cname] in
      if mountPath = [] then Inl (Errorf ''%w: container %s tmpfs mount_path is required'' args)
      else if \<not> HasPrefix mountPath ''/'' then
        Inl (Errorf ''%w: container %s tmpfs mount_path must be absolute'' args)
      else if Clean mountPath \<noteq> mountPath then
        Inl (Errorf ''%w: container %s tmpfs mount_path must be clean'' args)
      else if mountPath = ''/'' then
        Inl (Errorf ''%w: container %s tmpfs mount_path '/' is not allowed'' args)
      else if mountPath \<in> set seen then
        Inl (Errorf ''%w: container %s duplicate mount_path %s'' [Wrap ErrInvalidInput, Str cname, Str mountPath])
      else create_tmpfs cname tms (mountPath # seen))"

definition create_container :: "quantity_parser \<Rightarrow> string list \<Rightarrow> SandboxContainerSpec \<Rightarrow> go_error option" where
  "create_container pq known c =
     (case ValidateContainerName (sc_Name c) of
        Some err \<Rightarrow> Some (Errorf ''%w: %v'' [Wrap ErrInvalidInput, Val err])
      | None \<Rightarrow>
      if TrimSpace (sc_Image c) = [] then
        Some (Errorf ''%w: container %s image is required'' [Wrap ErrInvalidInput, Str (sc_Name c)])
      else if TrimSpace (sr_CPU (sc_Resource c)) = [] \<or> TrimSpace (sr_Memory (sc_Resource c)) = [] then
        Some (invalid ''container resource cpu/memory are required'')
      else if isl (parseCPUMilli pq (sr_CPU (sc_Resource c))) then
        Some (Errorf ''%w: invalid cpu for container %s'' [Wrap ErrInvalidInput, Str (sc_Name c)])
      else if isl (parseMemoryBytes pq (sr_Memory (sc_Resource c))) then
        Some (Errorf ''%w: invalid memory for container %s'' [Wrap ErrInvalidInput, Str (sc_Name c)])
      else if TrimSpace (sr_EphemeralStorage (sc_Resource c)) \<noteq> []
          \<and> isl (parseMemoryBytes pq (sr_EphemeralStorage (sc_Resource c))) then
        Some (Errorf ''%w: invalid ephemeral_storage for container %s'' [Wrap ErrInvalidInput, Str (sc_Name c)])
      else (case create_mounts known (sc_Name c) (sc_VolumeMounts c) [] of
          Inl err \<Rightarrow> Some err
        | Inr seen \<Rightarrow>
            (case create_tmpfs (sc_Name c) (sc_Tmpfs c) seen of
               Inl err \<Rightarrow> Some err
             | Inr _ \<Rightarrow> None)))"

definition create_port :: "SandboxPortSpec \<Rightarrow> go_error option" where
  "create_port p =
     (if sp_ContainerPort p < 1 \<or> sp_ContainerPort p > 65535 then Some (invalid ''invalid container port'')
      else let proto = ToLower (TrimSpace (sp_Protocol p)) in
      if proto = [] then None
      else if proto \<noteq> ''tcp'' \<and> proto \<noteq> ''udp'' then Some (invalid ''unsupported protocol'')
      else None)"

definition create_readiness :: "OrchReadinessProbeSpec \<Rightarrow> go_error option" where
  "create_readiness probe =
     (let proto = ToLower (TrimSpace (orp_Protocol probe)); path = TrimSpace (orp_Path probe) in
      if proto = [] then Some (invalid ''readiness_probe.protocol is required'')
      else if proto \<noteq> ''tcp'' \<and> proto \<noteq> ''http'' then
        Some (invalid ''readiness_probe.protocol must be tcp or http'')
      else if orp_Port probe < 1 \<or> orp_Port probe > 65535 then
        Some (invalid ''readiness_probe.port must be between 1 and 65535'')
      else if proto = ''http'' \<and> path = [] then
        Some (invalid ''readiness_probe.path is required when protocol is http'')
      else if proto = ''http'' \<and> \<not> HasPrefix path ''/'' then
        Some (invalid ''readiness_probe.path must start with '/' when protocol is http'')
      else if orp_InitialDelaySeconds probe < 1 then
        Some (invalid ''readiness_probe.initial_delay_seconds must be >= 1'')
      else if orp_PeriodSeconds probe < 1 then Some (invalid ''readiness_probe.period_seconds must be >= 1'')
      else if orp_TimeoutSeconds probe < 1 then Some (invalid ''readiness_probe.timeout_seconds must be >= 1'')
      else if orp_SuccessThreshold probe < 1 then
        Some (invalid ''readiness_probe.success_threshold must be >= 1'')
      else if orp_FailureThreshold probe < 1 then
        Some (invalid ''readiness_probe.failure_threshold must be >= 1'')
      else None)"

definition validateSandboxCreate :: "quantity_parser \<Rightarrow> CreateSandboxObjectRequest \<Rightarrow> go_error option" where
  "validateSandboxCreate pq req =
     (case ValidateSandboxID (co_ID req) of
        Some err \<Rightarrow> Some (Errorf ''%w: %v'' [Wrap ErrInvalidInput, Val err])
      | None \<Rightarrow>
      if list_ex (\<lambda>(key, _). TrimSpace key = []) (ss_NodeSelector (co_Spec req)) then
        Some (invalid ''node_selector key is required'')
      else if length (ss_Containers (co_Spec req)) = 0 then
        Some (invalid ''at least one container is required'')
      else if ss_TTLSeconds (co_Spec req) < 0 then Some (invalid ''ttl_seconds must be >= 0'')
      else (case create_volumes pq (ss_Volumes (co_Spec req)) [] of
          Inl err \<Rightarrow> Some err
        | Inr known \<Rightarrow>
      (case first_error (create_container pq known) (ss_Containers (co_Spec req)) of
          Some err \<Rightarrow> Some err
        | None \<Rightarrow>
      (case first_error create_port (ss_Ports (co_Spec req)) of
          Some err \<Rightarrow> Some err
        | None \<Rightarrow>
      (case ss_ReadinessProbe (co_Spec req) of None \<Rightarrow> None | Some probe \<Rightarrow> create_readiness probe)))))"

end
