(* ===== verification/Orch_Nodes.thy ===== *)
theory Orch_Nodes
  imports Orch_Store Orch_Validate
begin

text \<open>
  The node side of the orchestrator: the resource cache (package \<open>cache\<close>) and
  \<open>service/node_ops.go\<close>. The parallel mode of \<open>forEachNode\<close> runs the same function on the same
  nodes; the model runs it node by node. Log calls are left out.
\<close>

section \<open>cache/resource\_cache.go\<close>

definition zero_entry :: ResourceCacheEntry where
  "zero_entry = \<lparr> ce_Current = zero_NodeResources, ce_LastPersisted = zero_NodeResources,
     ce_LastPersistedAt = zero_time \<rparr>"

type_synonym cache = "(string \<times> ResourceCacheEntry) list"

definition cache_get :: "cache \<Rightarrow> string \<Rightarrow> ResourceCacheEntry" where
  "cache_get c name = (case map_of c name of None \<Rightarrow> zero_entry | Some e \<Rightarrow> e)"

definition PutCurrent :: "string \<Rightarrow> NodeResources \<Rightarrow> cache \<Rightarrow> cache" where
  "PutCurrent name res c = map_put name ((cache_get c name)\<lparr> ce_Current := res \<rparr>) c"

definition MarkPersisted :: "string \<Rightarrow> NodeResources \<Rightarrow> int \<Rightarrow> cache \<Rightarrow> cache" where
  "MarkPersisted name res persisted_at c = map_put name ((cache_get c name)\<lparr> ce_Current := res,
     ce_LastPersisted := res, ce_LastPersistedAt := persisted_at \<rparr>) c"

definition cache_Delete :: "string \<Rightarrow> cache \<Rightarrow> cache" where
  "cache_Delete name c = map_del name c"

definition sameResources :: "NodeResources \<Rightarrow> NodeResources \<Rightarrow> bool" where
  "sameResources a b \<longleftrightarrow>
     nr_CapacityCPUMilli a = nr_CapacityCPUMilli b \<and>
     nr_CapacityMemoryBytes a = nr_CapacityMemoryBytes b \<and>
     nr_AllocatableCPUMilli a = nr_AllocatableCPUMilli b \<and>
     nr_AllocatableMemory a = nr_AllocatableMemory b \<and>
     nr_UsedCPUMilli a = nr_UsedCPUMilli b \<and>
     nr_UsedMemoryBytes a = nr_UsedMemoryBytes b \<and>
     nr_AvailableCPUMilli a = nr_AvailableCPUMilli b \<and>
     nr_AvailableMemory a = nr_AvailableMemory b \<and>
     nr_MaxAllocPercent a = nr_MaxAllocPercent b"

text \<open>\<open>time.Sub\<close> saturates at the bounds of a duration.\<close>

definition time_Sub :: "int \<Rightarrow> int \<Rightarrow> int" where
  "time_Sub a b = max (- 9223372036854775808) (min 9223372036854775807 (a - b))"

definition ShouldPersist :: "cache \<Rightarrow> string \<Rightarrow> int \<Rightarrow> int \<Rightarrow> int \<Rightarrow> bool" where
  "ShouldPersist c name now minInt maxInt =
     (case map_of c name of
        None \<Rightarrow> True
      | Some e \<Rightarrow>
          if ce_LastPersistedAt e = zero_time then True
          else let changed = \<not> sameResources (ce_Current e) (ce_LastPersisted e) in
          if time_Sub now (ce_LastPersistedAt e) \<ge> maxInt then True
          else if \<not> changed then False
          else if time_Sub now (ce_LastPersistedAt e) < minInt then False
          else True)"

section \<open>Labels\<close>

definition sanitizeLabels :: "(string \<times> string) list \<Rightarrow> (string \<times> string) list" where
  "sanitizeLabels labels =
     foldl (\<lambda>out (key, val). let k = TrimSpace key in if k = [] then out else map_put k (TrimSpace val) out) [] labels"

fun patch_labels :: "(string \<times> string option) list \<Rightarrow> (string \<times> string) list \<Rightarrow> go_error + (string \<times> string) list" where
  "patch_labels [] acc = Inr acc"
| "patch_labels ((key, val) # ps) acc =
     (let k = TrimSpace key in
      if k = [] then Inl (invalid ''metadata.labels key is required'')
      else (case val of
          None \<Rightarrow> patch_labels ps (map_del k acc)
        | Some v \<Rightarrow> patch_labels ps (map_put k (TrimSpace v) acc)))"

definition applyLabelPatch ::
  "(string \<times> string) list \<Rightarrow> (string \<times> string option) list \<Rightarrow> go_error + (string \<times> string) list" where
  "applyLabelPatch current patch = patch_labels patch (sanitizeLabels current)"

section \<open>Requests to nodes\<close>

definition rpc :: "rpc_call \<Rightarrow> nat orch" where
  "rpc call = do { modify (os_calls_update (\<lambda>cs. cs @ [call])); tick }"

definition call_map :: "orch_env \<Rightarrow> rpc_call \<Rightarrow> (go_error + map_reply http_response) orch" where
  "call_map E call = do { t \<leftarrow> rpc call; ret (e_map_reply E t call) }"

definition call_Healthz :: "orch_env \<Rightarrow> string \<Rightarrow> go_error option orch" where
  "call_Healthz E url = do { r \<leftarrow> call_map E (CallHealthz (New_baseURL url)); ret (client_Healthz r) }"

definition call_NodeStatus :: "orch_env \<Rightarrow> string \<Rightarrow> (go_error + NodeStatus) orch" where
  "call_NodeStatus E url = do { r \<leftarrow> call_map E (CallNodeStatus (New_baseURL url)); ret (client_NodeStatus r) }"

definition call_Reconcile :: "orch_env \<Rightarrow> string \<Rightarrow> (go_error + map_reply) orch" where
  "call_Reconcile E url = do { r \<leftarrow> call_map E (CallReconcile (New_baseURL url)); ret (client_Reconcile r) }"

definition call_CreateSandbox :: "orch_env \<Rightarrow> string \<Rightarrow> CreateSandboxRequest \<Rightarrow> (go_error + map_reply) orch" where
  "call_CreateSandbox E url req =
     do { r \<leftarrow> call_map E (CallCreate (New_baseURL url) req); ret (client_CreateSandbox r) }"

definition call_DeleteSandbox :: "orch_env \<Rightarrow> string \<Rightarrow> string \<Rightarrow> (go_error + map_reply) orch" where
  "call_DeleteSandbox E url sid =
     do { r \<leftarrow> call_map E (CallDelete (New_baseURL url) sid); ret (client_DeleteSandbox sid r) }"

definition call_SandboxStatuses :: "orch_env \<Rightarrow> string \<Rightarrow> string list \<Rightarrow> (go_error + SandboxStatusesResponse) orch" where
  "call_SandboxStatuses E url ids = do {
     t \<leftarrow> rpc (CallStatuses (New_baseURL url) ids);
     ret (client_SandboxStatuses (e_statuses_reply E t (CallStatuses (New_baseURL url) ids))) }"

section \<open>Heartbeats and resources\<close>

text \<open>
  A client is its base URL and the node it was made for. The two entry points differ in the
  timeout, which the environment's replies stand for.
\<close>

definition sandboxClientForNode :: "orch_env \<Rightarrow> string \<Rightarrow> (go_error + string \<times> Node) orch" where
  "sandboxClientForNode E nid = bindE (GetNode E nid) (\<lambda>n. ret (Inr (n_SbxletBaseURL n, n)))"

definition SandboxOpClientForNode :: "orch_env \<Rightarrow> string \<Rightarrow> (go_error + string \<times> Node) orch" where
  "SandboxOpClientForNode E nid = sandboxClientForNode E nid"

text \<open>What a probe makes of a node: the pure part of \<open>probeNode\<close>.\<close>

definition probe_next :: "Config \<Rightarrow> Node \<Rightarrow> go_error option \<Rightarrow> int \<Rightarrow> Node" where
  "probe_next cfg n err now =
     (let n1 = n\<lparr> n_LastHeartbeat := Some now \<rparr>;
          n2 = (case err of
            None \<Rightarrow>
              (let ss = min (i64 (n_SuccessStreak n + 1)) (ReadySuccessThreshold cfg) in
               n1\<lparr> n_SuccessStreak := ss, n_FailureStreak := 0, n_LastError := [],
                   n_State := (if n_State n \<noteq> NodeStateReady \<and> ss \<ge> ReadySuccessThreshold cfg
                     then NodeStateReady else n_State n) \<rparr>)
          | Some e \<Rightarrow>
              (let fs = i64 (n_FailureStreak n + 1) in
               n1\<lparr> n_FailureStreak := fs, n_SuccessStreak := 0, n_LastError := Error e,
                   n_State := (if fs \<ge> NotReadyFailureThreshold cfg then NodeStateNotReady else n_State n) \<rparr>))
      in if n_State n2 = NodeStateEmpty then n2\<lparr> n_State := NodeStateUnknown \<rparr> else n2)"

definition probeNode :: "orch_env \<Rightarrow> Node \<Rightarrow> unit orch" where
  "probeNode E n = do {
     err \<leftarrow> call_Healthz E (n_SbxletBaseURL n);
     now \<leftarrow> time_Now E;
     let nx = probe_next (e_cfg E) n err now in do {
       _ \<leftarrow> UpdateHeartbeat E (n_ID n) (n_State nx) (n_SuccessStreak nx) (n_FailureStreak nx)
              (n_LastError nx) (n_LastHeartbeat nx);
       ret () } }"

definition syncNodeResources :: "orch_env \<Rightarrow> Node \<Rightarrow> unit orch" where
  "syncNodeResources E n = do {
     r \<leftarrow> call_NodeStatus E (n_SbxletBaseURL n);
     case r of
       Inl _ \<Rightarrow> ret ()
     | Inr st \<Rightarrow>
         let ext = TrimSpace (nr_External (n_Resources n));
             res = (ns_Resources st)\<lparr> nr_External := (if ext = [] then ''(none)'' else ext) \<rparr> in do {
         modify (os_cache_update (PutCurrent (n_ID n) res));
         now \<leftarrow> time_Now E;
         c \<leftarrow> gets os_cache;
         if \<not> ShouldPersist c (n_ID n) now (ResourcePersistMinInt (e_cfg E)) (ResourcePersistMaxInt (e_cfg E)) then ret ()
         else do {
           w \<leftarrow> UpdateNodeResources E (n_ID n) res;
           case w of
             Inl _ \<Rightarrow> ret ()
           | Inr _ \<Rightarrow> modify (os_cache_update (MarkPersisted (n_ID n) res now)) } } }"

definition forEachNode :: "Node list \<Rightarrow> (Node \<Rightarrow> unit orch) \<Rightarrow> unit orch" where
  "forEachNode nodes fn = for_each nodes fn"

definition runHeartbeatOnce :: "orch_env \<Rightarrow> unit orch" where
  "runHeartbeatOnce E = do {
     r \<leftarrow> repo_ListNodes E;
     case r of Inl _ \<Rightarrow> ret () | Inr nodes \<Rightarrow> forEachNode nodes (probeNode E) }"

definition runResourceSyncOnce :: "orch_env \<Rightarrow> unit orch" where
  "runResourceSyncOnce E = do {
     r \<leftarrow> repo_ListNodes E;
     case r of Inl _ \<Rightarrow> ret () | Inr nodes \<Rightarrow> forEachNode nodes (syncNodeResources E) }"

section \<open>Registering, patching and deleting nodes\<close>

definition RegisterNode :: "orch_env \<Rightarrow> RegisterNodeRequest \<Rightarrow> string \<Rightarrow> (go_error + Node) orch" where
  "RegisterNode E req source0 =
     (case validateNodeInput (rn_ID req) (rn_IP req) (rn_Port req) of
        Some err \<Rightarrow> ret (Inl err)
      | None \<Rightarrow>
          let source = (if source0 = [] then ''api'' else source0) in
          bindE (UpsertNode E (rn_ID req) (rn_IP req) (rn_Port req) (rn_Unschedulable req) [] source)
          (\<lambda>_. bindE (GetNode E (rn_ID req))
          (\<lambda>n. do { probeNode E n; syncNodeResources E n; GetNode E (rn_ID req) })))"

definition CreateNodeObject :: "orch_env \<Rightarrow> CreateNodeObjectRequest \<Rightarrow> (go_error + Node) orch" where
  "CreateNodeObject E req =
     (let nid = TrimSpace (cn_ID req); ip = TrimSpace (nos_IP (cn_Spec req)) in
      case validateNodeInput nid ip (nos_Port (cn_Spec req)) of
        Some err \<Rightarrow> ret (Inl err)
      | None \<Rightarrow>
          let labels = sanitizeLabels (om_Labels (cn_Metadata req)) in
          bindE (UpsertNode E nid ip (nos_Port (cn_Spec req)) (nos_Unschedulable (cn_Spec req)) labels ''object'')
          (\<lambda>_. bindE (GetNode E nid)
          (\<lambda>n. do { probeNode E n; syncNodeResources E n; GetNode E nid })))"

definition PatchNodeObject :: "orch_env \<Rightarrow> string \<Rightarrow> PatchNodeObjectRequest \<Rightarrow> (go_error + Node) orch" where
  "PatchNodeObject E rawID req =
     (let nid = TrimSpace rawID;
          labelPatch = (case pn_Metadata req of None \<Rightarrow> None | Some m \<Rightarrow> pm_Labels m);
          unsched = ps_Unschedulable (pn_Spec req);
          set_unsched = (case unsched of None \<Rightarrow> ret (Inr ()) | Some u \<Rightarrow> SetNodeUnschedulable E nid u) in
      if nid = [] then ret (Inl (invalid ''id is required''))
      else bindE (GetNode E nid)
      (\<lambda>cur. if unsched = None \<and> labelPatch = None then
          ret (Inl (invalid ''at least one of spec.unschedulable or metadata.labels is required''))
        else bindE set_unsched
        (\<lambda>_. bindE (case labelPatch of
              None \<Rightarrow> ret (Inr ())
            | Some patch \<Rightarrow>
                bindE (ret (applyLabelPatch (om_Labels (n_Metadata cur)) patch))
                (\<lambda>labels. bindE (UpsertNode E (n_ID cur) (n_IP cur) (n_Port cur) (n_Unschedulable cur) labels (n_Source cur))
                (\<lambda>_. set_unsched)))
        (\<lambda>_. GetNode E nid))))"

definition UpsertExternalObject :: "orch_env \<Rightarrow> CreateExternalObjectRequest \<Rightarrow> (go_error + unit) orch" where
  "UpsertExternalObject E req =
     (let xid = TrimSpace (ce_ID req); nodeID = TrimSpace (es_NodeID (ce_Spec req));
          external = TrimSpace (es_External (ce_Spec req)) in
      if xid = [] then ret (Inl (invalid ''external id is required''))
      else if nodeID = [] then ret (Inl (invalid ''spec.node_id is required''))
      else if external = [] then ret (Inl (invalid ''spec.external is required''))
      else do {
        r \<leftarrow> GetNode E nodeID;
        case r of
          Inl _ \<Rightarrow> ret (Inl (invalid ''referenced node not found''))
        | Inr _ \<Rightarrow> SetNodeExternal E xid nodeID external })"

definition ListExternals :: "orch_env \<Rightarrow> (go_error + External list) orch" where
  "ListExternals E = repo_ListExternals E"

definition GetExternal :: "orch_env \<Rightarrow> string \<Rightarrow> (go_error + External) orch" where
  "GetExternal E rawID =
     (let xid = TrimSpace rawID in
      if xid = [] then ret (Inl (invalid ''id is required'')) else repo_GetExternal E xid)"

definition DeleteExternal :: "orch_env \<Rightarrow> string \<Rightarrow> (go_error + unit) orch" where
  "DeleteExternal E rawID =
     (let xid = TrimSpace rawID in
      if xid = [] then ret (Inl (invalid ''id is required'')) else repo_DeleteExternal E xid)"

text \<open>
  \<open>detachNodeSandboxes\<close>: the loop over the node's sandboxes may return an error; \<open>None\<close> goes on.
  A nil client is \<open>None\<close>.
\<close>

definition detach_one :: "orch_env \<Rightarrow> string \<Rightarrow> bool \<Rightarrow> string option \<Rightarrow> Sandbox \<Rightarrow> go_error option orch" where
  "detach_one E nodeName force client sbx =
     (if st_NodeName (sb_Status sbx) \<noteq> nodeName then ret None
      else do {
        _ \<leftarrow> ReleaseSandboxPorts E (sb_ID sbx);
        let mark = do {
          _ \<leftarrow> UpdateSandboxStatus E (sb_ID sbx) ((sb_Status sbx)\<lparr> st_Phase := SandboxPhaseFailed,
                 st_LastError := ''node removed'', st_NodeName := [], st_External := [], st_AssignedPorts := [] \<rparr>);
          ret None } in
        (case st_Phase (sb_Status sbx) of
           SandboxPhaseDeleting \<Rightarrow> do { _ \<leftarrow> repo_DeleteSandbox E (sb_ID sbx); ret None }
         | SandboxPhasePending \<Rightarrow> ret None
         | SandboxPhaseFailed \<Rightarrow> ret None
         | _ \<Rightarrow>
             (case client of
                None \<Rightarrow> mark
              | Some url \<Rightarrow> do {
                  r \<leftarrow> call_DeleteSandbox E url (sb_ID sbx);
                  case r of
                    Inl err \<Rightarrow> if \<not> force then
                        ret (Some (Errorf ''delete sandbox on node %s for sandbox %s: %w''
                          [Str nodeName, Str (sb_ID sbx), Wrap err]))
                      else mark
                  | Inr _ \<Rightarrow> mark })) })"

definition detach_all :: "orch_env \<Rightarrow> string \<Rightarrow> bool \<Rightarrow> string option \<Rightarrow> (go_error + unit) orch" where
  "detach_all E nodeName force client =
     bindE (repo_ListSandboxes E)
     (\<lambda>items. do {
        r \<leftarrow> for_ret items (detach_one E nodeName force client);
        case r of
          Some err \<Rightarrow> ret (Inl err)
        | None \<Rightarrow>
            (case client of
               None \<Rightarrow> ret (Inr ())
             | Some url \<Rightarrow> do {
                 w \<leftarrow> call_Reconcile E url;
                 case w of
                   Inl err \<Rightarrow> if \<not> force then
                       ret (Inl (Errorf ''reconcile node %s during delete: %w'' [Str nodeName, Wrap err]))
                     else ret (Inr ())
                 | Inr _ \<Rightarrow> ret (Inr ()) }) })"

definition detachNodeSandboxes :: "orch_env \<Rightarrow> string \<Rightarrow> bool \<Rightarrow> (go_error + unit) orch" where
  "detachNodeSandboxes E nodeName force = do {
     c \<leftarrow> SandboxOpClientForNode E nodeName;
     case c of
       Inl err \<Rightarrow> if \<not> force then ret (Inl (Errorf ''prepare node client for delete: %w'' [Wrap err]))
         else detach_all E nodeName force None
     | Inr (url, _) \<Rightarrow> detach_all E nodeName force (if force then None else Some url) }"

definition DeleteNodeForce :: "orch_env \<Rightarrow> string \<Rightarrow> bool \<Rightarrow> (go_error + unit) orch" where
  "DeleteNodeForce E rawID force =
     (let nid = TrimSpace rawID in
      if nid = [] then ret (Inl (invalid ''id is required''))
      else bindE (detachNodeSandboxes E nid force)
      (\<lambda>_. bindE (repo_DeleteNode E nid)
      (\<lambda>_. do { modify (os_cache_update (cache_Delete nid)); ret (Inr ()) })))"

definition DeleteNode :: "orch_env \<Rightarrow> string \<Rightarrow> (go_error + unit) orch" where
  "DeleteNode E rawID = DeleteNodeForce E rawID False"

section \<open>Every operation keeps what the repositories keep\<close>

context db_relation
begin

lemma db_rpc: "keeps_db (rpc c)"
  unfolding rpc_def by (intro db_intros db_modify db_tick) simp

lemma db_call_map: "keeps_db (call_map E c)"
  unfolding call_map_def by (intro db_intros db_rpc)

lemma db_calls:
  "keeps_db (call_Healthz E url)" "keeps_db (call_NodeStatus E url)" "keeps_db (call_Reconcile E url)"
  "keeps_db (call_CreateSandbox E url req)" "keeps_db (call_DeleteSandbox E url sid)"
  "keeps_db (call_SandboxStatuses E url ids)"
  unfolding call_Healthz_def call_NodeStatus_def call_Reconcile_def call_CreateSandbox_def
    call_DeleteSandbox_def call_SandboxStatuses_def
  by (intro db_intros db_call_map db_rpc)+

lemma db_client: "keeps_db (SandboxOpClientForNode E nid)"
  unfolding SandboxOpClientForNode_def sandboxClientForNode_def by (intro db_intros db_GetNode)

lemma db_external_reads: "keeps_db (ListExternals E)" "keeps_db (GetExternal E xid)"
  unfolding ListExternals_def repo_ListExternals_def GetExternal_def repo_GetExternal_def
  by (intro db_intros db_query)+

lemma db_cache: "keeps_db (modify (os_cache_update f))"
  by (rule db_modify) simp

end

context sandbox_repo
begin

lemma keeps_detach_one: "keeps_db (detach_one E n force client sbx)"
  unfolding detach_one_def Let_def by (cases "st_Phase (sb_Status sbx)") (auto intro!: db_intros db_calls sandbox_repo_ops)

end

context node_repo
begin

lemma keeps_probeNode: "keeps_db (probeNode E n)"
  unfolding probeNode_def by (intro db_intros db_calls db_time_Now node_repo_ops)

lemma keeps_syncNodeResources: "keeps_db (syncNodeResources E n)"
  unfolding syncNodeResources_def by (intro db_intros db_calls db_time_Now db_cache node_repo_ops)

lemma keeps_runHeartbeatOnce: "keeps_db (runHeartbeatOnce E)"
  unfolding runHeartbeatOnce_def forEachNode_def by (intro db_intros db_reads keeps_probeNode)

lemma keeps_runResourceSyncOnce: "keeps_db (runResourceSyncOnce E)"
  unfolding runResourceSyncOnce_def forEachNode_def by (intro db_intros db_reads keeps_syncNodeResources)

lemma keeps_RegisterNode: "keeps_db (RegisterNode E req source)"
  unfolding RegisterNode_def
  by (intro db_intros db_reads node_repo_ops keeps_probeNode keeps_syncNodeResources)

lemma keeps_CreateNodeObject: "keeps_db (CreateNodeObject E req)"
  unfolding CreateNodeObject_def
  by (intro db_intros db_reads node_repo_ops keeps_probeNode keeps_syncNodeResources)

lemma keeps_PatchNodeObject: "keeps_db (PatchNodeObject E rawID req)"
  unfolding PatchNodeObject_def Let_def
  by (intro db_intros db_reads node_repo_ops)

lemma keeps_UpsertExternalObject: "keeps_db (UpsertExternalObject E req)"
  unfolding UpsertExternalObject_def by (intro db_intros db_reads node_repo_ops)

lemma keeps_DeleteExternal: "keeps_db (DeleteExternal E xid)"
  unfolding DeleteExternal_def by (intro db_intros node_repo_ops)

lemma keeps_detachNodeSandboxes: "keeps_db (detachNodeSandboxes E n force)"
  unfolding detachNodeSandboxes_def detach_all_def
  by (intro db_intros db_client db_reads db_calls keeps_detach_one)

lemma keeps_DeleteNodeForce: "keeps_db (DeleteNodeForce E n force)"
  unfolding DeleteNodeForce_def by (intro db_intros db_cache node_repo_ops keeps_detachNodeSandboxes)

lemmas keeps_node_service = keeps_runHeartbeatOnce keeps_runResourceSyncOnce keeps_RegisterNode
  keeps_CreateNodeObject keeps_PatchNodeObject keeps_UpsertExternalObject keeps_DeleteExternal
  keeps_DeleteNodeForce

end

end
