(* ===== verification/Orch_Sandbox.thy ===== *)
theory Orch_Sandbox
  imports Orch_Nodes
begin

text \<open>
  \<open>service/sandbox_ops.go\<close>: creating and deleting sandboxes, the scheduler, the reconcile loop and
  the status synchronisation. Each loop body that a ticker starts is one computation; log calls are
  left out. The goroutines of the status synchronisation run node by node in the model.
\<close>

section \<open>Creating and reading\<close>

definition CreateSandbox :: "orch_env \<Rightarrow> CreateSandboxObjectRequest \<Rightarrow> (go_error + Sandbox) orch" where
  "CreateSandbox E req =
     (case validateSandboxCreate (e_pq E) req of
        Some err \<Rightarrow> ret (Inl err)
      | None \<Rightarrow> do {
          now \<leftarrow> time_Now E;
          let ttl = ss_TTLSeconds (co_Spec req);
              sbx = \<lparr> sb_ID = TrimSpace (co_ID req), sb_Spec = co_Spec req,
                sb_Status = \<lparr> st_Phase = SandboxPhasePending, st_NodeName = [], st_External = [], st_IP = [],
                  st_AssignedPorts = [], st_SandboxdID = [],
                  st_ExpireAt = (if ttl > 0 then Some (now + i64 (ttl * second)) else None),
                  st_LastError = [] \<rparr>,
                sb_CreatedAt = now, sb_UpdatedAt = now \<rparr>
          in bindE (repo_CreateSandbox E sbx) (\<lambda>_. repo_GetSandbox E (sb_ID sbx)) })"

definition check_id :: "string \<Rightarrow> go_error option" where
  "check_id rawID =
     (let sid = TrimSpace rawID in
      if sid = [] then Some (invalid ''sandbox id is required'')
      else if rawID \<noteq> sid then
        Some (invalid ''sandbox id must not contain leading or trailing whitespace'')
      else (case ValidateSandboxID sid of
          Some err \<Rightarrow> Some (Errorf ''%w: %v'' [Wrap ErrInvalidInput, Val err])
        | None \<Rightarrow> None))"

definition GetSandbox :: "orch_env \<Rightarrow> string \<Rightarrow> (go_error + Sandbox) orch" where
  "GetSandbox E rawID =
     (case check_id rawID of Some err \<Rightarrow> ret (Inl err) | None \<Rightarrow> repo_GetSandbox E (TrimSpace rawID))"

definition ListSandboxes :: "orch_env \<Rightarrow> (go_error + Sandbox list) orch" where
  "ListSandboxes E = repo_ListSandboxes E"

section \<open>Resources\<close>

fun resource_request :: "quantity_parser \<Rightarrow> SandboxContainerSpec list \<Rightarrow> int \<Rightarrow> int \<Rightarrow> go_error + int \<times> int" where
  "resource_request pq [] cpuMilli memBytes = Inr (cpuMilli, memBytes)"
| "resource_request pq (c # cs) cpuMilli memBytes =
     (case parseCPUMilli pq (sr_CPU (sc_Resource c)) of
        Inl err \<Rightarrow> Inl err
      | Inr cpu \<Rightarrow>
          (case parseMemoryBytes pq (sr_Memory (sc_Resource c)) of
             Inl err \<Rightarrow> Inl err
           | Inr mem \<Rightarrow> resource_request pq cs (i64 (cpuMilli + cpu)) (i64 (memBytes + mem))))"

definition sandboxResourceRequest :: "quantity_parser \<Rightarrow> SandboxSpec \<Rightarrow> go_error + int \<times> int" where
  "sandboxResourceRequest pq spec = resource_request pq (ss_Containers spec) 0 0"

definition adjustNodeUsageForSandbox :: "orch_env \<Rightarrow> string \<Rightarrow> SandboxSpec \<Rightarrow> int \<Rightarrow> (go_error + unit) orch" where
  "adjustNodeUsageForSandbox E nodeName spec direction =
     (if TrimSpace nodeName = [] \<or> direction = 0 then ret (Inr ())
      else (case sandboxResourceRequest (e_pq E) spec of
          Inl err \<Rightarrow> ret (Inl err)
        | Inr (cpu, mem) \<Rightarrow> AdjustNodeResourceUsage E nodeName (i64 (direction * cpu)) (i64 (direction * mem))))"

section \<open>Deleting\<close>

text \<open>Store the error in the status and return it; a failure to store is ignored.\<close>

definition fail_with :: "orch_env \<Rightarrow> Sandbox \<Rightarrow> go_error \<Rightarrow> (go_error + unit) orch" where
  "fail_with E sbx err = do {
     _ \<leftarrow> UpdateSandboxStatus E (sb_ID sbx) ((sb_Status sbx)\<lparr> st_LastError := Error err \<rparr>);
     ret (Inl err) }"

definition release_and_delete :: "orch_env \<Rightarrow> Sandbox \<Rightarrow> (go_error + unit) orch" where
  "release_and_delete E sbx = do {
     r \<leftarrow> ReleaseSandboxPorts E (sb_ID sbx);
     case r of
       Inl err \<Rightarrow> fail_with E sbx err
     | Inr _ \<Rightarrow>
         let nodeName = st_NodeName (sb_Status sbx) in
         if nodeName \<noteq> [] then
           bindE (repo_DeleteSandbox E (sb_ID sbx))
           (\<lambda>_. do { _ \<leftarrow> adjustNodeUsageForSandbox E nodeName (sb_Spec sbx) (- 1); ret (Inr ()) })
         else repo_DeleteSandbox E (sb_ID sbx) }"

definition finalizeSandboxDelete :: "orch_env \<Rightarrow> Sandbox \<Rightarrow> (go_error + unit) orch" where
  "finalizeSandboxDelete E sbx =
     (if st_NodeName (sb_Status sbx) = [] then release_and_delete E sbx
      else do {
        c \<leftarrow> SandboxOpClientForNode E (st_NodeName (sb_Status sbx));
        case c of
          Inl err \<Rightarrow> if \<not> errors_Is err sql_ErrNoRows then fail_with E sbx err else release_and_delete E sbx
        | Inr (url, _) \<Rightarrow> do {
            d \<leftarrow> call_DeleteSandbox E url (sb_ID sbx);
            case d of
              Inl err \<Rightarrow> fail_with E sbx err
            | Inr _ \<Rightarrow> release_and_delete E sbx } })"

definition DeleteSandbox :: "orch_env \<Rightarrow> string \<Rightarrow> (go_error + unit) orch" where
  "DeleteSandbox E rawID =
     (case check_id rawID of
        Some err \<Rightarrow> ret (Inl err)
      | None \<Rightarrow>
          let sid = TrimSpace rawID in
          bindE (repo_GetSandbox E sid)
          (\<lambda>sbx. if st_Phase (sb_Status sbx) = SandboxPhaseDeleting then ret (Inr ())
            else
              let st = (sb_Status sbx)\<lparr> st_Phase := SandboxPhaseDeleting, st_LastError := [] \<rparr> in
              bindE (UpdateSandboxStatus E sid st)
              (\<lambda>_. finalizeSandboxDelete E (sbx\<lparr> sb_Status := st \<rparr>))))"

definition TriggerSandboxReconcile :: "orch_env \<Rightarrow> string \<Rightarrow> (go_error + unit) orch" where
  "TriggerSandboxReconcile E rawID =
     bindE (repo_GetSandbox E (TrimSpace rawID))
     (\<lambda>sbx. if st_Phase (sb_Status sbx) \<noteq> SandboxPhaseDeleting then
         let st = (sb_Status sbx)\<lparr> st_Phase := SandboxPhaseDeleting \<rparr> in do {
           _ \<leftarrow> UpdateSandboxStatus E (sb_ID sbx) st;
           finalizeSandboxDelete E (sbx\<lparr> sb_Status := st \<rparr>) }
       else finalizeSandboxDelete E sbx)"

section \<open>The scheduler\<close>

definition nodeMatchesSelector :: "Node \<Rightarrow> (string \<times> string) list \<Rightarrow> bool" where
  "nodeMatchesSelector node selector =
     list_all (\<lambda>(key, want). map_of (om_Labels (n_Metadata node)) key = Some want) selector"

definition port_range :: "int \<Rightarrow> int \<Rightarrow> int list" where
  "port_range lo hi = map (\<lambda>k. lo + int k) [0..<nat (hi - lo + 1)]"

definition assign_port :: "SandboxPortSpec \<Rightarrow> int \<Rightarrow> SandboxPortAssign" where
  "assign_port p hp =
     (let proto = ToLower (TrimSpace (sp_Protocol p)) in
      \<lparr> pa_HostPort = hp, pa_ContainerPort = sp_ContainerPort p,
        pa_Protocol = (if proto = [] then ''tcp'' else proto) \<rparr>)"

definition allocateHostPorts ::
  "(nat \<Rightarrow> nat) \<Rightarrow> SandboxPortSpec list \<Rightarrow> int list \<Rightarrow> int \<Rightarrow> int \<Rightarrow> SandboxPortAssign list option" where
  "allocateHostPorts rnd spec used minPort maxPort =
     (if length spec = 0 then Some []
      else if maxPort < minPort then None
      else
        let available = filter (\<lambda>hp. hp \<notin> set used) (port_range minPort maxPort) in
        if length available < length spec then None
        else Some (map2 assign_port spec (Shuffle rnd available)))"

fun candidates ::
  "orch_env \<Rightarrow> SandboxSpec \<Rightarrow> int \<Rightarrow> int \<Rightarrow> Node list \<Rightarrow> (Node \<times> SandboxPortAssign list) list orch" where
  "candidates E spec needCPU needMem [] = ret []"
| "candidates E spec needCPU needMem (n # ns) =
     (if n_State n \<noteq> NodeStateReady \<or> n_Unschedulable n \<or> \<not> nodeMatchesSelector n (ss_NodeSelector spec)
         \<or> nr_AvailableCPUMilli (n_Resources n) < needCPU \<or> nr_AvailableMemory (n_Resources n) < needMem
      then candidates E spec needCPU needMem ns
      else do {
        r \<leftarrow> NodeUsedHostPorts E (n_ID n);
        case r of
          Inl _ \<Rightarrow> candidates E spec needCPU needMem ns
        | Inr used \<Rightarrow> do {
            t \<leftarrow> tick;
            case allocateHostPorts (e_rand E t) (ss_Ports spec) used (HostPortMin (e_cfg E)) (HostPortMax (e_cfg E)) of
              None \<Rightarrow> candidates E spec needCPU needMem ns
            | Some ports \<Rightarrow> do {
                rest \<leftarrow> candidates E spec needCPU needMem ns;
                ret ((n, ports) # rest) } } })"

definition cand_less :: "int \<Rightarrow> Node \<times> SandboxPortAssign list \<Rightarrow> Node \<times> SandboxPortAssign list \<Rightarrow> bool" where
  "cand_less needCPU a b =
     (let lhs = i64 (nr_AvailableCPUMilli (n_Resources (fst a)) - needCPU);
          rhs = i64 (nr_AvailableCPUMilli (n_Resources (fst b)) - needCPU)
      in if lhs = rhs then n_ID (fst a) < n_ID (fst b) else lhs > rhs)"

definition create_request :: "Sandbox \<Rightarrow> CreateSandboxRequest" where
  "create_request sbx = \<lparr>
     cr_ID = sb_ID sbx, cr_Egress = ss_Egress (sb_Spec sbx),
     cr_Volumes = map (\<lambda>v. \<lparr> vs_Name = sv_Name v, vs_EphemeralStorage = sv_EphemeralStorage v \<rparr>)
       (ss_Volumes (sb_Spec sbx)),
     cr_Containers = map (\<lambda>c. \<lparr> cc_Name = sc_Name c, cc_Image = sc_Image c, cc_Args = sc_Args c,
         cc_Env = sc_Env c, cc_WorkDir = sc_WorkDir c, cc_CapAdd = sc_CapAdd c, cc_CapDrop = sc_CapDrop c,
         cc_SecurityOpt = sc_SecurityOpt c, cc_ReadOnly = sc_ReadOnly c,
         cc_Tmpfs = map (\<lambda>tm. \<lparr> tm_MountPath = stm_MountPath tm, tm_Options = stm_Options tm \<rparr>) (sc_Tmpfs c),
         cc_VolumeMounts = map (\<lambda>vm. \<lparr> vm_Name = svm_Name vm, vm_MountPath = svm_MountPath vm,
           vm_ReadOnly = svm_ReadOnly vm \<rparr>) (sc_VolumeMounts c),
         cc_Resource = \<lparr> rs_CPU = sr_CPU (sc_Resource c), rs_Memory = sr_Memory (sc_Resource c),
           rs_EphemeralStorage = sr_EphemeralStorage (sc_Resource c) \<rparr> \<rparr>) (ss_Containers (sb_Spec sbx)),
     cr_Ports = map (\<lambda>p. \<lparr> pm_HostPort = pa_HostPort p, pm_ContainerPort = pa_ContainerPort p,
       pm_Protocol = pa_Protocol p \<rparr>) (st_AssignedPorts (sb_Status sbx)),
     cr_Readiness = map_option (\<lambda>p. \<lparr> rp_Protocol = orp_Protocol p, rp_Port = orp_Port p, rp_Path = orp_Path p,
       rp_InitialDelaySeconds = orp_InitialDelaySeconds p, rp_PeriodSeconds = orp_PeriodSeconds p,
       rp_TimeoutSeconds = orp_TimeoutSeconds p, rp_SuccessThreshold = orp_SuccessThreshold p,
       rp_FailureThreshold = orp_FailureThreshold p \<rparr>) (ss_ReadinessProbe (sb_Spec sbx)) \<rparr>"

definition createSandboxOnNode :: "orch_env \<Rightarrow> Sandbox \<Rightarrow> (go_error + unit) orch" where
  "createSandboxOnNode E sbx =
     bindE (SandboxOpClientForNode E (st_NodeName (sb_Status sbx)))
     (\<lambda>(url, _). bindE (call_CreateSandbox E url (create_request sbx)) (\<lambda>_. ret (Inr ())))"

definition fetchSandboxIPOnce :: "orch_env \<Rightarrow> string \<Rightarrow> string \<Rightarrow> string orch" where
  "fetchSandboxIPOnce E nodeName sandboxID = do {
     c \<leftarrow> SandboxOpClientForNode E nodeName;
     case c of
       Inl _ \<Rightarrow> ret []
     | Inr (url, _) \<Rightarrow> do {
         r \<leftarrow> call_SandboxStatuses E url [sandboxID];
         case r of
           Inl _ \<Rightarrow> ret []
         | Inr st \<Rightarrow> ret (case sr_Items st of [] \<Rightarrow> [] | it # _ \<Rightarrow> TrimSpace (sy_IP it)) } }"

definition external_or_none :: "string \<Rightarrow> string" where
  "external_or_none x = (let ext = TrimSpace x in if ext = [] then ''(none)'' else ext)"

definition set_failed :: "orch_env \<Rightarrow> Sandbox \<Rightarrow> string \<Rightarrow> unit orch" where
  "set_failed E sbx msg = do {
     _ \<leftarrow> UpdateSandboxStatus E (sb_ID sbx)
       ((sb_Status sbx)\<lparr> st_Phase := SandboxPhaseFailed, st_LastError := msg \<rparr>);
     ret () }"

text \<open>The part of \<open>scheduleOne\<close> after the ports are reserved.\<close>

definition schedule_created :: "orch_env \<Rightarrow> Sandbox \<Rightarrow> unit orch" where
  "schedule_created E fresh = do {
     r \<leftarrow> GetNode E (st_NodeName (sb_Status fresh));
     let ext = (case r of Inl _ \<Rightarrow> st_External (sb_Status fresh)
                | Inr n \<Rightarrow> external_or_none (nr_External (n_Resources n))) in do {
       ip \<leftarrow> fetchSandboxIPOnce E (st_NodeName (sb_Status fresh)) (sb_ID fresh);
       _ \<leftarrow> UpdateSandboxStatus E (sb_ID fresh) ((sb_Status fresh)\<lparr> st_External := ext,
              st_Phase := SandboxPhaseScheduled, st_LastError := [],
              st_IP := (if ip \<noteq> [] then ip else st_IP (sb_Status fresh)) \<rparr>);
       _ \<leftarrow> adjustNodeUsageForSandbox E (st_NodeName (sb_Status fresh)) (sb_Spec fresh) 1;
       modify (os_spawned_update (\<lambda>gs. gs @ [(sb_ID fresh, st_NodeName (sb_Status fresh))])) } }"

definition schedule_reserved :: "orch_env \<Rightarrow> string \<Rightarrow> Node \<Rightarrow> unit orch" where
  "schedule_reserved E sid node = do {
     r \<leftarrow> repo_GetSandbox E sid;
     case r of
       Inl _ \<Rightarrow> ret ()
     | Inr fresh0 \<Rightarrow>
         let fresh = fresh0\<lparr> sb_Status := (sb_Status fresh0)\<lparr>
               st_External := external_or_none (nr_External (n_Resources node)) \<rparr> \<rparr> in do {
         c \<leftarrow> createSandboxOnNode E fresh;
         case c of
           Inl err \<Rightarrow> do {
             set_failed E fresh (Error err);
             _ \<leftarrow> ReleaseSandboxPorts E (sb_ID fresh);
             ret () }
         | Inr _ \<Rightarrow> schedule_created E fresh } }"

definition scheduleOne :: "orch_env \<Rightarrow> Sandbox \<Rightarrow> unit orch" where
  "scheduleOne E sbx = do {
     r \<leftarrow> repo_ListNodes E;
     case r of
       Inl _ \<Rightarrow> ret ()
     | Inr nodes \<Rightarrow>
         (case sandboxResourceRequest (e_pq E) (sb_Spec sbx) of
            Inl err \<Rightarrow> set_failed E sbx (Error err)
          | Inr (needCPU, needMem) \<Rightarrow> do {
              cands \<leftarrow> candidates E (sb_Spec sbx) needCPU needMem nodes;
              case sort_slice (cand_less needCPU) cands of
                [] \<Rightarrow> set_failed E sbx ''no feasible schedulable node for selector/resources/ports''
              | (node, ports) # _ \<Rightarrow> do {
                  w \<leftarrow> ReserveSandboxPortsAndSchedule E (sb_ID sbx) (n_ID node) ports;
                  case w of
                    Inl err \<Rightarrow> if errors_Is err ErrPortReservationConflict then ret ()
                      else set_failed E sbx (Error err)
                  | Inr _ \<Rightarrow> schedule_reserved E (sb_ID sbx) node } }) }"

definition runSchedulerOnce :: "orch_env \<Rightarrow> unit orch" where
  "runSchedulerOnce E = do {
     r \<leftarrow> repo_ListSandboxes E;
     case r of
       Inl _ \<Rightarrow> ret ()
     | Inr sandboxes \<Rightarrow> for_each sandboxes (\<lambda>sbx.
         if st_Phase (sb_Status sbx) \<noteq> SandboxPhasePending then ret () else scheduleOne E sbx) }"

text \<open>The goroutine that looks for the address: at most \<open>k\<close> more rounds, the code starts with 10.\<close>

fun refresh_rounds :: "orch_env \<Rightarrow> string \<Rightarrow> string \<Rightarrow> nat \<Rightarrow> unit orch" where
  "refresh_rounds E url sandboxID 0 = ret ()"
| "refresh_rounds E url sandboxID (Suc k) = do {
     r \<leftarrow> call_SandboxStatuses E url [sandboxID];
     case r of
       Inl _ \<Rightarrow> ret ()
     | Inr st \<Rightarrow>
         let ip = (case sr_Items st of [] \<Rightarrow> [] | it # _ \<Rightarrow> TrimSpace (sy_IP it)) in
         if ip \<noteq> [] then do {
           l \<leftarrow> repo_GetSandbox E sandboxID;
           case l of
             Inl _ \<Rightarrow> ret ()
           | Inr latest \<Rightarrow>
               if st_IP (sb_Status latest) = ip \<or> st_Phase (sb_Status latest) = SandboxPhaseDeleting then ret ()
               else do {
                 _ \<leftarrow> UpdateSandboxStatusIfUnchanged E sandboxID ((sb_Status latest)\<lparr> st_IP := ip \<rparr>) (sb_UpdatedAt latest);
                 ret () } }
         else do {
           t \<leftarrow> tick;
           if e_done E t then ret () else refresh_rounds E url sandboxID k } }"

definition refreshSandboxIPSoon :: "orch_env \<Rightarrow> string \<Rightarrow> string \<Rightarrow> unit orch" where
  "refreshSandboxIPSoon E sandboxID nodeName = do {
     c \<leftarrow> SandboxOpClientForNode E nodeName;
     case c of
       Inl _ \<Rightarrow> ret ()
     | Inr (url, _) \<Rightarrow> refresh_rounds E url sandboxID 10 }"

section \<open>The reconcile loop\<close>

definition reconcile_one :: "orch_env \<Rightarrow> int \<Rightarrow> Sandbox \<Rightarrow> unit orch" where
  "reconcile_one E now sbx =
     (if st_Phase (sb_Status sbx) = SandboxPhaseDeleting then
        do { _ \<leftarrow> finalizeSandboxDelete E sbx; ret () }
      else (case st_ExpireAt (sb_Status sbx) of
          None \<Rightarrow> ret ()
        | Some expireAt \<Rightarrow>
            if now > expireAt then
              let st = (sb_Status sbx)\<lparr> st_Phase := SandboxPhaseDeleting, st_LastError := ''ttl expired'' \<rparr> in do {
                _ \<leftarrow> UpdateSandboxStatus E (sb_ID sbx) st;
                _ \<leftarrow> finalizeSandboxDelete E (sbx\<lparr> sb_Status := st \<rparr>);
                ret () }
            else ret ()))"

definition runSandboxReconcileOnce :: "orch_env \<Rightarrow> unit orch" where
  "runSandboxReconcileOnce E = do {
     r \<leftarrow> repo_ListSandboxes E;
     case r of
       Inl _ \<Rightarrow> ret ()
     | Inr sandboxes \<Rightarrow> do {
         now \<leftarrow> time_Now E;
         for_each sandboxes (reconcile_one E now) } }"

section \<open>Status synchronisation\<close>

definition findMissing :: "string list \<Rightarrow> string \<Rightarrow> bool" where
  "findMissing items sid = (sid \<in> set items)"

definition inferSandboxExternal :: "string \<Rightarrow> string \<Rightarrow> string" where
  "inferSandboxExternal fromNodeResp fallback =
     (let ip = TrimSpace fromNodeResp in
      if ip \<noteq> [] then ip
      else let fb = TrimSpace fallback in if fb = [] then ''(none)'' else fb)"

definition error_msg :: "SandboxSyncStatus \<Rightarrow> string" where
  "error_msg st =
     (let msg = foldl (\<lambda>msg c.
            if TrimSpace (cy_Error c) \<noteq> [] then
              (if msg = [] then ''container '' @ cy_Name c @ '': '' @ TrimSpace (cy_Error c)
               else msg @ ''; container '' @ cy_Name c @ '': '' @ TrimSpace (cy_Error c))
            else msg) (TrimSpace (sy_Error st)) (sy_UnhealthyContainers st)
      in if msg = [] then ''sandbox error on sbxlet node'' else msg)"

definition set_phase_error :: "SandboxStatus \<Rightarrow> SandboxPhase \<Rightarrow> string \<Rightarrow> SandboxStatus \<times> bool" where
  "set_phase_error cur phase msg =
     (let next1 = (if st_Phase cur \<noteq> phase then cur\<lparr> st_Phase := phase \<rparr> else cur);
          changed1 = (st_Phase cur \<noteq> phase);
          next2 = (if st_LastError next1 \<noteq> msg then next1\<lparr> st_LastError := msg \<rparr> else next1);
          changed2 = (changed1 \<or> st_LastError next1 \<noteq> msg)
      in (next2, changed2))"

definition mergeSandboxPhaseWithNodeState :: "SandboxStatus \<Rightarrow> SandboxSyncStatus \<Rightarrow> SandboxStatus \<times> bool" where
  "mergeSandboxPhaseWithNodeState cur st =
     (let phase = TrimSpace (sy_Phase st) in
      if EqualFold phase ''error'' then set_phase_error cur SandboxPhaseFailed (error_msg st)
      else (case sy_UnhealthyContainers st of
          c # _ \<Rightarrow>
            (let msg = TrimSpace (cy_Error c) in
             set_phase_error cur SandboxPhaseFailed
               (if msg = [] then ''container '' @ cy_Name c @ '' unhealthy ('' @ TrimSpace (cy_Phase c) @ '')''
                else ''container '' @ cy_Name c @ '': '' @ msg))
        | [] \<Rightarrow>
            if EqualFold phase ''running'' then set_phase_error cur SandboxPhaseRunning []
            else if EqualFold phase ''creating'' then
              (if st_Phase cur = SandboxPhaseRunning then (cur\<lparr> st_Phase := SandboxPhaseScheduled \<rparr>, True)
               else (cur, False))
            else (cur, False)))"

text \<open>The status the synchronisation writes for a sandbox the node knows, and whether it writes.\<close>

definition synced_status :: "string \<Rightarrow> SandboxStatus \<Rightarrow> SandboxSyncStatus \<Rightarrow> SandboxStatus \<times> bool" where
  "synced_status nodeExternal latest nodeSt =
     (let (next0, changed0) = mergeSandboxPhaseWithNodeState latest nodeSt;
          ip = TrimSpace (sy_IP nodeSt);
          (next1, changed1) = (if ip \<noteq> [] \<and> st_IP next0 \<noteq> ip then (next0\<lparr> st_IP := ip \<rparr>, True) else (next0, changed0));
          ext = inferSandboxExternal nodeExternal (st_External latest)
      in if st_External next1 \<noteq> ext then (next1\<lparr> st_External := ext \<rparr>, True) else (next1, changed1))"

definition sync_one :: "orch_env \<Rightarrow> string \<Rightarrow> SandboxStatusesResponse \<Rightarrow> Sandbox \<Rightarrow> unit orch" where
  "sync_one E nodeExternal resp sbx =
     (if findMissing (sr_Missing resp) (sb_ID sbx) then do {
        l \<leftarrow> repo_GetSandbox E (sb_ID sbx);
        case l of
          Inl _ \<Rightarrow> ret ()
        | Inr latest \<Rightarrow>
            if st_Phase (sb_Status latest) = SandboxPhaseDeleting then ret ()
            else if st_Phase (sb_Status latest) = SandboxPhaseScheduled then ret ()
            else do {
              _ \<leftarrow> UpdateSandboxStatusIfUnchanged E (sb_ID sbx)
                ((sb_Status latest)\<lparr> st_Phase := SandboxPhaseFailed, st_LastError := ''deleted on sbxlet node'',
                   st_External := inferSandboxExternal nodeExternal (st_External (sb_Status latest)) \<rparr>)
                (sb_UpdatedAt latest);
              ret () } }
      else (case map_of (rev (map (\<lambda>it. (sy_ID it, it)) (sr_Items resp))) (sb_ID sbx) of
          None \<Rightarrow> ret ()
        | Some nodeSt \<Rightarrow> do {
            l \<leftarrow> repo_GetSandbox E (sb_ID sbx);
            case l of
              Inl _ \<Rightarrow> ret ()
            | Inr latest \<Rightarrow>
                if st_Phase (sb_Status latest) = SandboxPhaseDeleting then ret ()
                else
                  (case synced_status nodeExternal (sb_Status latest) nodeSt of
                     (next, changed) \<Rightarrow>
                       if changed then do {
                         _ \<leftarrow> UpdateSandboxStatusIfUnchanged E (sb_ID sbx) next (sb_UpdatedAt latest);
                         ret () }
                       else ret ()) }))"

definition syncNodeSandboxBatch :: "orch_env \<Rightarrow> string \<Rightarrow> string \<Rightarrow> Sandbox list \<Rightarrow> unit orch" where
  "syncNodeSandboxBatch E url nodeName sandboxes = do {
     n \<leftarrow> GetNode E nodeName;
     let nodeExternal = (case n of Inl _ \<Rightarrow> [] | Inr node \<Rightarrow> TrimSpace (nr_External (n_Resources node))) in do {
       r \<leftarrow> call_SandboxStatuses E url (map sb_ID sandboxes);
       case r of
         Inl _ \<Rightarrow> ret ()
       | Inr resp \<Rightarrow> for_each sandboxes (sync_one E nodeExternal resp) } }"

function batches :: "nat \<Rightarrow> 'a list \<Rightarrow> 'a list list" where
  "batches n xs = (if xs = [] \<or> n = 0 then [] else take n xs # batches n (drop n xs))"
  by pat_completeness auto

termination
  by (relation "measure (\<lambda>(n, xs). length xs)") auto

definition group_by_node :: "Sandbox list \<Rightarrow> (string \<times> Sandbox list) list" where
  "group_by_node items = foldl (\<lambda>g sbx.
     let st = sb_Status sbx in
     if TrimSpace (st_NodeName st) = [] then g
     else if st_Phase st \<noteq> SandboxPhaseScheduled \<and> st_Phase st \<noteq> SandboxPhaseRunning \<and> st_Phase st \<noteq> SandboxPhaseFailed
       then g
     else map_put (st_NodeName st)
       ((case map_of g (st_NodeName st) of None \<Rightarrow> [] | Some l \<Rightarrow> l) @ [sbx]) g) [] items"

definition sync_node :: "orch_env \<Rightarrow> string \<times> Sandbox list \<Rightarrow> unit orch" where
  "sync_node E g = (case g of (nodeName, sandboxes) \<Rightarrow> do {
     c \<leftarrow> SandboxOpClientForNode E nodeName;
     case c of
       Inl _ \<Rightarrow> ret ()
     | Inr (url, _) \<Rightarrow>
         let batchSize = (if StatusSyncBatchSize (e_cfg E) < 1 then 50 else StatusSyncBatchSize (e_cfg E)) in
         for_each (batches (nat batchSize) sandboxes) (syncNodeSandboxBatch E url nodeName) })"

definition runSandboxStatusSyncOnce :: "orch_env \<Rightarrow> unit orch" where
  "runSandboxStatusSyncOnce E = do {
     r \<leftarrow> repo_ListSandboxes E;
     case r of
       Inl _ \<Rightarrow> ret ()
     | Inr items \<Rightarrow> for_each (group_by_node items) (sync_node E) }"

section \<open>Every operation keeps what the repositories keep\<close>

context sandbox_repo
begin

lemma keeps_adjustNodeUsage: "keeps_db (adjustNodeUsageForSandbox E n spec d)"
  unfolding adjustNodeUsageForSandbox_def by (intro db_intros sandbox_repo_ops)

lemma keeps_fail_with: "keeps_db (fail_with E sbx err)"
  unfolding fail_with_def by (intro db_intros sandbox_repo_ops)

lemma keeps_finalize: "keeps_db (finalizeSandboxDelete E sbx)"
  unfolding finalizeSandboxDelete_def release_and_delete_def
  by (intro db_intros db_client db_calls sandbox_repo_ops keeps_fail_with keeps_adjustNodeUsage)

lemma keeps_DeleteSandbox: "keeps_db (DeleteSandbox E rawID)"
  unfolding DeleteSandbox_def by (intro db_intros db_reads sandbox_repo_ops keeps_finalize)

lemma keeps_TriggerSandboxReconcile: "keeps_db (TriggerSandboxReconcile E rawID)"
  unfolding TriggerSandboxReconcile_def by (intro db_intros db_reads sandbox_repo_ops keeps_finalize)

lemma keeps_candidates: "keeps_db (candidates E spec c m ns)"
  by (induction ns) (auto intro!: db_intros db_reads)

lemma keeps_set_failed: "keeps_db (set_failed E sbx msg)"
  unfolding set_failed_def by (intro db_intros sandbox_repo_ops)

lemma keeps_createSandboxOnNode: "keeps_db (createSandboxOnNode E sbx)"
  unfolding createSandboxOnNode_def by (intro db_intros db_client db_calls)

lemma keeps_fetchSandboxIPOnce: "keeps_db (fetchSandboxIPOnce E n sid)"
  unfolding fetchSandboxIPOnce_def by (intro db_intros db_client db_calls)

lemma keeps_schedule_created: "keeps_db (schedule_created E sbx)"
  unfolding schedule_created_def
  by (intro db_intros db_reads sandbox_repo_ops keeps_fetchSandboxIPOnce keeps_adjustNodeUsage db_modify) simp

lemma keeps_schedule_reserved: "keeps_db (schedule_reserved E sid node)"
  unfolding schedule_reserved_def
  by (intro db_intros db_reads sandbox_repo_ops keeps_createSandboxOnNode keeps_set_failed keeps_schedule_created)

lemma keeps_scheduleOne: "keeps_db (scheduleOne E sbx)"
  unfolding scheduleOne_def
  by (intro db_intros db_reads sandbox_repo_ops keeps_candidates keeps_set_failed keeps_schedule_reserved)

lemma keeps_runSchedulerOnce: "keeps_db (runSchedulerOnce E)"
  unfolding runSchedulerOnce_def by (intro db_intros db_reads keeps_scheduleOne)

lemma keeps_refresh_rounds: "keeps_db (refresh_rounds E url sid k)"
  by (induction k) (auto simp: Let_def intro!: db_intros db_reads db_calls sandbox_repo_ops)

lemma keeps_refreshSandboxIPSoon: "keeps_db (refreshSandboxIPSoon E sid n)"
  unfolding refreshSandboxIPSoon_def by (intro db_intros db_client keeps_refresh_rounds)

lemma keeps_runSandboxReconcileOnce: "keeps_db (runSandboxReconcileOnce E)"
  unfolding runSandboxReconcileOnce_def reconcile_one_def
  by (intro db_intros db_reads sandbox_repo_ops keeps_finalize)

lemma keeps_sync_one: "keeps_db (sync_one E ext resp sbx)"
  unfolding sync_one_def by (intro db_intros db_reads sandbox_repo_ops)

lemma keeps_runSandboxStatusSyncOnce: "keeps_db (runSandboxStatusSyncOnce E)"
  unfolding runSandboxStatusSyncOnce_def sync_node_def syncNodeSandboxBatch_def
  by (intro db_intros db_reads db_client db_calls keeps_sync_one)

lemmas keeps_sandbox_service = keeps_DeleteSandbox keeps_TriggerSandboxReconcile keeps_runSchedulerOnce
  keeps_refreshSandboxIPSoon keeps_runSandboxReconcileOnce keeps_runSandboxStatusSyncOnce

end

context full_repo
begin

lemma keeps_CreateSandbox: "keeps_db (CreateSandbox E req)"
  unfolding CreateSandbox_def by (intro db_intros db_reads op_CreateSandbox)

end

end
