(* ===== verification/Orch_System.thy ===== *)
theory Orch_System
  imports Orch_Sandbox
begin

text \<open>
  The orchestrator as a whole. \<open>sql_step\<close> has one rule per SQL statement that the repositories
  issue, with arbitrary arguments; every service operation is a sequence of such statements, so
  that the reachable databases of \<open>sql_step\<close> include every interleaving of the concurrent requests
  and loops. \<open>orch_step\<close> runs whole operations, in any order.
\<close>

section \<open>Statements\<close>

inductive sql_step :: "orch_db \<Rightarrow> orch_db \<Rightarrow> bool" where
  upsert_node: "nd_name new = k \<Longrightarrow> (\<And>r. nd_name r = k \<Longrightarrow> nd_name (f r) = k) \<Longrightarrow>
    sql_step db (db_nodes_update (upsert (\<lambda>r. nd_name r = k) f new) db)"
| update_nodes: "(\<And>r. P r \<Longrightarrow> nd_name (f r) = nd_name r) \<Longrightarrow>
    sql_step db (db_nodes_update (update_where P f) db)"
| delete_node: "sql_step db (delete_node_row nid db)"
| upsert_status: "hb_name new = k \<Longrightarrow> (\<And>r. hb_name r = k \<Longrightarrow> hb_name (f r) = k) \<Longrightarrow>
    sql_step db (db_status_update (upsert (\<lambda>r. hb_name r = k) f new) db)"
| delete_status: "sql_step db (db_status_update (delete_where P) db)"
| upsert_resources: "rr_name new = k \<Longrightarrow> (\<And>r. rr_name r = k \<Longrightarrow> rr_name (f r) = k) \<Longrightarrow>
    sql_step db (db_resources_update (upsert (\<lambda>r. rr_name r = k) f new) db)"
| update_resources: "(\<And>r. P r \<Longrightarrow> rr_name (f r) = rr_name r) \<Longrightarrow>
    sql_step db (db_resources_update (update_where P f) db)"
| delete_resources: "sql_step db (db_resources_update (delete_where P) db)"
| insert_external: "Orch_Repo.insert_external x db = Inr (u, db') \<Longrightarrow> sql_step db db'"
| update_externals: "(\<And>x. P x \<Longrightarrow> xt_external_id (f x) = xt_external_id x) \<Longrightarrow>
    (\<And>x. P x \<Longrightarrow> xt_node_id (f x) = xt_node_id x) \<Longrightarrow>
    sql_step db (db_externals_update (update_where P f) db)"
| delete_externals: "sql_step db (db_externals_update (delete_where P) db)"
| insert_sandbox: "TrimSpace (st_External (sx_status x)) = st_External (sx_status x) \<Longrightarrow>
    Orch_Repo.insert_sandbox x db = Inr (u, db') \<Longrightarrow> sql_step db db'"
| update_sandboxes: "sql_step db (set_status_where P st now db)"
| delete_sandbox: "sql_step db (delete_sandbox_row sid db)"
| insert_port: "Orch_Repo.insert_port p db = Inr (u, db') \<Longrightarrow> sql_step db db'"
| delete_ports: "sql_step db (db_ports_update (delete_where P) db)"

abbreviation sql_steps :: "orch_db \<Rightarrow> orch_db \<Rightarrow> bool" where
  "sql_steps \<equiv> sql_step\<^sup>*\<^sup>*"

lemma sql_step_wf: "sql_step db db' \<Longrightarrow> keeps_wf db db'"
  by (induction rule: sql_step.induct)
    (auto intro: wf_nodes_upsert wf_status_upsert wf_resources_upsert wf_updates wf_externals_update
      wf_deletes wf_set_status wf_inserts wf_insert_sandbox)

lemma sql_steps_wf: "sql_steps db db' \<Longrightarrow> db_wf db \<Longrightarrow> db_wf db'"
  by (induction rule: rtranclp_induct) (auto dest: sql_step_wf simp: keeps_wf_def)

interpretation sql_repo: sql_all sql_steps
  by unfold_locales (auto intro: r_into_rtranclp sql_step.intros)

section \<open>Operations\<close>

inductive orch_step :: "orch_env \<Rightarrow> orch_state \<Rightarrow> orch_state \<Rightarrow> bool" for E where
  "orch_step E s (exec (RegisterNode E req source) s)"
| "orch_step E s (exec (CreateNodeObject E nreq) s)"
| "orch_step E s (exec (PatchNodeObject E nid preq) s)"
| "orch_step E s (exec (UpsertExternalObject E xreq) s)"
| "orch_step E s (exec (DeleteExternal E xid) s)"
| "orch_step E s (exec (DeleteNodeForce E nid force) s)"
| "orch_step E s (exec (runHeartbeatOnce E) s)"
| "orch_step E s (exec (runResourceSyncOnce E) s)"
| "orch_step E s (exec (CreateSandbox E creq) s)"
| "orch_step E s (exec (DeleteSandbox E sid) s)"
| "orch_step E s (exec (TriggerSandboxReconcile E sid) s)"
| "orch_step E s (exec (runSchedulerOnce E) s)"
| "orch_step E s (exec (runSandboxReconcileOnce E) s)"
| "orch_step E s (exec (runSandboxStatusSyncOnce E) s)"
| "(sid, node) \<in> set (os_spawned s) \<Longrightarrow> orch_step E s (exec (refreshSandboxIPSoon E sid node) s)"

definition orch_init :: "nat \<Rightarrow> orch_state" where
  "orch_init t = \<lparr> os_db = empty_db, os_cache = [], os_calls = [], os_spawned = [], os_tick = t \<rparr>"

context full_repo
begin

lemma orch_step_Q: "orch_step E s t \<Longrightarrow> Q (os_db s) (os_db t)"
  by (induction rule: orch_step.induct)
    (use keeps_node_service keeps_sandbox_service keeps_CreateSandbox in \<open>force simp: state_io_rel_def\<close>)+

end

lemma orch_steps_statements: "(orch_step E)\<^sup>*\<^sup>* s t \<Longrightarrow> sql_steps (os_db s) (os_db t)"
  by (induction rule: rtranclp_induct) (auto intro: rtranclp_trans sql_repo.orch_step_Q)

lemma reachable_wf: "(orch_step E)\<^sup>*\<^sup>* (orch_init n) s \<Longrightarrow> db_wf (os_db s)"
  using orch_steps_statements [of E "orch_init n" s] sql_steps_wf db_wf_empty by (simp add: orch_init_def)

section \<open>A small cluster\<close>

text \<open>
  A specification, a node and an environment in which nothing fails, for the concrete instances of
  the theorems.
\<close>

definition sample_spec :: SandboxSpec where
  "sample_spec = \<lparr> ss_Egress = True, ss_TTLSeconds = 60, ss_NodeSelector = [],
     ss_Ports = [\<lparr> sp_HostPort = 0, sp_ContainerPort = 80, sp_Protocol = [] \<rparr>], ss_Volumes = [],
     ss_Containers = [\<lparr> sc_Name = ''web'', sc_Image = ''nginx'', sc_Args = [], sc_Env = [], sc_WorkDir = [],
       sc_CapAdd = [], sc_CapDrop = [], sc_SecurityOpt = [], sc_ReadOnly = False, sc_Tmpfs = [], sc_VolumeMounts = [],
       sc_Resource = \<lparr> sr_CPU = ''1'', sr_Memory = ''64'', sr_EphemeralStorage = [] \<rparr> \<rparr>],
     ss_ReadinessProbe = None \<rparr>"

definition ok_response :: "'a \<Rightarrow> 'a http_response" where
  "ok_response v = \<lparr> hr_StatusCode = 200, hr_Status = ''200 OK'', hr_raw = ''{}'', hr_json = Inr v \<rparr>"

definition sample_resources :: NodeResources where
  "sample_resources = zero_NodeResources\<lparr> nr_AllocatableCPUMilli := 4000, nr_AllocatableMemory := 4096,
     nr_AvailableCPUMilli := 4000, nr_AvailableMemory := 4096 \<rparr>"

definition sample_env :: orch_env where
  "sample_env = \<lparr> e_cfg = DefaultConfig\<lparr> ReadySuccessThreshold := 1, HostPortMax := 10003 \<rparr>, e_pq = plain_pq,
     e_now = (\<lambda>t. int t * second), e_fault = (\<lambda>_. None), e_rand = (\<lambda>t i. t), e_done = (\<lambda>_. False),
     e_map_reply = (\<lambda>_ _. Inr (ok_response (MapReply (OkBool True) (Inr \<lparr> ns_OK = True, ns_Resources = sample_resources \<rparr>)))),
     e_statuses_reply = (\<lambda>_ _. Inr (ok_response \<lparr> sr_Items = [], sr_Missing = [] \<rparr>)) \<rparr>"

definition sample_node_request :: RegisterNodeRequest where
  "sample_node_request = \<lparr> rn_ID = ''n1'', rn_IP = ''10.0.0.1'', rn_Port = 8080, rn_Unschedulable = False \<rparr>"

definition sample_create :: CreateSandboxObjectRequest where
  "sample_create = \<lparr> co_ID = ''s1'', co_Spec = sample_spec \<rparr>"

definition sample_state :: orch_state where
  "sample_state = exec (CreateSandbox sample_env sample_create)
     (exec (RegisterNode sample_env sample_node_request []) (orch_init 1))"

lemma sample_reachable: "(orch_step sample_env)\<^sup>*\<^sup>* (orch_init 1) sample_state"
  unfolding sample_state_def by (rule rtranclp.intros)+ (rule orch_step.intros)+

section \<open>Properties\<close>

text \<open>
  C3: whatever the interleaving of the statements that concurrent requests and loops issue, the
  database stays consistent: starting from the empty database, names, ids, host ports per node and
  external bindings are unique and every port and external refers to an existing sandbox or node.
\<close>

theorem interleavings_keep_integrity:
  assumes "sql_steps empty_db db"
  shows "db_wf db"
  using assms sql_steps_wf db_wf_empty by blast

theorem interleavings_keep_integrity_witness: "db_wf (os_db sample_state)"
proof (rule interleavings_keep_integrity)
  show "sql_steps empty_db (os_db sample_state)"
    using orch_steps_statements [OF sample_reachable] by (simp add: orch_init_def)
qed




definition sample_row :: sandbox_row where
  "sample_row = \<lparr> sx_id = ''s1'', sx_spec = sample_spec, sx_status = \<lparr> st_Phase = SandboxPhaseScheduled,
     st_NodeName = ''n1'', st_External = ''(none)'', st_IP = [], st_AssignedPorts = [], st_SandboxdID = [],
     st_ExpireAt = Some 5, st_LastError = [] \<rparr>, sx_created_at = 1, sx_updated_at = 2 \<rparr>"

definition sample_port :: sandbox_port_row where
  "sample_port = \<lparr> po_sandbox_id = ''s1'', po_node_name = ''n1'', po_host_port = 10000, po_container_port = 80,
     po_protocol = ''tcp'', po_created_at = 3 \<rparr>"

definition sample_db :: orch_db where
  "sample_db = empty_db\<lparr> db_sandboxes := [sample_row], db_ports := [sample_port] \<rparr>"

lemma sample_db_steps: "sql_steps empty_db sample_db"
proof -
  have "sql_step empty_db (empty_db\<lparr> db_sandboxes := [sample_row] \<rparr>)"
    by (rule sql_step.insert_sandbox [of sample_row _ "()"]) code_simp+
  moreover have "sql_step (empty_db\<lparr> db_sandboxes := [sample_row] \<rparr>) sample_db"
    by (rule sql_step.insert_port [of sample_port _ "()"]) code_simp
  ultimately show ?thesis by (meson r_into_rtranclp rtranclp_trans)
qed



end
