(* ===== verification/Let_Resources.thy ===== *)
theory Let_Resources
  imports Let_Model Orch_Validate "HOL-Library.Signed_Division"
begin

text \<open>
  \<open>sandboxd-let/sandbox/resources.go\<close> and \<open>state.go\<close>: resource parsing, the limits of a container,
  admission control and the capacity of the subnet. The number of CPUs and the memory of the host,
  and the list of stored sandboxes, are arguments.
\<close>

section \<open>state.go\<close>

definition SandboxPhaseCreating :: string where "SandboxPhaseCreating = ''creating''"

definition LetPhaseRunning :: string where "LetPhaseRunning = ''running''"

definition LetPhaseDeleting :: string where "LetPhaseDeleting = ''deleting''"

definition SandboxPhaseError :: string where "SandboxPhaseError = ''error''"

definition ContainerPhaseCreating :: string where "ContainerPhaseCreating = ''creating''"

definition setSandboxPhase :: "int \<Rightarrow> LetSandbox \<Rightarrow> string \<Rightarrow> string \<Rightarrow> LetSandbox" where
  "setSandboxPhase now sbx phase errMsg = sbx\<lparr> ls_Phase := phase,
     ls_Error := (if errMsg \<noteq> [] then errMsg else if phase \<noteq> SandboxPhaseError then [] else ls_Error sbx),
     ls_UpdatedAt := now \<rparr>"

text \<open>The fields of the service that a new sandbox copies.\<close>

record let_service =
  sv_namespace :: string
  sv_bridgeIF :: string
  sv_cidr :: string
  sv_cniConfPath :: string
  sv_runtimeBinary :: string

definition new_container_state :: "let_service \<Rightarrow> string \<Rightarrow> CreateContainerRequest \<Rightarrow> ContainerState" where
  "new_container_state svc sid c = \<lparr> cs_ID = sid @ ''-'' @ cc_Name c, cs_Name = cc_Name c,
     cs_Phase = ContainerPhaseCreating, cs_Error = [], cs_Image = cc_Image c, cs_Args = cc_Args c, cs_Env = cc_Env c,
     cs_CapAdd = cc_CapAdd c, cs_CapDrop = cc_CapDrop c, cs_SecurityOpt = cc_SecurityOpt c,
     cs_ReadOnly = cc_ReadOnly c, cs_Tmpfs = cc_Tmpfs c, cs_VolumeMounts = cc_VolumeMounts c,
     cs_Resource = cc_Resource c, cs_TaskPID = 0, cs_Runtime = sv_runtimeBinary svc, cs_TaskStatus = [] \<rparr>"

definition newSandboxState :: "let_service \<Rightarrow> int \<Rightarrow> CreateSandboxRequest \<Rightarrow> LetSandbox" where
  "newSandboxState svc now req = \<lparr> ls_ID = cr_ID req, ls_Phase = SandboxPhaseCreating, ls_Error = [],
     ls_Namespace = sv_namespace svc, ls_IP = [], ls_SubnetCIDR = sv_cidr svc, ls_BridgeName = sv_bridgeIF svc,
     ls_Egress = cr_Egress req, ls_Ports = cr_Ports req, ls_Volumes = cr_Volumes req,
     ls_Containers = foldl (\<lambda>m c. map_put (cc_Name c) (new_container_state svc (cr_ID req) c) m) [] (cr_Containers req),
     ls_PauseID = [], ls_CNIConfPath = sv_cniConfPath svc, ls_CreatedAt = now, ls_UpdatedAt = now \<rparr>"

section \<open>Parsing resources\<close>

record parsedResource =
  pr_CPUMilli :: int
  pr_MemoryBytes :: int
  pr_EphemeralBytes :: int
  pr_HasEphemeralSet :: bool

definition let_parseCPUMilli :: "quantity_parser \<Rightarrow> string \<Rightarrow> go_error + int" where
  "let_parseCPUMilli pq raw =
     (let v = TrimSpace raw in
      if v = [] then Inl (Errorf ''cpu is required'' [])
      else (case pq v of
          Inl _ \<Rightarrow> Inl (Errorf ''invalid cpu: %s'' [Str raw])
        | Inr q \<Rightarrow> if q_MilliValue q \<le> 0 then Inl (Errorf ''invalid cpu: %s'' [Str raw]) else Inr (q_MilliValue q)))"

definition let_parseMemoryBytes :: "quantity_parser \<Rightarrow> string \<Rightarrow> go_error + int" where
  "let_parseMemoryBytes pq raw =
     (let v = TrimSpace raw in
      if v = [] then Inl (Errorf ''memory is required'' [])
      else (case pq v of
          Inl _ \<Rightarrow> Inl (Errorf ''invalid memory: %s'' [Str raw])
        | Inr q \<Rightarrow> if q_Value q \<le> 0 then Inl (Errorf ''invalid memory: %s'' [Str raw]) else Inr (q_Value q)))"

definition parseContainerResource :: "quantity_parser \<Rightarrow> ResourceSpec \<Rightarrow> go_error + parsedResource" where
  "parseContainerResource pq r =
     (case let_parseCPUMilli pq (rs_CPU r) of
        Inl err \<Rightarrow> Inl err
      | Inr cpuMilli \<Rightarrow>
     (case let_parseMemoryBytes pq (rs_Memory r) of
        Inl err \<Rightarrow> Inl err
      | Inr memBytes \<Rightarrow>
          if TrimSpace (rs_EphemeralStorage r) \<noteq> [] then
            (case let_parseMemoryBytes pq (rs_EphemeralStorage r) of
               Inl _ \<Rightarrow> Inl (Errorf ''invalid ephemeralStorage: %s'' [Str (rs_EphemeralStorage r)])
             | Inr ephemeralBytes \<Rightarrow> Inr \<lparr> pr_CPUMilli = cpuMilli, pr_MemoryBytes = memBytes,
                 pr_EphemeralBytes = ephemeralBytes, pr_HasEphemeralSet = True \<rparr>)
          else Inr \<lparr> pr_CPUMilli = cpuMilli, pr_MemoryBytes = memBytes, pr_EphemeralBytes = 0,
                 pr_HasEphemeralSet = False \<rparr>))"

definition zero_limits :: ResourceLimits where
  "zero_limits = \<lparr> rl_MemoryBytes = 0, rl_CPUQuota = 0, rl_CPUPeriod = 0, rl_PidsLimit = 0, rl_RootfsBytes = 0, rl_TmpfsBytes = 0 \<rparr>"

definition parsedResourceToLimits :: "parsedResource \<Rightarrow> ResourceLimits" where
  "parsedResourceToLimits r = zero_limits\<lparr> rl_MemoryBytes := pr_MemoryBytes r,
     rl_CPUQuota := max (i64 (pr_CPUMilli r * 100000) sdiv 1000) 1000, rl_CPUPeriod := 100000, rl_PidsLimit := 128 \<rparr>"

text \<open>The configuration values the service reads here.\<close>

record let_limits_config =
  lc_DefaultEphemeralBytes :: int
  lc_RootfsRatioPercent :: int
  lc_MaxAllocPercent :: int

definition minRoot :: int where "minRoot = 32 * 1024 * 1024"

definition minTmp :: int where "minTmp = 16 * 1024 * 1024"

definition split_ephemeral :: "int \<Rightarrow> int \<Rightarrow> int \<times> int" where
  "split_ephemeral bytes ratio =
     (let rootB = i64 (bytes * ratio) sdiv 100; tmpB = i64 (bytes - rootB) in
      if bytes \<ge> minRoot + minTmp then
        (let (r1, t1) = (if rootB < minRoot then (minRoot, i64 (bytes - minRoot)) else (rootB, tmpB))
         in if t1 < minTmp then (i64 (bytes - minTmp), minTmp) else (r1, t1))
      else (rootB, tmpB))"

definition applyEphemeralLimits :: "let_limits_config \<Rightarrow> ResourceLimits \<Rightarrow> parsedResource \<Rightarrow> ResourceLimits" where
  "applyEphemeralLimits cfg lim r =
     (let bytes = (if \<not> pr_HasEphemeralSet r then lc_DefaultEphemeralBytes cfg else pr_EphemeralBytes r) in
      if bytes \<le> 0 then lim
      else (case split_ephemeral bytes (lc_RootfsRatioPercent cfg) of
          (rootB, tmpB) \<Rightarrow> lim\<lparr> rl_RootfsBytes := rootB, rl_TmpfsBytes := tmpB \<rparr>))"

section \<open>Admission\<close>

fun request_total :: "quantity_parser \<Rightarrow> CreateContainerRequest list \<Rightarrow> int \<Rightarrow> int \<Rightarrow> go_error + int \<times> int" where
  "request_total pq [] cpu mem = Inr (cpu, mem)"
| "request_total pq (c # cs) cpu mem =
     (case parseContainerResource pq (cc_Resource c) of
        Inl err \<Rightarrow> Inl (Errorf ''container %s resource parse failed: %w'' [Str (cc_Name c), Wrap err])
      | Inr r \<Rightarrow> request_total pq cs (i64 (cpu + pr_CPUMilli r)) (i64 (mem + pr_MemoryBytes r)))"

text \<open>Does a stored sandbox count? It does unless it is the given one, is being deleted or failed.\<close>

definition counts :: "string \<Rightarrow> LetSandbox \<Rightarrow> bool" where
  "counts exceptSandboxID sbx \<longleftrightarrow>
     \<not> (ls_ID sbx = exceptSandboxID \<or> ls_Phase sbx = LetPhaseDeleting \<or> ls_Phase sbx = SandboxPhaseError)"

definition add_container :: "quantity_parser \<Rightarrow> int \<times> int \<Rightarrow> ContainerState \<Rightarrow> int \<times> int" where
  "add_container pq acc c =
     (case parseContainerResource pq (cs_Resource c) of
        Inl _ \<Rightarrow> acc
      | Inr r \<Rightarrow> (i64 (fst acc + pr_CPUMilli r), i64 (snd acc + pr_MemoryBytes r)))"

definition allocated :: "quantity_parser \<Rightarrow> LetSandbox list \<Rightarrow> string \<Rightarrow> int \<times> int" where
  "allocated pq all exceptSandboxID =
     foldl (\<lambda>acc sbx. if \<not> counts exceptSandboxID sbx then acc
        else foldl (add_container pq) acc (map snd (ls_Containers sbx))) (0, 0) all"

text \<open>What \<open>store.List\<close> and \<open>hostTotalMemoryBytes\<close> return, an error or a value, are arguments.\<close>

definition currentAllocatedResources ::
  "quantity_parser \<Rightarrow> go_error + LetSandbox list \<Rightarrow> string \<Rightarrow> go_error + int \<times> int" where
  "currentAllocatedResources pq listing exceptSandboxID =
     (case listing of Inl err \<Rightarrow> Inl err | Inr all \<Rightarrow> Inr (allocated pq all exceptSandboxID))"

definition percent_of :: "int \<Rightarrow> int \<Rightarrow> int" where
  "percent_of x p = i64 (x * p) sdiv 100"

definition enforceAdmission ::
  "quantity_parser \<Rightarrow> let_limits_config \<Rightarrow> go_error + LetSandbox list \<Rightarrow> int \<Rightarrow> go_error + int \<Rightarrow>
   CreateSandboxRequest \<Rightarrow> go_error option" where
  "enforceAdmission pq cfg listing numCPU hostMemory req =
     (case request_total pq (cr_Containers req) 0 0 of
        Inl err \<Rightarrow> Some err
      | Inr (requestCPU, requestMem) \<Rightarrow>
     (case currentAllocatedResources pq listing (cr_ID req) of
        Inl err \<Rightarrow> Some err
      | Inr (usedCPU, usedMem) \<Rightarrow>
     (case hostMemory of
        Inl err \<Rightarrow> Some err
      | Inr hostMem \<Rightarrow>
          let hostCPU = i64 (numCPU * 1000);
              maxCPU = percent_of hostCPU (lc_MaxAllocPercent cfg);
              maxMem = percent_of hostMem (lc_MaxAllocPercent cfg) in
          if i64 (usedCPU + requestCPU) > maxCPU then
            Some (Errorf ''insufficient cpu allocatable: requested=%dm used=%dm limit=%dm (%d%% of host)''
              [Dec requestCPU, Dec usedCPU, Dec maxCPU, Dec (lc_MaxAllocPercent cfg)])
          else if i64 (usedMem + requestMem) > maxMem then
            Some (Errorf ''insufficient memory allocatable: requested=%d used=%d limit=%d (%d%% of host)''
              [Dec requestMem, Dec usedMem, Dec maxMem, Dec (lc_MaxAllocPercent cfg)])
          else None)))"

definition let_NodeResourceSnapshot ::
  "quantity_parser \<Rightarrow> let_limits_config \<Rightarrow> go_error + LetSandbox list \<Rightarrow> int \<Rightarrow> go_error + int \<Rightarrow> int \<Rightarrow>
   go_error + NodeResourceSnapshot" where
  "let_NodeResourceSnapshot pq cfg listing numCPU hostMemory now =
     (case hostMemory of
        Inl err \<Rightarrow> Inl err
      | Inr hostMem \<Rightarrow>
     (case currentAllocatedResources pq listing [] of
        Inl err \<Rightarrow> Inl err
      | Inr (usedCPU, usedMem) \<Rightarrow>
          let hostCPU = i64 (numCPU * 1000);
              allocCPU = percent_of hostCPU (lc_MaxAllocPercent cfg);
              allocMem = percent_of hostMem (lc_MaxAllocPercent cfg)
          in Inr \<lparr> nrs_CapacityCPUMilli = hostCPU, nrs_CapacityMemoryBytes = hostMem, nrs_AllocatableCPUMilli = allocCPU,
               nrs_AllocatableMemory = allocMem, nrs_UsedCPUMilli = usedCPU, nrs_UsedMemoryBytes = usedMem,
               nrs_AvailableCPUMilli = max (i64 (allocCPU - usedCPU)) 0,
               nrs_AvailableMemory = max (i64 (allocMem - usedMem)) 0,
               nrs_MaxAllocPercent = lc_MaxAllocPercent cfg, nrs_UpdatedAt = now \<rparr>))"

section \<open>The memory of the host\<close>

text \<open>\<open>strings.Fields\<close> on the ASCII text of \<open>/proc/meminfo\<close>.\<close>

definition is_blank :: "char \<Rightarrow> bool" where
  "is_blank c \<longleftrightarrow> c \<in> set [CHR 0x09, CHR 0x0A, CHR 0x0B, CHR 0x0C, CHR 0x0D, CHR 0x20]"

function Fields :: "string \<Rightarrow> string list" where
  "Fields s = (let t = dropWhile is_blank s in
     if t = [] then [] else takeWhile (\<lambda>c. \<not> is_blank c) t # Fields (dropWhile (\<lambda>c. \<not> is_blank c) t))"
  by pat_completeness auto

termination
proof (relation "measure length")
  fix s :: string and t
  assume t: "t = dropWhile is_blank s" and ne: "\<not> t = []"
  have "\<not> is_blank (hd t)" using t ne hd_dropWhile by metis
  then have "length (dropWhile (\<lambda>c. \<not> is_blank c) t) < length t"
    using ne by (cases t) (auto intro: le_imp_less_Suc length_dropWhile_le)
  also have "\<dots> \<le> length s" by (simp add: t length_dropWhile_le)
  finally show "(dropWhile (\<lambda>c. \<not> is_blank c) t, s) \<in> measure length" by simp
qed simp

declare Fields.simps [simp del]

fun hostTotalMemoryBytes :: "string list \<Rightarrow> go_error + int" where
  "hostTotalMemoryBytes [] = Inl (Errorf ''MemTotal not found'' [])"
| "hostTotalMemoryBytes (line # ls) =
     (if \<not> HasPrefix line ''MemTotal:'' then hostTotalMemoryBytes ls
      else (case Fields line of
          _ # p # _ \<Rightarrow> (case ParseInt64 p of
              None \<Rightarrow> Inl (Errorf ''strconv.ParseInt: parsing %q: invalid syntax'' [Quo p])
            | Some v \<Rightarrow> Inr (i64 (v * 1024)))
        | _ \<Rightarrow> Inl (Errorf ''MemTotal not found'' [])))"

section \<open>The capacity of the subnet\<close>

text \<open>\<open>net.ParseCIDR\<close> and the size of its mask: the number of leading ones and of bits.\<close>

definition ParseCIDR_Size :: "string \<Rightarrow> (nat \<times> nat) option" where
  "ParseCIDR_Size s =
     (case Cut s ''/'' of
        None \<Rightarrow> None
      | Some (addr, ones) \<Rightarrow>
          (case ParseIP addr of
             None \<Rightarrow> None
           | Some _ \<Rightarrow>
               let bits = (if CHR '':'' \<in> set addr then 128 else 32 :: nat);
                   n = digits_val 10 ones in
               if ones = [] \<or> \<not> list_all is_digit ones \<or> n > int bits then None
               else Some (nat n, bits)))"

definition ensureIPCapacity :: "string \<Rightarrow> go_error + LetSandbox list \<Rightarrow> string \<Rightarrow> go_error option" where
  "ensureIPCapacity cidr listing nextSandboxID =
     (case ParseCIDR_Size cidr of
        None \<Rightarrow> Some (Errorf ''invalid subnet cidr: %w'' [Wrap (Errorf ''invalid CIDR address: %s'' [Str cidr])])
      | Some (ones, bits) \<Rightarrow>
          if bits \<noteq> 32 then Some (Errorf ''only ipv4 subnet is supported'' [])
          else let hostBits = bits - ones in
          if hostBits \<le> 2 then Some (Errorf ''subnet too small: %s'' [Str cidr])
          else let usable = 2 ^ hostBits - 2 :: int in
          if usable \<le> 0 then Some (Errorf ''subnet has no usable addresses: %s'' [Str cidr])
          else (case listing of
              Inl err \<Rightarrow> Some err
            | Inr all \<Rightarrow>
                let active = length (filter (counts nextSandboxID) all) in
                if int active \<ge> usable then
                  Some (Errorf ''insufficient ip addresses in subnet %s: in_use=%d usable=%d''
                    [Str cidr, Dec (int active), Dec usable])
                else None))"

section \<open>Lemmas: limits\<close>

lemma sdiv_nonneg: "0 \<le> a \<Longrightarrow> 0 < b \<Longrightarrow> a sdiv b = a div (b :: int)"
  by (cases "a = 0") (simp_all add: signed_divide_int_def sgn_if)

lemma split_ephemeral_ok:
  assumes "0 < bytes" and "bytes \<le> 92233720368547758" and "0 \<le> ratio" and "ratio \<le> 100"
    and "split_ephemeral bytes ratio = (rootB, tmpB)"
  shows "rootB + tmpB = bytes \<and> 0 \<le> rootB \<and> 0 \<le> tmpB \<and>
    (if minRoot + minTmp \<le> bytes then minRoot \<le> rootB \<and> minTmp \<le> tmpB else rootB = bytes * ratio div 100)"
proof -
  have prod: "0 \<le> bytes * ratio" "bytes * ratio \<le> bytes * 100" using assms by (auto intro: mult_left_mono)
  moreover have "bytes * 100 \<le> 9223372036854775807" using assms(2) by simp
  ultimately have "in64 (bytes * ratio)" by (intro in64I) linarith+
  then have "i64 (bytes * ratio) = bytes * ratio" by (rule i64_id)
  then have share: "i64 (bytes * ratio) sdiv 100 = bytes * ratio div 100" using prod by (simp add: sdiv_nonneg)
  have le: "0 \<le> bytes * ratio div 100" "bytes * ratio div 100 \<le> bytes" using prod by simp_all
  have id: "i64 (bytes - x) = bytes - x" if "0 \<le> x" "x \<le> bytes" for x
    using that assms by (intro i64_id in64I) auto
  show ?thesis
    using assms(5) le id [of "bytes * ratio div 100"] id [of minRoot] id [of minTmp]
    by (auto simp: split_ephemeral_def share Let_def minRoot_def minTmp_def split: if_splits)
qed

section \<open>Lemmas: admission\<close>

text \<open>What a container costs, and sums of costs.\<close>

definition cost :: "quantity_parser \<Rightarrow> ResourceSpec \<Rightarrow> int \<times> int" where
  "cost pq r = (case parseContainerResource pq r of Inl _ \<Rightarrow> (0, 0) | Inr p \<Rightarrow> (pr_CPUMilli p, pr_MemoryBytes p))"

definition total_cost :: "quantity_parser \<Rightarrow> ResourceSpec list \<Rightarrow> int \<times> int" where
  "total_cost pq rs = (sum_list (map (fst \<circ> cost pq) rs), sum_list (map (snd \<circ> cost pq) rs))"

lemma parse_positive:
  "parseContainerResource pq r = Inr p \<Longrightarrow> 0 < pr_CPUMilli p \<and> 0 < pr_MemoryBytes p"
  by (auto simp: parseContainerResource_def let_parseCPUMilli_def let_parseMemoryBytes_def Let_def
      split: sum.splits if_splits)

lemma cost_nonneg: "0 \<le> fst (cost pq r)" "0 \<le> snd (cost pq r)"
  by (auto simp: cost_def split: sum.splits dest!: parse_positive)

lemma total_cost_nonneg: "0 \<le> fst (total_cost pq rs)" "0 \<le> snd (total_cost pq rs)"
  by (auto simp: total_cost_def cost_nonneg intro!: sum_list_nonneg)

lemma total_cost_Cons:
  "fst (total_cost pq (r # rs)) = fst (cost pq r) + fst (total_cost pq rs)"
  "snd (total_cost pq (r # rs)) = snd (cost pq r) + snd (total_cost pq rs)"
  by (simp_all add: total_cost_def)

lemma total_cost_append:
  "total_cost pq (rs @ rs') = (fst (total_cost pq rs) + fst (total_cost pq rs'), snd (total_cost pq rs) + snd (total_cost pq rs'))"
  by (simp add: total_cost_def)

lemma foldl_add_container:
  "0 \<le> a \<Longrightarrow> 0 \<le> b \<Longrightarrow> in64 (a + fst (total_cost pq (map cs_Resource cs))) \<Longrightarrow> in64 (b + snd (total_cost pq (map cs_Resource cs))) \<Longrightarrow>
   foldl (add_container pq) (a, b) cs =
     (a + fst (total_cost pq (map cs_Resource cs)), b + snd (total_cost pq (map cs_Resource cs)))"
proof (induction cs arbitrary: a b)
  case (Cons c cs)
  let ?c = "cost pq (cs_Resource c)" and ?t = "total_cost pq (map cs_Resource cs)"
  have "in64 (a + fst ?c)" "in64 (b + snd ?c)"
    using Cons.prems total_cost_nonneg [of pq "map cs_Resource cs"] cost_nonneg [of pq "cs_Resource c"]
    by (auto simp: in64_def total_cost_Cons)
  then have "add_container pq (a, b) c = (a + fst ?c, b + snd ?c)"
    using Cons.prems by (auto simp: add_container_def cost_def in64_def split: sum.splits)
  then show ?case
    using Cons.IH [of "a + fst ?c" "b + snd ?c"] Cons.prems cost_nonneg [of pq "cs_Resource c"]
    by (simp add: total_cost_Cons add.assoc)
qed (simp add: total_cost_def)

definition counted :: "LetSandbox list \<Rightarrow> string \<Rightarrow> ContainerState list" where
  "counted all except = concat (map (\<lambda>sbx. map snd (ls_Containers sbx)) (filter (counts except) all))"

lemma allocated_counted: "allocated pq all except = foldl (add_container pq) (0, 0) (counted all except)"
proof -
  have "foldl (\<lambda>acc sbx. if \<not> counts except sbx then acc else foldl (add_container pq) acc (map snd (ls_Containers sbx))) acc all =
      foldl (add_container pq) acc (counted all except)" for acc
    by (induction all arbitrary: acc) (auto simp: counted_def)
  then show ?thesis by (simp add: allocated_def)
qed

lemma request_total_cost:
  "request_total pq cs a b = Inr (x, y) \<Longrightarrow> 0 \<le> a \<Longrightarrow> 0 \<le> b \<Longrightarrow>
   in64 (a + fst (total_cost pq (map cc_Resource cs))) \<Longrightarrow> in64 (b + snd (total_cost pq (map cc_Resource cs))) \<Longrightarrow>
   x = a + fst (total_cost pq (map cc_Resource cs)) \<and> y = b + snd (total_cost pq (map cc_Resource cs))"
proof (induction cs arbitrary: a b)
  case (Cons c cs)
  let ?c = "cost pq (cc_Resource c)" and ?t = "total_cost pq (map cc_Resource cs)"
  obtain r where r: "parseContainerResource pq (cc_Resource c) = Inr r"
    using Cons.prems(1) by (auto split: sum.splits)
  have c: "?c = (pr_CPUMilli r, pr_MemoryBytes r)" by (simp add: cost_def r)
  have "in64 (a + fst ?c)" "in64 (b + snd ?c)"
    using Cons.prems total_cost_nonneg [of pq "map cc_Resource cs"] cost_nonneg [of pq "cc_Resource c"]
    by (auto simp: in64_def total_cost_Cons)
  then show ?case
    using Cons.IH [of "a + fst ?c" "b + snd ?c"] Cons.prems cost_nonneg [of pq "cc_Resource c"]
    by (simp add: total_cost_Cons add.assoc r c)
qed (simp add: total_cost_def)

text \<open>The containers of a new sandbox are those of the request.\<close>

lemma map_put_new: "k \<notin> fst ` set m \<Longrightarrow> map_put k v m = m @ [(k, v)]"
  by (induction k v m rule: map_put.induct) auto

lemma new_containers:
  "distinct (map cc_Name cs) \<Longrightarrow> cc_Name ` set cs \<inter> fst ` set m = {} \<Longrightarrow>
   foldl (\<lambda>m c. map_put (cc_Name c) (f c) m) m cs = m @ map (\<lambda>c. (cc_Name c, f c)) cs"
proof (induction cs arbitrary: m)
  case (Cons c cs)
  then show ?case by (subst foldl_Cons, subst map_put_new) (auto simp: Cons.IH)
qed simp

lemma new_sandbox_resources:
  assumes "distinct (map cc_Name (cr_Containers req))"
  shows "map (cs_Resource \<circ> snd) (ls_Containers (newSandboxState svc now req)) = map cc_Resource (cr_Containers req)"
proof -
  have "ls_Containers (newSandboxState svc now req) =
      map (\<lambda>c. (cc_Name c, new_container_state svc (cr_ID req) c)) (cr_Containers req)"
    using new_containers [OF assms, of "[]" "new_container_state svc (cr_ID req)"] by (simp add: newSandboxState_def)
  then show ?thesis by (simp add: new_container_state_def)
qed

section \<open>The limits of a container\<close>


text \<open>A request for 64 MiB under a ratio of 90 percent: the tmpfs still gets its 16 MiB.\<close>

definition sample_limits_config :: let_limits_config where
  "sample_limits_config = \<lparr> lc_DefaultEphemeralBytes = 536870912, lc_RootfsRatioPercent = 90, lc_MaxAllocPercent = 80 \<rparr>"

definition sample_parsed :: parsedResource where
  "sample_parsed = \<lparr> pr_CPUMilli = 100, pr_MemoryBytes = 1024, pr_EphemeralBytes = 67108864, pr_HasEphemeralSet = True \<rparr>"


section \<open>Admission keeps the node within its limits\<close>

lemma counts_other: "ls_ID sbx \<noteq> i \<Longrightarrow> counts [] sbx \<Longrightarrow> counts i sbx"
  by (simp add: counts_def)

lemma counted_Cons:
  "counted (sbx # all) e = (if counts e sbx then map snd (ls_Containers sbx) else []) @ counted all e"
  by (simp add: counted_def)

text \<open>The cost of what the stored sandboxes hold.\<close>

abbreviation stored_cost :: "quantity_parser \<Rightarrow> LetSandbox list \<Rightarrow> string \<Rightarrow> int \<times> int" where
  "stored_cost pq all e \<equiv> total_cost pq (map cs_Resource (counted all e))"

lemma allocated_cost:
  "in64 (fst (stored_cost pq all e)) \<Longrightarrow> in64 (snd (stored_cost pq all e)) \<Longrightarrow> allocated pq all e = stored_cost pq all e"
  by (simp add: allocated_counted foldl_add_container)

lemma stored_cost_Cons_new:
  assumes "distinct (map cc_Name (cr_Containers req))" and "cr_ID req \<noteq> []"
  shows "stored_cost pq (newSandboxState svc now req # all) [] =
    (fst (total_cost pq (map cc_Resource (cr_Containers req))) + fst (stored_cost pq all []),
     snd (total_cost pq (map cc_Resource (cr_Containers req))) + snd (stored_cost pq all []))"
proof -
  have "counts [] (newSandboxState svc now req)"
    using assms(2) by (simp add: counts_def newSandboxState_def SandboxPhaseCreating_def LetPhaseDeleting_def SandboxPhaseError_def)
  then have "map cs_Resource (counted (newSandboxState svc now req # all) []) =
      map cc_Resource (cr_Containers req) @ map cs_Resource (counted all [])"
    using new_sandbox_resources [OF assms(1)] by (simp add: counted_Cons comp_def)
  then show ?thesis by (simp add: total_cost_append)
qed

lemma counted_not_stored:
  "\<forall>sbx \<in> set all. ls_ID sbx \<noteq> i \<Longrightarrow> \<forall>sbx \<in> set all. ls_ID sbx \<noteq> [] \<Longrightarrow> counted all i = counted all []"
proof -
  assume "\<forall>sbx \<in> set all. ls_ID sbx \<noteq> i" and "\<forall>sbx \<in> set all. ls_ID sbx \<noteq> []"
  then have "filter (counts i) all = filter (counts []) all" by (intro filter_cong) (auto simp: counts_def)
  then show ?thesis by (simp add: counted_def)
qed

lemma in64_parts: "in64 (a + b) \<Longrightarrow> 0 \<le> a \<Longrightarrow> 0 \<le> b \<Longrightarrow> in64 a \<and> in64 b"
  by (auto simp: in64_def)

text \<open>What a passed admission check says of the sums of the request and of the stored sandboxes.\<close>

lemma admission_bound:
  assumes "enforceAdmission pq cfg (Inr all) numCPU (Inr hostMem) req = None"
    and "in64 (fst (stored_cost pq all (cr_ID req)) + fst (total_cost pq (map cc_Resource (cr_Containers req))))"
    and "in64 (snd (stored_cost pq all (cr_ID req)) + snd (total_cost pq (map cc_Resource (cr_Containers req))))"
  shows "fst (stored_cost pq all (cr_ID req)) + fst (total_cost pq (map cc_Resource (cr_Containers req)))
      \<le> percent_of (i64 (numCPU * 1000)) (lc_MaxAllocPercent cfg)"
    and "snd (stored_cost pq all (cr_ID req)) + snd (total_cost pq (map cc_Resource (cr_Containers req)))
      \<le> percent_of hostMem (lc_MaxAllocPercent cfg)"
proof -
  let ?s = "stored_cost pq all (cr_ID req)" and ?r = "total_cost pq (map cc_Resource (cr_Containers req))"
  note nn = total_cost_nonneg [of pq "map cs_Resource (counted all (cr_ID req))"]
    total_cost_nonneg [of pq "map cc_Resource (cr_Containers req)"]
  obtain x y where rt: "request_total pq (cr_Containers req) 0 0 = Inr (x, y)"
    using assms(1) by (auto simp: enforceAdmission_def split: sum.splits)
  have req: "x = fst ?r \<and> y = snd ?r"
    using request_total_cost [OF rt] in64_parts [OF assms(2)] in64_parts [OF assms(3)] nn by simp
  have used: "allocated pq all (cr_ID req) = ?s"
    using allocated_cost in64_parts [OF assms(2)] in64_parts [OF assms(3)] nn by blast
  show "fst ?s + fst ?r \<le> percent_of (i64 (numCPU * 1000)) (lc_MaxAllocPercent cfg)"
    and "snd ?s + snd ?r \<le> percent_of hostMem (lc_MaxAllocPercent cfg)"
    using assms(1) req i64_id [OF assms(2)] i64_id [OF assms(3)]
    by (auto simp: enforceAdmission_def rt currentAllocatedResources_def used Let_def split: prod.splits if_splits)
qed

text \<open>
  C25: admission control (\<open>enforceAdmission\<close>, then \<open>newSandboxState\<close> as \<open>createSandbox\<close> stores it): once a
  request with distinct container names has been admitted and its sandbox stored, what all counted
  sandboxes of the node allocate together is within the configured share of its CPUs and memory,
  and the node reports (\<open>NodeResourceSnapshot\<close>) exactly the rest as available. The sums are assumed
  to fit 64 bits.
\<close>

theorem admission_keeps_limits:
  assumes "enforceAdmission pq cfg (Inr all) numCPU (Inr hostMem) req = None"
    and "distinct (map cc_Name (cr_Containers req))" and "cr_ID req \<noteq> []"
    and "\<forall>sbx \<in> set all. ls_ID sbx \<noteq> cr_ID req \<and> ls_ID sbx \<noteq> []"
    and "in64 (fst (total_cost pq (map cs_Resource (counted all (cr_ID req)))) + fst (total_cost pq (map cc_Resource (cr_Containers req))))"
    and "in64 (snd (total_cost pq (map cs_Resource (counted all (cr_ID req)))) + snd (total_cost pq (map cc_Resource (cr_Containers req))))"
  shows "fst (allocated pq (newSandboxState svc now req # all) []) \<le> percent_of (i64 (numCPU * 1000)) (lc_MaxAllocPercent cfg) \<and>
    snd (allocated pq (newSandboxState svc now req # all) []) \<le> percent_of hostMem (lc_MaxAllocPercent cfg) \<and>
    (\<exists>snap. let_NodeResourceSnapshot pq cfg (Inr (newSandboxState svc now req # all)) numCPU (Inr hostMem) now' = Inr snap \<and>
        nrs_UsedCPUMilli snap + nrs_AvailableCPUMilli snap = nrs_AllocatableCPUMilli snap \<and>
        nrs_UsedMemoryBytes snap + nrs_AvailableMemory snap = nrs_AllocatableMemory snap)"
proof -
  let ?all = "newSandboxState svc now req # all"
  have same: "counted all (cr_ID req) = counted all []" using assms(4) by (intro counted_not_stored) auto
  note b = admission_bound [OF assms(1,5,6), unfolded same]
  note sc = stored_cost_Cons_new [OF assms(2,3), of pq svc now all]
  have in64: "in64 (fst (stored_cost pq ?all []))" "in64 (snd (stored_cost pq ?all []))"
    using assms(5,6) by (simp_all add: sc same add.commute)
  note al = allocated_cost [OF in64]
  have cpu: "fst (allocated pq ?all []) \<le> percent_of (i64 (numCPU * 1000)) (lc_MaxAllocPercent cfg)"
    and mem: "snd (allocated pq ?all []) \<le> percent_of hostMem (lc_MaxAllocPercent cfg)"
    using b by (simp_all add: al sc)
  have nn: "0 \<le> fst (allocated pq ?all [])" "0 \<le> snd (allocated pq ?all [])"
    unfolding al by (rule total_cost_nonneg)+
  have pc: "percent_of x y < 2 ^ 63" for x y
    using in64_i64 [of "x * y"] by (auto simp: percent_of_def in64_def signed_divide_int_def sgn_if)
  have rest: "i64 (percent_of x y - u) = percent_of x y - u" if "0 \<le> u" "u \<le> percent_of x y" for x y u
    using that pc [of x y] by (intro i64_id) (simp add: in64_def)
  show ?thesis
    using cpu mem nn
    by (auto simp: let_NodeResourceSnapshot_def currentAllocatedResources_def Let_def rest split: prod.splits)
qed

text \<open>A node of four CPUs with 8 GiB that already runs a copy of the sandbox.\<close>

definition sample_service :: let_service where
  "sample_service = \<lparr> sv_namespace = ''k8s.io'', sv_bridgeIF = ''sbx0'', sv_cidr = ''10.89.0.0/24'',
     sv_cniConfPath = ''/etc/cni/net.d'', sv_runtimeBinary = ''runsc'' \<rparr>"

definition sample_stored :: LetSandbox where
  "sample_stored = newSandboxState sample_service 0 (sample_request\<lparr> cr_ID := ''sbx-0'' \<rparr>)"

lemma sample_admitted:
  "enforceAdmission plain_pq sample_limits_config (Inr [sample_stored]) 4 (Inr 8589934592) sample_request = None"
  by code_simp

lemma sample_admission_sums:
  "in64 (fst (total_cost plain_pq (map cs_Resource (counted [sample_stored] (cr_ID sample_request)))) +
     fst (total_cost plain_pq (map cc_Resource (cr_Containers sample_request))))"
  "in64 (snd (total_cost plain_pq (map cs_Resource (counted [sample_stored] (cr_ID sample_request)))) +
     snd (total_cost plain_pq (map cc_Resource (cr_Containers sample_request))))"
  by code_simp+

theorem admission_keeps_limits_witness:
  "fst (allocated plain_pq [newSandboxState sample_service 7 sample_request, sample_stored] [])
     \<le> percent_of (i64 (4 * 1000)) (lc_MaxAllocPercent sample_limits_config)"
proof (rule admission_keeps_limits [OF sample_admitted, THEN conjunct1])
  show "distinct (map cc_Name (cr_Containers sample_request))" by code_simp
  show "cr_ID sample_request \<noteq> []" by code_simp
  show "\<forall>sbx \<in> set [sample_stored]. ls_ID sbx \<noteq> cr_ID sample_request \<and> ls_ID sbx \<noteq> []" by code_simp
qed (rule sample_admission_sums)+

text \<open>
  The capacity of the subnet (\<open>ensureIPCapacity\<close>): a sandbox is admitted exactly when the subnet is
  an IPv4 prefix of at most 29 bits and, without counting the sandbox itself, the sandboxes that are
  neither being deleted nor failed leave at least one of the \<open>2^(32 - bits) - 2\<close> usable addresses free.
\<close>

theorem ensureIPCapacity_iff:
  "ensureIPCapacity cidr (Inr all) i = None \<longleftrightarrow>
   (\<exists>ones \<le> 29. ParseCIDR_Size cidr = Some (ones, 32) \<and> int (length (filter (counts i) all)) + 3 \<le> 2 ^ (32 - ones))"
proof (cases "ParseCIDR_Size cidr")
  case (Some p)
  obtain ones bits where p: "p = (ones, bits)" by fastforce
  have pos: "2 < (2 :: int) ^ (32 - ones)" if "ones \<le> 29"
    using power_strict_increasing [of 1 "32 - ones" "2 :: int"] that by simp
  then show ?thesis using Some p by (auto simp: ensureIPCapacity_def Let_def not_le)
qed (simp add: ensureIPCapacity_def)

end
