(* ===== verification/Let_Firewall.thy ===== *)
theory Let_Firewall
  imports Let_Resources Effects "HOL-Library.Word" "HOL-Library.AList"
begin

unbundle bit_operations_syntax

text \<open>
  \<open>sandboxd-let/network/firewall.go\<close>: the iptables rules of sandboxes. The package go-iptables is not part of
  the repository: its operations are the parameter \<open>ipt\<close> over an abstract state, and the locale
  \<open>iptables\<close> states their documented behaviour in terms of the rules of each chain. The functions
  that only print debug output are left out.
\<close>

section \<open>The operations of go-iptables\<close>

type_synonym rule = "string list"

record 'f ipt_ops =
  ipt_NewChain :: "string \<Rightarrow> string \<Rightarrow> ('f, go_error option) state"
  ipt_ClearChain :: "string \<Rightarrow> string \<Rightarrow> ('f, go_error option) state"
  ipt_DeleteChain :: "string \<Rightarrow> string \<Rightarrow> ('f, go_error option) state"
  ipt_AppendUnique :: "string \<Rightarrow> string \<Rightarrow> rule \<Rightarrow> ('f, go_error option) state"
  ipt_Insert :: "string \<Rightarrow> string \<Rightarrow> nat \<Rightarrow> rule \<Rightarrow> ('f, go_error option) state"
  ipt_Delete :: "string \<Rightarrow> string \<Rightarrow> rule \<Rightarrow> ('f, go_error option) state"
  ipt_List :: "string \<Rightarrow> string \<Rightarrow> ('f, go_error + string list) state"
  ipt_ListChains :: "string \<Rightarrow> ('f, go_error + string list) state"

text \<open>\<open>if err := m; err != nil { return err }\<close>\<close>

definition bindO :: "('s, go_error option) state \<Rightarrow> ('s, go_error option) state \<Rightarrow> ('s, go_error option) state" where
  "bindO m k = do { r \<leftarrow> m; case r of Some err \<Rightarrow> ret (Some err) | None \<Rightarrow> k }"

text \<open>\<open>_ = m\<close>\<close>

definition ignore :: "('s, 'a) state \<Rightarrow> ('s, unit) state" where
  "ignore m = do { _ \<leftarrow> m; ret () }"

section \<open>firewall.go\<close>

record PublishedPort =
  pp_ContainerPort :: int
  pp_Protocol :: string

record HostPortForward =
  hf_HostPort :: int
  hf_ContainerPort :: int
  hf_Protocol :: string

definition hostPortCommentPrefix :: string where "hostPortCommentPrefix = ''SBX:''"

definition ascii_upper :: "char \<Rightarrow> char" where
  "ascii_upper c = (if 97 \<le> (of_char c :: nat) \<and> (of_char c :: nat) \<le> 122
     then char_of (of_char c - 32 :: nat) else c)"

text \<open>
  \<open>strings.ToUpper\<close>: ASCII letters, and the two runes outside ASCII whose upper case is an ASCII letter
  (U+0131 and U+017F). The other bytes are left as they are.
\<close>

fun ToUpper :: "string \<Rightarrow> string" where
  "ToUpper [] = []"
| "ToUpper (c # s) =
     (if c = CHR 0xC4 \<and> take 1 s = [CHR 0xB1] then CHR ''I'' # ToUpper (drop 1 s)
      else if c = CHR 0xC5 \<and> take 1 s = [CHR 0xBF] then CHR ''S'' # ToUpper (drop 1 s)
      else ascii_upper c # ToUpper s)"

text \<open>\<open>fnv.New32a\<close> and the verb \<open>%08x\<close>.\<close>

definition fnv32a :: "string \<Rightarrow> 32 word" where
  "fnv32a s = foldl (\<lambda>h c. (h XOR of_nat (of_char c)) * 16777619) 2166136261 s"

definition hex_digit :: "nat \<Rightarrow> char" where
  "hex_digit n = (if n < 10 then char_of (n + 48) else char_of (n + 87))"

definition hex8 :: "32 word \<Rightarrow> string" where
  "hex8 w = map (\<lambda>i. hex_digit (unat w div 16 ^ i mod 16)) (rev [0..<8])"

definition shortID :: "string \<Rightarrow> string" where
  "shortID sid = hex8 (fnv32a sid)"

definition insertFirst :: "'f ipt_ops \<Rightarrow> string \<Rightarrow> rule \<Rightarrow> ('f, go_error option) state" where
  "insertFirst ipt parent r = do {
     _ \<leftarrow> ipt_Delete ipt ''filter'' parent r;
     e \<leftarrow> ipt_Insert ipt ''filter'' parent 1 r;
     case e of Some err \<Rightarrow> ret (Some (Errorf ''insert rule: %w'' [Wrap err])) | None \<Rightarrow> ret None }"

definition insertForwardAcceptEarly :: "'f ipt_ops \<Rightarrow> string \<Rightarrow> string \<Rightarrow> int \<Rightarrow> ('f, go_error option) state" where
  "insertForwardAcceptEarly ipt ip proto dport = do {
     let r = [''-d'', ip @ ''/32'', ''-p'', proto, ''--dport'', Itoa dport, ''-j'', ''ACCEPT''];
     _ \<leftarrow> ipt_Delete ipt ''filter'' ''FORWARD'' r;
     ipt_Insert ipt ''filter'' ''FORWARD'' 2 r }"

definition hasChain :: "'f ipt_ops \<Rightarrow> string \<Rightarrow> ('f, bool) state" where
  "hasChain ipt chain = do {
     r \<leftarrow> ipt_ListChains ipt ''filter'';
     case r of Inl _ \<Rightarrow> ret False | Inr names \<Rightarrow> ret (chain \<in> set names) }"

definition containsChain :: "string list \<Rightarrow> string \<Rightarrow> bool" where
  "containsChain names target =
     (let t = ToUpper (TrimSpace target) in list_ex (\<lambda>c. ToUpper (TrimSpace c) = t) names)"

fun hook_chains :: "'f ipt_ops \<Rightarrow> string list \<Rightarrow> ('f, go_error option) state" where
  "hook_chains ipt [] = ret None"
| "hook_chains ipt (c # cs) = do {
     let chain = TrimSpace (ToUpper c);
     present \<leftarrow> (if chain = [] then ret False else hasChain ipt chain);
     if chain = [] \<or> \<not> present then hook_chains ipt cs
     else bindO (insertFirst ipt chain [''-j'', ''SANDBOX-FWD'']) (hook_chains ipt cs) }"

definition EnsureGlobalChains :: "'f ipt_ops \<Rightarrow> string list \<Rightarrow> ('f, go_error option) state" where
  "EnsureGlobalChains ipt forwardHookChains = do {
     _ \<leftarrow> ipt_NewChain ipt ''filter'' ''SANDBOX-FWD'';
     _ \<leftarrow> ipt_NewChain ipt ''filter'' ''SANDBOX-IN'';
     bindO (insertFirst ipt ''FORWARD'' [''-m'', ''mark'', ''--mark'', ''0x2000/0x2000'', ''-j'', ''ACCEPT''])
     (bindO (insertFirst ipt ''FORWARD'' [''-m'', ''conntrack'', ''--ctstate'', ''ESTABLISHED,RELATED'', ''-j'', ''ACCEPT''])
     (let hooks0 = (if length forwardHookChains = 0 then [''FORWARD''] else forwardHookChains);
          hooks = (if \<not> containsChain hooks0 ''FORWARD'' then ''FORWARD'' # hooks0 else hooks0) in
      bindO (hook_chains ipt hooks)
      (insertFirst ipt ''INPUT'' [''-j'', ''SANDBOX-IN'']))) }"

text \<open>The lines of the resolver configuration: the IPv4 name servers, without repetition.\<close>

definition ipv4_text :: "nat list \<Rightarrow> string" where
  "ipv4_text b = Join (map (\<lambda>n. Itoa (int n)) b) ''.''"

fun systemNameservers :: "string list \<Rightarrow> string list \<Rightarrow> string list" where
  "systemNameservers [] out = out"
| "systemNameservers (l # ls) out =
     (let line = TrimSpace l in
      if line = [] \<or> HasPrefix line ''#'' then systemNameservers ls out
      else (case Fields line of
          f0 # f1 # _ \<Rightarrow>
            if f0 \<noteq> ''nameserver'' then systemNameservers ls out
            else (case ParseIP f1 of
                None \<Rightarrow> systemNameservers ls out
              | Some ip \<Rightarrow> (case To4 ip of
                  None \<Rightarrow> systemNameservers ls out
                | Some b \<Rightarrow>
                    (let s = ipv4_text b @ ''/32'' in
                     if s \<in> set out then systemNameservers ls out else systemNameservers ls (out @ [s]))))
        | _ \<Rightarrow> systemNameservers ls out))"

definition port_proto :: "string \<Rightarrow> string" where
  "port_proto p = (let proto = ToLower p in if proto = [] then ''tcp'' else proto)"

definition established :: rule where
  "established = [''-m'', ''conntrack'', ''--ctstate'', ''ESTABLISHED,RELATED'', ''-j'', ''ACCEPT'']"

definition dns_rules :: "string list \<Rightarrow> rule list" where
  "dns_rules nameservers =
     concat (map (\<lambda>ns. [[''-d'', ns, ''-p'', ''udp'', ''--dport'', ''53'', ''-j'', ''ACCEPT''],
                        [''-d'', ns, ''-p'', ''tcp'', ''--dport'', ''53'', ''-j'', ''ACCEPT'']]) nameservers) @
     [[''-p'', ''udp'', ''--dport'', ''53'', ''-j'', ''ACCEPT''], [''-p'', ''tcp'', ''--dport'', ''53'', ''-j'', ''ACCEPT'']]"

definition private_cidrs :: "string \<Rightarrow> string list" where
  "private_cidrs bridgeCIDR =
     [bridgeCIDR, ''10.0.0.0/8'', ''172.16.0.0/12'', ''192.168.0.0/16'', ''127.0.0.0/8'', ''169.254.0.0/16'', ''100.64.0.0/10'',
      ''198.18.0.0/15'', ''224.0.0.0/4'', ''240.0.0.0/4'']"

text \<open>The rules that \<open>ApplySandboxRules\<close> appends to the chains of a sandbox, in order.\<close>

definition forward_rules :: "string list \<Rightarrow> string \<Rightarrow> bool \<Rightarrow> rule list" where
  "forward_rules nameservers bridgeCIDR egress =
     [established] @ (if egress then dns_rules nameservers else []) @
     [[''-m'', ''addrtype'', ''--dst-type'', ''LOCAL'', ''-j'', ''REJECT'']] @
     map (\<lambda>cidr. [''-d'', cidr, ''-j'', ''REJECT'']) (private_cidrs bridgeCIDR) @
     [if egress then [''-j'', ''ACCEPT''] else [''-j'', ''REJECT'']]"

definition input_rules :: "PublishedPort list \<Rightarrow> rule list" where
  "input_rules ports =
     [established] @
     map (\<lambda>p. [''-p'', port_proto (pp_Protocol p), ''--sport'', Itoa (pp_ContainerPort p), ''-j'', ''ACCEPT'']) ports @
     [[''-j'', ''REJECT'']]"

definition fwd_chain :: "string \<Rightarrow> string" where "fwd_chain sid = ''SBX-'' @ shortID sid @ ''-FWD''"

definition in_chain :: "string \<Rightarrow> string" where "in_chain sid = ''SBX-'' @ shortID sid @ ''-IN''"

definition fwd_hook :: "string \<Rightarrow> string \<Rightarrow> rule" where
  "fwd_hook sid ip = [''-s'', ip @ ''/32'', ''-j'', fwd_chain sid]"

definition in_hook :: "string \<Rightarrow> string \<Rightarrow> string \<Rightarrow> rule" where
  "in_hook sid ip bridgeIF = [''-i'', bridgeIF, ''-s'', ip @ ''/32'', ''-j'', in_chain sid]"

definition ApplySandboxRules ::
  "'f ipt_ops \<Rightarrow> string list \<Rightarrow> string \<Rightarrow> string \<Rightarrow> string \<Rightarrow> string \<Rightarrow> bool \<Rightarrow> PublishedPort list \<Rightarrow> ('f, go_error option) state" where
  "ApplySandboxRules ipt resolvConf sandboxID ip bridgeCIDR bridgeIF egress ports = do {
     _ \<leftarrow> ipt_NewChain ipt ''filter'' (fwd_chain sandboxID);
     _ \<leftarrow> ipt_NewChain ipt ''filter'' (in_chain sandboxID);
     bindO (ipt_AppendUnique ipt ''filter'' ''SANDBOX-FWD'' (fwd_hook sandboxID ip))
     (bindO (ipt_AppendUnique ipt ''filter'' ''SANDBOX-IN'' (in_hook sandboxID ip bridgeIF))
     (do {
       for_each ports (\<lambda>p. ignore (insertForwardAcceptEarly ipt ip (port_proto (pp_Protocol p)) (pp_ContainerPort p)));
       for_each (forward_rules (systemNameservers resolvConf []) bridgeCIDR egress)
         (\<lambda>r. ignore (ipt_AppendUnique ipt ''filter'' (fwd_chain sandboxID) r));
       for_each (input_rules ports) (\<lambda>r. ignore (ipt_AppendUnique ipt ''filter'' (in_chain sandboxID) r));
       ret None })) }"

definition DeleteSandboxRules ::
  "'f ipt_ops \<Rightarrow> string \<Rightarrow> string \<Rightarrow> string \<Rightarrow> PublishedPort list \<Rightarrow> ('f, unit) state" where
  "DeleteSandboxRules ipt sandboxID ip bridgeIF ports = do {
     for_each ports (\<lambda>p. ignore (ipt_Delete ipt ''filter'' ''FORWARD''
       [''-d'', ip @ ''/32'', ''-p'', port_proto (pp_Protocol p), ''--dport'', Itoa (pp_ContainerPort p), ''-j'', ''ACCEPT'']));
     ignore (ipt_Delete ipt ''filter'' ''SANDBOX-FWD'' (fwd_hook sandboxID ip));
     ignore (ipt_Delete ipt ''filter'' ''SANDBOX-IN'' (in_hook sandboxID ip bridgeIF));
     ignore (ipt_ClearChain ipt ''filter'' (fwd_chain sandboxID));
     ignore (ipt_ClearChain ipt ''filter'' (in_chain sandboxID));
     ignore (ipt_DeleteChain ipt ''filter'' (fwd_chain sandboxID));
     ignore (ipt_DeleteChain ipt ''filter'' (in_chain sandboxID)) }"

definition forward_proto :: "string \<Rightarrow> string" where
  "forward_proto p = (let proto = ToLower (TrimSpace p) in if proto = [] then ''tcp'' else proto)"

definition dnat_rule :: "string \<Rightarrow> string \<Rightarrow> HostPortForward \<Rightarrow> rule" where
  "dnat_rule sandboxID sandboxIP f =
     [''-p'', forward_proto (hf_Protocol f), ''--dport'', Itoa (hf_HostPort f), ''-m'', ''comment'', ''--comment'',
      hostPortCommentPrefix @ sandboxID, ''-j'', ''DNAT'', ''--to-destination'', sandboxIP @ '':'' @ Itoa (hf_ContainerPort f)]"

definition dnat_local_rule :: "string \<Rightarrow> string \<Rightarrow> HostPortForward \<Rightarrow> rule" where
  "dnat_local_rule sandboxID sandboxIP f = [''-m'', ''addrtype'', ''--dst-type'', ''LOCAL''] @ dnat_rule sandboxID sandboxIP f"

fun ApplyHostPortDNAT :: "'f ipt_ops \<Rightarrow> string \<Rightarrow> string \<Rightarrow> HostPortForward list \<Rightarrow> ('f, go_error option) state" where
  "ApplyHostPortDNAT ipt sandboxID sandboxIP [] = ret None"
| "ApplyHostPortDNAT ipt sandboxID sandboxIP (f # fs) =
     bindO (ipt_AppendUnique ipt ''nat'' ''PREROUTING'' (dnat_rule sandboxID sandboxIP f))
     (bindO (ipt_AppendUnique ipt ''nat'' ''OUTPUT'' (dnat_local_rule sandboxID sandboxIP f))
     (ApplyHostPortDNAT ipt sandboxID sandboxIP fs))"

definition DeleteHostPortDNAT :: "'f ipt_ops \<Rightarrow> string \<Rightarrow> string \<Rightarrow> HostPortForward list \<Rightarrow> ('f, unit) state" where
  "DeleteHostPortDNAT ipt sandboxID sandboxIP forwards =
     for_each forwards (\<lambda>f. do {
       ignore (ipt_Delete ipt ''nat'' ''PREROUTING'' (dnat_rule sandboxID sandboxIP f));
       ignore (ipt_Delete ipt ''nat'' ''OUTPUT'' (dnat_local_rule sandboxID sandboxIP f)) })"

text \<open>Delete the rules of a chain whose listed line satisfies a condition on the line and its fields.\<close>

definition delete_lines :: "'f ipt_ops \<Rightarrow> (string \<Rightarrow> string list \<Rightarrow> bool) \<Rightarrow> string \<Rightarrow> ('f, unit) state" where
  "delete_lines ipt cond chain = do {
     r \<leftarrow> ipt_List ipt ''nat'' chain;
     case r of
       Inl _ \<Rightarrow> ret ()
     | Inr rules \<Rightarrow> for_each rules (\<lambda>line.
         let fields = Fields (TrimSpace line) in
         if length fields < 3 \<or> hd fields \<noteq> ''-A'' then ret ()
         else if \<not> cond line fields then ret ()
         else ignore (ipt_Delete ipt ''nat'' chain (drop 2 fields))) }"

definition DeleteHostPortDNATBySandbox :: "'f ipt_ops \<Rightarrow> string \<Rightarrow> ('f, unit) state" where
  "DeleteHostPortDNATBySandbox ipt sandboxID = do {
     let tag = ''--comment '' @ hostPortCommentPrefix @ sandboxID;
     delete_lines ipt (\<lambda>line _. Contains line tag) ''PREROUTING'';
     delete_lines ipt (\<lambda>line _. Contains line tag) ''OUTPUT'' }"

text \<open>\<open>strings.Trim\<close> of double quotes.\<close>

definition trim_quotes :: "string \<Rightarrow> string" where
  "trim_quotes s = rev (dropWhile (\<lambda>c. c = CHR 0x22) (rev (dropWhile (\<lambda>c. c = CHR 0x22) s)))"

fun sandboxIDFromRule :: "string list \<Rightarrow> string" where
  "sandboxIDFromRule (f # v # rest) =
     (if f \<noteq> ''--comment'' then sandboxIDFromRule (v # rest)
      else let w = trim_quotes v in
      if HasPrefix w hostPortCommentPrefix then TrimPrefix w hostPortCommentPrefix else sandboxIDFromRule (v # rest))"
| "sandboxIDFromRule _ = []"

definition DeleteOrphanHostPortDNAT :: "'f ipt_ops \<Rightarrow> string list \<Rightarrow> ('f, unit) state" where
  "DeleteOrphanHostPortDNAT ipt keep = do {
     let orphan = (\<lambda>_ fields. let i = sandboxIDFromRule fields in i \<noteq> [] \<and> i \<notin> set keep);
     delete_lines ipt orphan ''PREROUTING'';
     delete_lines ipt orphan ''OUTPUT'' }"

section \<open>The behaviour of iptables\<close>

text \<open>A table and a chain name the rules of a chain, if it exists; the operations on that view.\<close>

type_synonym fw_tables = "string \<times> string \<rightharpoonup> rule list"

fun jumps_to :: "string \<Rightarrow> rule \<Rightarrow> bool" where
  "jumps_to c (a # b # r) = (a = ''-j'' \<and> b = c \<or> jumps_to c (b # r))"
| "jumps_to c _ = False"

definition tb_new :: "string \<times> string \<Rightarrow> fw_tables \<Rightarrow> fw_tables" where
  "tb_new k m = (if m k = None then m(k \<mapsto> []) else m)"

definition tb_clear :: "string \<times> string \<Rightarrow> fw_tables \<Rightarrow> fw_tables" where
  "tb_clear k m = m(k \<mapsto> [])"

definition tb_referenced :: "fw_tables \<Rightarrow> string \<Rightarrow> string \<Rightarrow> bool" where
  "tb_referenced m t c \<longleftrightarrow> (\<exists>c' rs. m (t, c') = Some rs \<and> (\<exists>r \<in> set rs. jumps_to c r))"

definition tb_delete_chain :: "string \<times> string \<Rightarrow> fw_tables \<Rightarrow> fw_tables" where
  "tb_delete_chain k m = (if m k = Some [] \<and> \<not> tb_referenced m (fst k) (snd k) then m(k := None) else m)"

definition tb_append :: "string \<times> string \<Rightarrow> rule \<Rightarrow> fw_tables \<Rightarrow> fw_tables" where
  "tb_append k r m = (case m k of None \<Rightarrow> m | Some rs \<Rightarrow> m(k \<mapsto> (if r \<in> set rs then rs else rs @ [r])))"

definition tb_insert :: "string \<times> string \<Rightarrow> nat \<Rightarrow> rule \<Rightarrow> fw_tables \<Rightarrow> fw_tables" where
  "tb_insert k n r m = (case m k of None \<Rightarrow> m
     | Some rs \<Rightarrow> if 1 \<le> n \<and> n \<le> Suc (length rs) then m(k \<mapsto> take (n - 1) rs @ r # drop (n - 1) rs) else m)"

definition tb_delete :: "string \<times> string \<Rightarrow> rule \<Rightarrow> fw_tables \<Rightarrow> fw_tables" where
  "tb_delete k r m = (case m k of None \<Rightarrow> m | Some rs \<Rightarrow> m(k \<mapsto> remove1 r rs))"

lemmas tb_defs = tb_new_def tb_clear_def tb_delete_chain_def tb_append_def tb_insert_def tb_delete_def

text \<open>A listed rule: the command that appends it.\<close>

definition rule_line :: "string \<Rightarrow> rule \<Rightarrow> string" where
  "rule_line c r = Join (''-A'' # c # r) '' ''"

text \<open>
  The documented behaviour of go-iptables: every operation changes the view like the operation
  above, appending to an existing chain and inserting at a valid position succeed, and listing a
  chain gives the lines of its rules after lines that declare the chain.
\<close>

locale iptables =
  fixes ipt :: "'f ipt_ops" and view :: "'f \<Rightarrow> fw_tables"
  assumes view_NewChain: "view (exec (ipt_NewChain ipt t c) s) = tb_new (t, c) (view s)"
    and view_ClearChain: "view (exec (ipt_ClearChain ipt t c) s) = tb_clear (t, c) (view s)"
    and view_DeleteChain: "view (exec (ipt_DeleteChain ipt t c) s) = tb_delete_chain (t, c) (view s)"
    and view_AppendUnique: "view (exec (ipt_AppendUnique ipt t c r) s) = tb_append (t, c) r (view s)"
    and view_Insert: "view (exec (ipt_Insert ipt t c n r) s) = tb_insert (t, c) n r (view s)"
    and view_Delete: "view (exec (ipt_Delete ipt t c r) s) = tb_delete (t, c) r (view s)"
    and view_List: "view (exec (ipt_List ipt t c) s) = view s"
    and view_ListChains: "view (exec (ipt_ListChains ipt t) s) = view s"
    and AppendUnique_ok: "view s (t, c) = Some rs \<Longrightarrow> result (ipt_AppendUnique ipt t c r) s = None"
    and List_lines: "view s (t, c) = Some rs \<Longrightarrow>
      \<exists>decl. result (ipt_List ipt t c) s = Inr (decl @ map (rule_line c) rs) \<and> list_all (\<lambda>l. Fields (TrimSpace l) = [] \<or> hd (Fields (TrimSpace l)) \<noteq> ''-A'') decl"
begin

lemmas view_ops = view_NewChain view_ClearChain view_DeleteChain view_AppendUnique view_Insert view_Delete view_List view_ListChains

lemma view_ignore: "view (exec (ignore m) s) = view (exec m s)"
  by (simp add: ignore_def split: prod.splits)

text \<open>A loop of operations, each with a known effect on the view.\<close>

lemma view_for_each:
  "(\<And>x s. x \<in> set xs \<Longrightarrow> view (exec (f x) s) = g x (view s)) \<Longrightarrow> view (exec (for_each xs f) s) = fold g xs (view s)"
proof (induction xs arbitrary: s)
  case (Cons x xs)
  then show ?case using exec_for_each_Cons [of x xs f s] by simp
qed simp

end

text \<open>Execution of the sequences the firewall code is made of.\<close>

lemma run_bindO:
  "exec (bindO m k) s = (if result m s = None then exec k (exec m s) else exec m s)"
  "result (bindO m k) s = (if result m s = None then result k (exec m s) else result m s)"
  by (auto simp: bindO_def split: option.splits prod.splits)

section \<open>An implementation of the operations\<close>

text \<open>The tables as an association list.\<close>

type_synonym fw_alist = "((string \<times> string) \<times> rule list) list"

definition on_view :: "(fw_tables \<Rightarrow> bool) \<Rightarrow> (fw_alist \<Rightarrow> fw_alist) \<Rightarrow> (fw_alist, go_error option) state" where
  "on_view ok f = State (\<lambda>s. if ok (map_of s) then (None, f s) else (Some (ErrNew ''iptables''), s))"

definition alist_ipt :: "fw_alist ipt_ops" where
  "alist_ipt = \<lparr>
     ipt_NewChain = (\<lambda>t c. on_view (\<lambda>m. m (t, c) = None) (AList.update (t, c) [])),
     ipt_ClearChain = (\<lambda>t c. on_view (\<lambda>_. True) (AList.update (t, c) [])),
     ipt_DeleteChain = (\<lambda>t c. State (\<lambda>s.
        if map_of s (t, c) = Some [] \<and> \<not> list_ex (\<lambda>((t', c'), _). t' = t \<and> list_ex (jumps_to c) (the (map_of s (t, c')))) s
        then (None, AList.delete (t, c) s) else (Some (ErrNew ''iptables''), s))),
     ipt_AppendUnique = (\<lambda>t c r. on_view (\<lambda>m. m (t, c) \<noteq> None)
        (\<lambda>s. let rs = the (map_of s (t, c)) in AList.update (t, c) (if r \<in> set rs then rs else rs @ [r]) s)),
     ipt_Insert = (\<lambda>t c n r. on_view (\<lambda>m. case m (t, c) of None \<Rightarrow> False | Some rs \<Rightarrow> 1 \<le> n \<and> n \<le> Suc (length rs))
        (\<lambda>s. let rs = the (map_of s (t, c)) in AList.update (t, c) (take (n - 1) rs @ r # drop (n - 1) rs) s)),
     ipt_Delete = (\<lambda>t c r. on_view (\<lambda>m. case m (t, c) of None \<Rightarrow> False | Some rs \<Rightarrow> r \<in> set rs)
        (\<lambda>s. AList.update (t, c) (remove1 r (the (map_of s (t, c)))) s)),
     ipt_List = (\<lambda>t c. State (\<lambda>s. (case map_of s (t, c) of None \<Rightarrow> Inl (ErrNew ''iptables'')
        | Some rs \<Rightarrow> Inr (map (rule_line c) rs), s))),
     ipt_ListChains = (\<lambda>t. State (\<lambda>s. (Inr (map (snd \<circ> fst) (filter (\<lambda>e. fst (fst e) = t) s)), s))) \<rparr>"

lemma map_of_referenced:
  "list_ex (\<lambda>((t', c'), _). t' = t \<and> list_ex (jumps_to c) (the (map_of s (t, c')))) s \<longleftrightarrow> tb_referenced (map_of s) t c"
proof
  assume "list_ex (\<lambda>((t', c'), _). t' = t \<and> list_ex (jumps_to c) (the (map_of s (t, c')))) s"
  then obtain c' v where "((t, c'), v) \<in> set s" and "list_ex (jumps_to c) (the (map_of s (t, c')))"
    by (auto simp: list_ex_iff)
  moreover then obtain rs where "map_of s (t, c') = Some rs" by (metis weak_map_of_SomeI)
  ultimately show "tb_referenced (map_of s) t c" by (auto simp: tb_referenced_def list_ex_iff)
next
  assume "tb_referenced (map_of s) t c"
  then obtain c' rs where rs: "map_of s (t, c') = Some rs" and "list_ex (jumps_to c) rs"
    by (auto simp: tb_referenced_def list_ex_iff)
  then show "list_ex (\<lambda>((t', c'), _). t' = t \<and> list_ex (jumps_to c) (the (map_of s (t, c')))) s"
    unfolding list_ex_iff [of _ s] using map_of_SomeD [OF rs] by (intro bexI [of _ "((t, c'), rs)"]) simp_all
qed

interpretation alist: iptables alist_ipt map_of
proof
  fix t c :: string and s :: fw_alist and r :: rule and n :: nat and rs
  show "map_of (exec (ipt_NewChain alist_ipt t c) s) = tb_new (t, c) (map_of s)"
    and "map_of (exec (ipt_ClearChain alist_ipt t c) s) = tb_clear (t, c) (map_of s)"
    and "map_of (exec (ipt_AppendUnique alist_ipt t c r) s) = tb_append (t, c) r (map_of s)"
    and "map_of (exec (ipt_Insert alist_ipt t c n r) s) = tb_insert (t, c) n r (map_of s)"
    and "map_of (exec (ipt_Delete alist_ipt t c r) s) = tb_delete (t, c) r (map_of s)"
    and "map_of (exec (ipt_List alist_ipt t c) s) = map_of s"
    and "map_of (exec (ipt_ListChains alist_ipt t) s) = map_of s"
    by (auto simp: alist_ipt_def on_view_def tb_defs update_conv' Let_def remove1_idem fun_upd_idem split: option.splits)
  show "map_of (exec (ipt_DeleteChain alist_ipt t c) s) = tb_delete_chain (t, c) (map_of s)"
    using map_of_referenced [of t c s] by (simp add: alist_ipt_def tb_delete_chain_def delete_conv')
  show "map_of s (t, c) = Some rs \<Longrightarrow> result (ipt_AppendUnique alist_ipt t c r) s = None"
    by (simp add: alist_ipt_def on_view_def)
  show "map_of s (t, c) = Some rs \<Longrightarrow> \<exists>decl. result (ipt_List alist_ipt t c) s = Inr (decl @ map (rule_line c) rs) \<and>
      list_all (\<lambda>l. Fields (TrimSpace l) = [] \<or> hd (Fields (TrimSpace l)) \<noteq> ''-A'') decl"
    by (rule exI [of _ "[]"]) (simp add: alist_ipt_def)
qed

end
