(* ===== verification/Pkg_Util.thy ===== *)
theory Pkg_Util
  imports Let_Firewall
begin

text \<open>
  The shared packages: \<open>pkg/auth\<close> (the shared secret of all components), \<open>pkg/envutil\<close> and \<open>pkg/configutil\<close>
  (values from the environment of the process). The environment is a function from names to values, empty
  for a name that is not set. \<open>time.ParseDuration\<close> is the argument \<open>pd\<close>.
\<close>

section \<open>auth.go\<close>

definition HeaderAuthorization :: string where "HeaderAuthorization = ''Authorization''"

definition bearerPrefix :: string where "bearerPrefix = ''Bearer ''"

type_synonym http_header = "(string \<times> string) list"

definition SetRequestSecret :: "http_header \<Rightarrow> string \<Rightarrow> http_header" where
  "SetRequestSecret header secret = (if secret = [] then header else map_put HeaderAuthorization (bearerPrefix @ secret) header)"

definition GetHeader :: "http_header \<Rightarrow> string \<Rightarrow> string" where
  "GetHeader header name = (case map_of header name of Some v \<Rightarrow> v | None \<Rightarrow> [])"

definition tokenFromHeader :: "string \<Rightarrow> string" where
  "tokenFromHeader val =
     (let v = TrimSpace val in
      if length v \<ge> length bearerPrefix \<and> EqualFold (take (length bearerPrefix) v) bearerPrefix
      then TrimSpace (drop (length bearerPrefix) v) else v)"

text \<open>Does the middleware let the request through? Otherwise the answer is 401.\<close>

definition Middleware :: "string \<Rightarrow> http_header \<Rightarrow> bool" where
  "Middleware secret header =
     (if secret = [] then False else tokenFromHeader (GetHeader header HeaderAuthorization) = secret)"

section \<open>envutil.go\<close>

definition Get :: "(string \<Rightarrow> string) \<Rightarrow> string \<Rightarrow> string \<Rightarrow> string" where
  "Get env key def = (let v = TrimSpace (env key) in if v = [] then def else v)"

definition GetInt :: "(string \<Rightarrow> string) \<Rightarrow> string \<Rightarrow> int \<Rightarrow> int" where
  "GetInt env key def =
     (let v = TrimSpace (env key) in
      if v = [] then def else (case ParseInt64 v of None \<Rightarrow> def | Some n \<Rightarrow> n))"

definition GetDuration :: "(string \<Rightarrow> int option) \<Rightarrow> (string \<Rightarrow> string) \<Rightarrow> string \<Rightarrow> int \<Rightarrow> int" where
  "GetDuration pd env key def =
     (let v = TrimSpace (env key) in
      if v = [] then def else (case pd v of None \<Rightarrow> def | Some d \<Rightarrow> if d \<le> 0 then def else d))"

definition GetBool :: "(string \<Rightarrow> string) \<Rightarrow> string \<Rightarrow> bool \<Rightarrow> bool" where
  "GetBool env key def =
     (let v = TrimSpace (ToLower (env key)) in
      if v = [] then def
      else if v \<in> set [''1'', ''true'', ''yes'', ''y'', ''on''] then True
      else if v \<in> set [''0'', ''false'', ''no'', ''n'', ''off''] then False
      else def)"

section \<open>configutil.go\<close>

definition SplitCSV :: "string \<Rightarrow> string list" where
  "SplitCSV raw = map (\<lambda>p. ToUpper (TrimSpace p)) (Split raw (CHR '',''))"

definition CSVEnv :: "(string \<Rightarrow> string) \<Rightarrow> string \<Rightarrow> string list \<Rightarrow> string list" where
  "CSVEnv env key def =
     (let raw = env key in
      if raw = [] then def
      else let out = filter (\<lambda>p. p \<noteq> []) (SplitCSV raw) in if out = [] then def else out)"

section \<open>The shared secret\<close>

lemma TrimSpace_no_suffix: "w \<in> set space_runes \<Longrightarrow> w \<noteq> [] \<Longrightarrow> \<not> HasSuffix (TrimSpace s) w"
  unfolding HasSuffix_def TrimSpace_def TrimRightSpace_def rev_rev_ident by (rule trim_with_done) auto

lemma space_runes_blank: "w \<in> set space_runes \<Longrightarrow> CHR '' '' \<in> set w \<Longrightarrow> w = '' ''"
  by (auto simp: space_runes_def)

lemma TrimSpace_bearer:
  assumes "TrimSpace secret = secret" and "secret \<noteq> []"
  shows "TrimSpace (bearerPrefix @ secret) = bearerPrefix @ secret"
proof -
  have left: "TrimLeftSpace (bearerPrefix @ secret) = bearerPrefix @ secret"
    unfolding TrimLeftSpace_def by (rule trim_with_fixed) (auto simp: space_runes_def HasPrefix_iff bearerPrefix_def)
  have "\<not> HasSuffix (bearerPrefix @ secret) w" if w: "w \<in> set space_runes" "w \<noteq> []" for w
  proof
    assume "HasSuffix (bearerPrefix @ secret) w"
    then obtain r where r: "bearerPrefix @ secret = r @ w" by (auto simp: HasSuffix_iff)
    show False
    proof (cases "length w \<le> length secret")
      case True
      then obtain q where "secret = q @ w" using r by (auto simp: append_eq_append_conv2)
      then show False using TrimSpace_no_suffix [OF w, of secret] assms(1) by (auto simp: HasSuffix_iff)
    next
      case False
      then obtain x where x: "w = x @ secret" "bearerPrefix = r @ x" using r by (auto simp: append_eq_append_conv2)
      then have "x \<noteq> []" "last x = CHR '' ''" using False by (auto simp: bearerPrefix_def) (metis last_ConsR last_appendR last_ConsL list.discI)
      then have "CHR '' '' \<in> set w" using x by (metis UnI1 last_in_set set_append)
      then have "w = '' ''" using space_runes_blank w(1) by blast
      then show False using x assms(2) \<open>x \<noteq> []\<close> by (cases x) auto
    qed
  qed
  then have "TrimRightSpace (bearerPrefix @ secret) = bearerPrefix @ secret"
    unfolding TrimRightSpace_def by (subst trim_with_fixed) (auto simp: HasSuffix_def)
  then show ?thesis by (simp add: TrimSpace_def left)
qed

lemma tokenFromHeader_trimmed: "TrimSpace (tokenFromHeader v) = tokenFromHeader v"
  by (simp add: tokenFromHeader_def Let_def)

text \<open>
  A request that a component sends with its secret is let through exactly by a component with the same secret, if
  the secret is not empty and has no blanks around it. A component whose secret has blanks around
  it lets no request through, not even one that carries the same secret.
\<close>

theorem shared_secret_round_trip:
  assumes "secret \<noteq> []" and "TrimSpace secret = secret"
  shows "(Middleware expected (SetRequestSecret header secret) \<longleftrightarrow> expected = secret) \<and>
    (TrimSpace blank \<noteq> blank \<longrightarrow> \<not> Middleware blank h)"
proof -
  have "tokenFromHeader (bearerPrefix @ secret) = secret"
    using assms by (simp add: tokenFromHeader_def TrimSpace_bearer EqualFold_def)
  then have "Middleware expected (SetRequestSecret header secret) \<longleftrightarrow> expected = secret"
    using assms by (auto simp: Middleware_def SetRequestSecret_def GetHeader_def)
  moreover have "\<not> Middleware blank h" if "TrimSpace blank \<noteq> blank"
    using that tokenFromHeader_trimmed by (auto simp: Middleware_def)
  ultimately show ?thesis by blast
qed

theorem shared_secret_round_trip_witness:
  "Middleware ''s3cret'' (SetRequestSecret [] ''s3cret'') \<and> \<not> Middleware ''other'' (SetRequestSecret [] ''s3cret'') \<and>
   \<not> Middleware ''s3cret '' (SetRequestSecret [] ''s3cret '')"
proof -
  have "TrimSpace ''s3cret'' = ''s3cret''" "TrimSpace ''s3cret '' \<noteq> ''s3cret ''" by code_simp+
  then show ?thesis using shared_secret_round_trip [of "''s3cret''" _ "[]" "''s3cret ''" "SetRequestSecret [] ''s3cret ''"] by simp
qed

end
