(* ===== verification/Http_Wire.thy ===== *)
theory Http_Wire
  imports Pkg_Util Orch_Client
begin

text \<open>
  What the two HTTP servers share: the parts of \<open>net/url\<close> that take a request line apart, the table of routes that
  a server registers, and the middleware in front of a group of routes. The router of gin is a
  parameter: it gets the registered routes, a method and a path and returns the pattern of a route with its
  parameters. \<open>routes_as_documented\<close> says what is relied on: a path that fits one registered pattern is routed there.
  What \<open>json.Unmarshal\<close> makes of a body is part of the request, so that a body that does not decode
  is an error value.
\<close>

section \<open>net/url\<close>

definition unhex :: "char \<Rightarrow> nat option" where
  "unhex c = (let n = of_char c in
     if 48 \<le> n \<and> n \<le> 57 then Some (n - 48)
     else if 65 \<le> n \<and> n \<le> 70 then Some (n - 55)
     else if 97 \<le> n \<and> n \<le> 102 then Some (n - 87)
     else None)"

text \<open>\<open>url.unescape\<close>; in a query a plus sign is a blank.\<close>

fun unescape :: "bool \<Rightarrow> string \<Rightarrow> string option" where
  "unescape q [] = Some []"
| "unescape q (c # cs) =
     (if c = CHR ''%'' then
        (case cs of
           h # l # r \<Rightarrow>
             (case (unhex h, unhex l) of
                (Some a, Some b) \<Rightarrow> map_option (\<lambda>t. char_of (16 * a + b) # t) (unescape q r)
              | _ \<Rightarrow> None)
         | _ \<Rightarrow> None)
      else map_option (\<lambda>t. (if q \<and> c = CHR ''+'' then CHR '' '' else c) # t) (unescape q cs))"

text \<open>The request target: the path before the first question mark, without its escapes, and the raw query after it.\<close>

definition parse_target :: "string \<Rightarrow> (string \<times> string) option" where
  "parse_target t =
     (let (p, q) = (case Cut t ''?'' of None \<Rightarrow> (t, []) | Some pq \<Rightarrow> pq)
      in map_option (\<lambda>path. (path, q)) (unescape False p))"

text \<open>\<open>URL.Query\<close> keeps the pairs that decode; a pair with a semicolon does not.\<close>

definition parse_pair :: "string \<Rightarrow> (string \<times> string) list" where
  "parse_pair p =
     (if p = [] \<or> CHR '';'' \<in> set p then []
      else let (k, v) = (case Cut p ''='' of None \<Rightarrow> (p, []) | Some kv \<Rightarrow> kv)
           in case (unescape True k, unescape True v) of (Some k', Some v') \<Rightarrow> [(k', v')] | _ \<Rightarrow> [])"

definition ParseQuery :: "string \<Rightarrow> (string \<times> string) list" where
  "ParseQuery q = concat (map parse_pair (Split q (CHR ''&'')))"

text \<open>\<open>c.Query\<close>, \<open>c.DefaultQuery\<close> and \<open>c.Param\<close>; the number that \<open>strconv.Atoi\<close> returns beside its error.\<close>

definition Query :: "(string \<times> string) list \<Rightarrow> string \<Rightarrow> string" where
  "Query q key = (case map_of q key of None \<Rightarrow> [] | Some v \<Rightarrow> v)"

definition DefaultQuery :: "(string \<times> string) list \<Rightarrow> string \<Rightarrow> string \<Rightarrow> string" where
  "DefaultQuery q key def = (case map_of q key of None \<Rightarrow> def | Some v \<Rightarrow> v)"

abbreviation Param :: "(string \<times> string) list \<Rightarrow> string \<Rightarrow> string" where
  "Param \<equiv> Query"

definition Atoi :: "string \<Rightarrow> int" where
  "Atoi s =
     (let (neg, ds) = (case s of [] \<Rightarrow> (False, [])
                       | c # cs \<Rightarrow> if c = CHR ''-'' then (True, cs)
                                  else if c = CHR ''+'' then (False, cs) else (False, s))
      in if ds = [] \<or> \<not> list_all is_digit ds then 0
         else let v = digits_val 10 ds in if neg then max (- (2 ^ 63)) (- v) else min (2 ^ 63 - 1) v)"

section \<open>Requests and routes\<close>

record 'b http_req =
  rq_Method :: string
  rq_Target :: string
  rq_Header :: http_header
  rq_Body :: 'b

text \<open>A registered route: the method, the pattern, and whether it belongs to the group with the middleware.\<close>

type_synonym route = "string \<times> string \<times> bool"

type_synonym router = "(string \<times> string) list \<Rightarrow> string \<Rightarrow> string \<Rightarrow> (string \<times> (string \<times> string) list) option"

fun match_segs :: "string list \<Rightarrow> string list \<Rightarrow> (string \<times> string) list option" where
  "match_segs [] [] = Some []"
| "match_segs (p # ps) (x # xs) =
     (if HasPrefix p ''*'' then Some [(tl p, ''/'' @ Join (x # xs) ''/'')]
      else if HasPrefix p '':'' then (if x = [] then None else map_option (Cons (tl p, x)) (match_segs ps xs))
      else if p = x then match_segs ps xs else None)"
| "match_segs _ _ = None"

definition match_route :: "string \<Rightarrow> string \<Rightarrow> (string \<times> string) list option" where
  "match_route pat path = match_segs (Split pat (CHR ''/'')) (Split path (CHR ''/''))"

definition routes_as_documented :: "router \<Rightarrow> bool" where
  "routes_as_documented router \<longleftrightarrow>
     (\<forall>routes m pat path ps. (m, pat) \<in> set routes \<longrightarrow> match_route pat path = Some ps \<longrightarrow>
        (\<forall>pat'. (m, pat') \<in> set routes \<longrightarrow> match_route pat' path \<noteq> None \<longrightarrow> pat' = pat) \<longrightarrow>
        router routes m path = Some (pat, ps))"

text \<open>The first route that fits is such a router.\<close>

fun first_match :: router where
  "first_match [] m path = None"
| "first_match ((m', pat) # routes) m path =
     (if m' = m then (case match_route pat path of None \<Rightarrow> first_match routes m path | Some ps \<Rightarrow> Some (pat, ps))
      else first_match routes m path)"

lemma first_match_unique:
  assumes "(m, pat) \<in> set routes" and fits: "match_route pat path = Some ps"
    and "\<And>pat'. (m, pat') \<in> set routes \<Longrightarrow> match_route pat' path \<noteq> None \<Longrightarrow> pat' = pat"
  shows "first_match routes m path = Some (pat, ps)"
  using assms(1,3)
proof (induction routes)
  case (Cons r routes)
  obtain m' p where r: "r = (m', p)" by (cases r)
  show ?case
  proof (cases "m' = m \<and> match_route p path \<noteq> None")
    case True
    then have "p = pat" using Cons.prems(2) [of p] r by simp
    then show ?thesis using True r fits by simp
  next
    case False
    then have "(m, pat) \<in> set routes" using Cons.prems(1) r fits by auto
    then have "first_match routes m path = Some (pat, ps)" using Cons.IH Cons.prems(2) by simp
    then show ?thesis using False r by auto
  qed
qed simp

lemma first_match_as_documented: "routes_as_documented first_match"
  unfolding routes_as_documented_def using first_match_unique by meson

text \<open>
  A server: the target is taken apart, the route is looked up, the middleware decides on the routes of its group, and
  the handler of the pattern runs. A target that does not decode is answered with 400 by
  \<open>net/http\<close>, a path without a route with 404. \<open>msg\<close> makes the answer of an error text.
\<close>

definition serve ::
  "router \<Rightarrow> route list \<Rightarrow> (string \<Rightarrow> 'r) \<Rightarrow> string \<Rightarrow>
   (string \<Rightarrow> string \<Rightarrow> (string \<times> string) list \<Rightarrow> (string \<times> string) list \<Rightarrow> 'b \<Rightarrow> ('s, int \<times> 'r) state) \<Rightarrow>
   'b http_req \<Rightarrow> ('s, int \<times> 'r) state" where
  "serve router routes msg secret handler r =
     (case parse_target (rq_Target r) of
        None \<Rightarrow> ret (400, msg ''400 Bad Request'')
      | Some (path, rawQuery) \<Rightarrow>
     (case router (map (\<lambda>(m, pat, _). (m, pat)) routes) (rq_Method r) path of
        None \<Rightarrow> ret (404, msg ''404 page not found'')
      | Some (pat, params) \<Rightarrow>
          if (rq_Method r, pat, True) \<in> set routes \<and> \<not> Middleware secret (rq_Header r)
          then ret (401, msg ''unauthorized'')
          else handler (rq_Method r) pat params (ParseQuery rawQuery) (rq_Body r)))"

lemma serve_unauthorized:
  assumes "\<not> Middleware secret (rq_Header r)"
    and "\<And>msg_text code. code \<in> {400, 401, 404} \<Longrightarrow> P (ret (code, msg msg_text))"
    and "\<And>m pat ps q. (m, pat, True) \<notin> set routes \<Longrightarrow> P (handler m pat ps q (rq_Body r))"
  shows "P (serve router routes msg secret handler r)"
  using assms by (auto simp: serve_def split: option.split)

section \<open>Escaping round trips\<close>

lemma unhex_upper_hex: "n < 16 \<Longrightarrow> unhex (upper_hex n) = Some n"
  by (auto simp: unhex_def upper_hex_def Let_def)

lemma unescape_percent: "unescape q (CHR ''%'' # upper_hex (of_char c div 16) # upper_hex (of_char c mod 16) # r) =
    map_option (Cons c) (unescape q r)"
proof -
  have "(of_char c :: nat) div 16 < 16" using nat_of_char_less_256 [of c] by linarith
  then show ?thesis by (simp add: unhex_upper_hex)
qed

lemma unescape_plain: "c \<noteq> CHR ''%'' \<Longrightarrow> \<not> (q \<and> c = CHR ''+'') \<Longrightarrow> unescape q (c # r) = map_option (Cons c) (unescape q r)"
  by auto

lemma unescape_plus: "unescape True (CHR ''+'' # r) = map_option (Cons (CHR '' '')) (unescape True r)"
  by simp

lemma map_option_Cons_append: "map_option (Cons c) (map_option ((@) s) x) = map_option (\<lambda>a. c # s @ a) x"
  by (cases x) auto

lemma is_alnum_not_percent: "\<not> is_alnum (CHR ''%'')" "\<not> is_alnum (CHR ''+'')"
  by code_simp+

lemma is_alnum_blank: "\<not> is_alnum (CHR '' '')"
  by code_simp

lemma unescape_PathEscape: "unescape False (PathEscape s @ r) = map_option ((@) s) (unescape False r)"
proof (induction s)
  case (Cons c s)
  have "PathEscape (c # s) @ r = PathEscape [c] @ PathEscape s @ r" by (simp add: PathEscape_def)
  moreover have "unescape False (PathEscape [c] @ t) = map_option (Cons c) (unescape False t)" for t
    by (cases "c = CHR ''%'' \<or> c = CHR ''+''")
      (auto simp: PathEscape_def is_alnum_not_percent unescape_percent unescape_plain simp del: unescape.simps(2))
  ultimately show ?case by (simp add: Cons.IH map_option_Cons_append del: unescape.simps(2))
qed (simp add: PathEscape_def option.map_ident [unfolded id_def])

lemma unescape_QueryEscape: "unescape True (QueryEscape s @ r) = map_option ((@) s) (unescape True r)"
proof (induction s)
  case (Cons c s)
  have "QueryEscape (c # s) @ r = QueryEscape [c] @ QueryEscape s @ r" by (simp add: QueryEscape_def)
  moreover have "unescape True (QueryEscape [c] @ t) = map_option (Cons c) (unescape True t)" for t
    by (cases "c = CHR ''%'' \<or> c = CHR ''+''"; cases "c = CHR '' ''")
      (auto simp: QueryEscape_def is_alnum_not_percent is_alnum_blank unescape_percent unescape_plain unescape_plus simp del: unescape.simps(2))
  ultimately show ?case by (simp add: Cons.IH map_option_Cons_append del: unescape.simps(2))
qed (simp add: QueryEscape_def option.map_ident [unfolded id_def])

lemma upper_hex_alnum: "n < 16 \<Longrightarrow> is_alnum (upper_hex n)"
  by (auto simp: upper_hex_def is_alnum_def is_digit_def)

lemma percent_hex_alnum: "is_alnum (upper_hex (of_char c div 16))" "is_alnum (upper_hex (of_char c mod 16))"
  using nat_of_char_less_256 [of c] by (auto intro!: upper_hex_alnum simp del: nat_of_char_less_256)

lemma PathEscape_chars: "x \<in> set (PathEscape s) \<Longrightarrow> is_alnum x \<or> x \<in> set ''-_.~$&+=:@%''"
  using percent_hex_alnum by (auto simp: PathEscape_def split: if_splits)

lemma QueryEscape_chars: "x \<in> set (QueryEscape s) \<Longrightarrow> is_alnum x \<or> x \<in> set ''-_.~+%''"
  using percent_hex_alnum by (auto simp: QueryEscape_def split: if_splits)

lemma separators_not_alnum:
  "\<not> is_alnum (CHR ''?'')" "\<not> is_alnum (CHR ''&'')" "\<not> is_alnum (CHR ''='')" "\<not> is_alnum (CHR '';'')"
  by code_simp+

lemma PathEscape_no_question: "CHR ''?'' \<notin> set (PathEscape s)"
  using PathEscape_chars [of "CHR ''?''" s] separators_not_alnum by auto

lemma QueryEscape_no_separator: "CHR ''&'' \<notin> set (QueryEscape s)" "CHR ''='' \<notin> set (QueryEscape s)" "CHR '';'' \<notin> set (QueryEscape s)"
  using QueryEscape_chars [of _ s] separators_not_alnum by fastforce+

lemma unescape_roundtrip: "unescape False (PathEscape s) = Some s" "unescape True (QueryEscape s) = Some s"
  using unescape_PathEscape [of s "[]"] unescape_QueryEscape [of s "[]"] by simp_all

section \<open>Query round trip\<close>

lemma Cut_first: "c \<notin> set a \<Longrightarrow> Cut (a @ c # b) [c] = Some (a, b)"
  by (induction a) (auto simp: HasPrefix_def)

lemma parse_pair_Encode: "parse_pair (QueryEscape k @ ''='' @ QueryEscape v) = [(k, v)]"
  using QueryEscape_no_separator [of k] QueryEscape_no_separator [of v]
  by (simp add: parse_pair_def Cut_first unescape_roundtrip)

lemma Split_first: "c \<notin> set a \<Longrightarrow> Split (a @ c # b) c = a # Split b c"
  by (induction a) auto

lemma Split_none: "c \<notin> set a \<Longrightarrow> Split a c = [a]"
  by (induction a) auto

lemma ParseQuery_Encode: "ParseQuery (Encode q) = q"
proof (induction q)
  case Nil
  show ?case by (simp add: ParseQuery_def Encode_def parse_pair_def)
next
  case (Cons p q)
  let ?e = "\<lambda>(k, v). QueryEscape k @ ''='' @ QueryEscape v"
  have amp: "CHR ''&'' \<notin> set (?e p)" using QueryEscape_no_separator by (cases p) simp
  have pair: "parse_pair (?e p) = [p]" using parse_pair_Encode by (cases p) simp
  show ?case
  proof (cases q)
    case Nil
    then show ?thesis using amp pair by (simp add: ParseQuery_def Encode_def Split_none)
  next
    case (Cons p' q')
    then have "Encode (p # q) = ?e p @ CHR ''&'' # Encode q" by (simp add: Encode_def)
    then show ?thesis using amp pair Cons.IH by (simp add: ParseQuery_def Split_first)
  qed
qed

lemma Atoi_ParseInt64: "ParseInt64 s = Some v \<Longrightarrow> Atoi s = v"
  by (auto simp: ParseInt64_def Atoi_def Let_def split: list.splits if_splits)

lemma Atoi_Itoa: "0 < n \<Longrightarrow> n < 2 ^ 63 \<Longrightarrow> Atoi (Itoa n) = n"
proof -
  assume n: "0 < n" "n < 2 ^ 63"
  have digits: "list_all is_digit (show_digits n)" "digits_val 10 (show_digits n) = n" "show_digits n \<noteq> []"
    using show_digits_sound [of n] n by auto
  obtain c cs where s: "show_digits n = c # cs" using digits(3) by (cases "show_digits n") auto
  then have "is_digit c" using digits(1) by simp
  then have "c \<noteq> CHR ''-''" "c \<noteq> CHR ''+''" by (auto simp: is_digit_def)
  then show ?thesis using digits n s by (simp add: Atoi_def Itoa_def)
qed

end
