(* ===== verification/Orch_Http.thy ===== *)
theory Orch_Http
  imports Orch_System Http_Wire
begin

text \<open>
  Package \<open>sandboxd-orch/http\<close>: the handlers of the orchestrator (\<open>handlers/handler.go\<close>), their answers
  (\<open>handlers/dto.go\<close>) and the routes (\<open>router.go\<close>). A handler runs one operation of the service, or proxies one request to a node,
  and turns the outcome into a status code and a body. The rate limiter in front of the creation of sandboxes is a
  library: \<open>allow\<close> says for every call whether it lets the request through.
\<close>

section \<open>dto.go\<close>

datatype api_response =
    ApiError string
  | ApiHealth bool
  | ApiNode Node
  | ApiNodes "Node list"
  | ApiExternal External
  | ApiExternals "External list"
  | ApiDeleted string
  | ApiHeartbeat Node string "NodeResources option" string string
  | ApiSandbox Sandbox
  | ApiSandboxes "Sandbox list"
  | ApiProxy map_reply
  | ApiStatic string

type_synonym api_handler = "(int \<times> api_response) orch"

text \<open>What the body of a request decodes to, as each type that a handler binds.\<close>

record api_body =
  ab_node :: "go_error + CreateNodeObjectRequest"
  ab_patch :: "go_error + PatchNodeObjectRequest"
  ab_external :: "go_error + CreateExternalObjectRequest"
  ab_create :: "go_error + CreateSandboxObjectRequest"
  ab_proxy :: "go_error + CreateSandboxRequest"

section \<open>Errors\<close>

text \<open>
  The answer to an error: the first entry of the table whose error it wraps gives the status and, if it has one, the
  text; any other error is a 500.
\<close>

fun reply_error :: "(go_error \<times> int \<times> string option) list \<Rightarrow> go_error \<Rightarrow> int \<times> api_response" where
  "reply_error [] err = (500, ApiError (Error err))"
| "reply_error ((target, code, msg) # table) err =
     (if errors_Is err target then (code, ApiError (case msg of None \<Rightarrow> Error err | Some m \<Rightarrow> m)) else reply_error table err)"

definition reply :: "(go_error \<times> int \<times> string option) list \<Rightarrow> int \<Rightarrow> ('a \<Rightarrow> api_response) \<Rightarrow> go_error + 'a \<Rightarrow> int \<times> api_response" where
  "reply table code f r = (case r of Inl err \<Rightarrow> reply_error table err | Inr v \<Rightarrow> (code, f v))"

definition bad_input :: "go_error \<times> int \<times> string option" where
  "bad_input = (ErrInvalidInput, 400, None)"

definition no_rows :: "string \<Rightarrow> go_error \<times> int \<times> string option" where
  "no_rows msg = (sql_ErrNoRows, 404, Some msg)"

text \<open>\<open>ShouldBindJSON\<close>\<close>

definition with_body :: "go_error + 'a \<Rightarrow> ('a \<Rightarrow> api_handler) \<Rightarrow> api_handler" where
  "with_body body k = (case body of Inl err \<Rightarrow> ret (400, ApiError (Error err)) | Inr req \<Rightarrow> k req)"

definition respondNodeErr :: "go_error \<Rightarrow> int \<times> api_response" where
  "respondNodeErr err = reply_error [no_rows ''node not found''] err"

definition respondProxy :: "go_error + map_reply \<Rightarrow> int \<times> api_response" where
  "respondProxy out = (case out of Inl err \<Rightarrow> (502, ApiError (Error err)) | Inr m \<Rightarrow> (200, ApiProxy m))"

definition errString :: "go_error option \<Rightarrow> string" where
  "errString err = (case err of None \<Rightarrow> [] | Some e \<Rightarrow> Error e)"

section \<open>Nodes and externals\<close>

text \<open>The limits that \<open>New\<close> gives to the rate limiter.\<close>

definition limiter_settings :: "Config \<Rightarrow> float64 \<times> int" where
  "limiter_settings cfg =
     (if float_le0 (CreateRPS cfg) then Fin 20 else CreateRPS cfg, if CreateBurst cfg < 1 then 40 else CreateBurst cfg)"

definition api_Healthz :: api_handler where
  "api_Healthz = ret (200, ApiHealth True)"

definition api_CreateNodeObject :: "orch_env \<Rightarrow> go_error + CreateNodeObjectRequest \<Rightarrow> api_handler" where
  "api_CreateNodeObject E body = with_body body (\<lambda>req. do {
     r \<leftarrow> CreateNodeObject E req;
     ret (reply [bad_input] 200 ApiNode r) })"

definition api_PatchNode :: "orch_env \<Rightarrow> string \<Rightarrow> go_error + PatchNodeObjectRequest \<Rightarrow> api_handler" where
  "api_PatchNode E nid body = with_body body (\<lambda>req. do {
     r \<leftarrow> PatchNodeObject E nid req;
     ret (reply [bad_input, no_rows ''node not found''] 200 ApiNode r) })"

definition api_UpsertExternalObject :: "orch_env \<Rightarrow> go_error + CreateExternalObjectRequest \<Rightarrow> api_handler" where
  "api_UpsertExternalObject E body = with_body body (\<lambda>req. do {
     r \<leftarrow> UpsertExternalObject E req;
     ret (reply [bad_input] 200 (\<lambda>_. ApiHealth True) r) })"

definition api_ListExternals :: "orch_env \<Rightarrow> api_handler" where
  "api_ListExternals E = do { r \<leftarrow> ListExternals E; ret (reply [] 200 ApiExternals r) }"

definition api_GetExternal :: "orch_env \<Rightarrow> string \<Rightarrow> api_handler" where
  "api_GetExternal E xid = do {
     r \<leftarrow> GetExternal E xid;
     ret (reply [no_rows ''external not found'', bad_input] 200 ApiExternal r) }"

definition api_DeleteExternal :: "orch_env \<Rightarrow> string \<Rightarrow> api_handler" where
  "api_DeleteExternal E xid = do {
     r \<leftarrow> DeleteExternal E xid;
     ret (reply [bad_input, no_rows ''external not found''] 200 (\<lambda>_. ApiDeleted xid) r) }"

text \<open>The service passes these two on to the repository.\<close>

definition ListNodes :: "orch_env \<Rightarrow> (go_error + Node list) orch" where
  "ListNodes E = repo_ListNodes E"

definition svc_GetNode :: "orch_env \<Rightarrow> string \<Rightarrow> (go_error + Node) orch" where
  "svc_GetNode E nid = GetNode E nid"

definition api_ListNodes :: "orch_env \<Rightarrow> api_handler" where
  "api_ListNodes E = do { r \<leftarrow> ListNodes E; ret (reply [] 200 ApiNodes r) }"

definition api_GetNode :: "orch_env \<Rightarrow> string \<Rightarrow> api_handler" where
  "api_GetNode E nid = do { r \<leftarrow> svc_GetNode E nid; ret (reply [no_rows ''node not found''] 200 ApiNode r) }"

definition api_DeleteNode :: "orch_env \<Rightarrow> string \<Rightarrow> (string \<times> string) list \<Rightarrow> api_handler" where
  "api_DeleteNode E nid q =
     (let raw = TrimSpace (Query q ''force'') in
      case (if raw = [] then Some False else ParseBool raw) of
        None \<Rightarrow> ret (400, ApiError ''invalid force query; use true/false'')
      | Some force \<Rightarrow> do {
          r \<leftarrow> DeleteNodeForce E nid force;
          ret (reply [bad_input] 200 (\<lambda>_. ApiDeleted nid) r) })"

text \<open>The two client constructors differ in the time limit, which is part of what a node answers.\<close>

definition SandboxClientForNode :: "orch_env \<Rightarrow> string \<Rightarrow> (go_error + string \<times> Node) orch" where
  "SandboxClientForNode E nid = sandboxClientForNode E nid"

definition api_HeartbeatNode :: "orch_env \<Rightarrow> string \<Rightarrow> api_handler" where
  "api_HeartbeatNode E nid = do {
     r \<leftarrow> SandboxClientForNode E nid;
     case r of
       Inl err \<Rightarrow> ret (reply_error [no_rows ''node not found''] err)
     | Inr (url, node) \<Rightarrow> do {
         hbErr \<leftarrow> call_Healthz E url;
         st \<leftarrow> call_NodeStatus E url;
         ret (200, ApiHeartbeat node (if hbErr = None then ''ok'' else ''failed'')
           (case st of Inl _ \<Rightarrow> None | Inr v \<Rightarrow> Some (ns_Resources v))
           (errString hbErr) (errString (case st of Inl err \<Rightarrow> Some err | Inr _ \<Rightarrow> None))) } }"

section \<open>Requests that are passed on to a node\<close>

definition call_ListSandboxes :: "orch_env \<Rightarrow> string \<Rightarrow> string \<Rightarrow> int \<Rightarrow> (go_error + map_reply) orch" where
  "call_ListSandboxes E url cursor limit =
     do { r \<leftarrow> call_map E (CallList (New_baseURL url) cursor limit); ret (client_ListSandboxes cursor limit r) }"

definition call_GetSandbox :: "orch_env \<Rightarrow> string \<Rightarrow> string \<Rightarrow> (go_error + map_reply) orch" where
  "call_GetSandbox E url sid = do { r \<leftarrow> call_map E (CallGet (New_baseURL url) sid); ret (client_GetSandbox sid r) }"

definition call_GetContainerLogs :: "orch_env \<Rightarrow> string \<Rightarrow> string \<Rightarrow> string \<Rightarrow> (go_error + map_reply) orch" where
  "call_GetContainerLogs E url sid name =
     do { r \<leftarrow> call_map E (CallContainerLogs (New_baseURL url) sid name); ret (client_GetContainerLogs sid name r) }"

definition call_GetSandboxLogs :: "orch_env \<Rightarrow> string \<Rightarrow> string \<Rightarrow> (go_error + map_reply) orch" where
  "call_GetSandboxLogs E url sid =
     do { r \<leftarrow> call_map E (CallSandboxLogs (New_baseURL url) sid); ret (client_GetSandboxLogs sid r) }"

text \<open>The frame of the proxy handlers: find the node, run the request on its address, pass the outcome on.\<close>

definition on_node :: "orch_env \<Rightarrow> string \<Rightarrow> (string \<Rightarrow> api_handler) \<Rightarrow> api_handler" where
  "on_node E nid k = do {
     r \<leftarrow> SandboxOpClientForNode E nid;
     case r of Inl err \<Rightarrow> ret (respondNodeErr err) | Inr (url, _) \<Rightarrow> k url }"

definition api_NodeListSandboxes :: "orch_env \<Rightarrow> string \<Rightarrow> (string \<times> string) list \<Rightarrow> api_handler" where
  "api_NodeListSandboxes E nid q = on_node E nid (\<lambda>url. do {
     out \<leftarrow> call_ListSandboxes E url (Query q ''cursor'') (Atoi (DefaultQuery q ''limit'' ''20''));
     ret (respondProxy out) })"

definition api_NodeGetSandbox :: "orch_env \<Rightarrow> string \<Rightarrow> string \<Rightarrow> api_handler" where
  "api_NodeGetSandbox E nid sid = on_node E nid (\<lambda>url. do { out \<leftarrow> call_GetSandbox E url sid; ret (respondProxy out) })"

definition api_NodeCreateSandbox :: "orch_env \<Rightarrow> string \<Rightarrow> go_error + CreateSandboxRequest \<Rightarrow> api_handler" where
  "api_NodeCreateSandbox E nid body = on_node E nid (\<lambda>url. with_body body (\<lambda>req.
     case Validate (e_pq E) req of
       Some err \<Rightarrow> ret (400, ApiError (Error err))
     | None \<Rightarrow> do { out \<leftarrow> call_CreateSandbox E url req; ret (respondProxy out) }))"

definition api_NodeDeleteSandbox :: "orch_env \<Rightarrow> string \<Rightarrow> string \<Rightarrow> api_handler" where
  "api_NodeDeleteSandbox E nid sid = on_node E nid (\<lambda>url. do { out \<leftarrow> call_DeleteSandbox E url sid; ret (respondProxy out) })"

definition api_NodeContainerLogs :: "orch_env \<Rightarrow> string \<Rightarrow> string \<Rightarrow> string \<Rightarrow> api_handler" where
  "api_NodeContainerLogs E nid sid name = on_node E nid (\<lambda>url. do {
     out \<leftarrow> call_GetContainerLogs E url sid name; ret (respondProxy out) })"

definition api_NodeSandboxLogs :: "orch_env \<Rightarrow> string \<Rightarrow> string \<Rightarrow> api_handler" where
  "api_NodeSandboxLogs E nid sid = on_node E nid (\<lambda>url. do { out \<leftarrow> call_GetSandboxLogs E url sid; ret (respondProxy out) })"

definition api_NodeReconcile :: "orch_env \<Rightarrow> string \<Rightarrow> api_handler" where
  "api_NodeReconcile E nid = on_node E nid (\<lambda>url. do { out \<leftarrow> call_Reconcile E url; ret (respondProxy out) })"

section \<open>Sandboxes\<close>

definition api_CreateSandbox :: "orch_env \<Rightarrow> (nat \<Rightarrow> bool) \<Rightarrow> go_error + CreateSandboxObjectRequest \<Rightarrow> api_handler" where
  "api_CreateSandbox E allow body = do {
     t \<leftarrow> tick;
     if \<not> allow t then ret (429, ApiError ''rate limit exceeded for sandbox create'')
     else with_body body (\<lambda>req. do {
       r \<leftarrow> CreateSandbox E req;
       ret (reply [bad_input] 201 ApiSandbox r) }) }"

definition api_ListSandboxes :: "orch_env \<Rightarrow> api_handler" where
  "api_ListSandboxes E = do { r \<leftarrow> ListSandboxes E; ret (reply [] 200 ApiSandboxes r) }"

definition api_GetSandbox :: "orch_env \<Rightarrow> string \<Rightarrow> api_handler" where
  "api_GetSandbox E sid = do { r \<leftarrow> GetSandbox E sid; ret (reply [no_rows ''sandbox not found''] 200 ApiSandbox r) }"

definition api_DeleteSandbox :: "orch_env \<Rightarrow> string \<Rightarrow> api_handler" where
  "api_DeleteSandbox E sid = do {
     r \<leftarrow> DeleteSandbox E sid;
     ret (reply [bad_input, no_rows ''sandbox not found''] 200 (\<lambda>_. ApiDeleted (TrimSpace sid)) r) }"

section \<open>router.go\<close>

definition api_routes :: "route list" where
  "api_routes =
     [(''GET'', ''/swagger/*any'', False), (''GET'', ''/healthz'', False),
      (''POST'', ''/api/v1/sandboxes'', True), (''GET'', ''/api/v1/sandboxes'', True),
      (''GET'', ''/api/v1/sandboxes/:id'', True), (''DELETE'', ''/api/v1/sandboxes/:id'', True),
      (''POST'', ''/api/v1/nodes'', True), (''GET'', ''/api/v1/nodes'', True), (''GET'', ''/api/v1/nodes/:id'', True),
      (''PATCH'', ''/api/v1/nodes/:id'', True), (''DELETE'', ''/api/v1/nodes/:id'', True),
      (''POST'', ''/api/v1/externals'', True), (''GET'', ''/api/v1/externals'', True),
      (''GET'', ''/api/v1/externals/:id'', True), (''DELETE'', ''/api/v1/externals/:id'', True),
      (''POST'', ''/api/v1/nodes/:id/heartbeat'', True), (''GET'', ''/api/v1/nodes/:id/sandboxes'', True),
      (''GET'', ''/api/v1/nodes/:id/sandboxes/:sandboxId'', True), (''POST'', ''/api/v1/nodes/:id/sandboxes'', True),
      (''DELETE'', ''/api/v1/nodes/:id/sandboxes/:sandboxId'', True),
      (''GET'', ''/api/v1/nodes/:id/sandboxes/:sandboxId/logs'', True),
      (''GET'', ''/api/v1/nodes/:id/sandboxes/:sandboxId/containers/:container/logs'', True),
      (''POST'', ''/api/v1/nodes/:id/reconcile'', True)]"

definition api_handle ::
  "orch_env \<Rightarrow> (nat \<Rightarrow> bool) \<Rightarrow> string \<Rightarrow> string \<Rightarrow> (string \<times> string) list \<Rightarrow> (string \<times> string) list \<Rightarrow> api_body \<Rightarrow> api_handler" where
  "api_handle E allow m pat ps q body =
     (let nid = Param ps ''id''; sid = Param ps ''sandboxId'' in
      if (m, pat) = (''GET'', ''/healthz'') then api_Healthz
      else if (m, pat) = (''POST'', ''/api/v1/sandboxes'') then api_CreateSandbox E allow (ab_create body)
      else if (m, pat) = (''GET'', ''/api/v1/sandboxes'') then api_ListSandboxes E
      else if (m, pat) = (''GET'', ''/api/v1/sandboxes/:id'') then api_GetSandbox E nid
      else if (m, pat) = (''DELETE'', ''/api/v1/sandboxes/:id'') then api_DeleteSandbox E nid
      else if (m, pat) = (''POST'', ''/api/v1/nodes'') then api_CreateNodeObject E (ab_node body)
      else if (m, pat) = (''GET'', ''/api/v1/nodes'') then api_ListNodes E
      else if (m, pat) = (''GET'', ''/api/v1/nodes/:id'') then api_GetNode E nid
      else if (m, pat) = (''PATCH'', ''/api/v1/nodes/:id'') then api_PatchNode E nid (ab_patch body)
      else if (m, pat) = (''DELETE'', ''/api/v1/nodes/:id'') then api_DeleteNode E nid q
      else if (m, pat) = (''POST'', ''/api/v1/externals'') then api_UpsertExternalObject E (ab_external body)
      else if (m, pat) = (''GET'', ''/api/v1/externals'') then api_ListExternals E
      else if (m, pat) = (''GET'', ''/api/v1/externals/:id'') then api_GetExternal E nid
      else if (m, pat) = (''DELETE'', ''/api/v1/externals/:id'') then api_DeleteExternal E nid
      else if (m, pat) = (''POST'', ''/api/v1/nodes/:id/heartbeat'') then api_HeartbeatNode E nid
      else if (m, pat) = (''GET'', ''/api/v1/nodes/:id/sandboxes'') then api_NodeListSandboxes E nid q
      else if (m, pat) = (''GET'', ''/api/v1/nodes/:id/sandboxes/:sandboxId'') then api_NodeGetSandbox E nid sid
      else if (m, pat) = (''POST'', ''/api/v1/nodes/:id/sandboxes'') then api_NodeCreateSandbox E nid (ab_proxy body)
      else if (m, pat) = (''DELETE'', ''/api/v1/nodes/:id/sandboxes/:sandboxId'') then api_NodeDeleteSandbox E nid sid
      else if (m, pat) = (''GET'', ''/api/v1/nodes/:id/sandboxes/:sandboxId/logs'') then api_NodeSandboxLogs E nid sid
      else if (m, pat) = (''GET'', ''/api/v1/nodes/:id/sandboxes/:sandboxId/containers/:container/logs'')
        then api_NodeContainerLogs E nid sid (Param ps ''container'')
      else if (m, pat) = (''POST'', ''/api/v1/nodes/:id/reconcile'') then api_NodeReconcile E nid
      else ret (200, ApiStatic pat))"

definition api_serve :: "router \<Rightarrow> orch_env \<Rightarrow> (nat \<Rightarrow> bool) \<Rightarrow> string \<Rightarrow> api_body http_req \<Rightarrow> api_handler" where
  "api_serve router E allow sharedSecret r = serve router api_routes ApiError sharedSecret (api_handle E allow) r"

end
