(* ===== verification/Orch_Reserve.thy ===== *)
theory Orch_Reserve
  imports Orch_System
begin

text \<open>
  Functional laws of the store, seen from its callers: what a statement does when it runs, the
  atomicity of the port reservation, and the conditional update of a status.
\<close>

section \<open>Running statements\<close>

lemma run_tick [simp]: "run_state tick s = (os_tick s, s\<lparr> os_tick := Suc (os_tick s) \<rparr>)"
  by (simp add: tick_def)

lemma run_time_Now [simp]: "run_state (time_Now E) s = (e_now E (os_tick s), s\<lparr> os_tick := Suc (os_tick s) \<rparr>)"
  by (simp add: time_Now_def)

lemma run_stmt:
  "run_state (stmt E f) s =
     (let s' = s\<lparr> os_tick := Suc (os_tick s) \<rparr> in
      case e_fault E (os_tick s) of
        Some err \<Rightarrow> (Inl err, s')
      | None \<Rightarrow> (case f (os_db s) of Inl err \<Rightarrow> (Inl err, s') | Inr (x, db) \<Rightarrow> (Inr x, s'\<lparr> os_db := db \<rparr>)))"
  by (auto simp: stmt_def Let_def split: option.splits sum.splits)

text \<open>A successful statement, and what it leaves when it fails.\<close>

lemma stmt_Inr:
  "run_state (stmt E f) s = (Inr x, t) \<Longrightarrow> f (os_db s) = Inr (x, os_db t)"
  by (auto simp: run_stmt Let_def split: option.splits sum.splits)

lemma stmt_Inl: "run_state (stmt E f) s = (Inl err, t) \<Longrightarrow> os_db t = os_db s"
  by (auto simp: run_stmt Let_def split: option.splits sum.splits)

lemma query_db: "run_state (query E g) s = (r, t) \<Longrightarrow> os_db t = os_db s \<and> (\<forall>x. r = Inr x \<longrightarrow> x = g (os_db s))"
  by (auto simp: query_def run_stmt Let_def split: option.splits)

lemma change_Inr: "run_state (change E h) s = (Inr u, t) \<Longrightarrow> os_db t = h (os_db s)"
  by (auto simp: change_def dest: stmt_Inr)

lemma change_Inl: "run_state (change E h) s = (Inl err, t) \<Longrightarrow> os_db t = os_db s"
  by (auto simp: change_def dest: stmt_Inl)

lemma bindE_Inr:
  "run_state (bindE m f) s = (Inr y, t) \<longleftrightarrow>
     (\<exists>x s'. run_state m s = (Inr x, s') \<and> run_state (f x) s' = (Inr y, t))"
  by (auto simp: run_bindE split: prod.splits sum.splits)

lemma transaction_Inl: "run_state (transaction E body) s = (Inl err, t) \<Longrightarrow> os_db t = os_db s"
  by (auto simp: transaction_def split: prod.splits sum.splits)

lemma transaction_Inr:
  "run_state (transaction E body) s = (Inr x, t) \<Longrightarrow>
     \<exists>s1 s2. os_db s1 = os_db s \<and> run_state body s1 = (Inr x, s2) \<and> os_db t = os_db s2"
  by (fastforce simp: transaction_def bindE_Inr split: prod.splits sum.splits dest: query_db)

section \<open>Reading sandboxes\<close>

lemma GetSandbox_Inr:
  "run_state (repo_GetSandbox E sid) s = (Inr sbx, t) \<Longrightarrow>
     os_db t = os_db s \<and> select_sandbox sid (os_db s) = Some sbx"
  by (auto simp: repo_GetSandbox_def bindE_Inr one_row_def split: option.splits dest!: query_db)

lemma select_sandbox_Some:
  "select_sandbox sid db = Some sbx \<Longrightarrow> \<exists>x \<in> set (db_sandboxes db). sx_id x = sid \<and> sbx = scan_sandbox x"
  by (auto simp: select_sandbox_def dest!: find_key_Some)

lemma select_set_status:
  "select_sandbox sid (set_status_where (\<lambda>x. sx_id x = sid) st now db) =
     map_option (\<lambda>sbx. sbx\<lparr> sb_Status := SandboxStatus_json st, sb_UpdatedAt := now \<rparr>) (select_sandbox sid db)"
  unfolding select_sandbox_def set_status_where_def
  by (simp add: find_update_where option.map_comp comp_def scan_sandbox_def SandboxStatus_json_def)

lemma select_set_status_other:
  "sid \<noteq> sid' \<Longrightarrow> select_sandbox sid (set_status_where (\<lambda>x. sx_id x = sid' \<and> P x) st now db) = select_sandbox sid db"
  unfolding select_sandbox_def set_status_where_def
  by simp (subst find_update_where_other [where key = sx_id], auto)

section \<open>The port reservation\<close>

lemma check_ports_Inr:
  "run_state (check_ports E n ps) s = (Inr u, t) \<Longrightarrow>
     os_db t = os_db s \<and> (\<forall>p \<in> set ps. \<forall>q \<in> set (db_ports (os_db s)). port_key q \<noteq> (n, pa_HostPort p))"
proof (induction ps arbitrary: s)
  case (Cons p ps)
  then show ?case
    by (auto simp: bindE_Inr port_key_def filter_empty_conv split: if_splits dest!: query_db)
qed simp

definition reserved_row :: "string \<Rightarrow> string \<Rightarrow> sandbox_port_row \<Rightarrow> SandboxPortAssign \<Rightarrow> bool" where
  "reserved_row sid n q p \<longleftrightarrow> po_sandbox_id q = sid \<and> po_node_name q = n \<and> po_host_port q = pa_HostPort p \<and>
     po_container_port q = pa_ContainerPort p \<and> po_protocol q = pa_Protocol p"

lemma insert_ports_Inr:
  "run_state (insert_ports E sid n ps) s = (Inr u, t) \<Longrightarrow>
     \<exists>rows. os_db t = (os_db s)\<lparr> db_ports := db_ports (os_db s) @ rows \<rparr> \<and> list_all2 (reserved_row sid n) rows ps"
proof (induction ps arbitrary: s)
  case (Cons p ps)
  let ?row = "\<lparr> po_sandbox_id = sid, po_node_name = n, po_host_port = pa_HostPort p,
       po_container_port = pa_ContainerPort p, po_protocol = pa_Protocol p, po_created_at = e_now E (os_tick s) \<rparr>"
  from Cons.prems obtain v s' where
    ins: "run_state (stmt E (insert_port ?row)) (s\<lparr> os_tick := Suc (os_tick s) \<rparr>) = (Inr v, s')"
    and rest: "run_state (insert_ports E sid n ps) s' = (Inr u, t)"
    by (auto split: prod.splits sum.splits)
  from stmt_Inr [OF ins] have s': "os_db s' = (os_db s)\<lparr> db_ports := db_ports (os_db s) @ [?row] \<rparr>"
    by (auto simp: insert_port_def split: if_splits)
  from Cons.IH [OF rest] obtain rows where
    "os_db t = (os_db s')\<lparr> db_ports := db_ports (os_db s') @ rows \<rparr>" "list_all2 (reserved_row sid n) rows ps"
    by blast
  moreover have "reserved_row sid n ?row p" by (simp add: reserved_row_def)
  ultimately show ?case
    by (intro exI [of _ "?row # rows"]) (simp add: s')
qed (auto intro: exI [of _ "[]"])

definition conflict_of :: "string \<Rightarrow> SandboxPortAssign list \<Rightarrow> orch_db \<Rightarrow> bool" where
  "conflict_of n ps db \<longleftrightarrow> list_ex (\<lambda>p. (n, pa_HostPort p) \<in> port_key ` set (db_ports db)) ps"

lemma Reserve_Inr:
  assumes "run_state (ReserveSandboxPortsAndSchedule E sid n ps) s = (Inr u, t)"
  shows "\<exists>rows x now. list_all2 (reserved_row sid n) rows ps \<and> \<not> conflict_of n ps (os_db s) \<and>
    select_sandbox sid (os_db s) = Some x \<and>
    os_db t = set_status_where (\<lambda>x. sx_id x = sid)
      ((sb_Status x)\<lparr> st_NodeName := n, st_Phase := SandboxPhaseScheduled, st_AssignedPorts := ps \<rparr>) now
      ((os_db s)\<lparr> db_ports := db_ports (os_db s) @ rows \<rparr>)"
proof -
  from transaction_Inr [OF assms [unfolded ReserveSandboxPortsAndSchedule_def]]
  obtain s0 s1 s2 s3 t' x where db: "os_db s0 = os_db s" "os_db t = os_db t'"
    and chk: "run_state (check_ports E n ps) s0 = (Inr (), s1)"
    and ins: "run_state (insert_ports E sid n ps) s1 = (Inr (), s2)"
    and get: "run_state (repo_GetSandbox E sid) s2 = (Inr x, s3)"
    and upd: "run_state (UpdateSandboxStatus E sid ((sb_Status x)\<lparr> st_NodeName := n,
      st_Phase := SandboxPhaseScheduled, st_AssignedPorts := ps \<rparr>)) s3 = (Inr (), t')"
    by (auto simp: bindE_Inr)
  from insert_ports_Inr [OF ins] obtain rows where rows: "list_all2 (reserved_row sid n) rows ps"
    and s2: "os_db s2 = (os_db s1)\<lparr> db_ports := db_ports (os_db s1) @ rows \<rparr>" by blast
  have s1: "os_db s1 = os_db s" using check_ports_Inr [OF chk] db by simp
  have "\<not> conflict_of n ps (os_db s)"
    using check_ports_Inr [OF chk] db by (force simp: conflict_of_def list_ex_iff)
  moreover have "select_sandbox sid (os_db s) = Some x"
    using GetSandbox_Inr [OF get] by (simp add: s2 s1 select_sandbox_def)
  moreover have "\<exists>now. os_db t = set_status_where (\<lambda>x. sx_id x = sid) ((sb_Status x)\<lparr> st_NodeName := n,
      st_Phase := SandboxPhaseScheduled, st_AssignedPorts := ps \<rparr>) now (os_db s2)"
    using upd GetSandbox_Inr [OF get] by (auto simp: UpdateSandboxStatus_def db dest!: change_Inr)
  ultimately show ?thesis using rows by (auto simp: s2 s1)
qed

section \<open>The conditional update\<close>

lemma filter_key_one:
  "distinct (map key rows) \<Longrightarrow> length (filter (\<lambda>x. key x = k \<and> C x) rows) = 1 \<longleftrightarrow> (\<exists>x \<in> set rows. key x = k \<and> C x)"
proof (induction rows)
  case (Cons r rows)
  then have out: "key r \<notin> key ` set rows" by simp
  then have "key r = k \<Longrightarrow> filter (\<lambda>x. key x = k \<and> C x) rows = []"
    by (auto simp: filter_empty_conv image_iff)
  moreover have "key r = k \<Longrightarrow> x \<in> set rows \<Longrightarrow> key x \<noteq> k" for x
    using out by (auto simp: image_iff)
  ultimately show ?case using Cons by auto
qed simp

lemma update_where_cong:
  "(\<And>r. r \<in> set rows \<Longrightarrow> P r = P' r) \<Longrightarrow> update_where P f rows = update_where P' f rows"
  by (auto simp: update_where_def)

lemma update_where_none: "(\<And>r. r \<in> set rows \<Longrightarrow> \<not> P r) \<Longrightarrow> update_where P f rows = rows"
  by (simp add: update_where_def map_idI)

lemma IfUnchanged_Inr:
  assumes "run_state (UpdateSandboxStatusIfUnchanged E sid st expected) s = (Inr ok, t)"
  shows "\<exists>now. ok = (length (filter (\<lambda>x. sx_id x = sid \<and> sx_updated_at x = expected) (db_sandboxes (os_db s))) = 1) \<and>
    os_db t = set_status_where (\<lambda>x. sx_id x = sid \<and> sx_updated_at x = expected) st now (os_db s)"
  using assms
  by (intro exI [of _ "e_now E (os_tick s)"]) (auto simp: UpdateSandboxStatusIfUnchanged_def Let_def dest!: stmt_Inr)

lemma IfUnchanged_Inl:
  "run_state (UpdateSandboxStatusIfUnchanged E sid st expected) s = (Inl err, t) \<Longrightarrow> os_db t = os_db s"
  by (auto simp: UpdateSandboxStatusIfUnchanged_def Let_def dest!: stmt_Inl)

lemma set_status_expected:
  assumes "distinct (map sx_id (db_sandboxes db))" and "x \<in> set (db_sandboxes db)" and "C x"
  shows "set_status_where (\<lambda>y. sx_id y = sx_id x \<and> C y) st now db = set_status_where (\<lambda>y. sx_id y = sx_id x) st now db"
proof -
  have "inj_on sx_id (set (db_sandboxes db))" using assms(1) by (simp add: distinct_map)
  then have "r \<in> set (db_sandboxes db) \<Longrightarrow> (sx_id r = sx_id x \<and> C r) = (sx_id r = sx_id x)" for r
    using assms by (auto dest: inj_onD)
  then show ?thesis
    unfolding set_status_where_def by (simp cong: update_where_cong)
qed

section \<open>Properties\<close>

text \<open>
  C7: the reservation of ports is all or nothing. When it fails, for whatever reason, the database
  is as before. When it succeeds, none of the ports was reserved on the node, each of them is now
  reserved for the sandbox, and the sandbox is scheduled on the node with exactly these ports.
\<close>

theorem ReserveSandboxPortsAndSchedule_atomic:
  "case run_state (ReserveSandboxPortsAndSchedule E sid n ps) s of
     (Inl err, t) \<Rightarrow> os_db t = os_db s
   | (Inr u, t) \<Rightarrow> \<not> conflict_of n ps (os_db s) \<and>
       (\<exists>rows. db_ports (os_db t) = db_ports (os_db s) @ rows \<and> list_all2 (reserved_row sid n) rows ps) \<and>
       (\<exists>x. select_sandbox sid (os_db t) = Some x \<and> st_Phase (sb_Status x) = SandboxPhaseScheduled \<and>
          st_NodeName (sb_Status x) = n \<and> st_AssignedPorts (sb_Status x) = ps)"
proof (cases "run_state (ReserveSandboxPortsAndSchedule E sid n ps) s")
  case (Pair r t)
  show ?thesis
  proof (cases r)
    case (Inl err)
    with Pair show ?thesis
      using transaction_Inl [of E _ s err t] by (simp add: ReserveSandboxPortsAndSchedule_def)
  next
    case (Inr u)
    obtain rows x now where r: "list_all2 (reserved_row sid n) rows ps" "\<not> conflict_of n ps (os_db s)"
      "select_sandbox sid (os_db s) = Some x"
      and t: "os_db t = set_status_where (\<lambda>x. sx_id x = sid)
        ((sb_Status x)\<lparr> st_NodeName := n, st_Phase := SandboxPhaseScheduled, st_AssignedPorts := ps \<rparr>) now
        ((os_db s)\<lparr> db_ports := db_ports (os_db s) @ rows \<rparr>)"
      using Reserve_Inr Pair Inr by blast
    have "select_sandbox sid ((os_db s)\<lparr> db_ports := db_ports (os_db s) @ rows \<rparr>) = Some x"
      using r(3) by (simp add: select_sandbox_def)
    then have "\<exists>y. select_sandbox sid (os_db t) = Some y \<and> st_Phase (sb_Status y) = SandboxPhaseScheduled \<and>
        st_NodeName (sb_Status y) = n \<and> st_AssignedPorts (sb_Status y) = ps"
      unfolding t by (simp add: select_set_status SandboxStatus_json_def)
    moreover have "db_ports (os_db t) = db_ports (os_db s) @ rows"
      by (simp add: t set_status_where_def)
    ultimately show ?thesis using Pair Inr r by auto
  qed
qed

text \<open>
  C8: the conditional update writes exactly when nobody else has: it reports success if and only if
  the sandbox is stored with the expected time of its last update. On success the sandbox has the
  new status; otherwise the database is as it was; no other sandbox changes in either case.
\<close>

theorem UpdateSandboxStatusIfUnchanged_compare_and_swap:
  assumes "db_wf (os_db s)" and "run_state (UpdateSandboxStatusIfUnchanged E sid st expected) s = (Inr ok, t)"
  shows "ok = (\<exists>x \<in> set (db_sandboxes (os_db s)). sx_id x = sid \<and> sx_updated_at x = expected) \<and>
    (if ok then map_option sb_Status (select_sandbox sid (os_db t)) = Some (SandboxStatus_json st)
     else os_db t = os_db s) \<and>
    (sid' = sid \<or> select_sandbox sid' (os_db t) = select_sandbox sid' (os_db s))"
proof -
  let ?C = "\<lambda>x. sx_updated_at x = expected"
  from assms(1) have dist: "distinct (map sx_id (db_sandboxes (os_db s)))" by (simp add: db_wf_def)
  from IfUnchanged_Inr [OF assms(2)] obtain now where
    ok: "ok \<longleftrightarrow> (\<exists>x \<in> set (db_sandboxes (os_db s)). sx_id x = sid \<and> ?C x)"
    and t: "os_db t = set_status_where (\<lambda>x. sx_id x = sid \<and> ?C x) st now (os_db s)"
    using filter_key_one [OF dist, of sid ?C] by auto
  have "if ok then map_option sb_Status (select_sandbox sid (os_db t)) = Some (SandboxStatus_json st)
     else os_db t = os_db s"
  proof (cases ok)
    case True
    then obtain x where x: "x \<in> set (db_sandboxes (os_db s))" "sx_id x = sid" "?C x" using ok by auto
    then have "os_db t = set_status_where (\<lambda>y. sx_id y = sid) st now (os_db s)"
      using set_status_expected [OF dist x(1), of ?C] by (simp add: t)
    moreover have "select_sandbox sid (os_db s) = Some (scan_sandbox x)"
      using find_key_distinct [OF dist x(1)] x(2) by (simp add: select_sandbox_def)
    ultimately show ?thesis using True by (simp add: select_set_status)
  next
    case False
    then have "update_where (\<lambda>x. sx_id x = sid \<and> ?C x) f (db_sandboxes (os_db s)) = db_sandboxes (os_db s)" for f
      using ok by (intro update_where_none) auto
    with False show ?thesis by (simp add: t set_status_where_def)
  qed
  moreover have "sid' = sid \<or> select_sandbox sid' (os_db t) = select_sandbox sid' (os_db s)"
    using select_set_status_other [of sid' sid ?C st now "os_db s"] by (auto simp: t)
  ultimately show ?thesis using ok by blast
qed

lemma sample_cas: "run_state (UpdateSandboxStatusIfUnchanged sample_env ''s1'' (sx_status sample_row) 2)
    (orch_init 1\<lparr> os_db := sample_db \<rparr>) = (Inr True, exec (UpdateSandboxStatusIfUnchanged sample_env ''s1''
      (sx_status sample_row) 2) (orch_init 1\<lparr> os_db := sample_db \<rparr>))"
proof -
  have "result (UpdateSandboxStatusIfUnchanged sample_env ''s1'' (sx_status sample_row) 2)
      (orch_init 1\<lparr> os_db := sample_db \<rparr>) = Inr True"
    by code_simp
  then show ?thesis by (metis prod.collapse)
qed

theorem UpdateSandboxStatusIfUnchanged_compare_and_swap_witness:
  "\<exists>x \<in> set (db_sandboxes sample_db). sx_id x = ''s1'' \<and> sx_updated_at x = 2"
proof -
  have "db_wf (os_db (orch_init 1\<lparr> os_db := sample_db \<rparr>))"
    using sql_steps_wf [OF sample_db_steps db_wf_empty] by simp
  from UpdateSandboxStatusIfUnchanged_compare_and_swap [OF this sample_cas, of "''s2''"] show ?thesis by simp
qed

end
