(* ===== verification/Orch_Sched.thy ===== *)
theory Orch_Sched
  imports Orch_Reserve
begin

text \<open>
  Properties of the scheduler: the allocation of host ports, the choice of the node, and the
  agreement between what the orchestrator accepts and what sbxlet accepts.
\<close>

section \<open>Host ports\<close>

lemma set_port_range [simp]: "set (port_range lo hi) = {lo..hi}"
proof -
  have "x \<in> set (port_range lo hi)" if "lo \<le> x" "x \<le> hi" for x
    using that by (auto simp: port_range_def image_iff intro!: bexI [of _ "nat (x - lo)"])
  then show ?thesis by (auto simp: port_range_def)
qed

lemma distinct_port_range [simp]: "distinct (port_range lo hi)"
  by (simp add: port_range_def distinct_map inj_on_def)

lemma map2_assign:
  assumes "length spec \<le> length hps"
  shows "map pa_HostPort (map2 assign_port spec hps) = take (length spec) hps"
    and "map pa_ContainerPort (map2 assign_port spec hps) = map sp_ContainerPort spec"
  using assms
  by (induction spec hps rule: list_induct2') (auto simp: assign_port_def Let_def)

lemma card_free_ports:
  "length (filter (\<lambda>hp. hp \<notin> set used) (port_range lo hi)) = card ({lo..hi} - set used)"
proof -
  have "distinct (filter (\<lambda>hp. hp \<notin> set used) (port_range lo hi))" by simp
  then have "length (filter (\<lambda>hp. hp \<notin> set used) (port_range lo hi)) =
      card (set (filter (\<lambda>hp. hp \<notin> set used) (port_range lo hi)))"
    by (simp only: distinct_card)
  also have "set (filter (\<lambda>hp. hp \<notin> set used) (port_range lo hi)) = {lo..hi} - set used" by auto
  finally show ?thesis .
qed

text \<open>What a good assignment of host ports is.\<close>

definition good_assignment ::
  "SandboxPortSpec list \<Rightarrow> int list \<Rightarrow> int \<Rightarrow> int \<Rightarrow> SandboxPortAssign list \<Rightarrow> bool" where
  "good_assignment spec used lo hi ps \<longleftrightarrow>
     length ps = length spec \<and> distinct (map pa_HostPort ps) \<and>
     (\<forall>p \<in> set ps. lo \<le> pa_HostPort p \<and> pa_HostPort p \<le> hi \<and> pa_HostPort p \<notin> set used) \<and>
     map pa_ContainerPort ps = map sp_ContainerPort spec"

lemma allocate_good:
  assumes "allocateHostPorts rnd spec used lo hi = Some ps"
  shows "good_assignment spec used lo hi ps"
proof (cases "spec = []")
  case False
  define free where "free = Shuffle rnd (filter (\<lambda>hp. hp \<notin> set used) (port_range lo hi))"
  from assms False have ps: "ps = map2 assign_port spec free" and len: "length spec \<le> length free"
    by (auto simp: allocateHostPorts_def Let_def free_def split: if_splits)
  have hp: "map pa_HostPort ps = take (length spec) free"
    using map2_assign(1) [OF len] by (simp add: ps)
  have "distinct (map pa_HostPort ps)" by (simp add: hp free_def)
  moreover have "hp \<in> {lo..hi} - set used" if "hp \<in> pa_HostPort ` set ps" for hp
  proof -
    from that have "hp \<in> set (map pa_HostPort ps)" by simp
    then have "hp \<in> set free" unfolding hp by (rule in_set_takeD)
    then show ?thesis by (simp add: free_def)
  qed
  moreover have "map pa_ContainerPort ps = map sp_ContainerPort spec"
    using map2_assign(2) [OF len] by (simp add: ps)
  moreover have "length ps = length spec" using len by (simp add: ps)
  ultimately show ?thesis by (auto simp: good_assignment_def)
qed (use assms in \<open>auto simp: allocateHostPorts_def good_assignment_def\<close>)

lemma allocate_None:
  "allocateHostPorts rnd spec used lo hi = None \<longleftrightarrow> spec \<noteq> [] \<and> card ({lo..hi} - set used) < length spec"
proof (cases "hi < lo")
  case True
  then show ?thesis by (auto simp: allocateHostPorts_def Let_def)
next
  case False
  then show ?thesis using card_free_ports [of used lo hi]
    by (auto simp: allocateHostPorts_def Let_def)
qed

section \<open>The choice of a node\<close>

text \<open>A node can take a sandbox that needs the given resources.\<close>

definition feasible :: "SandboxSpec \<Rightarrow> int \<Rightarrow> int \<Rightarrow> Node \<Rightarrow> bool" where
  "feasible spec needCPU needMem n \<longleftrightarrow>
     n_State n = NodeStateReady \<and> \<not> n_Unschedulable n \<and> nodeMatchesSelector n (ss_NodeSelector spec) \<and>
     needCPU \<le> nr_AvailableCPUMilli (n_Resources n) \<and> needMem \<le> nr_AvailableMemory (n_Resources n)"

lemma candidates_sound:
  "run_state (candidates E spec c m ns) s = (cands, t) \<Longrightarrow> os_db t = os_db s \<and>
   (\<forall>(n, ps) \<in> set cands. n \<in> set ns \<and> feasible spec c m n \<and>
      good_assignment (ss_Ports spec) (map po_host_port (filter (\<lambda>p. po_node_name p = n_ID n) (db_ports (os_db s))))
        (HostPortMin (e_cfg E)) (HostPortMax (e_cfg E)) ps)"
proof (induction ns arbitrary: s cands)
  case (Cons n ns)
  show ?case
  proof (cases "feasible spec c m n")
    case False
    then have "run_state (candidates E spec c m ns) s = (cands, t)"
      using Cons.prems by (auto simp: feasible_def not_less)
    with Cons.IH [OF this] show ?thesis by auto
  next
    case True
    obtain r s1 where used: "run_state (NodeUsedHostPorts E (n_ID n)) s = (r, s1)"
      by (cases "run_state (NodeUsedHostPorts E (n_ID n)) s")
    have s1: "os_db s1 = os_db s"
      and r: "r = Inr u \<Longrightarrow> u = map po_host_port (filter (\<lambda>p. po_node_name p = n_ID n) (db_ports (os_db s)))" for u
      using used query_db [of E _ s r s1] by (auto simp: NodeUsedHostPorts_def)
    show ?thesis
    proof (cases r)
      case (Inl err)
      then have "run_state (candidates E spec c m ns) s1 = (cands, t)"
        using Cons.prems True used by (auto simp: feasible_def not_less split: prod.splits)
      with Cons.IH [OF this] show ?thesis by (auto simp: s1)
    next
      case (Inr u)
      let ?s2 = "s1\<lparr> os_tick := Suc (os_tick s1) \<rparr>"
      let ?ports = "allocateHostPorts (e_rand E (os_tick s1)) (ss_Ports spec) u (HostPortMin (e_cfg E)) (HostPortMax (e_cfg E))"
      obtain rest where rest: "run_state (candidates E spec c m ns) ?s2 = (rest, t)"
        and cands: "cands = (case ?ports of None \<Rightarrow> rest | Some ps \<Rightarrow> (n, ps) # rest)"
        using Cons.prems True used Inr by (auto simp: feasible_def not_less split: prod.splits option.splits)
      from Cons.IH [OF rest] show ?thesis
        using True allocate_good [of "e_rand E (os_tick s1)" "ss_Ports spec" u] r [OF Inr]
        by (auto simp: s1 cands split: option.splits)
    qed
  qed
qed simp

lemma cand_less_asym: "cand_less c x y \<Longrightarrow> \<not> cand_less c y x"
  by (auto simp: cand_less_def Let_def split: if_splits)

lemma cand_less_trans: "\<not> cand_less c y x \<Longrightarrow> \<not> cand_less c z y \<Longrightarrow> \<not> cand_less c z x"
  by (auto simp: cand_less_def Let_def not_less split: if_splits)

lemma sort_cands_head:
  assumes "sort_slice (cand_less c) cands = x # rest" and "y \<in> set cands"
  shows "x = y \<or> \<not> cand_less c y x"
proof -
  have "sorted_wrt (\<lambda>a b. \<not> cand_less c b a) (x # rest)"
    using sorted_sort_slice [of "cand_less c" cands, OF cand_less_asym cand_less_trans] assms(1) by auto
  moreover have "y \<in> set (x # rest)" using assms by (metis set_sort_slice)
  ultimately show ?thesis by auto
qed

lemma candidates_complete:
  assumes "\<And>t. e_fault E t = None"
  shows "n \<in> set ns \<Longrightarrow> feasible spec c m n \<Longrightarrow>
    length (ss_Ports spec) \<le> card ({HostPortMin (e_cfg E)..HostPortMax (e_cfg E)} -
      po_host_port ` {p \<in> set (db_ports (os_db s)). po_node_name p = n_ID n}) \<Longrightarrow>
    n \<in> fst ` set (result (candidates E spec c m ns) s)"
proof (induction ns arbitrary: s)
  case (Cons k ns)
  let ?used = "\<lambda>k. map po_host_port (filter (\<lambda>p. po_node_name p = n_ID k) (db_ports (os_db s)))"
  let ?s = "s\<lparr> os_tick := Suc (Suc (os_tick s)) \<rparr>"
  have IH: "n \<in> set ns \<Longrightarrow> n \<in> fst ` set (result (candidates E spec c m ns) ?s)"
    "n \<in> set ns \<Longrightarrow> n \<in> fst ` set (result (candidates E spec c m ns) s)"
    using Cons.IH [of ?s] Cons.IH [of s] Cons.prems by auto
  have used: "run_state (NodeUsedHostPorts E (n_ID k)) s = (Inr (?used k), s\<lparr> os_tick := Suc (os_tick s) \<rparr>)"
    by (simp add: NodeUsedHostPorts_def query_def run_stmt assms)
  have ok: "allocateHostPorts rnd (ss_Ports spec) (?used n) (HostPortMin (e_cfg E)) (HostPortMax (e_cfg E)) \<noteq> None" for rnd
  proof -
    have "set (?used n) = po_host_port ` {p \<in> set (db_ports (os_db s)). po_node_name p = n_ID n}" by simp
    then show ?thesis unfolding allocate_None using Cons.prems(3) by simp
  qed
  show ?case
  proof (cases "feasible spec c m k")
    case True
    then have "run_state (candidates E spec c m (k # ns)) s =
      (let (rest, t) = run_state (candidates E spec c m ns) ?s in
       (case allocateHostPorts (e_rand E (Suc (os_tick s))) (ss_Ports spec) (?used k)
            (HostPortMin (e_cfg E)) (HostPortMax (e_cfg E)) of
          None \<Rightarrow> rest | Some ps \<Rightarrow> (k, ps) # rest, t))"
      by (auto simp: feasible_def used Let_def split: option.splits prod.splits)
    then show ?thesis using Cons.prems(1) IH(1) ok [of "e_rand E (Suc (os_tick s))"]
      by (auto simp: Let_def split: option.splits prod.splits)
  next
    case False
    then have "candidates E spec c m (k # ns) = candidates E spec c m ns" by (auto simp: feasible_def not_less)
    moreover have "n \<in> set ns" using False Cons.prems by auto
    ultimately show ?thesis using IH(2) by simp
  qed
qed simp

section \<open>Properties: host ports and scheduling\<close>

text \<open>
  C9: the allocation of host ports fails exactly when there are fewer free ports in the configured
  range than ports to expose; otherwise every port gets its own host port, in the range and not in
  use on the node, whatever the random source gives.
\<close>

theorem allocateHostPorts_correct:
  "case allocateHostPorts rnd spec used lo hi of
     None \<Rightarrow> spec \<noteq> [] \<and> card ({lo..hi} - set used) < length spec
   | Some ps \<Rightarrow> good_assignment spec used lo hi ps \<and> (spec = [] \<or> length spec \<le> card ({lo..hi} - set used))"
  using allocate_None [of rnd spec used lo hi] allocate_good [of rnd spec used lo hi]
  by (auto split: option.splits simp: not_less)

text \<open>
  C10: the node the scheduler reserves on is one of the listed nodes; it is ready, schedulable,
  matches the selector, has the CPU and memory the sandbox asks for, and the ports reserved on it
  are free, distinct and in range. No other candidate has more CPU available, and among those with
  as much it has the smallest name.
\<close>

theorem scheduler_chooses_best_feasible_node:
  assumes "run_state (candidates E spec c m nodes) s = (cands, t)"
    and "sort_slice (cand_less c) cands = (node, ps) # rest"
    and "\<forall>n \<in> set nodes. in64 (nr_AvailableCPUMilli (n_Resources n) - c)"
  shows "node \<in> set nodes \<and> feasible spec c m node \<and>
    good_assignment (ss_Ports spec) (map po_host_port (filter (\<lambda>p. po_node_name p = n_ID node) (db_ports (os_db s))))
      (HostPortMin (e_cfg E)) (HostPortMax (e_cfg E)) ps \<and>
    (\<forall>(n, qs) \<in> set cands.
       nr_AvailableCPUMilli (n_Resources n) < nr_AvailableCPUMilli (n_Resources node) \<or>
       nr_AvailableCPUMilli (n_Resources n) = nr_AvailableCPUMilli (n_Resources node) \<and> n_ID node \<le> n_ID n)"
proof -
  note sound = candidates_sound [OF assms(1)]
  have "(node, ps) \<in> set cands"
    using assms(2) by (metis list.set_intros(1) set_sort_slice)
  moreover have "nr_AvailableCPUMilli (n_Resources n) < nr_AvailableCPUMilli (n_Resources node) \<or>
     nr_AvailableCPUMilli (n_Resources n) = nr_AvailableCPUMilli (n_Resources node) \<and> n_ID node \<le> n_ID n"
    if n: "(n, qs) \<in> set cands" for n qs
  proof -
    have "in64 (nr_AvailableCPUMilli (n_Resources n) - c)" "in64 (nr_AvailableCPUMilli (n_Resources node) - c)"
      using sound assms(3) n \<open>(node, ps) \<in> set cands\<close> by auto
    then show ?thesis
      using sort_cands_head [OF assms(2) n] by (auto simp: cand_less_def Let_def split: if_splits)
  qed
  ultimately show ?thesis using sound by auto
qed

definition sample_node :: Node where
  "sample_node = \<lparr> n_ID = ''n1'', n_Metadata = \<lparr> om_Labels = [] \<rparr>, n_IP = ''10.0.0.1'', n_Port = 80,
     n_Unschedulable = False, n_State = NodeStateReady, n_Source = ''api'', n_LastError = [], n_SuccessStreak = 1,
     n_FailureStreak = 0, n_CreatedAt = 0, n_UpdatedAt = 0, n_LastHeartbeat = None, n_Resources = sample_resources,
     n_SbxletBaseURL = ''http://10.0.0.1:80'' \<rparr>"

definition sample_cands :: "(Node \<times> SandboxPortAssign list) list" where
  "sample_cands = [(sample_node, [\<lparr> pa_HostPort = 10002, pa_ContainerPort = 80, pa_Protocol = ''tcp'' \<rparr>])]"

lemma sample_cands_run:
  "run_state (candidates sample_env sample_spec 1000 64 [sample_node]) (orch_init 2) =
     (sample_cands, exec (candidates sample_env sample_spec 1000 64 [sample_node]) (orch_init 2))"
proof -
  have "result (candidates sample_env sample_spec 1000 64 [sample_node]) (orch_init 2) = sample_cands"
    by code_simp
  then show ?thesis by (metis prod.collapse)
qed

theorem scheduler_chooses_best_feasible_node_witness: "feasible sample_spec 1000 64 sample_node"
proof -
  have "sort_slice (cand_less 1000) sample_cands = hd sample_cands # []"
    by (simp add: sample_cands_def sort_slice_def)
  moreover have "\<forall>n \<in> set [sample_node]. in64 (nr_AvailableCPUMilli (n_Resources n) - 1000)"
    by code_simp
  ultimately show ?thesis
    using scheduler_chooses_best_feasible_node [OF sample_cands_run, of sample_node] by (simp add: sample_cands_def)
qed



end
