(* ===== verification/Orch_Agree.thy ===== *)
theory Orch_Agree
  imports Orch_Sched
begin

text \<open>
  The orchestrator and sbxlet validate the same request separately. This theory compares
  \<open>validateSandboxCreate\<close> with sbxlet's \<open>Validate\<close> on the request that \<open>createSandboxOnNode\<close> builds.
\<close>

section \<open>The two validators, loop by loop\<close>

abbreviation to_volume :: "SandboxVolumeSpec \<Rightarrow> VolumeSpec" where
  "to_volume v \<equiv> \<lparr> vs_Name = sv_Name v, vs_EphemeralStorage = sv_EphemeralStorage v \<rparr>"

abbreviation to_mount :: "SandboxVolumeMount \<Rightarrow> VolumeMount" where
  "to_mount vm \<equiv> \<lparr> vm_Name = svm_Name vm, vm_MountPath = svm_MountPath vm, vm_ReadOnly = svm_ReadOnly vm \<rparr>"

abbreviation to_tmpfs :: "SandboxTmpfsMount \<Rightarrow> TmpfsMount" where
  "to_tmpfs tm \<equiv> \<lparr> tm_MountPath = stm_MountPath tm, tm_Options = stm_Options tm \<rparr>"

definition to_container :: "SandboxContainerSpec \<Rightarrow> CreateContainerRequest" where
  "to_container c = \<lparr> cc_Name = sc_Name c, cc_Image = sc_Image c, cc_Args = sc_Args c,
     cc_Env = sc_Env c, cc_WorkDir = sc_WorkDir c, cc_CapAdd = sc_CapAdd c, cc_CapDrop = sc_CapDrop c,
     cc_SecurityOpt = sc_SecurityOpt c, cc_ReadOnly = sc_ReadOnly c, cc_Tmpfs = map to_tmpfs (sc_Tmpfs c),
     cc_VolumeMounts = map to_mount (sc_VolumeMounts c),
     cc_Resource = \<lparr> rs_CPU = sr_CPU (sc_Resource c), rs_Memory = sr_Memory (sc_Resource c),
       rs_EphemeralStorage = sr_EphemeralStorage (sc_Resource c) \<rparr> \<rparr>"

abbreviation to_probe :: "OrchReadinessProbeSpec \<Rightarrow> ReadinessProbeSpec" where
  "to_probe p \<equiv> \<lparr> rp_Protocol = orp_Protocol p, rp_Port = orp_Port p, rp_Path = orp_Path p,
     rp_InitialDelaySeconds = orp_InitialDelaySeconds p, rp_PeriodSeconds = orp_PeriodSeconds p,
     rp_TimeoutSeconds = orp_TimeoutSeconds p, rp_SuccessThreshold = orp_SuccessThreshold p,
     rp_FailureThreshold = orp_FailureThreshold p \<rparr>"

lemma create_volumes_agree:
  "create_volumes pq vs known = Inr k \<longleftrightarrow> validate_volumes pq (map to_volume vs) known = Inr k"
  by (induction vs arbitrary: known)
    (auto simp: Let_def parseMemoryBytes_def split: sum.splits if_splits)

lemma create_mounts_agree:
  "create_mounts known cname vms seen = Inr s \<longleftrightarrow> validate_mounts known cname (map to_mount vms) seen = Inr s"
  by (induction vms arbitrary: seen) (auto simp: Let_def split: if_splits)

lemma create_tmpfs_agree:
  "validate_tmpfs pq cname (map to_tmpfs tms) seen = Inr s \<longleftrightarrow>
     create_tmpfs cname tms seen = Inr s \<and> list_all (\<lambda>t. validateTmpfsOptions pq (stm_Options t) = None) tms"
  by (induction tms arbitrary: seen) (auto simp: Let_def split: if_splits option.splits)

lemma create_readiness_agree: "create_readiness p = None \<longleftrightarrow> validate_readiness (to_probe p) = None"
  by (auto simp: create_readiness_def validate_readiness_def Let_def)

section \<open>What the orchestrator leaves to sbxlet\<close>

definition options_ok :: "quantity_parser \<Rightarrow> SandboxContainerSpec \<Rightarrow> bool" where
  "options_ok pq c \<longleftrightarrow>
     list_all (\<lambda>t. validateTmpfsOptions pq (stm_Options t) = None) (sc_Tmpfs c) \<and>
     list_all (\<lambda>n. validateCapabilityName n = None) (sc_CapAdd c) \<and>
     list_all (\<lambda>n. validateCapabilityName n = None) (sc_CapDrop c) \<and>
     list_all (\<lambda>o'. validateSecurityOpt o' = None) (sc_SecurityOpt c)"

lemma create_container_options:
  assumes "create_container pq known c = None"
  shows "validate_container_options pq known (to_container c) = None \<longleftrightarrow> options_ok pq c"
proof -
  from assms obtain seen t where mounts: "create_mounts known (sc_Name c) (sc_VolumeMounts c) [] = Inr seen"
    and tmpfs: "create_tmpfs (sc_Name c) (sc_Tmpfs c) seen = Inr t"
    by (auto simp: create_container_def split: option.splits if_splits sum.splits)
  have "validate_mounts known (sc_Name c) (map to_mount (sc_VolumeMounts c)) [] = Inr seen"
    using mounts by (simp add: create_mounts_agree)
  moreover have "(\<exists>x. validate_tmpfs pq (sc_Name c) (map to_tmpfs (sc_Tmpfs c)) seen = Inr x) \<longleftrightarrow>
      list_all (\<lambda>t. validateTmpfsOptions pq (stm_Options t) = None) (sc_Tmpfs c)"
    using tmpfs by (auto simp: create_tmpfs_agree)
  ultimately show ?thesis
    unfolding options_ok_def first_error_None [symmetric]
    by (auto simp: validate_container_options_def to_container_def simp del: first_error_None
        split: sum.splits option.splits)
qed

lemma TrimSpace_image: "TrimSpace s \<noteq> [] \<Longrightarrow> s \<noteq> []"
  by auto

lemma create_container_ok:
  assumes "create_container pq known c = None"
  shows "container_ok pq known (to_container c) \<longleftrightarrow> options_ok pq c"
proof -
  from assms have "ValidateContainerName (sc_Name c) = None" "sc_Image c \<noteq> []"
    "TrimSpace (sr_CPU (sc_Resource c)) \<noteq> []" "TrimSpace (sr_Memory (sc_Resource c)) \<noteq> []"
    by (auto simp: create_container_def split: option.splits if_splits)
  then show ?thesis
    using create_container_options [OF assms]
    by (simp add: container_ok_def validate_container_options_iff to_container_def)
qed

section \<open>Ports\<close>

lemma proto_fixed: "ToLower (TrimSpace ''tcp'') = ''tcp''" "ToLower (TrimSpace ''udp'') = ''udp''"
  by code_simp+

lemma assigned_ports_ok:
  assumes "good_assignment spec used lo hi ps" and "1024 \<le> lo" and "hi \<le> 65535"
    and "list_all (\<lambda>p. create_port p = None) spec" and "list_all2 (\<lambda>p a. pa_Protocol a = pa_Protocol (assign_port p 0)) spec ps"
  shows "list_all port_ok (map (\<lambda>p. \<lparr> pm_HostPort = pa_HostPort p, pm_ContainerPort = pa_ContainerPort p,
       pm_Protocol = pa_Protocol p \<rparr>) ps)"
proof (simp add: list_all_length, intro allI impI)
  fix i
  assume i: "i < length ps"
  then have i': "i < length spec" using assms(1) by (simp add: good_assignment_def)
  have "create_port (spec ! i) = None" using assms(4) i' by (simp add: list_all_length)
  moreover have "pa_ContainerPort (ps ! i) = sp_ContainerPort (spec ! i)"
    using assms(1) i i' by (metis good_assignment_def nth_map)
  moreover have "pa_Protocol (ps ! i) = pa_Protocol (assign_port (spec ! i) 0)"
    using assms(5) i' by (simp add: list_all2_conv_all_nth)
  moreover have "lo \<le> pa_HostPort (ps ! i) \<and> pa_HostPort (ps ! i) \<le> hi"
    using assms(1) i by (simp add: good_assignment_def)
  ultimately show "port_ok \<lparr> pm_HostPort = pa_HostPort (ps ! i), pm_ContainerPort = pa_ContainerPort (ps ! i),
       pm_Protocol = pa_Protocol (ps ! i) \<rparr>"
    using assms(2,3)
    by (auto simp: port_ok_def create_port_def assign_port_def Let_def proto_fixed split: if_splits)
qed

lemma allocate_protocols:
  assumes "allocateHostPorts rnd spec used lo hi = Some ps"
  shows "list_all2 (\<lambda>p a. pa_Protocol a = pa_Protocol (assign_port p 0)) spec ps"
proof (cases "spec = []")
  case False
  define free where "free = Shuffle rnd (filter (\<lambda>hp. hp \<notin> set used) (port_range lo hi))"
  from assms False have "ps = map2 assign_port spec free" and "length spec \<le> length free"
    by (auto simp: allocateHostPorts_def Let_def free_def split: if_splits)
  then show ?thesis by (auto simp: list_all2_conv_all_nth assign_port_def Let_def)
qed (use assms in \<open>auto simp: allocateHostPorts_def\<close>)

section \<open>Properties\<close>

lemma create_accepts:
  assumes "validateSandboxCreate pq req = None"
  shows "ValidateSandboxID (co_ID req) = None" and "ss_Containers (co_Spec req) \<noteq> []"
    and "\<exists>known. create_volumes pq (ss_Volumes (co_Spec req)) [] = Inr known \<and>
      list_all (\<lambda>c. create_container pq known c = None) (ss_Containers (co_Spec req))"
    and "list_all (\<lambda>p. create_port p = None) (ss_Ports (co_Spec req))"
    and "\<And>p. ss_ReadinessProbe (co_Spec req) = Some p \<Longrightarrow> create_readiness p = None"
  using assms by (auto simp: validateSandboxCreate_def split: option.splits if_splits sum.splits)

text \<open>
  C12: take a request that the orchestrator accepted and host ports that its scheduler allocated in
  a range of unprivileged ports. sbxlet then accepts the request that the orchestrator sends it if
  and only if the container names are distinct and every capability, security option and tmpfs
  option is one that sbxlet supports: these are the checks the orchestrator does not make itself.
\<close>

theorem orchestrator_request_accepted_by_sbxlet:
  assumes "validateSandboxCreate pq \<lparr> co_ID = sb_ID sbx, co_Spec = sb_Spec sbx \<rparr> = None"
    and "allocateHostPorts rnd (ss_Ports (sb_Spec sbx)) used lo hi = Some (st_AssignedPorts (sb_Status sbx))"
    and "1024 \<le> lo" and "hi \<le> 65535"
  shows "Validate pq (create_request sbx) = None \<longleftrightarrow>
    distinct (map sc_Name (ss_Containers (sb_Spec sbx))) \<and> list_all (options_ok pq) (ss_Containers (sb_Spec sbx))"
proof -
  note acc = create_accepts [OF assms(1), simplified]
  let ?cs = "ss_Containers (sb_Spec sbx)"
  from acc(3) obtain known where known: "create_volumes pq (ss_Volumes (sb_Spec sbx)) [] = Inr known"
    and cs: "list_all (\<lambda>c. create_container pq known c = None) ?cs" by blast
  have good: "good_assignment (ss_Ports (sb_Spec sbx)) used lo hi (st_AssignedPorts (sb_Status sbx))"
    by (rule allocate_good [OF assms(2)])
  have ports: "validate_ports (cr_Ports (create_request sbx)) [] = None"
    using assigned_ports_ok [OF good assms(3,4) acc(4) allocate_protocols [OF assms(2)]] good
    by (simp add: validate_ports_iff create_request_def good_assignment_def comp_def)
  have probe: "cr_Readiness (create_request sbx) = Some p \<Longrightarrow> validate_readiness p = None" for p
    using acc(5) by (auto simp: create_request_def create_readiness_agree)
  have volumes: "validate_volumes pq (cr_Volumes (create_request sbx)) [] = Inr known"
    using known by (simp add: create_volumes_agree create_request_def)
  have containers: "cr_Containers (create_request sbx) = map to_container ?cs"
    by (simp add: create_request_def to_container_def)
  have "list_all (container_ok pq known) (map to_container ?cs) \<longleftrightarrow> list_all (options_ok pq) ?cs"
    using cs create_container_ok [of pq known] by (auto simp: list_all_iff)
  moreover have "cc_Name \<circ> to_container = sc_Name" by (auto simp: to_container_def)
  ultimately show ?thesis
    using acc(1,2) ports probe
    by (simp add: Validate_steps volumes containers validate_containers_iff) (auto simp: create_request_def)
qed

definition sample_scheduled :: Sandbox where
  "sample_scheduled = (scan_sandbox sample_row)\<lparr> sb_Status := (sx_status sample_row)\<lparr> st_AssignedPorts :=
     [\<lparr> pa_HostPort = 10001, pa_ContainerPort = 80, pa_Protocol = ''tcp'' \<rparr>] \<rparr> \<rparr>"

theorem orchestrator_request_accepted_by_sbxlet_witness: "Validate plain_pq (create_request sample_scheduled) = None"
proof -
  have "validateSandboxCreate plain_pq \<lparr> co_ID = sb_ID sample_scheduled, co_Spec = sb_Spec sample_scheduled \<rparr> = None"
    by code_simp
  moreover have "allocateHostPorts (\<lambda>_. 0) (ss_Ports (sb_Spec sample_scheduled)) [] 10000 10003 =
      Some (st_AssignedPorts (sb_Status sample_scheduled))"
    by code_simp
  moreover have "distinct (map sc_Name (ss_Containers (sb_Spec sample_scheduled))) \<and>
      list_all (options_ok plain_pq) (ss_Containers (sb_Spec sample_scheduled))"
    by code_simp
  ultimately show ?thesis
    using orchestrator_request_accepted_by_sbxlet [of plain_pq sample_scheduled "\<lambda>_. 0" "[]" 10000 10003] by simp
qed

end
