(* ===== verification/Orch_Life.thy ===== *)
theory Orch_Life
  imports Orch_Agree
begin

text \<open>
  The life of a sandbox in the orchestrator: its creation and time to live, the merge of the state
  a node reports, the status synchronisation, and the deletion by request or by the reconcile loop.
\<close>

section \<open>Merging the state a node reports\<close>

lemma set_phase_error_eq:
  "set_phase_error cur ph msg =
     (cur\<lparr> st_Phase := ph, st_LastError := msg \<rparr>, st_Phase cur \<noteq> ph \<or> st_LastError cur \<noteq> msg)"
  by (auto simp: set_phase_error_def Let_def)

lemma status_update_eq:
  "cur\<lparr> st_Phase := ph, st_LastError := msg \<rparr> = cur \<longleftrightarrow> ph = st_Phase cur \<and> msg = st_LastError cur"
  by (cases cur) auto

lemma status_same_error: "cur\<lparr> st_Phase := ph, st_LastError := st_LastError cur \<rparr> = cur\<lparr> st_Phase := ph \<rparr>"
  by (cases cur) simp

lemma status_same_phase: "cur\<lparr> st_Phase := ph \<rparr> = cur \<longleftrightarrow> ph = st_Phase cur"
  by (cases cur) auto

lemma error_msg_nonempty: "error_msg st \<noteq> []"
  by (simp add: error_msg_def Let_def)

text \<open>What the merge makes of the phase and the error.\<close>

definition merged_phase :: "SandboxStatus \<Rightarrow> SandboxSyncStatus \<Rightarrow> SandboxPhase" where
  "merged_phase cur st =
     (let ph = TrimSpace (sy_Phase st) in
      if EqualFold ph ''error'' \<or> sy_UnhealthyContainers st \<noteq> [] then SandboxPhaseFailed
      else if EqualFold ph ''running'' then SandboxPhaseRunning
      else if EqualFold ph ''creating'' \<and> st_Phase cur = SandboxPhaseRunning then SandboxPhaseScheduled
      else st_Phase cur)"

definition merged_error :: "SandboxStatus \<Rightarrow> SandboxSyncStatus \<Rightarrow> string" where
  "merged_error cur st =
     (let ph = TrimSpace (sy_Phase st) in
      if EqualFold ph ''error'' then error_msg st
      else (case sy_UnhealthyContainers st of
          c # _ \<Rightarrow> ''container '' @ cy_Name c @
            (if TrimSpace (cy_Error c) = [] then '' unhealthy ('' @ TrimSpace (cy_Phase c) @ '')''
             else '': '' @ TrimSpace (cy_Error c))
        | [] \<Rightarrow> if EqualFold ph ''running'' then [] else st_LastError cur))"

lemma merge_eq:
  "mergeSandboxPhaseWithNodeState cur st =
     (let next = cur\<lparr> st_Phase := merged_phase cur st, st_LastError := merged_error cur st \<rparr> in (next, next \<noteq> cur))"
  unfolding mergeSandboxPhaseWithNodeState_def merged_phase_def merged_error_def Let_def
  by (cases "sy_UnhealthyContainers st") (auto simp: set_phase_error_eq status_update_eq status_same_error status_same_phase)

lemma synced_shape:
  assumes "synced_status ext latest nodeSt = (next, changed)"
  shows "changed \<longleftrightarrow> next \<noteq> latest" and "st_Phase next = merged_phase latest nodeSt"
    and "st_NodeName next = st_NodeName latest" and "st_AssignedPorts next = st_AssignedPorts latest"
    and "st_ExpireAt next = st_ExpireAt latest"
  using assms
  by (cases latest; auto simp: synced_status_def merge_eq Let_def split: if_splits prod.splits)+

section \<open>Creation\<close>

definition new_sandbox_row :: "Sandbox \<Rightarrow> int \<Rightarrow> sandbox_row" where
  "new_sandbox_row sbx now = \<lparr> sx_id = sb_ID sbx, sx_spec = sb_Spec sbx, sx_status = SandboxStatus_json (sb_Status sbx),
     sx_created_at = (if sb_CreatedAt sbx = zero_time then now else sb_CreatedAt sbx), sx_updated_at = now \<rparr>"

lemma repo_CreateSandbox_Inr:
  assumes "run_state (repo_CreateSandbox E sbx) s = (Inr u, t)"
  shows "sb_ID sbx \<notin> sx_id ` set (db_sandboxes (os_db s)) \<and>
    os_db t = (os_db s)\<lparr> db_sandboxes := db_sandboxes (os_db s) @ [new_sandbox_row sbx (e_now E (os_tick s))] \<rparr>"
  using assms
  by (auto simp: repo_CreateSandbox_def Let_def insert_sandbox_def new_sandbox_row_def split: if_splits dest!: stmt_Inr)

lemma select_inserted:
  assumes "sx_id x = sid" and "sid \<notin> sx_id ` set (db_sandboxes db)"
  shows "select_sandbox sid (db\<lparr> db_sandboxes := db_sandboxes db @ [x] \<rparr>) = Some (scan_sandbox x)"
proof -
  have "find (\<lambda>y. sx_id y = sid) (db_sandboxes db) = None" using assms by (auto simp: find_None_iff image_iff)
  then show ?thesis using assms(1) by (simp add: select_sandbox_def find_append)
qed

text \<open>The sandbox object that \<open>CreateSandbox\<close> makes of a request at a given time.\<close>

definition new_sandbox :: "CreateSandboxObjectRequest \<Rightarrow> int \<Rightarrow> Sandbox" where
  "new_sandbox req now = \<lparr> sb_ID = TrimSpace (co_ID req), sb_Spec = co_Spec req,
     sb_Status = \<lparr> st_Phase = SandboxPhasePending, st_NodeName = [], st_External = [], st_IP = [],
       st_AssignedPorts = [], st_SandboxdID = [],
       st_ExpireAt = (if ss_TTLSeconds (co_Spec req) > 0 then Some (now + i64 (ss_TTLSeconds (co_Spec req) * second)) else None),
       st_LastError = [] \<rparr>,
     sb_CreatedAt = now, sb_UpdatedAt = now \<rparr>"

lemma CreateSandbox_Inr:
  assumes "run_state (CreateSandbox E req) s = (Inr sbx, t)"
  shows "validateSandboxCreate (e_pq E) req = None \<and> TrimSpace (co_ID req) \<notin> sx_id ` set (db_sandboxes (os_db s)) \<and>
    (\<exists>upd. let row = new_sandbox_row (new_sandbox req (e_now E (os_tick s))) upd in
      sbx = scan_sandbox row \<and> os_db t = (os_db s)\<lparr> db_sandboxes := db_sandboxes (os_db s) @ [row] \<rparr>)"
proof -
  from assms have valid: "validateSandboxCreate (e_pq E) req = None"
    by (auto simp: CreateSandbox_def split: option.splits)
  let ?new = "new_sandbox req (e_now E (os_tick s))"
  let ?s = "s\<lparr> os_tick := Suc (os_tick s) \<rparr>"
  from assms valid obtain s' where
    ins: "run_state (repo_CreateSandbox E ?new) ?s = (Inr (), s')"
    and get: "run_state (repo_GetSandbox E (sb_ID ?new)) s' = (Inr sbx, t)"
    by (auto simp: CreateSandbox_def bindE_Inr Let_def new_sandbox_def)
  let ?row = "new_sandbox_row ?new (e_now E (os_tick ?s))"
  have id: "sx_id ?row = sb_ID ?new" "sb_ID ?new = TrimSpace (co_ID req)"
    by (simp_all add: new_sandbox_row_def new_sandbox_def)
  from repo_CreateSandbox_Inr [OF ins] have fresh: "sb_ID ?new \<notin> sx_id ` set (db_sandboxes (os_db s))"
    and s': "os_db s' = (os_db s)\<lparr> db_sandboxes := db_sandboxes (os_db s) @ [?row] \<rparr>" by simp_all
  from GetSandbox_Inr [OF get] have "os_db t = os_db s'" and "select_sandbox (sb_ID ?new) (os_db s') = Some sbx" by simp_all
  moreover have "select_sandbox (sb_ID ?new) (os_db s') = Some (scan_sandbox ?row)"
    unfolding s' by (rule select_inserted) (use fresh id in simp_all)
  ultimately show ?thesis using valid fresh s' id by (auto simp: Let_def)
qed

section \<open>The status synchronisation and deletions\<close>

text \<open>
  The relation "a sandbox that is being deleted is not touched", together with the integrity of the
  database, on which the uniqueness of the ids rests.
\<close>

definition keeps_deleting :: "orch_db \<Rightarrow> orch_db \<Rightarrow> bool" where
  "keeps_deleting db db' \<longleftrightarrow> (db_wf db \<longrightarrow> db_wf db' \<and>
     (\<forall>x \<in> set (db_sandboxes db). st_Phase (sx_status x) = SandboxPhaseDeleting \<longrightarrow> x \<in> set (db_sandboxes db')))"

interpretation deleting: db_relation keeps_deleting
  by unfold_locales (auto simp: keeps_deleting_def)

lemma keeps_deleting_set_status:
  assumes "select_sandbox sid db = Some latest" and "st_Phase (sb_Status latest) \<noteq> SandboxPhaseDeleting"
  shows "keeps_deleting db (set_status_where (\<lambda>x. sx_id x = sid \<and> C x) st now db)"
  unfolding keeps_deleting_def
proof (intro impI conjI ballI)
  assume wf: "db_wf db"
  then show "db_wf (set_status_where (\<lambda>x. sx_id x = sid \<and> C x) st now db)"
    using wf_set_status by (simp add: keeps_wf_def)
  fix x
  assume x: "x \<in> set (db_sandboxes db)" "st_Phase (sx_status x) = SandboxPhaseDeleting"
  have "sx_id x \<noteq> sid"
  proof
    assume "sx_id x = sid"
    then have "select_sandbox sid db = Some (scan_sandbox x)"
      using find_key_distinct [of sx_id "db_sandboxes db" x] wf x(1) by (simp add: select_sandbox_def db_wf_def)
    then show False using assms x(2) by (simp add: scan_sandbox_def SandboxStatus_json_def)
  qed
  then show "x \<in> set (db_sandboxes (set_status_where (\<lambda>x. sx_id x = sid \<and> C x) st now db))"
    using x(1) by (auto simp: set_status_where_def update_where_def image_iff intro!: bexI [of _ x])
qed

lemma keeps_deleting_cas:
  assumes "select_sandbox sid (os_db s) = Some latest" and "st_Phase (sb_Status latest) \<noteq> SandboxPhaseDeleting"
  shows "keeps_deleting (os_db s) (os_db (exec (UpdateSandboxStatusIfUnchanged E sid st upd) s))"
proof (cases "run_state (UpdateSandboxStatusIfUnchanged E sid st upd) s")
  case (Pair r t)
  then show ?thesis
    using keeps_deleting_set_status [OF assms, of "\<lambda>x. sx_updated_at x = upd" st] deleting.Q_refl
    by (cases r) (auto dest!: IfUnchanged_Inl IfUnchanged_Inr)
qed

text \<open>Read the latest state of a sandbox and go on only if it is not being deleted.\<close>

lemma keeps_deleting_guarded:
  assumes "\<And>latest. st_Phase (sb_Status latest) \<noteq> SandboxPhaseDeleting \<Longrightarrow>
      (\<exists>st. run latest = do { _ \<leftarrow> UpdateSandboxStatusIfUnchanged E sid st (sb_UpdatedAt latest); ret () }) \<or> run latest = ret ()"
    and "\<And>latest. st_Phase (sb_Status latest) = SandboxPhaseDeleting \<Longrightarrow> run latest = ret ()"
  shows "deleting.keeps_db (do { l \<leftarrow> repo_GetSandbox E sid; case l of Inl _ \<Rightarrow> ret () | Inr latest \<Rightarrow> run latest })"
proof (rule state_io_relI)
  fix s v t
  assume run: "run_state (do { l \<leftarrow> repo_GetSandbox E sid; case l of Inl _ \<Rightarrow> ret () | Inr latest \<Rightarrow> run latest }) s = (v, t)"
  obtain r s1 where get: "run_state (repo_GetSandbox E sid) s = (r, s1)" by (cases "run_state (repo_GetSandbox E sid) s")
  have s1: "os_db s1 = os_db s"
    using get by (auto simp: repo_GetSandbox_def run_bindE split: prod.splits sum.splits dest!: query_db)
  show "keeps_deleting (os_db s) (os_db t)"
  proof (cases r)
    case (Inr latest)
    then have sel: "select_sandbox sid (os_db s1) = Some latest" using GetSandbox_Inr get s1 by fastforce
    have t: "t = exec (run latest) s1" using run get Inr by simp
    show ?thesis
    proof (cases "st_Phase (sb_Status latest) = SandboxPhaseDeleting \<or> run latest = ret ()")
      case True
      then show ?thesis using assms(2) by (auto simp: t s1 deleting.Q_refl)
    next
      case False
      then obtain st where "run latest = do { _ \<leftarrow> UpdateSandboxStatusIfUnchanged E sid st (sb_UpdatedAt latest); ret () }"
        using assms(1) by blast
      then have "t = exec (UpdateSandboxStatusIfUnchanged E sid st (sb_UpdatedAt latest)) s1"
        by (simp add: t split: prod.split)
      then show ?thesis using keeps_deleting_cas [OF sel, of E st] False by (simp add: s1)
    qed
  qed (use run get s1 deleting.Q_refl [of "os_db s"] in auto)
qed

lemma deleting_sync_one: "deleting.keeps_db (sync_one E ext resp sbx)"
  unfolding sync_one_def
  by (intro deleting.db_intros keeps_deleting_guarded) (auto split: prod.splits)

lemma deleting_statusSync: "deleting.keeps_db (runSandboxStatusSyncOnce E)"
  unfolding runSandboxStatusSyncOnce_def sync_node_def syncNodeSandboxBatch_def
  by (intro deleting.db_intros deleting.db_reads deleting.db_client deleting.db_calls deleting_sync_one)

lemma deleting_refresh: "deleting.keeps_db (refreshSandboxIPSoon E sid node)"
proof -
  have "deleting.keeps_db (refresh_rounds E url sid k)" for url k
  proof (induction k)
    case (Suc k)
    show ?case
      unfolding refresh_rounds.simps Let_def
      by (intro deleting.db_intros deleting.db_reads deleting.db_calls keeps_deleting_guarded Suc.IH) auto
  qed (simp add: deleting.eff.eff_ret)
  then show ?thesis
    unfolding refreshSandboxIPSoon_def by (intro deleting.db_intros deleting.db_client)
qed

section \<open>Deleting a sandbox\<close>

text \<open>Nothing but the given sandbox and its ports changes in the two tables.\<close>

definition others_same :: "string \<Rightarrow> orch_db \<Rightarrow> orch_db \<Rightarrow> bool" where
  "others_same sid db db' \<longleftrightarrow>
     filter (\<lambda>x. sx_id x \<noteq> sid) (db_sandboxes db') = filter (\<lambda>x. sx_id x \<noteq> sid) (db_sandboxes db) \<and>
     filter (\<lambda>p. po_sandbox_id p \<noteq> sid) (db_ports db') = filter (\<lambda>p. po_sandbox_id p \<noteq> sid) (db_ports db)"

interpretation others: db_relation "others_same sid" for sid
  by unfold_locales (auto simp: others_same_def)

text \<open>The sandboxes keep their ids, and the ports may only go.\<close>

definition ids_same :: "orch_db \<Rightarrow> orch_db \<Rightarrow> bool" where
  "ids_same db db' \<longleftrightarrow> map sx_id (db_sandboxes db') = map sx_id (db_sandboxes db)"

interpretation ids: db_relation ids_same
  by unfold_locales (auto simp: ids_same_def)

definition tables_same :: "orch_db \<Rightarrow> orch_db \<Rightarrow> bool" where
  "tables_same db db' \<longleftrightarrow> db_sandboxes db' = db_sandboxes db \<and> db_ports db' = db_ports db"

interpretation tables: db_relation tables_same
  by unfold_locales (auto simp: tables_same_def)

lemma filter_update_where_other:
  assumes "\<And>r. P r \<Longrightarrow> \<not> C r" and "\<And>r. P r \<Longrightarrow> \<not> C (f r)"
  shows "filter C (update_where P f rows) = filter C rows"
  using assms by (induction rows) (auto simp: update_where_def)

lemma filter_delete_where [simp]: "filter C (delete_where P rows) = filter (\<lambda>r. C r \<and> \<not> P r) rows"
  by (simp add: delete_where_def) (metis (no_types, lifting) conj_commute)

lemma adjust_tables: "tables.keeps_db (AdjustNodeResourceUsage E n c m)"
  unfolding AdjustNodeResourceUsage_def
  by (intro tables.db_intros tables.db_time_Now tables.db_change) (simp add: tables_same_def)

lemma adjustUsage_tables: "tables.keeps_db (adjustNodeUsageForSandbox E n spec d)"
  unfolding adjustNodeUsageForSandbox_def by (intro tables.db_intros adjust_tables)

lemma others_update: "others.keeps_db sid (UpdateSandboxStatus E sid st)"
  unfolding UpdateSandboxStatus_def
  by (intro others.db_intros others.db_time_Now others.db_change)
    (simp add: others_same_def set_status_where_def filter_update_where_other)

lemma others_release: "others.keeps_db sid (ReleaseSandboxPorts E sid)"
  unfolding ReleaseSandboxPorts_def
  by (intro others.db_change) (auto simp: others_same_def intro: filter_cong)

lemma others_delete: "others.keeps_db sid (repo_DeleteSandbox E sid)"
  unfolding repo_DeleteSandbox_def
  by (intro others.db_intros others.db_change) (auto simp: others_same_def delete_sandbox_row_def intro: filter_cong)

lemma tables_imp_others: "tables.keeps_db m \<Longrightarrow> others.keeps_db sid m"
  by (auto simp: state_io_rel_def tables_same_def others_same_def)

lemma finalize_others: "others.keeps_db (sb_ID sbx) (finalizeSandboxDelete E sbx)"
  unfolding finalizeSandboxDelete_def release_and_delete_def fail_with_def
  by (intro others.db_intros others.db_client others.db_calls others_update others_release others_delete
      tables_imp_others adjustUsage_tables)

lemma ids_update: "ids.keeps_db (UpdateSandboxStatus E sid st)"
  unfolding UpdateSandboxStatus_def
  by (intro ids.db_intros ids.db_time_Now ids.db_change) (simp add: ids_same_def set_status_where_def)

lemma ids_release: "ids.keeps_db (ReleaseSandboxPorts E sid)"
  unfolding ReleaseSandboxPorts_def by (intro ids.db_change) (simp add: ids_same_def)

lemma ids_fail_with: "ids.keeps_db (fail_with E sbx err)"
  unfolding fail_with_def by (intro ids.db_intros ids_update)

text \<open>Outcomes: a successful deletion leaves no row, an error leaves the row.\<close>

definition gone :: "string \<Rightarrow> orch_db \<Rightarrow> bool" where
  "gone sid db \<longleftrightarrow> sid \<notin> sx_id ` set (db_sandboxes db) \<and> sid \<notin> po_sandbox_id ` set (db_ports db)"

lemma repo_DeleteSandbox_gone:
  "run_state (repo_DeleteSandbox E sid) s = (Inr u, t) \<Longrightarrow> gone sid (os_db t)"
  by (auto simp: repo_DeleteSandbox_def bindE_Inr gone_def delete_sandbox_row_def dest!: change_Inr)

lemma repo_DeleteSandbox_Inl:
  "run_state (repo_DeleteSandbox E sid) s = (Inl err, t) \<Longrightarrow> ids_same (os_db s) (os_db t)"
  by (auto simp: repo_DeleteSandbox_def run_bindE ids_same_def split: prod.splits sum.splits
      dest!: change_Inr change_Inl)

lemma gone_tables: "tables_same db db' \<Longrightarrow> gone sid db \<Longrightarrow> gone sid db'"
  by (simp add: gone_def tables_same_def)

lemma io_exec: "state_io_rel R m \<Longrightarrow> R s (exec m s)"
  by (auto simp: state_io_rel_def)

definition delete_outcome :: "Sandbox \<Rightarrow> orch_state \<Rightarrow> (go_error + unit) \<times> orch_state \<Rightarrow> bool" where
  "delete_outcome sbx s rt = (case rt of
     (Inr _, t) \<Rightarrow> gone (sb_ID sbx) (os_db t) | (Inl _, t) \<Rightarrow> ids_same (os_db s) (os_db t))"

lemma outcome_fail_with: "ids_same (os_db s) (os_db s') \<Longrightarrow> delete_outcome sbx s (run_state (fail_with E sbx err) s')"
  using io_exec [OF ids_fail_with, of s' E sbx err] ids.Q_trans
  by (fastforce simp: fail_with_def delete_outcome_def split: prod.splits)

lemma outcome_release_and_delete:
  assumes "ids_same (os_db s) (os_db s')"
  shows "delete_outcome sbx s (run_state (release_and_delete E sbx) s')"
proof (cases "run_state (ReleaseSandboxPorts E (sb_ID sbx)) s'")
  case (Pair r s1)
  have s1: "ids_same (os_db s) (os_db s1)"
    using io_exec [OF ids_release, of s' E "sb_ID sbx"] assms ids.Q_trans Pair by (metis snd_conv)
  show ?thesis
  proof (cases r)
    case (Inl err)
    then show ?thesis using Pair outcome_fail_with [OF s1] by (simp add: release_and_delete_def)
  next
    case (Inr u)
    obtain d s2 where del: "run_state (repo_DeleteSandbox E (sb_ID sbx)) s1 = (d, s2)"
      by (cases "run_state (repo_DeleteSandbox E (sb_ID sbx)) s1")
    show ?thesis
    proof (cases d)
      case (Inl err)
      then have "ids_same (os_db s) (os_db s2)"
        using repo_DeleteSandbox_Inl del s1 ids.Q_trans by blast
      then show ?thesis
        using Pair \<open>r = Inr u\<close> del Inl
        by (simp add: release_and_delete_def Let_def run_bindE delete_outcome_def)
    next
      case (Inr v)
      then have "gone (sb_ID sbx) (os_db s2)" using repo_DeleteSandbox_gone del by blast
      moreover have "tables_same (os_db s2) (os_db (exec (adjustNodeUsageForSandbox E n (sb_Spec sbx) (- 1)) s2))" for n
        by (rule io_exec [OF adjustUsage_tables])
      ultimately show ?thesis
        using Pair \<open>r = Inr u\<close> del Inr gone_tables
        by (auto simp: release_and_delete_def Let_def run_bindE delete_outcome_def split: prod.split)
          (metis snd_conv)
    qed
  qed
qed

lemma finalize_outcome: "delete_outcome sbx s (run_state (finalizeSandboxDelete E sbx) s)"
proof (cases "st_NodeName (sb_Status sbx) = []")
  case True
  then show ?thesis by (simp add: finalizeSandboxDelete_def outcome_release_and_delete ids.Q_refl)
next
  case False
  obtain c s1 where client: "run_state (SandboxOpClientForNode E (st_NodeName (sb_Status sbx))) s = (c, s1)"
    by (cases "run_state (SandboxOpClientForNode E (st_NodeName (sb_Status sbx))) s")
  have s1: "ids_same (os_db s) (os_db s1)"
    using io_exec [OF ids.db_client, of s E "st_NodeName (sb_Status sbx)"] client by simp
  show ?thesis
  proof (cases c)
    case (Inl err)
    then show ?thesis using False client outcome_fail_with [OF s1] outcome_release_and_delete [OF s1]
      by (simp add: finalizeSandboxDelete_def)
  next
    case (Inr un)
    obtain url n where un: "un = (url, n)" by (cases un)
    obtain d s2 where del: "run_state (call_DeleteSandbox E url (sb_ID sbx)) s1 = (d, s2)"
      by (cases "run_state (call_DeleteSandbox E url (sb_ID sbx)) s1")
    have "ids_same (os_db s) (os_db s2)"
      using io_exec [OF ids.db_calls(5), of s1 E url "sb_ID sbx"] del s1 ids.Q_trans by (metis snd_conv)
    then show ?thesis
      using False client Inr un del outcome_fail_with outcome_release_and_delete
      by (cases d) (simp_all add: finalizeSandboxDelete_def)
  qed
qed

end
