(* ===== verification/Orch_Reconcile.thy ===== *)
theory Orch_Reconcile
  imports Orch_Life
begin

text \<open>
  The reconcile loop when the database and the nodes answer (the locale \<open>quiet_env\<close>), and the
  properties of the life of a sandbox.
\<close>

section \<open>An environment without failures\<close>

locale quiet_env =
  fixes E :: orch_env
  assumes no_fault: "e_fault E t = None"
    and nodes_delete: "\<exists>m. client_DeleteSandbox sid (e_map_reply E t c) = Inr m"
begin

lemma run_change: "run_state (change E h) s = (Inr (), s\<lparr> os_tick := Suc (os_tick s), os_db := h (os_db s) \<rparr>)"
  by (simp add: change_def run_stmt no_fault)

lemma run_query: "run_state (query E g) s = (Inr (g (os_db s)), s\<lparr> os_tick := Suc (os_tick s) \<rparr>)"
  by (simp add: query_def run_stmt no_fault)

lemma result_DeleteSandbox: "result (repo_DeleteSandbox E sid) s = Inr ()"
  by (simp add: repo_DeleteSandbox_def run_bindE run_change)

lemma result_client:
  "result (SandboxOpClientForNode E n) s =
     (case select_node n (os_db s) of None \<Rightarrow> Inl sql_ErrNoRows | Some node \<Rightarrow> Inr (n_SbxletBaseURL node, node))"
  by (simp add: SandboxOpClientForNode_def sandboxClientForNode_def GetNode_def run_bindE run_query one_row_def
      split: option.splits)

lemma result_call_Delete: "\<exists>m. result (call_DeleteSandbox E url sid) s = Inr m"
  by (simp add: call_DeleteSandbox_def call_map_def rpc_def nodes_delete split: prod.splits)

lemma result_release_and_delete: "result (release_and_delete E sbx) s = Inr ()"
proof -
  obtain s1 where rel: "run_state (ReleaseSandboxPorts E (sb_ID sbx)) s = (Inr (), s1)"
    by (simp add: ReleaseSandboxPorts_def run_change)
  obtain s2 where del: "run_state (repo_DeleteSandbox E (sb_ID sbx)) s1 = (Inr (), s2)"
    using result_DeleteSandbox [of "sb_ID sbx" s1] by (metis prod.collapse)
  show ?thesis using rel del by (simp add: release_and_delete_def Let_def run_bindE split: prod.split)
qed

lemma result_finalize: "result (finalizeSandboxDelete E sbx) s = Inr ()"
proof (cases "st_NodeName (sb_Status sbx) = []")
  case True
  then show ?thesis by (simp add: finalizeSandboxDelete_def result_release_and_delete)
next
  case False
  obtain c s1 where client: "run_state (SandboxOpClientForNode E (st_NodeName (sb_Status sbx))) s = (c, s1)"
    by (cases "run_state (SandboxOpClientForNode E (st_NodeName (sb_Status sbx))) s")
  show ?thesis
  proof (cases c)
    case (Inl err)
    then have "err = sql_ErrNoRows"
      using result_client [of "st_NodeName (sb_Status sbx)" s] client by (auto split: option.splits)
    then show ?thesis using False client Inl by (simp add: finalizeSandboxDelete_def result_release_and_delete)
  next
    case (Inr un)
    obtain url n where un: "un = (url, n)" by (cases un)
    obtain m s2 where "run_state (call_DeleteSandbox E url (sb_ID sbx)) s1 = (Inr m, s2)"
      using result_call_Delete [of url "sb_ID sbx" s1] by (metis prod.collapse)
    then show ?thesis using False client Inr un by (simp add: finalizeSandboxDelete_def result_release_and_delete)
  qed
qed

text \<open>After a deletion the row is gone and the other rows are as before.\<close>

lemma finalize_rows:
  "db_sandboxes (os_db (exec (finalizeSandboxDelete E sbx) s)) = filter (\<lambda>x. sx_id x \<noteq> sb_ID sbx) (db_sandboxes (os_db s))"
proof -
  obtain t where t: "run_state (finalizeSandboxDelete E sbx) s = (Inr (), t)"
    using result_finalize by (metis prod.collapse)
  then have "gone (sb_ID sbx) (os_db t)"
    using finalize_outcome [of sbx s E] by (simp add: delete_outcome_def)
  then have "filter (\<lambda>x. sx_id x \<noteq> sb_ID sbx) (db_sandboxes (os_db t)) = db_sandboxes (os_db t)"
    by (auto simp: gone_def filter_id_conv image_iff)
  then show ?thesis
    using io_exec [OF finalize_others [of sbx E], of s] t by (simp add: others_same_def)
qed

end

text \<open>A sandbox is due at a time when it is being deleted or has expired.\<close>

definition due :: "int \<Rightarrow> SandboxStatus \<Rightarrow> bool" where
  "due now st \<longleftrightarrow> st_Phase st = SandboxPhaseDeleting \<or>
     (case st_ExpireAt st of None \<Rightarrow> False | Some expireAt \<Rightarrow> now > expireAt)"

context quiet_env
begin

lemma reconcile_one_rows:
  "db_sandboxes (os_db (exec (reconcile_one E now sbx) s)) =
     (if due now (sb_Status sbx) then filter (\<lambda>x. sx_id x \<noteq> sb_ID sbx) (db_sandboxes (os_db s))
      else db_sandboxes (os_db s))"
proof -
  have upd: "filter (\<lambda>x. sx_id x \<noteq> sb_ID sbx) (db_sandboxes (os_db (exec (UpdateSandboxStatus E (sb_ID sbx) st) s))) =
      filter (\<lambda>x. sx_id x \<noteq> sb_ID sbx) (db_sandboxes (os_db s))" for st
    using io_exec [OF others_update [of "sb_ID sbx" E st], of s] by (simp add: others_same_def)
  have fin: "db_sandboxes (os_db t) = filter (\<lambda>x. sx_id x \<noteq> sb_ID sbx') (db_sandboxes (os_db s'))"
    if "run_state (finalizeSandboxDelete E sbx') s' = (r, t)" for sbx' s' r t
    using finalize_rows [of sbx' s'] that by simp
  show ?thesis
    using upd fin
    by (auto simp: reconcile_one_def due_def Let_def split: option.splits prod.splits) (metis snd_conv)+
qed

lemma reconcile_rows:
  "db_sandboxes (os_db (exec (for_each sbxs (reconcile_one E now)) s)) =
     filter (\<lambda>x. \<forall>sbx \<in> set sbxs. due now (sb_Status sbx) \<longrightarrow> sx_id x \<noteq> sb_ID sbx) (db_sandboxes (os_db s))"
proof (induction sbxs arbitrary: s)
  case (Cons sbx sbxs)
  show ?case
    unfolding exec_for_each_Cons Cons.IH reconcile_one_rows
    by (auto intro: filter_cong)
qed simp

lemma reconcile_exact:
  assumes "db_wf (os_db s)"
  shows "db_sandboxes (os_db (exec (runSandboxReconcileOnce E) s)) =
    filter (\<lambda>x. \<not> due (e_now E (Suc (os_tick s))) (sx_status x)) (db_sandboxes (os_db s))"
proof -
  let ?now = "e_now E (Suc (os_tick s))"
  let ?rows = "db_sandboxes (os_db s)"
  have "db_sandboxes (os_db (exec (runSandboxReconcileOnce E) s)) =
    filter (\<lambda>x. \<forall>sbx \<in> set (select_sandboxes (os_db s)). due ?now (sb_Status sbx) \<longrightarrow> sx_id x \<noteq> sb_ID sbx) ?rows"
    using reconcile_rows by (simp add: runSandboxReconcileOnce_def repo_ListSandboxes_def run_query)
  also have "\<dots> = filter (\<lambda>x. \<not> due ?now (sx_status x)) ?rows"
  proof (rule filter_cong [OF refl])
    fix x
    assume x: "x \<in> set ?rows"
    have inj: "inj_on sx_id (set ?rows)" using assms by (simp add: db_wf_def distinct_map)
    have due: "due ?now (sb_Status (scan_sandbox y)) = due ?now (sx_status y)" for y
      by (simp add: due_def scan_sandbox_def SandboxStatus_json_def)
    have "(\<forall>sbx \<in> set (select_sandboxes (os_db s)). due ?now (sb_Status sbx) \<longrightarrow> sx_id x \<noteq> sb_ID sbx) \<longleftrightarrow>
        (\<forall>y \<in> set ?rows. due ?now (sx_status y) \<longrightarrow> sx_id x \<noteq> sx_id y)"
      by (simp add: select_sandboxes_def due) (simp add: scan_sandbox_def)
    also have "\<dots> \<longleftrightarrow> \<not> due ?now (sx_status x)" using x inj by (auto dest: inj_onD)
    finally show "(\<forall>sbx \<in> set (select_sandboxes (os_db s)). due ?now (sb_Status sbx) \<longrightarrow> sx_id x \<noteq> sb_ID sbx) =
      (\<not> due ?now (sx_status x))" .
  qed
  finally show ?thesis .
qed

end

interpretation sample_quiet: quiet_env sample_env
proof unfold_locales
  fix t sid c
  show "e_fault sample_env t = None" by (simp add: sample_env_def)
  show "\<exists>m. client_DeleteSandbox sid (e_map_reply sample_env t c) = Inr m"
    by (simp add: sample_env_def client_DeleteSandbox_def do_map_def doInto_def ok_response_def)
qed

section \<open>Properties\<close>

text \<open>
  C13: the merge of a node's report reports a change exactly when the status changes, changes nothing
  but the phase and the error, marks the sandbox failed with a non-empty error when the node reports
  an error or an unhealthy container, and running without an error when it reports it running.
\<close>

theorem mergeSandboxPhaseWithNodeState_correct:
  "case mergeSandboxPhaseWithNodeState cur st of (next, changed) \<Rightarrow>
     (changed = (next \<noteq> cur)) \<and>
     next = cur\<lparr> st_Phase := st_Phase next, st_LastError := st_LastError next \<rparr> \<and>
     (if EqualFold (TrimSpace (sy_Phase st)) ''error'' \<or> 0 < length (sy_UnhealthyContainers st)
      then st_Phase next = SandboxPhaseFailed \<and> st_LastError next \<noteq> []
      else if EqualFold (TrimSpace (sy_Phase st)) ''running''
      then st_Phase next = SandboxPhaseRunning \<and> st_LastError next = []
      else st_LastError next = st_LastError cur)"
  by (cases "sy_UnhealthyContainers st")
    (auto simp: merge_eq Let_def merged_phase_def merged_error_def error_msg_nonempty)

text \<open>
  C14: the status synchronisation and the address refresh never touch a sandbox that is being
  deleted, whatever the nodes report and whatever statements fail.
\<close>

theorem statusSync_keeps_deleting_sandboxes:
  assumes "db_wf (os_db s)" and "x \<in> set (db_sandboxes (os_db s))" and "st_Phase (sx_status x) = SandboxPhaseDeleting"
  shows "x \<in> set (db_sandboxes (os_db (exec (runSandboxStatusSyncOnce E) s))) \<and>
    x \<in> set (db_sandboxes (os_db (exec (refreshSandboxIPSoon E sid node) s)))"
  using io_exec [OF deleting_statusSync [of E], of s] io_exec [OF deleting_refresh [of E sid node], of s] assms
  by (simp add: keeps_deleting_def)

definition deleting_row :: sandbox_row where
  "deleting_row = sample_row\<lparr> sx_status := (sx_status sample_row)\<lparr> st_Phase := SandboxPhaseDeleting \<rparr> \<rparr>"

definition deleting_state :: orch_state where
  "deleting_state = (orch_init 1)\<lparr> os_db := empty_db\<lparr> db_sandboxes := [deleting_row], db_ports := [sample_port] \<rparr> \<rparr>"

lemma deleting_state_wf: "db_wf (os_db deleting_state)"
  by code_simp

theorem statusSync_keeps_deleting_sandboxes_witness:
  "deleting_row \<in> set (db_sandboxes (os_db (exec (runSandboxStatusSyncOnce sample_env) deleting_state)))"
proof -
  have "deleting_row \<in> set (db_sandboxes (os_db deleting_state))" "st_Phase (sx_status deleting_row) = SandboxPhaseDeleting"
    by (simp_all add: deleting_state_def deleting_row_def)
  with statusSync_keeps_deleting_sandboxes [OF deleting_state_wf, of deleting_row sample_env] show ?thesis by blast
qed

text \<open>
  C15: finishing the deletion of a sandbox has two outcomes. On success the sandbox and its port
  reservations are gone; on an error, of the node or of the database, the sandbox is still there to
  be deleted later. In both cases the other sandboxes and their ports are untouched.
\<close>

theorem finalizeSandboxDelete_outcome:
  "case run_state (finalizeSandboxDelete E sbx) s of (r, t) \<Rightarrow>
     others_same (sb_ID sbx) (os_db s) (os_db t) \<and>
     (case r of
        Inr _ \<Rightarrow> sb_ID sbx \<notin> sx_id ` set (db_sandboxes (os_db t)) \<and>
          sb_ID sbx \<notin> po_sandbox_id ` set (db_ports (os_db t))
      | Inl _ \<Rightarrow> map sx_id (db_sandboxes (os_db t)) = map sx_id (db_sandboxes (os_db s)))"
  using finalize_outcome [of sbx s E] io_exec [OF finalize_others [of sbx E], of s]
  by (auto simp: delete_outcome_def gone_def ids_same_def split: prod.splits sum.splits)

text \<open>
  C16: when the database and the nodes answer, one pass of the reconcile loop removes exactly the
  sandboxes that are being deleted or have outlived their time to live, and leaves all others as
  they are.
\<close>

theorem reconcile_removes_exactly_due_sandboxes:
  assumes "\<forall>t. e_fault E t = None" and "\<forall>sid t c. \<exists>m. client_DeleteSandbox sid (e_map_reply E t c) = Inr m"
    and "db_wf (os_db s)"
  shows "db_sandboxes (os_db (exec (runSandboxReconcileOnce E) s)) =
    filter (\<lambda>x. \<not> due (e_now E (Suc (os_tick s))) (sx_status x)) (db_sandboxes (os_db s))"
proof -
  have "quiet_env E" using assms(1,2) by (simp add: quiet_env_def)
  then show ?thesis by (rule quiet_env.reconcile_exact) (rule assms(3))
qed

theorem reconcile_removes_exactly_due_sandboxes_witness:
  "db_sandboxes (os_db (exec (runSandboxReconcileOnce sample_env) deleting_state)) = []"
proof -
  have "db_sandboxes (os_db (exec (runSandboxReconcileOnce sample_env) deleting_state)) =
    filter (\<lambda>x. \<not> due (e_now sample_env (Suc (os_tick deleting_state))) (sx_status x)) (db_sandboxes (os_db deleting_state))"
    by (rule reconcile_removes_exactly_due_sandboxes)
      (use sample_quiet.no_fault sample_quiet.nodes_delete deleting_state_wf in auto)
  then show ?thesis by (simp add: deleting_state_def due_def deleting_row_def)
qed

text \<open>
  C17: a created sandbox is new, pending, on no node, has the requested specification and is the only
  change to the database. If it has a time to live of at most 9223372036 seconds (292 years), it
  expires exactly that long after its creation; without one it never expires.
\<close>

theorem CreateSandbox_pending_with_expiry:
  assumes "run_state (CreateSandbox E req) s = (Inr sbx, t)" and "ss_TTLSeconds (co_Spec req) \<le> 9223372036"
  shows "sb_ID sbx = co_ID req \<and> sb_ID sbx \<notin> sx_id ` set (db_sandboxes (os_db s)) \<and>
    sb_Spec sbx = co_Spec req \<and> st_Phase (sb_Status sbx) = SandboxPhasePending \<and> st_NodeName (sb_Status sbx) = [] \<and>
    (\<exists>row. os_db t = (os_db s)\<lparr> db_sandboxes := db_sandboxes (os_db s) @ [row] \<rparr> \<and> sbx = scan_sandbox row) \<and>
    st_ExpireAt (sb_Status sbx) = (if ss_TTLSeconds (co_Spec req) = 0 then None
      else Some (e_now E (os_tick s) + ss_TTLSeconds (co_Spec req) * 1000000000))"
proof -
  note c = CreateSandbox_Inr [OF assms(1)]
  then have valid: "validateSandboxCreate (e_pq E) req = None" by simp
  have ttl: "0 \<le> ss_TTLSeconds (co_Spec req)"
    using valid by (auto simp: validateSandboxCreate_def split: option.splits if_splits)
  then have "i64 (ss_TTLSeconds (co_Spec req) * second) = ss_TTLSeconds (co_Spec req) * 1000000000"
    unfolding second_def by (intro i64_id in64I) (use assms(2) in linarith)+
  moreover have "TrimSpace (co_ID req) = co_ID req"
    using create_accepts(1) [OF valid] name_re_TrimSpace by (auto simp: name_validators)
  ultimately show ?thesis
    using c ttl by (auto simp: Let_def new_sandbox_row_def new_sandbox_def scan_sandbox_def SandboxStatus_json_def)
qed

lemma sample_create_run:
  "\<exists>sbx t. run_state (CreateSandbox sample_env sample_create) (orch_init 1) = (Inr sbx, t)"
proof -
  have "isl (result (CreateSandbox sample_env sample_create) (orch_init 1)) = False" by code_simp
  then show ?thesis by (metis isl_def prod.collapse sum.collapse(2))
qed

theorem CreateSandbox_pending_with_expiry_witness:
  "\<exists>sbx t. run_state (CreateSandbox sample_env sample_create) (orch_init 1) = (Inr sbx, t) \<and>
     st_ExpireAt (sb_Status sbx) = Some 61000000000"
proof -
  obtain sbx t where run: "run_state (CreateSandbox sample_env sample_create) (orch_init 1) = (Inr sbx, t)"
    using sample_create_run by blast
  have "st_ExpireAt (sb_Status sbx) = Some 61000000000"
    using CreateSandbox_pending_with_expiry [OF run]
    by (simp add: sample_create_def sample_spec_def sample_env_def orch_init_def second_def)
  with run show ?thesis by blast
qed

text \<open>
  C18: the bound on the time to live is needed. The product with the nanoseconds of a second wraps
  around: the validator accepts 9223372037 seconds, and the sandbox is created already expired, due
  in the next pass of the reconcile loop.
\<close>

definition long_ttl :: CreateSandboxObjectRequest where
  "long_ttl = sample_create\<lparr> co_Spec := sample_spec\<lparr> ss_TTLSeconds := 9223372037 \<rparr> \<rparr>"


end
