(* ===== verification/Orch_HttpProps.thy ===== *)
theory Orch_HttpProps
  imports Orch_Http Orch_Reconcile
begin

text \<open>
  Properties of the HTTP server of the orchestrator: what a request can do to the database, that a request without the
  secret does nothing, and that a created sandbox can be read back.
\<close>

section \<open>What requests can change\<close>

context db_relation
begin

lemma db_with_body: "(\<And>req. keeps_db (k req)) \<Longrightarrow> keeps_db (with_body body k)"
  unfolding with_body_def by (intro db_intros)

lemma db_on_node: "(\<And>url. keeps_db (k url)) \<Longrightarrow> keeps_db (on_node E nid k)"
  unfolding on_node_def by (intro db_intros db_client)

lemma db_proxy_calls:
  "keeps_db (call_ListSandboxes E url c l)" "keeps_db (call_GetSandbox E url sid)"
  "keeps_db (call_GetContainerLogs E url sid name)" "keeps_db (call_GetSandboxLogs E url sid)"
  unfolding call_ListSandboxes_def call_GetSandbox_def call_GetContainerLogs_def call_GetSandboxLogs_def
  by (intro db_intros db_call_map)+

lemma db_proxy_handlers:
  "keeps_db (api_NodeListSandboxes E nid q)" "keeps_db (api_NodeGetSandbox E nid sid)"
  "keeps_db (api_NodeCreateSandbox E nid body)" "keeps_db (api_NodeDeleteSandbox E nid sid)"
  "keeps_db (api_NodeContainerLogs E nid sid name)" "keeps_db (api_NodeSandboxLogs E nid sid)"
  "keeps_db (api_NodeReconcile E nid)" "keeps_db (api_HeartbeatNode E nid)"
  unfolding api_NodeListSandboxes_def api_NodeGetSandbox_def api_NodeCreateSandbox_def api_NodeDeleteSandbox_def
    api_NodeContainerLogs_def api_NodeSandboxLogs_def api_NodeReconcile_def api_HeartbeatNode_def SandboxClientForNode_def
    sandboxClientForNode_def
  by (intro db_intros db_on_node db_with_body db_calls db_proxy_calls db_GetNode)+

lemma db_get_handlers:
  "keeps_db api_Healthz" "keeps_db (api_ListExternals E)" "keeps_db (api_GetExternal E xid)" "keeps_db (api_ListNodes E)"
  "keeps_db (api_GetNode E nid)" "keeps_db (api_ListSandboxes E)" "keeps_db (api_GetSandbox E sid)"
  unfolding api_Healthz_def api_ListExternals_def api_GetExternal_def api_ListNodes_def ListNodes_def api_GetNode_def
    svc_GetNode_def api_ListSandboxes_def ListSandboxes_def api_GetSandbox_def GetSandbox_def
  by (intro db_intros db_reads db_external_reads)+

lemma db_serve_GET: "rq_Method r = ''GET'' \<Longrightarrow> keeps_db (api_serve router E allow secret r)"
  unfolding api_serve_def serve_def api_handle_def Let_def
  by (auto intro!: db_intros db_get_handlers db_proxy_handlers split: option.split)

end

context full_repo
begin

lemma keeps_change_handlers:
  "keeps_db (api_CreateNodeObject E b1)" "keeps_db (api_PatchNode E nid b2)" "keeps_db (api_UpsertExternalObject E b3)"
  "keeps_db (api_DeleteExternal E xid)" "keeps_db (api_DeleteNode E nid q)" "keeps_db (api_CreateSandbox E allow b4)"
  "keeps_db (api_DeleteSandbox E sid)"
  unfolding api_CreateNodeObject_def api_PatchNode_def api_UpsertExternalObject_def api_DeleteExternal_def api_DeleteNode_def
    api_CreateSandbox_def api_DeleteSandbox_def Let_def
  by (intro db_intros db_with_body db_tick keeps_node_service keeps_sandbox_service keeps_CreateSandbox)+

lemma keeps_api_serve: "keeps_db (api_serve router E allow secret r)"
  unfolding api_serve_def serve_def api_handle_def Let_def
  by (intro db_intros db_get_handlers db_proxy_handlers keeps_change_handlers)

end

interpretation same_db: db_relation "(=)"
  by unfold_locales auto

lemma open_routes: "(m, pat, True) \<notin> set api_routes \<Longrightarrow> api_handle E allow m pat ps q body \<in> {api_Healthz, ret (200, ApiStatic pat)}"
  by (cases "m = ''GET''"; cases "m = ''POST''"; cases "m = ''DELETE''"; cases "m = ''PATCH''") (simp_all add: api_routes_def api_handle_def Let_def)

lemma api_serve_unauthorized:
  assumes "\<not> Middleware secret (rq_Header r)"
  shows "exec (api_serve router E allow secret r) s = s \<and>
    result (api_serve router E allow secret r) s \<in> {(200, ApiHealth True)} \<union> {200} \<times> range ApiStatic \<union> {400, 401, 404} \<times> range ApiError"
  unfolding api_serve_def
proof (rule serve_unauthorized [OF assms], goal_cases)
  case (2 m pat ps q)
  from open_routes [OF this, of E allow ps q "rq_Body r"] show ?case by (auto simp: api_Healthz_def)
qed auto

text \<open>
  C26: a request to the orchestrator, whatever its method, path, header and body, however it is routed, and whatever the
  environment answers meanwhile, changes the database only by a sequence of the statements of the repositories. So the
  database stays consistent under any interleaving of requests. A request with method GET
  does not change the database at all, and neither do the requests that are passed on to a node.
\<close>

theorem api_requests_keep_integrity:
  "sql_steps (os_db s) (os_db (exec (api_serve router E allow secret r) s)) \<and>
   (db_wf (os_db s) \<longrightarrow> db_wf (os_db (exec (api_serve router E allow secret r) s))) \<and>
   (rq_Method r = ''GET'' \<longrightarrow> os_db (exec (api_serve router E allow secret r) s) = os_db s) \<and>
   os_db (exec (api_NodeCreateSandbox E nid body) s) = os_db s \<and> os_db (exec (api_NodeDeleteSandbox E nid sid) s) = os_db s \<and>
   os_db (exec (api_NodeReconcile E nid) s) = os_db s"
proof -
  have steps: "sql_steps (os_db s) (os_db (exec (api_serve router E allow secret r) s))"
    using sql_repo.keeps_api_serve [of router E allow secret r] by (auto simp: state_io_rel_def)
  moreover have "rq_Method r = ''GET'' \<Longrightarrow> os_db s = os_db (exec (api_serve router E allow secret r) s)"
    using same_db.db_serve_GET [of r router E allow secret] by (auto simp: state_io_rel_def)
  moreover have "os_db s = os_db (exec (api_NodeCreateSandbox E nid body) s)" "os_db s = os_db (exec (api_NodeDeleteSandbox E nid sid) s)"
    "os_db s = os_db (exec (api_NodeReconcile E nid) s)"
    using same_db.db_proxy_handlers [of E nid] by (auto simp: state_io_rel_def)
  ultimately show ?thesis using sql_steps_wf by metis
qed

definition sample_get :: "api_body http_req" where
  "sample_get = \<lparr> rq_Method = ''GET'', rq_Target = ''/api/v1/sandboxes'', rq_Header = [], rq_Body =
     \<lparr> ab_node = Inl ErrInvalidInput, ab_patch = Inl ErrInvalidInput, ab_external = Inl ErrInvalidInput,
       ab_create = Inl ErrInvalidInput, ab_proxy = Inl ErrInvalidInput \<rparr> \<rparr>"

theorem api_requests_keep_integrity_witness:
  "os_db (exec (api_serve first_match sample_env (\<lambda>_. True) ''s3cret'' sample_get) sample_state) = os_db sample_state"
  using api_requests_keep_integrity [of sample_state first_match sample_env "\<lambda>_. True" "''s3cret''" sample_get]
  by (simp add: sample_get_def)

section \<open>Reading back\<close>

lemma api_CreateSandbox_201:
  assumes "run_state (api_CreateSandbox E allow (Inr req)) s = ((201, ApiSandbox sbx), t)"
  shows "run_state (CreateSandbox E req) (s\<lparr> os_tick := Suc (os_tick s) \<rparr>) = (Inr sbx, t)"
  using assms
  by (auto simp: api_CreateSandbox_def with_body_def reply_def bad_input_def tick_def split: if_splits sum.splits prod.splits)

lemma run_GetSandbox_quiet:
  assumes "\<And>n. e_fault E n = None" and "ValidateSandboxID sid = None"
  shows "run_state (GetSandbox E sid) s = (one_row (select_sandbox sid (os_db s)), s\<lparr> os_tick := Suc (os_tick s) \<rparr>)"
proof -
  have "TrimSpace sid = sid" "sid \<noteq> []" using assms(2) by (auto simp: ValidateSandboxID_def Let_def split: if_splits)
  then show ?thesis
    using assms by (simp add: GetSandbox_def check_id_def Let_def repo_GetSandbox_def query_def run_bindE run_stmt)
qed

text \<open>
  C22: a sandbox that was created is what a later request for its id returns, and a second request to create it is refused and
  leaves the database alone, as long as the database does not fail.
\<close>

theorem created_sandbox_reads_back:
  assumes "run_state (api_CreateSandbox E allow (Inr req)) s = ((201, ApiSandbox sbx), t)" and "\<And>n. e_fault E n = None"
  shows "result (api_GetSandbox E (sb_ID sbx)) t = (200, ApiSandbox sbx) \<and> sb_ID sbx = co_ID req \<and>
    fst (result (api_CreateSandbox E allow (Inr req)) t) \<in> {429, 500} \<and>
    os_db (exec (api_CreateSandbox E allow (Inr req)) t) = os_db t"
proof -
  note run = api_CreateSandbox_201 [OF assms(1)]
  let ?s = "s\<lparr> os_tick := Suc (os_tick s) \<rparr>"
  from CreateSandbox_Inr [OF run] obtain upd where valid: "validateSandboxCreate (e_pq E) req = None"
    and fresh: "TrimSpace (co_ID req) \<notin> sx_id ` set (db_sandboxes (os_db s))"
    and row: "sbx = scan_sandbox (new_sandbox_row (new_sandbox req (e_now E (os_tick ?s))) upd)"
      "os_db t = (os_db s)\<lparr> db_sandboxes := db_sandboxes (os_db s) @ [new_sandbox_row (new_sandbox req (e_now E (os_tick ?s))) upd] \<rparr>"
    by (auto simp: Let_def)
  have sid: "ValidateSandboxID (co_ID req) = None" "TrimSpace (co_ID req) = co_ID req"
    using create_accepts(1) [OF valid] name_re_TrimSpace by (auto simp: name_validators)
  have ids: "sb_ID sbx = co_ID req" by (simp add: row(1) scan_sandbox_def new_sandbox_row_def new_sandbox_def sid(2))
  have "select_sandbox (co_ID req) (os_db t) = Some sbx"
    unfolding row by (rule select_inserted) (use fresh sid(2) in \<open>simp_all add: new_sandbox_row_def new_sandbox_def\<close>)
  then have "result (api_GetSandbox E (sb_ID sbx)) t = (200, ApiSandbox sbx)"
    using run_GetSandbox_quiet [OF assms(2) sid(1), of t] by (simp add: api_GetSandbox_def ids reply_def one_row_def)
  moreover have "co_ID req \<in> sx_id ` set (db_sandboxes (os_db t))"
    by (simp add: row(2) new_sandbox_row_def new_sandbox_def sid(2))
  then have "fst (result (api_CreateSandbox E allow (Inr req)) t) \<in> {429, 500} \<and>
    os_db (exec (api_CreateSandbox E allow (Inr req)) t) = os_db t"
    using valid assms(2) sid(2)
    by (simp add: api_CreateSandbox_def with_body_def CreateSandbox_def repo_CreateSandbox_def run_bindE run_stmt Let_def
        insert_sandbox_def reply_def bad_input_def constraint_failed_def ErrInvalidInput_def)
  ultimately show ?thesis using ids by simp
qed

theorem created_sandbox_reads_back_witness:
  "\<exists>sbx t. run_state (api_CreateSandbox sample_env (\<lambda>_. True) (Inr sample_create)) (orch_init 1) = ((201, ApiSandbox sbx), t) \<and>
     result (api_GetSandbox sample_env ''s1'') t = (200, ApiSandbox sbx)"
proof -
  let ?m = "api_CreateSandbox sample_env (\<lambda>_. True) (Inr sample_create)"
  have "fst (result ?m (orch_init 1)) = 201" by code_simp
  moreover have "case snd (result ?m (orch_init 1)) of ApiSandbox sbx \<Rightarrow> True | _ \<Rightarrow> False" by code_simp
  then obtain sbx where "snd (result ?m (orch_init 1)) = ApiSandbox sbx" by (cases "snd (result ?m (orch_init 1))") auto
  ultimately obtain t where run: "run_state ?m (orch_init 1) = ((201, ApiSandbox sbx), t)" by (metis prod.collapse)
  have "co_ID sample_create = ''s1''" by (simp add: sample_create_def)
  then show ?thesis using created_sandbox_reads_back [OF run sample_quiet.no_fault] run by auto
qed

end
