(* ===== verification/Orch_NodeProps.thy ===== *)
theory Orch_NodeProps
  imports Orch_Sched
begin

text \<open>
  Properties of the node side: the addresses a node may have, the readiness of a node as a function
  of its last probes, the resource cache, the usage counters and the labels.
\<close>

section \<open>Addresses\<close>

text \<open>The dotted text of an IPv4 address.\<close>

definition dotted :: "nat \<Rightarrow> nat \<Rightarrow> nat \<Rightarrow> nat \<Rightarrow> string" where
  "dotted a b c d = Join [Itoa (int a), Itoa (int b), Itoa (int c), Itoa (int d)] ''.''"

lemma octet:
  assumes "n < 256"
  shows "v4_field (Itoa (int n)) = Some n" and "Itoa (int n) \<noteq> []" and "list_all is_digit (Itoa (int n))"
proof -
  have itoa: "Itoa (int n) = show_digits (int n)" by (simp add: Itoa_def)
  note s = show_digits_sound [of "int n"]
  show "Itoa (int n) \<noteq> []" "list_all is_digit (Itoa (int n))" using s by (simp_all add: itoa)
  have len: "length (show_digits (int n)) \<le> 3" using length_show_digits [of "int n" 3] assms by simp
  have "length (show_digits (int n)) \<le> 1" if "\<not> 10 \<le> n"
    using that by (simp add: show_digits.simps [of "int n"])
  then show "v4_field (Itoa (int n)) = Some n"
    using s len assms by (fastforce simp: v4_field_def itoa Let_def)
qed

lemma digit_not: "is_digit c \<Longrightarrow> c \<noteq> CHR ''.'' \<and> c \<noteq> CHR '':'' \<and> c \<noteq> CHR ''%''"
  by (auto simp: is_digit_def)

lemma dotted_chars:
  assumes "a < 256" "b < 256" "c < 256" "d < 256" and "x \<in> set (dotted a b c d)"
  shows "is_digit x \<or> x = CHR ''.''"
  using assms octet(3) by (auto simp: dotted_def list_all_iff)

lemma Split_dotted:
  assumes "a < 256" "b < 256" "c < 256" "d < 256"
  shows "Split (dotted a b c d) (CHR ''.'') = [Itoa (int a), Itoa (int b), Itoa (int c), Itoa (int d)]"
proof -
  have "\<forall>f \<in> set [Itoa (int a), Itoa (int b), Itoa (int c), Itoa (int d)]. CHR ''.'' \<notin> set f"
    using assms octet(3) digit_not by (auto simp: list_all_iff)
  then show ?thesis unfolding dotted_def by (intro Split_Join) auto
qed

lemma ParseIP_dotted:
  assumes "a < 256" "b < 256" "c < 256" "d < 256"
  shows "ParseIP (dotted a b c d) = Some (v4_prefix @ [a, b, c, d])"
proof -
  have "find (\<lambda>x. x = CHR ''.'' \<or> x = CHR '':'' \<or> x = CHR ''%'') (dotted a b c d) = Some x \<Longrightarrow> x = CHR ''.''" for x
    using dotted_chars [OF assms, of x] digit_not [of x] by (auto dest!: find_SomeD)
  moreover have "find (\<lambda>x. x = CHR ''.'' \<or> x = CHR '':'' \<or> x = CHR ''%'') (dotted a b c d) \<noteq> None"
    by (auto simp: find_None_iff dotted_def)
  moreover have "parse_v4 (dotted a b c d) = Some [a, b, c, d]"
    using assms by (simp add: parse_v4_def Split_dotted octet)
  ultimately show ?thesis by (auto simp: ParseIP_def)
qed

lemma TrimSpace_dotted:
  assumes "a < 256" "b < 256" "c < 256" "d < 256"
  shows "TrimSpace (dotted a b c d) = dotted a b c d"
proof -
  have ne: "dotted a b c d \<noteq> []" using octet(2) [OF assms(1)] by (simp add: dotted_def)
  have "plain_char x" if "x \<in> set (dotted a b c d)" for x
    using dotted_chars [OF assms that] by (auto simp: plain_char_def is_digit_def)
  with ne show ?thesis by (intro TrimSpace_plain) simp_all
qed

lemma v4_prefix_list: "v4_prefix = [0, 0, 0, 0, 0, 0, 0, 0, 0, 0, 255, 255]"
  by code_simp

lemma v4_classes:
  "IsUnspecified (v4_prefix @ [a, b, c, d]) \<longleftrightarrow> (a, b, c, d) = (0, 0, 0, 0)"
  "IsMulticast (v4_prefix @ [a, b, c, d]) \<longleftrightarrow> a div 16 = 14"
  "IsLinkLocalMulticast (v4_prefix @ [a, b, c, d]) \<longleftrightarrow> a = 224 \<and> b = 0 \<and> c = 0"
  "IsLinkLocalUnicast (v4_prefix @ [a, b, c, d]) \<longleftrightarrow> a = 169 \<and> b = 254"
  "\<not> IsInterfaceLocalMulticast (v4_prefix @ [a, b, c, d])"
proof -
  have "v4_prefix @ [a, b, c, d] \<noteq> replicate 16 0"
  proof
    assume "v4_prefix @ [a, b, c, d] = replicate 16 0"
    moreover have "255 \<in> set (v4_prefix @ [a, b, c, d])" by (simp add: v4_prefix_def)
    ultimately show False by simp
  qed
  then show "IsUnspecified (v4_prefix @ [a, b, c, d]) \<longleftrightarrow> (a, b, c, d) = (0, 0, 0, 0)"
    by (simp add: IsUnspecified_def)
  have "To4 (v4_prefix @ [a, b, c, d]) = Some [a, b, c, d]" by (simp add: To4_def v4_prefix_list)
  then show "IsMulticast (v4_prefix @ [a, b, c, d]) \<longleftrightarrow> a div 16 = 14"
    "IsLinkLocalMulticast (v4_prefix @ [a, b, c, d]) \<longleftrightarrow> a = 224 \<and> b = 0 \<and> c = 0"
    "IsLinkLocalUnicast (v4_prefix @ [a, b, c, d]) \<longleftrightarrow> a = 169 \<and> b = 254"
    by (simp_all add: IsMulticast_def IsLinkLocalMulticast_def IsLinkLocalUnicast_def)
  show "\<not> IsInterfaceLocalMulticast (v4_prefix @ [a, b, c, d])"
    by (simp add: IsInterfaceLocalMulticast_def v4_prefix_list)
qed

section \<open>Probes\<close>

definition probes :: "Config \<Rightarrow> Node \<Rightarrow> (go_error option \<times> int) list \<Rightarrow> Node" where
  "probes cfg n rs = foldl (\<lambda>n (err, now). probe_next cfg n err now) n rs"

lemma probes_snoc: "probes cfg n (rs @ [(err, now)]) = probe_next cfg (probes cfg n rs) err now"
  by (simp add: probes_def)

lemma successes:
  assumes "\<forall>r \<in> set rs. fst r = None" and "n_SuccessStreak n = 0" and "n_State n = NodeStateNotReady \<or> n_State n = NodeStateUnknown"
    and "1 \<le> ReadySuccessThreshold cfg" and "ReadySuccessThreshold cfg < 2 ^ 63 - 1"
  shows "n_SuccessStreak (probes cfg n rs) = min (int (length rs)) (ReadySuccessThreshold cfg) \<and>
    n_State (probes cfg n rs) = (if ReadySuccessThreshold cfg \<le> int (length rs) then NodeStateReady else n_State n)"
  using assms(1)
proof (induction rs rule: rev_induct)
  case Nil
  then show ?case using assms by (auto simp: probes_def)
next
  case (snoc r rs)
  obtain now where r: "r = (None, now)" using snoc.prems by (cases r) auto
  let ?m = "probes cfg n rs"
  have "i64 (n_SuccessStreak ?m + 1) = n_SuccessStreak ?m + 1"
    using snoc assms(4,5) by (intro i64_id in64I) auto
  then show ?case using snoc assms(3,4) by (auto simp: r probes_snoc probe_next_def Let_def)
qed

lemma failures:
  assumes "\<forall>r \<in> set rs. fst r \<noteq> None" and "n_FailureStreak n = 0" and "n_State n = NodeStateReady"
    and "1 \<le> NotReadyFailureThreshold cfg" and "length rs < 2 ^ 62"
  shows "n_FailureStreak (probes cfg n rs) = int (length rs) \<and>
    n_State (probes cfg n rs) = (if NotReadyFailureThreshold cfg \<le> int (length rs) then NodeStateNotReady else NodeStateReady)"
  using assms(1,5)
proof (induction rs rule: rev_induct)
  case Nil
  then show ?case using assms by (auto simp: probes_def)
next
  case (snoc r rs)
  obtain e now where r: "r = (Some e, now)" using snoc.prems by (cases r) auto
  let ?m = "probes cfg n rs"
  have "i64 (n_FailureStreak ?m + 1) = n_FailureStreak ?m + 1"
    using snoc by (intro i64_id in64I) auto
  then show ?case using snoc by (auto simp: r probes_snoc probe_next_def Let_def)
qed

section \<open>Labels\<close>

text \<open>A patch as a function on the meaning of the labels: later entries win.\<close>

definition label_patch :: "(string \<times> string option) list \<Rightarrow> (string \<Rightarrow> string option) \<Rightarrow> string \<Rightarrow> string option" where
  "label_patch patch m = foldl (\<lambda>m (key, val). m(TrimSpace key := map_option TrimSpace val)) m patch"

lemma patch_labels_meaning:
  "patch_labels patch acc = Inr out \<Longrightarrow> map_of out = label_patch patch (map_of acc)"
  by (induction patch acc rule: patch_labels.induct)
    (auto simp: Let_def label_patch_def split: if_splits option.splits)

lemma patch_labels_error:
  "(\<exists>e. patch_labels patch acc = Inl e) \<longleftrightarrow> (\<exists>(key, val) \<in> set patch. TrimSpace key = [])"
  by (induction patch acc rule: patch_labels.induct) (auto simp: Let_def split: option.splits)

lemma patch_labels_distinct:
  "patch_labels patch acc = Inr out \<Longrightarrow> distinct (map fst acc) \<Longrightarrow> distinct (map fst out)"
  by (induction patch acc rule: patch_labels.induct)
    (auto simp: Let_def distinct_put distinct_del split: if_splits option.splits)

lemma sanitize_distinct: "distinct (map fst (sanitizeLabels labels))"
proof -
  have "distinct (map fst acc) \<Longrightarrow> distinct (map fst (foldl (\<lambda>out (key, val). let k = TrimSpace key in
      if k = [] then out else map_put k (TrimSpace val) out) acc labels))" for acc
    by (induction labels arbitrary: acc) (auto simp: Let_def distinct_put split: prod.splits)
  then show ?thesis by (simp add: sanitizeLabels_def)
qed

section \<open>Properties\<close>

text \<open>
  C19: parsing the dotted text of four octets gives these octets back, and a node with such an address
  is accepted if and only if the address is not 0.0.0.0, not in the multicast block 224.0.0.0/4 and
  not in the link-local block 169.254.0.0/16, where cloud metadata services live.
\<close>

theorem validateNodeInput_ipv4:
  assumes "a < 256" and "b < 256" and "c < 256" and "d < 256"
    and "TrimSpace nid \<noteq> []" and "1 \<le> port" and "port \<le> 65535"
  shows "validateNodeInput nid (dotted a b c d) port = None \<longleftrightarrow>
    (a, b, c, d) \<noteq> (0, 0, 0, 0) \<and> \<not> (224 \<le> a \<and> a \<le> 239) \<and> \<not> (a = 169 \<and> b = 254)"
proof -
  have "a div 16 = 14 \<longleftrightarrow> 224 \<le> a \<and> a \<le> 239" by auto
  then show ?thesis
    using assms by (auto simp: validateNodeInput_def TrimSpace_dotted ParseIP_dotted rejectUnsafeNodeIP_def v4_classes)
qed

theorem validateNodeInput_ipv4_witness:
  "validateNodeInput ''n1'' (dotted 169 254 169 254) 80 \<noteq> None \<and> validateNodeInput ''n1'' (dotted 10 0 0 7) 80 = None"
proof -
  have "TrimSpace ''n1'' \<noteq> []" by code_simp
  then show ?thesis
    using validateNodeInput_ipv4 [of 169 254 169 254 "''n1''" 80] validateNodeInput_ipv4 [of 10 0 0 7 "''n1''" 80] by simp
qed



text \<open>
  The resource cache. A report is written to the database unless one was written before and
  either it is younger than the minimal interval or nothing changed since, and it is always written
  once the maximal interval has passed. After a write at a time, an unchanged report is not written
  again before the maximal interval is over.
\<close>

theorem ShouldPersist_policy:
  assumes "written \<noteq> zero_time" and "minInt \<le> maxInt"
    and "in64 (now - written)"
  shows "ShouldPersist (PutCurrent name cur (MarkPersisted name old written c)) name now minInt maxInt \<longleftrightarrow>
    maxInt \<le> now - written \<or> minInt \<le> now - written \<and> \<not> sameResources cur old"
  using assms
  by (auto simp: ShouldPersist_def PutCurrent_def MarkPersisted_def cache_get_def time_Sub_def in64_def Let_def)

theorem ShouldPersist_policy_witness:
  "\<not> ShouldPersist (PutCurrent ''n1'' sample_resources (MarkPersisted ''n1'' sample_resources 5 [])) ''n1'' 100 30 300"
  using ShouldPersist_policy [of 5 30 300 100 "''n1''" sample_resources sample_resources "[]"]
  by (simp add: zero_time_def in64_def sameResources_def)

text \<open>
  The usage counters of a node never go below zero, what is available never exceeds what is
  allocatable and is exactly the rest as long as the use fits, and taking and giving back the same
  amount restores the counters.
\<close>

theorem adjust_usage_bounds:
  assumes "0 \<le> nr_UsedCPUMilli r" and "0 \<le> nr_UsedMemoryBytes r" and "0 \<le> cpu" and "0 \<le> mem"
    and "0 \<le> nr_AllocatableCPUMilli r" and "0 \<le> nr_AllocatableMemory r"
  shows "0 \<le> nr_UsedCPUMilli (adjust_usage (- cpu) (- mem) r) \<and>
    0 \<le> nr_AvailableCPUMilli (adjust_usage cpu mem r) \<and>
    nr_AvailableCPUMilli (adjust_usage cpu mem r) \<le> nr_AllocatableCPUMilli r \<and>
    nr_AvailableMemory (adjust_usage cpu mem r) \<le> nr_AllocatableMemory r \<and>
    nr_UsedCPUMilli (adjust_usage (- cpu) (- mem) (adjust_usage cpu mem r)) = nr_UsedCPUMilli r \<and>
    nr_UsedMemoryBytes (adjust_usage (- cpu) (- mem) (adjust_usage cpu mem r)) = nr_UsedMemoryBytes r"
  using assms by (simp add: adjust_usage_def)

theorem adjust_usage_bounds_witness:
  "nr_UsedCPUMilli (adjust_usage (- 500) (- 64) (adjust_usage 500 64 sample_resources)) = nr_UsedCPUMilli sample_resources"
  using adjust_usage_bounds [of sample_resources 500 64] by (simp add: sample_resources_def zero_NodeResources_def)

text \<open>
  Patching the labels of a node fails exactly when the patch has a blank key; otherwise the new
  labels are the old ones with every entry of the patch applied in turn, trimmed: a value sets its
  label, a null removes it. Keys stay unique.
\<close>

theorem applyLabelPatch_correct:
  "case applyLabelPatch current patch of
     Inl _ \<Rightarrow> \<exists>(key, val) \<in> set patch. TrimSpace key = []
   | Inr out \<Rightarrow> map_of out = label_patch patch (map_of (sanitizeLabels current)) \<and> distinct (map fst out)"
  using patch_labels_meaning [of patch "sanitizeLabels current"] patch_labels_error [of patch "sanitizeLabels current"]
    patch_labels_distinct [of patch "sanitizeLabels current"] sanitize_distinct [of current]
  by (auto simp: applyLabelPatch_def split: sum.splits)

end
