(* ===== verification/Let_Isolation.thy ===== *)
theory Let_Isolation
  imports Let_Firewall
begin

text \<open>
  What the firewall rules of sandboxes achieve: the decision of the rules of a sandbox on its traffic, the
  round trip of applying and deleting them, and what the deletion of published ports removes. All facts are
  stated for every implementation of the iptables operations that satisfies the locale \<open>iptables\<close>.
\<close>

section \<open>Operations on one chain\<close>

definition at_chain :: "string \<times> string \<Rightarrow> (rule list \<Rightarrow> rule list) \<Rightarrow> fw_tables \<Rightarrow> fw_tables" where
  "at_chain k f m = (case m k of None \<Rightarrow> m | Some rs \<Rightarrow> m(k \<mapsto> f rs))"

definition add_unique :: "rule \<Rightarrow> rule list \<Rightarrow> rule list" where
  "add_unique r rs = (if r \<in> set rs then rs else rs @ [r])"

definition insert_second :: "rule \<Rightarrow> rule list \<Rightarrow> rule list" where
  "insert_second r rs = (if length rs \<ge> 1 then take 1 rs @ r # drop 1 rs else rs)"

lemma tb_at_chain:
  "tb_append k r = at_chain k (add_unique r)"
  "tb_delete k r = at_chain k (remove1 r)"
  "tb_insert k 2 r = at_chain k (insert_second r)"
  by (auto simp: fun_eq_iff tb_append_def tb_delete_def tb_insert_def at_chain_def add_unique_def insert_second_def
      fun_upd_idem split: option.splits)

lemma at_chain_apply: "at_chain k f m k' = (if k' = k then map_option f (m k) else m k')"
  by (simp add: at_chain_def split: option.split)

lemma tb_new_apply: "tb_new k m k' = (if k' = k \<and> m k = None then Some [] else m k')"
  by (simp add: tb_new_def)

lemma at_chain_comp: "at_chain k f (at_chain k g m) = at_chain k (f \<circ> g) m"
  by (auto simp: at_chain_def split: option.splits)

lemma fold_at_chain: "fold (\<lambda>x. at_chain k (f x)) xs m = at_chain k (fold f xs) m"
proof (induction xs arbitrary: m)
  case Nil
  then show ?case by (auto simp: at_chain_def id_def fun_upd_idem split: option.splits)
qed (simp add: at_chain_comp)

section \<open>The names of the chains\<close>

lemma chain_names [simp]:
  "fwd_chain sid \<noteq> in_chain sid'" "in_chain sid \<noteq> fwd_chain sid'"
  "fwd_chain sid \<noteq> ''FORWARD''" "fwd_chain sid \<noteq> ''SANDBOX-FWD''" "fwd_chain sid \<noteq> ''SANDBOX-IN''"
  "in_chain sid \<noteq> ''FORWARD''" "in_chain sid \<noteq> ''SANDBOX-FWD''" "in_chain sid \<noteq> ''SANDBOX-IN''"
  by (simp_all add: fwd_chain_def in_chain_def shortID_def hex8_def upt_rec)

lemmas chain_names_sym [simp] = chain_names(3-8) [symmetric]

section \<open>Applying and deleting the rules of a sandbox, on the view\<close>

definition early_rule :: "string \<Rightarrow> PublishedPort \<Rightarrow> rule" where
  "early_rule ip p = [''-d'', ip @ ''/32'', ''-p'', port_proto (pp_Protocol p), ''--dport'', Itoa (pp_ContainerPort p), ''-j'', ''ACCEPT'']"

definition early :: "string \<Rightarrow> PublishedPort \<Rightarrow> rule list \<Rightarrow> rule list" where
  "early ip p = insert_second (early_rule ip p) \<circ> remove1 (early_rule ip p)"

definition apply_tables ::
  "string list \<Rightarrow> string \<Rightarrow> string \<Rightarrow> string \<Rightarrow> string \<Rightarrow> bool \<Rightarrow> PublishedPort list \<Rightarrow> fw_tables \<Rightarrow> fw_tables" where
  "apply_tables ns sid ip cidr bif egress ports m =
     at_chain (''filter'', in_chain sid) (fold add_unique (input_rules ports))
     (at_chain (''filter'', fwd_chain sid) (fold add_unique (forward_rules ns cidr egress))
     (at_chain (''filter'', ''FORWARD'') (fold (early ip) ports)
     (at_chain (''filter'', ''SANDBOX-IN'') (add_unique (in_hook sid ip bif))
     (at_chain (''filter'', ''SANDBOX-FWD'') (add_unique (fwd_hook sid ip))
     (tb_new (''filter'', in_chain sid) (tb_new (''filter'', fwd_chain sid) m))))))"

definition delete_tables :: "string \<Rightarrow> string \<Rightarrow> string \<Rightarrow> PublishedPort list \<Rightarrow> fw_tables \<Rightarrow> fw_tables" where
  "delete_tables sid ip bif ports m =
     tb_delete_chain (''filter'', in_chain sid) (tb_delete_chain (''filter'', fwd_chain sid)
     (tb_clear (''filter'', in_chain sid) (tb_clear (''filter'', fwd_chain sid)
     (at_chain (''filter'', ''SANDBOX-IN'') (remove1 (in_hook sid ip bif))
     (at_chain (''filter'', ''SANDBOX-FWD'') (remove1 (fwd_hook sid ip))
     (at_chain (''filter'', ''FORWARD'') (fold (\<lambda>p. remove1 (early_rule ip p)) ports) m))))))"

context iptables
begin

lemma view_early:
  "view (exec (ignore (insertForwardAcceptEarly ipt ip (port_proto (pp_Protocol p)) (pp_ContainerPort p))) s) =
     at_chain (''filter'', ''FORWARD'') (early ip p) (view s)"
  by (simp add: view_ignore insertForwardAcceptEarly_def exec_bind view_ops tb_at_chain at_chain_comp early_def
      early_rule_def Let_def del: run_state_bind)

lemma view_append_all:
  "view (exec (for_each rs (\<lambda>r. ignore (ipt_AppendUnique ipt t c r))) s) = at_chain (t, c) (fold add_unique rs) (view s)"
  by (subst view_for_each [of _ _ "\<lambda>r. at_chain (t, c) (add_unique r)"]) (simp_all add: view_ignore view_ops tb_at_chain fold_at_chain)

lemma ApplySandboxRules_view:
  assumes "view s (''filter'', ''SANDBOX-FWD'') \<noteq> None" and "view s (''filter'', ''SANDBOX-IN'') \<noteq> None"
  shows "result (ApplySandboxRules ipt conf sid ip cidr bif egress ports) s = None"
    and "view (exec (ApplySandboxRules ipt conf sid ip cidr bif egress ports) s) =
      apply_tables (systemNameservers conf []) sid ip cidr bif egress ports (view s)"
proof -
  let ?s1 = "exec (ipt_NewChain ipt ''filter'' (in_chain sid)) (exec (ipt_NewChain ipt ''filter'' (fwd_chain sid)) s)"
  let ?s2 = "exec (ipt_AppendUnique ipt ''filter'' ''SANDBOX-FWD'' (fwd_hook sid ip)) ?s1"
  have v1: "view ?s1 = tb_new (''filter'', in_chain sid) (tb_new (''filter'', fwd_chain sid) (view s))" by (simp add: view_ops)
  have ok1: "result (ipt_AppendUnique ipt ''filter'' ''SANDBOX-FWD'' (fwd_hook sid ip)) ?s1 = None"
    using assms(1) AppendUnique_ok [of ?s1 "''filter''" "''SANDBOX-FWD''"] by (auto simp: v1 tb_new_apply)
  have ok2: "result (ipt_AppendUnique ipt ''filter'' ''SANDBOX-IN'' (in_hook sid ip bif)) ?s2 = None"
    using assms(2) AppendUnique_ok [of ?s2 "''filter''" "''SANDBOX-IN''"]
    by (auto simp: view_ops v1 tb_new_apply tb_at_chain at_chain_apply)
  have loop: "view (exec (for_each ports (\<lambda>p. ignore (insertForwardAcceptEarly ipt ip (port_proto (pp_Protocol p)) (pp_ContainerPort p)))) u) =
      at_chain (''filter'', ''FORWARD'') (fold (early ip) ports) (view u)" for u
    by (subst view_for_each [OF view_early]) (rule fold_at_chain)
  show "result (ApplySandboxRules ipt conf sid ip cidr bif egress ports) s = None"
    by (simp add: ApplySandboxRules_def result_bind exec_bind run_bindO ok1 ok2 del: run_state_bind)
  show "view (exec (ApplySandboxRules ipt conf sid ip cidr bif egress ports) s) =
      apply_tables (systemNameservers conf []) sid ip cidr bif egress ports (view s)"
    by (simp add: ApplySandboxRules_def exec_bind run_bindO ok1 ok2 view_append_all loop view_ops tb_at_chain
        apply_tables_def del: run_state_bind)
qed

lemma DeleteSandboxRules_view:
  "view (exec (DeleteSandboxRules ipt sid ip bif ports) s) = delete_tables sid ip bif ports (view s)"
proof -
  have loop: "view (exec (for_each ports (\<lambda>p. ignore (ipt_Delete ipt ''filter'' ''FORWARD''
       [''-d'', ip @ ''/32'', ''-p'', port_proto (pp_Protocol p), ''--dport'', Itoa (pp_ContainerPort p), ''-j'', ''ACCEPT'']))) u) =
      at_chain (''filter'', ''FORWARD'') (fold (\<lambda>p. remove1 (early_rule ip p)) ports) (view u)" for u
    by (subst view_for_each [of _ _ "\<lambda>p. at_chain (''filter'', ''FORWARD'') (remove1 (early_rule ip p))"])
      (simp_all add: view_ignore view_ops tb_at_chain early_rule_def fold_at_chain)
  show ?thesis
    by (simp add: DeleteSandboxRules_def exec_bind view_ignore loop view_ops tb_at_chain delete_tables_def del: run_state_bind)
qed

end

section \<open>The decision of a chain\<close>

text \<open>
  The conditions of a rule, its target, and the target of the first rule whose conditions hold of a packet.
  Which conditions hold of the packet is the parameter \<open>m\<close>.
\<close>

definition conditions :: "rule \<Rightarrow> string list" where
  "conditions r = takeWhile (\<lambda>w. w \<noteq> ''-j'') r"

definition rule_target :: "rule \<Rightarrow> string" where
  "rule_target r = (case dropWhile (\<lambda>w. w \<noteq> ''-j'') r of _ # t # _ \<Rightarrow> t | _ \<Rightarrow> [])"

fun verdict :: "(string list \<Rightarrow> bool) \<Rightarrow> rule list \<Rightarrow> string option" where
  "verdict m [] = None"
| "verdict m (r # rs) = (if m (conditions r) then Some (rule_target r) else verdict m rs)"

lemma verdict_append: "verdict m (xs @ ys) = (case verdict m xs of Some v \<Rightarrow> Some v | None \<Rightarrow> verdict m ys)"
  by (induction xs) auto

lemma verdict_Some: "verdict m xs \<noteq> None \<longleftrightarrow> (\<exists>r \<in> set xs. m (conditions r))"
  by (induction xs) auto

lemma verdict_uniform:
  "(\<And>r. r \<in> set xs \<Longrightarrow> rule_target r = t) \<Longrightarrow> verdict m xs = (if list_ex (\<lambda>r. m (conditions r)) xs then Some t else None)"
  by (induction xs) auto

lemma verdict_add_unique: "verdict m (add_unique r rs) = verdict m (rs @ [r])"
  using verdict_Some [of m rs] by (auto simp: add_unique_def verdict_append split: option.splits)

lemma verdict_fold_add_unique: "verdict m (fold add_unique xs acc) = verdict m (acc @ xs)"
proof (induction xs arbitrary: acc)
  case (Cons x xs)
  have "verdict m (add_unique x acc @ xs) = verdict m ((acc @ [x]) @ xs)"
    using verdict_add_unique [of m x acc] by (simp only: verdict_append)
  then show ?case by (simp add: Cons)
qed simp

lemma rule_conditions [simp]:
  "conditions established = [''-m'', ''conntrack'', ''--ctstate'', ''ESTABLISHED,RELATED'']"
  "conditions [''-j'', t] = []" "rule_target [''-j'', t] = t" "rule_target established = ''ACCEPT''"
  "conditions [''-m'', ''addrtype'', ''--dst-type'', ''LOCAL'', ''-j'', t] = [''-m'', ''addrtype'', ''--dst-type'', ''LOCAL'']"
  "rule_target [''-m'', ''addrtype'', ''--dst-type'', ''LOCAL'', ''-j'', t] = t"
  by (simp_all add: conditions_def rule_target_def established_def)

lemma dns_target: "r \<in> set (dns_rules ns) \<Longrightarrow> \<forall>n \<in> set ns. n \<noteq> ''-j'' \<Longrightarrow> rule_target r = ''ACCEPT''"
  by (auto simp: dns_rules_def rule_target_def)

lemma cidr_rule: "c \<noteq> ''-j'' \<Longrightarrow> conditions [''-d'', c, ''-j'', t] = [''-d'', c] \<and> rule_target [''-d'', c, ''-j'', t] = t"
  by (simp add: conditions_def rule_target_def)

lemma nameserver_text: "n \<in> set (systemNameservers conf out) \<Longrightarrow> n \<in> set out \<or> HasSuffix n ''/32''"
proof (induction conf out rule: systemNameservers.induct)
  case (2 l ls out)
  then show ?case
    by (auto simp: Let_def HasSuffix_iff split: if_splits list.splits option.splits)
qed simp

lemma nameserver_no_jump: "\<forall>n \<in> set (systemNameservers conf []). n \<noteq> ''-j''"
proof
  fix n
  assume "n \<in> set (systemNameservers conf [])"
  then have "HasSuffix n ''/32''" using nameserver_text [of n conf "[]"] by simp
  then show "n \<noteq> ''-j''" by (auto simp: HasSuffix_def)
qed

text \<open>Is the packet for the host itself or for one of the private, local or reserved networks?\<close>

definition internal_destination :: "(string list \<Rightarrow> bool) \<Rightarrow> string \<Rightarrow> bool" where
  "internal_destination m cidr \<longleftrightarrow> m [''-m'', ''addrtype'', ''--dst-type'', ''LOCAL''] \<or> list_ex (\<lambda>c. m [''-d'', c]) (private_cidrs cidr)"

definition dns_request :: "(string list \<Rightarrow> bool) \<Rightarrow> string list \<Rightarrow> bool" where
  "dns_request m ns \<longleftrightarrow> list_ex (\<lambda>r. m (conditions r)) (dns_rules ns)"

lemma forward_verdict:
  assumes "\<forall>n \<in> set ns. n \<noteq> ''-j''" and "cidr \<noteq> ''-j''" and "m []"
  shows "verdict m (forward_rules ns cidr egress) = Some
    (if m (conditions established) then ''ACCEPT''
     else if egress \<and> dns_request m ns then ''ACCEPT''
     else if internal_destination m cidr then ''REJECT''
     else if egress then ''ACCEPT'' else ''REJECT'')"
proof -
  have dns: "verdict m (dns_rules ns) = (if dns_request m ns then Some ''ACCEPT'' else None)"
    unfolding dns_request_def using dns_target assms(1) by (intro verdict_uniform) blast
  have nj: "c \<noteq> ''-j''" if "c \<in> set (private_cidrs cidr)" for c
    using that assms(2) by (auto simp: private_cidrs_def)
  have "verdict m (map (\<lambda>c. [''-d'', c, ''-j'', ''REJECT'']) (private_cidrs cidr)) =
      (if list_ex (\<lambda>r. m (conditions r)) (map (\<lambda>c. [''-d'', c, ''-j'', ''REJECT'']) (private_cidrs cidr)) then Some ''REJECT'' else None)"
    using nj by (intro verdict_uniform) (auto simp: cidr_rule)
  also have "list_ex (\<lambda>r. m (conditions r)) (map (\<lambda>c. [''-d'', c, ''-j'', ''REJECT'']) (private_cidrs cidr)) \<longleftrightarrow>
      list_ex (\<lambda>c. m [''-d'', c]) (private_cidrs cidr)"
    using nj by (auto simp: list_ex_iff cidr_rule)
  finally have priv: "verdict m (map (\<lambda>c. [''-d'', c, ''-j'', ''REJECT'']) (private_cidrs cidr)) =
      (if list_ex (\<lambda>c. m [''-d'', c]) (private_cidrs cidr) then Some ''REJECT'' else None)" .
  show ?thesis
    using assms(3) unfolding forward_rules_def
    by (simp add: verdict_append dns priv internal_destination_def split: option.splits)
qed

text \<open>The chain of a sandbox after its rules were applied to a view without it.\<close>

lemma apply_tables_fwd:
  assumes "m (''filter'', fwd_chain sid) = None"
  shows "apply_tables ns sid ip cidr bif egress ports m (''filter'', fwd_chain sid) =
    Some (fold add_unique (forward_rules ns cidr egress) [])"
  using assms by (simp add: apply_tables_def at_chain_apply tb_new_apply)

lemma apply_tables_hook:
  assumes "m (''filter'', ''SANDBOX-FWD'') = Some rs"
  shows "\<exists>hs. apply_tables ns sid ip cidr bif egress ports m (''filter'', ''SANDBOX-FWD'') = Some hs \<and> fwd_hook sid ip \<in> set hs"
  using assms by (simp add: apply_tables_def at_chain_apply tb_new_apply add_unique_def)


text \<open>A host with the global chains; a packet to the metadata service that is not a reply.\<close>

definition sample_tables :: fw_alist where
  "sample_tables = [((''filter'', ''FORWARD''), [[''-j'', ''SANDBOX-FWD'']]), ((''filter'', ''SANDBOX-FWD''), []),
     ((''filter'', ''SANDBOX-IN''), []), ((''nat'', ''PREROUTING''), []), ((''nat'', ''OUTPUT''), [])]"

definition metadata_packet :: "string list \<Rightarrow> bool" where
  "metadata_packet c \<longleftrightarrow> c = [] \<or> c = [''-d'', ''169.254.0.0/16'']"


section \<open>Deleting what was applied\<close>

text \<open>Rules of a set \<open>R\<close> that occur at most once: adding and removing them leaves the other rules alone.\<close>

lemma filter_remove1_in: "r \<in> R \<Longrightarrow> filter (\<lambda>x. x \<notin> R) (remove1 r rs) = filter (\<lambda>x. x \<notin> R) rs"
  by (induction rs) auto

lemma insert_second_facts:
  "r \<in> R \<Longrightarrow> filter (\<lambda>x. x \<notin> R) (insert_second r rs) = filter (\<lambda>x. x \<notin> R) rs"
  "count_list (insert_second r rs) x \<le> (if x = r then 1 else 0) + count_list rs x"
  by (cases rs; simp add: insert_second_def)+

lemma count_remove1: "count_list (remove1 r rs) x = (if x = r then count_list rs x - 1 else count_list rs x)"
  by (induction rs) (auto simp: count_list_0_iff)

lemma fold_early_facts:
  assumes "early_rule ip ` set ports \<subseteq> R" and "\<forall>x \<in> R. count_list rs x \<le> 1"
  shows "filter (\<lambda>x. x \<notin> R) (fold (early ip) ports rs) = filter (\<lambda>x. x \<notin> R) rs \<and>
    (\<forall>x \<in> R. count_list (fold (early ip) ports rs) x \<le> 1)"
  using assms
proof (induction ports arbitrary: rs)
  case (Cons p ports)
  let ?r = "early_rule ip p"
  have "\<forall>x \<in> R. count_list (early ip p rs) x \<le> 1"
  proof
    fix x
    assume "x \<in> R"
    then have "count_list rs x \<le> 1" using Cons.prems(2) by blast
    then show "count_list (early ip p rs) x \<le> 1"
      using insert_second_facts(2) [of ?r "remove1 ?r rs" x] by (auto simp: early_def count_remove1 split: if_splits)
  qed
  moreover have "filter (\<lambda>x. x \<notin> R) (early ip p rs) = filter (\<lambda>x. x \<notin> R) rs"
    using Cons.prems(1) by (simp add: early_def insert_second_facts filter_remove1_in)
  ultimately show ?case using Cons by simp
qed simp

lemma fold_remove_facts:
  assumes "\<forall>x \<in> early_rule ip ` set ports. count_list rs x \<le> 1" and "early_rule ip ` set ports \<subseteq> R"
  shows "filter (\<lambda>x. x \<notin> R) (fold (\<lambda>p. remove1 (early_rule ip p)) ports rs) = filter (\<lambda>x. x \<notin> R) rs \<and>
    set (fold (\<lambda>p. remove1 (early_rule ip p)) ports rs) \<inter> early_rule ip ` set ports = {} \<and>
    set (fold (\<lambda>p. remove1 (early_rule ip p)) ports rs) \<subseteq> set rs"
  using assms
proof (induction ports arbitrary: rs)
  case (Cons p ports)
  let ?r = "early_rule ip p" and ?rs = "remove1 (early_rule ip p) rs"
  have "\<forall>x \<in> early_rule ip ` set ports. count_list ?rs x \<le> 1" using Cons.prems(1) by (auto simp: count_remove1)
  note IH = Cons.IH [OF this]
  have "?r \<notin> set ?rs" using Cons.prems(1) count_remove1 [of ?r rs ?r] by (auto simp flip: count_list_0_iff)
  then show ?case
    using IH Cons.prems(2) filter_remove1_in [of ?r R rs] set_remove1_subset [of ?r rs] by auto
qed simp

lemma forward_restored:
  assumes "set rs \<inter> early_rule ip ` set ports = {}"
  shows "fold (\<lambda>p. remove1 (early_rule ip p)) ports (fold (early ip) ports rs) = rs"
proof -
  let ?R = "early_rule ip ` set ports" and ?f = "fold (\<lambda>p. remove1 (early_rule ip p)) ports (fold (early ip) ports rs)"
  have keep: "filter (\<lambda>x. x \<notin> ?R) rs = rs" using assms by (intro filter_True) blast
  have "\<forall>x \<in> ?R. count_list rs x \<le> 1" using assms by (metis count_notin disjoint_iff le0)
  note e = fold_early_facts [OF _ this, of ip ports, simplified]
  have "filter (\<lambda>x. x \<notin> ?R) ?f = rs \<and> set ?f \<inter> ?R = {}"
    using fold_remove_facts [of ip ports "fold (early ip) ports rs" ?R] e keep by auto
  moreover then have "filter (\<lambda>x. x \<notin> ?R) ?f = ?f" by (intro filter_True) blast
  ultimately show ?thesis by simp
qed

lemma hook_restored: "h \<notin> set rs \<Longrightarrow> remove1 h (add_unique h rs) = rs"
  by (simp add: add_unique_def remove1_append)

text \<open>A view in which nothing of the sandbox is left over.\<close>

definition unused :: "string \<Rightarrow> string \<Rightarrow> string \<Rightarrow> PublishedPort list \<Rightarrow> fw_tables \<Rightarrow> bool" where
  "unused sid ip bif ports m \<longleftrightarrow>
     m (''filter'', fwd_chain sid) = None \<and> m (''filter'', in_chain sid) = None \<and>
     (\<forall>c rs r. m (''filter'', c) = Some rs \<and> r \<in> set rs \<longrightarrow> \<not> jumps_to (fwd_chain sid) r \<and> \<not> jumps_to (in_chain sid) r) \<and>
     (\<forall>rs. m (''filter'', ''FORWARD'') = Some rs \<longrightarrow> set rs \<inter> early_rule ip ` set ports = {})"

lemma jumps_hook: "jumps_to (fwd_chain sid) (fwd_hook sid ip)" "jumps_to (in_chain sid) (in_hook sid ip bif)"
  by (simp_all add: fwd_hook_def in_hook_def)

text \<open>The two chains are deleted once they are empty and nothing jumps to them.\<close>

lemma delete_chain_unused:
  assumes "\<forall>c rs r. m (t, c) = Some rs \<and> r \<in> set rs \<longrightarrow> \<not> jumps_to x r" and "m (t, x) = Some []"
  shows "tb_delete_chain (t, x) m = m((t, x) := None)"
  using assms by (auto simp: tb_delete_chain_def tb_referenced_def)

lemma delete_after_apply:
  assumes "unused sid ip bif ports m"
  shows "delete_tables sid ip bif ports (apply_tables ns sid ip cidr bif egress ports m) = m"
proof -
  let ?fwd = "(''filter'', fwd_chain sid)" and ?in = "(''filter'', in_chain sid)"
  let ?m = "tb_clear ?in (tb_clear ?fwd
     (at_chain (''filter'', ''SANDBOX-IN'') (remove1 (in_hook sid ip bif))
     (at_chain (''filter'', ''SANDBOX-FWD'') (remove1 (fwd_hook sid ip))
     (at_chain (''filter'', ''FORWARD'') (fold (\<lambda>p. remove1 (early_rule ip p)) ports)
       (apply_tables ns sid ip cidr bif egress ports m)))))"
  have hooks: "fwd_hook sid ip \<notin> set rs" "in_hook sid ip bif \<notin> set rs" if "m (''filter'', c) = Some rs" for c rs
    using assms that jumps_hook unfolding unused_def by blast+
  have fw: "set rs \<inter> early_rule ip ` set ports = {}" if "m (''filter'', ''FORWARD'') = Some rs" for rs
    using assms that unfolding unused_def by blast
  have m: "?m = m(?fwd \<mapsto> [], ?in \<mapsto> [])"
  proof
    fix k
    show "?m k = (m(?fwd \<mapsto> [], ?in \<mapsto> [])) k"
      by (cases "m k") (auto simp: tb_clear_def at_chain_apply apply_tables_def tb_new_apply hook_restored hooks
          forward_restored fw simp del: fold_simps)
  qed
  have free: "\<forall>c rs r. ?m (''filter'', c) = Some rs \<and> r \<in> set rs \<longrightarrow> \<not> jumps_to (fwd_chain sid) r"
    "\<forall>c rs r. (?m(?fwd := None)) (''filter'', c) = Some rs \<and> r \<in> set rs \<longrightarrow> \<not> jumps_to (in_chain sid) r"
    using assms unfolding unused_def m by (auto split: if_splits)
  have "tb_delete_chain ?fwd ?m = ?m(?fwd := None)" using free(1) by (intro delete_chain_unused) (simp_all add: m)
  moreover have "tb_delete_chain ?in (?m(?fwd := None)) = ?m(?fwd := None, ?in := None)"
    using free(2) by (intro delete_chain_unused) (simp_all add: m)
  ultimately have "delete_tables sid ip bif ports (apply_tables ns sid ip cidr bif egress ports m) = ?m(?fwd := None, ?in := None)"
    by (simp add: delete_tables_def)
  also have "\<dots> = m" using assms unfolding m unused_def by (auto simp: fun_eq_iff)
  finally show ?thesis .
qed

text \<open>
  C33: applying the rules of a sandbox and deleting them again restores all chains
  (\<open>ApplySandboxRules\<close>, \<open>DeleteSandboxRules\<close>): on a correct iptables with the global chains, in which nothing of
  the sandbox is left over, no chain, hook or accepting rule remains and no other rule is lost or moved, whatever
  ports it published.
\<close>

theorem firewall_rules_round_trip:
  assumes "iptables ipt view"
    and "view s (''filter'', ''SANDBOX-FWD'') \<noteq> None" and "view s (''filter'', ''SANDBOX-IN'') \<noteq> None"
    and "unused sid ip bif ports (view s)"
  shows "view (exec (DeleteSandboxRules ipt sid ip bif ports)
      (exec (ApplySandboxRules ipt conf sid ip cidr bif egress ports) s)) = view s"
proof -
  note av = iptables.ApplySandboxRules_view(2) [OF assms(1), OF assms(2,3), of conf sid ip cidr bif egress ports]
  show ?thesis
    unfolding iptables.DeleteSandboxRules_view [OF assms(1)] av by (rule delete_after_apply [OF assms(4)])
qed

theorem firewall_rules_round_trip_witness:
  "map_of (exec (DeleteSandboxRules alist_ipt ''sbx-1'' ''10.89.0.2'' ''sbx0'' [\<lparr> pp_ContainerPort = 80, pp_Protocol = ''tcp'' \<rparr>])
     (exec (ApplySandboxRules alist_ipt [] ''sbx-1'' ''10.89.0.2'' ''10.89.0.0/24'' ''sbx0'' True
       [\<lparr> pp_ContainerPort = 80, pp_Protocol = ''tcp'' \<rparr>]) sample_tables)) = map_of sample_tables"
proof (rule firewall_rules_round_trip [OF alist.iptables_axioms])
  show "unused ''sbx-1'' ''10.89.0.2'' ''sbx0'' [\<lparr> pp_ContainerPort = 80, pp_Protocol = ''tcp'' \<rparr>] (map_of sample_tables)"
    by (auto simp: unused_def sample_tables_def early_rule_def split: if_splits)
qed (simp_all add: sample_tables_def)

section \<open>Published ports: deleting by the listed line\<close>

definition plain_word :: "string \<Rightarrow> bool" where
  "plain_word w \<longleftrightarrow> w \<noteq> [] \<and> list_all plain_char w"

definition plain_rule :: "rule \<Rightarrow> bool" where
  "plain_rule r \<longleftrightarrow> r \<noteq> [] \<and> list_all plain_word r"

lemma plain_not_blank: "plain_char c \<Longrightarrow> \<not> is_blank c"
  by (auto simp: plain_char_def is_blank_def)

lemma blank_space [simp]: "is_blank (CHR '' '')"
  by (simp add: is_blank_def)

lemma takeWhile_plain:
  assumes "list_all plain_char w"
  shows "takeWhile (\<lambda>c. \<not> is_blank c) w = w" and "dropWhile (\<lambda>c. \<not> is_blank c) w = []"
    and "takeWhile (\<lambda>c. \<not> is_blank c) (w @ CHR '' '' # s) = w"
    and "dropWhile (\<lambda>c. \<not> is_blank c) (w @ CHR '' '' # s) = CHR '' '' # s"
proof -
  have nb: "\<not> is_blank c" if "c \<in> set w" for c using that assms plain_not_blank by (simp add: list_all_iff)
  then show "takeWhile (\<lambda>c. \<not> is_blank c) w = w" and "dropWhile (\<lambda>c. \<not> is_blank c) w = []" by simp_all
  show "takeWhile (\<lambda>c. \<not> is_blank c) (w @ CHR '' '' # s) = w" using nb by (subst takeWhile_append2) simp_all
  show "dropWhile (\<lambda>c. \<not> is_blank c) (w @ CHR '' '' # s) = CHR '' '' # s" using nb by (subst dropWhile_append2) simp_all
qed

lemma Fields_blank: "Fields (CHR '' '' # t) = Fields t"
  unfolding Fields.simps [of "CHR '' '' # t"] Fields.simps [of t] by simp

lemma Fields_plain_Cons:
  assumes "plain_word w"
  shows "Fields (w @ CHR '' '' # s) = w # Fields s" and "Fields w = [w]"
proof -
  have pl: "list_all plain_char w" and ne: "w \<noteq> []" using assms by (simp_all add: plain_word_def)
  obtain c cs where w: "w = c # cs" using ne by (cases w) auto
  have "\<not> is_blank c" using pl plain_not_blank by (simp add: w)
  then have drop: "dropWhile is_blank (w @ t) = w @ t" for t by (simp add: w)
  have nil: "Fields [] = []" by (subst Fields.simps) simp
  show "Fields (w @ CHR '' '' # s) = w # Fields s"
    unfolding Fields.simps [of "w @ CHR '' '' # s"] Let_def drop takeWhile_plain [OF pl] Fields_blank using ne by simp
  show "Fields w = [w]"
    unfolding Fields.simps [of w] Let_def using ne drop [of "[]"] by (simp add: takeWhile_plain [OF pl] nil)
qed

lemma Fields_Join: "ws \<noteq> [] \<Longrightarrow> list_all plain_word ws \<Longrightarrow> Fields (Join ws '' '') = ws"
proof (induction ws rule: list_nonempty_induct)
  case (cons w ws)
  then show ?case by (cases ws) (simp_all add: Fields_plain_Cons)
qed (simp add: Fields_plain_Cons)

lemma Join_plain_ends:
  "ws \<noteq> [] \<Longrightarrow> list_all plain_word ws \<Longrightarrow> plain_char (hd (Join ws '' '')) \<and> plain_char (last (Join ws '' '')) \<and> Join ws '' '' \<noteq> []"
proof (induction ws rule: list_nonempty_induct)
  case (single w)
  then show ?case by (auto simp: plain_word_def list_all_iff)
next
  case (cons w ws)
  then obtain v vs where ws: "ws = v # vs" by (cases ws) auto
  have "w \<noteq> []" "plain_char (hd w)" using cons.prems by (auto simp: plain_word_def list_all_iff)
  then show ?case using cons.IH cons.prems by (simp add: ws)
qed

lemma line_fields:
  assumes "plain_word c" and "plain_rule r"
  shows "Fields (TrimSpace (rule_line c r)) = ''-A'' # c # r"
proof -
  have ws: "list_all plain_word (''-A'' # c # r)"
    using assms by (simp add: plain_rule_def) (simp add: plain_word_def plain_char_def)
  then have "TrimSpace (rule_line c r) = rule_line c r"
    unfolding rule_line_def using Join_plain_ends [OF _ ws] by (intro TrimSpace_plain) simp_all
  then show ?thesis using Fields_Join [OF _ ws] by (simp add: rule_line_def)
qed

text \<open>Removing one instance of a rule for every listed instance leaves none.\<close>

definition remove_if :: "(rule \<Rightarrow> bool) \<Rightarrow> rule \<Rightarrow> rule list \<Rightarrow> rule list" where
  "remove_if P r rs = (if P r then remove1 r rs else rs)"

lemma fold_remove_if_facts:
  "filter (\<lambda>x. \<not> P x) (fold (remove_if P) ys xs) = filter (\<lambda>x. \<not> P x) xs \<and>
   (\<forall>x. P x \<longrightarrow> count_list (fold (remove_if P) ys xs) x = count_list xs x - count_list ys x)"
proof (induction ys arbitrary: xs)
  case (Cons y ys)
  have "filter (\<lambda>x. \<not> P x) (remove_if P y xs) = filter (\<lambda>x. \<not> P x) xs"
    using filter_remove1_in [of y "Collect P" xs] by (simp add: remove_if_def)
  then show ?case using Cons [of "remove_if P y xs"] by (auto simp: remove_if_def count_remove1)
qed simp

lemma fold_remove_if: "fold (remove_if P) rs rs = filter (\<lambda>x. \<not> P x) rs"
proof -
  let ?f = "fold (remove_if P) rs rs"
  note f = fold_remove_if_facts [of P rs rs]
  have "\<not> P x" if "x \<in> set ?f" for x
    using f that by (metis count_list_0_iff diff_self_eq_0)
  then have "filter (\<lambda>x. \<not> P x) ?f = ?f" by (intro filter_True) blast
  then show ?thesis using f by simp
qed

context iptables
begin

lemma delete_lines_view:
  assumes "view s (''nat'', c) = Some rs" and "list_all plain_rule rs" and "plain_word c"
  shows "view (exec (delete_lines ipt cond c) s) =
    (view s)((''nat'', c) \<mapsto> filter (\<lambda>r. \<not> cond (rule_line c r) (''-A'' # c # r)) rs)"
proof -
  let ?P = "\<lambda>r. cond (rule_line c r) (''-A'' # c # r)"
  let ?step = "\<lambda>line. let fields = Fields (TrimSpace line) in
      if length fields < 3 \<or> hd fields \<noteq> ''-A'' then ret ()
      else if \<not> cond line fields then ret () else ignore (ipt_Delete ipt ''nat'' c (drop 2 fields))"
  obtain decl where l: "result (ipt_List ipt ''nat'' c) s = Inr (decl @ map (rule_line c) rs)"
    and d: "list_all (\<lambda>l. Fields (TrimSpace l) = [] \<or> hd (Fields (TrimSpace l)) \<noteq> ''-A'') decl"
    using List_lines [OF assms(1)] by blast
  have none: "view (exec (for_each decl ?step) u) = view u" for u
  proof -
    have "view (exec (for_each decl ?step) u) = fold (\<lambda>_ m. m) decl (view u)"
      using d by (intro view_for_each) (auto simp: list_all_iff Let_def)
    also have "fold (\<lambda>_ m. m) xs x = x" for xs :: "string list" and x :: fw_tables by (induction xs) auto
    finally show ?thesis .
  qed
  have step: "view (exec (?step (rule_line c r)) u) = at_chain (''nat'', c) (remove_if ?P r) (view u)" if "r \<in> set rs" for r u
  proof -
    have r: "plain_rule r" using that assms(2) by (simp add: list_all_iff)
    then have "r \<noteq> []" by (simp add: plain_rule_def)
    then show ?thesis
      using line_fields [OF assms(3) r]
      by (auto simp: Let_def view_ignore view_ops tb_at_chain remove_if_def at_chain_def fun_upd_idem split: option.splits)
  qed
  have "view (exec (for_each (map (rule_line c) rs) ?step) u) = at_chain (''nat'', c) (fold (remove_if ?P) rs) (view u)" for u
  proof -
    have "view (exec (for_each (map (rule_line c) xs) ?step) u) = fold (\<lambda>r. at_chain (''nat'', c) (remove_if ?P r)) xs (view u)"
      if "set xs \<subseteq> set rs" for xs u using that
    proof (induction xs arbitrary: u)
      case (Cons x xs)
      then show ?case using step [of x] exec_for_each_Cons [of "rule_line c x" "map (rule_line c) xs" ?step u] by simp
    qed simp
    from this [of rs] show ?thesis by (simp add: fold_at_chain)
  qed
  then have "view (exec (for_each (decl @ map (rule_line c) rs) ?step) (exec (ipt_List ipt ''nat'' c) s)) =
      at_chain (''nat'', c) (fold (remove_if ?P) rs) (view s)"
    by (simp only: run_for_each_append none view_ops)
  then show ?thesis
    using assms(1) by (simp add: delete_lines_def exec_bind l at_chain_def fold_remove_if del: run_state_bind)
qed

end

text \<open>The listed line of a published port carries the tag of every prefix of its sandbox id.\<close>

lemma dnat_line_tag:
  "Contains (rule_line c (dnat_rule (sid @ x) ip f)) (''--comment '' @ hostPortCommentPrefix @ sid)"
  "Contains (rule_line c (dnat_local_rule (sid @ x) ip f)) (''--comment '' @ hostPortCommentPrefix @ sid)"
proof -
  have split: "\<exists>pre post. Join (ws @ ''--comment'' # (p @ sid @ x) # w # vs) '' '' = pre @ (''--comment '' @ p @ sid) @ post" for ws p w vs
  proof (induction ws)
    case (Cons u ws)
    then obtain pre post where "Join (ws @ ''--comment'' # (p @ sid @ x) # w # vs) '' '' = pre @ (''--comment '' @ p @ sid) @ post"
      by blast
    then have "Join ((u # ws) @ ''--comment'' # (p @ sid @ x) # w # vs) '' '' = (u @ '' '' @ pre) @ (''--comment '' @ p @ sid) @ post"
      by (cases ws) simp_all
    then show ?case by blast
  next
    case Nil
    have "Join (''--comment'' # (p @ sid @ x) # w # vs) '' '' = [] @ (''--comment '' @ p @ sid) @ (x @ '' '' @ Join (w # vs) '' '')" by simp
    then show ?case by (metis append_Nil)
  qed
  note s = split [of _ hostPortCommentPrefix "''-j''" "[''DNAT'', ''--to-destination'', ip @ '':'' @ Itoa (hf_ContainerPort f)]"]
  show "Contains (rule_line c (dnat_rule (sid @ x) ip f)) (''--comment '' @ hostPortCommentPrefix @ sid)"
    unfolding Contains_iff rule_line_def dnat_rule_def
    using s [of "[''-A'', c, ''-p'', forward_proto (hf_Protocol f), ''--dport'', Itoa (hf_HostPort f), ''-m'', ''comment'']"] by simp
  show "Contains (rule_line c (dnat_local_rule (sid @ x) ip f)) (''--comment '' @ hostPortCommentPrefix @ sid)"
    unfolding Contains_iff rule_line_def dnat_local_rule_def dnat_rule_def
    using s [of "[''-A'', c, ''-m'', ''addrtype'', ''--dst-type'', ''LOCAL'', ''-p'', forward_proto (hf_Protocol f), ''--dport'',
      Itoa (hf_HostPort f), ''-m'', ''comment'']"] by simp
qed

definition tagged :: "string \<Rightarrow> string \<Rightarrow> rule \<Rightarrow> bool" where
  "tagged sid c r \<longleftrightarrow> Contains (rule_line c r) (''--comment '' @ hostPortCommentPrefix @ sid)"

lemma nat_chain_words: "plain_word ''PREROUTING''" "plain_word ''OUTPUT''"
  by (simp_all add: plain_word_def plain_char_def)

text \<open>
  The cleanup of published ports by sandbox (\<open>DeleteHostPortDNATBySandbox\<close>): of the rules of the nat table,
  whose words are printable, exactly those whose listed line contains the tag of the sandbox are
  removed from \<open>PREROUTING\<close> and \<open>OUTPUT\<close>. All the rules that publish its ports are among them; so are
  those of every sandbox whose id merely starts with the same characters.
\<close>

theorem DeleteHostPortDNATBySandbox_removes_tagged:
  assumes "iptables ipt view"
    and "view s (''nat'', ''PREROUTING'') = Some ps" and "view s (''nat'', ''OUTPUT'') = Some qs"
    and "list_all plain_rule ps" and "list_all plain_rule qs"
  shows "view (exec (DeleteHostPortDNATBySandbox ipt sid) s) =
      (view s)((''nat'', ''PREROUTING'') \<mapsto> filter (\<lambda>r. \<not> tagged sid ''PREROUTING'' r) ps,
               (''nat'', ''OUTPUT'') \<mapsto> filter (\<lambda>r. \<not> tagged sid ''OUTPUT'' r) qs) \<and>
    (\<forall>x ip f. tagged sid ''PREROUTING'' (dnat_rule (sid @ x) ip f) \<and> tagged sid ''OUTPUT'' (dnat_local_rule (sid @ x) ip f))"
proof -
  let ?cond = "\<lambda>line _. Contains line (''--comment '' @ hostPortCommentPrefix @ sid)"
  let ?s = "exec (delete_lines ipt ?cond ''PREROUTING'') s"
  have 1: "view ?s = (view s)((''nat'', ''PREROUTING'') \<mapsto> filter (\<lambda>r. \<not> tagged sid ''PREROUTING'' r) ps)"
    unfolding tagged_def by (rule iptables.delete_lines_view [OF assms(1), OF assms(2,4) nat_chain_words(1)])
  have q: "view ?s (''nat'', ''OUTPUT'') = Some qs" unfolding 1 using assms(3) by simp
  have "view (exec (delete_lines ipt ?cond ''OUTPUT'') ?s) =
      (view ?s)((''nat'', ''OUTPUT'') \<mapsto> filter (\<lambda>r. \<not> tagged sid ''OUTPUT'' r) qs)"
    unfolding tagged_def by (rule iptables.delete_lines_view [OF assms(1), OF q assms(5) nat_chain_words(2)])
  then have "view (exec (DeleteHostPortDNATBySandbox ipt sid) s) =
      (view s)((''nat'', ''PREROUTING'') \<mapsto> filter (\<lambda>r. \<not> tagged sid ''PREROUTING'' r) ps,
               (''nat'', ''OUTPUT'') \<mapsto> filter (\<lambda>r. \<not> tagged sid ''OUTPUT'' r) qs)"
    unfolding DeleteHostPortDNATBySandbox_def Let_def exec_bind 1 .
  then show ?thesis using dnat_line_tag unfolding tagged_def by blast
qed

text \<open>Deleting \<open>sbx-1\<close> unpublishes the port of \<open>sbx-10\<close>.\<close>

definition sample_forward :: HostPortForward where
  "sample_forward = \<lparr> hf_HostPort = 8080, hf_ContainerPort = 80, hf_Protocol = ''tcp'' \<rparr>"

definition sample_nat :: fw_alist where
  "sample_nat = [((''nat'', ''PREROUTING''), [dnat_rule ''sbx-10'' ''10.89.0.3'' sample_forward]), ((''nat'', ''OUTPUT''), [])]"

lemma sample_dnat_plain: "list_all plain_rule [dnat_rule ''sbx-10'' ''10.89.0.3'' sample_forward]"
  by code_simp

theorem DeleteHostPortDNATBySandbox_removes_tagged_witness:
  "map_of (exec (DeleteHostPortDNATBySandbox alist_ipt ''sbx-1'') sample_nat) (''nat'', ''PREROUTING'') = Some []"
proof -
  let ?r = "dnat_rule ''sbx-10'' ''10.89.0.3'' sample_forward"
  have v: "map_of sample_nat (''nat'', ''PREROUTING'') = Some [?r]" "map_of sample_nat (''nat'', ''OUTPUT'') = Some []"
    by (simp_all add: sample_nat_def)
  note d = DeleteHostPortDNATBySandbox_removes_tagged [OF alist.iptables_axioms, OF v sample_dnat_plain, of "''sbx-1''"]
  have "tagged ''sbx-1'' ''PREROUTING'' (dnat_rule (''sbx-1'' @ ''0'') ''10.89.0.3'' sample_forward)" using d by simp
  then show ?thesis using d by simp
qed

text \<open>
  The cleanup of orphaned published ports (\<open>DeleteOrphanHostPortDNAT\<close>): of the rules of the nat table
  exactly those are removed that carry a sandbox comment and whose sandbox is not to be kept. Rules
  of kept sandboxes and rules without such a comment stay, in their order.
\<close>

definition orphan :: "string list \<Rightarrow> string \<Rightarrow> rule \<Rightarrow> bool" where
  "orphan keep c r \<longleftrightarrow> sandboxIDFromRule (''-A'' # c # r) \<noteq> [] \<and> sandboxIDFromRule (''-A'' # c # r) \<notin> set keep"

lemma trim_quotes_tag:
  assumes "CHR 0x22 \<notin> set sid"
  shows "trim_quotes (hostPortCommentPrefix @ sid) = hostPortCommentPrefix @ sid"
proof -
  have d: "dropWhile (\<lambda>c. c = CHR 0x22) w = w" if "CHR 0x22 \<notin> set w" for w
    using that by (cases w) auto
  show ?thesis using assms by (simp add: trim_quotes_def hostPortCommentPrefix_def d)
qed

lemma sandboxIDFromRule_dnat:
  assumes "CHR 0x22 \<notin> set sid" and "forward_proto (hf_Protocol f) \<in> {''tcp'', ''udp''}" and "c \<noteq> ''--comment''"
  shows "sandboxIDFromRule (''-A'' # c # dnat_rule sid ip f) = sid"
proof -
  have "Itoa (hf_HostPort f) \<noteq> ''--comment''"
    using show_digits_sound [of "hf_HostPort f"] show_digits_sound [of "- hf_HostPort f"] by (auto simp: Itoa_def is_digit_def)
  then show ?thesis
    using assms trim_quotes_tag [OF assms(1)] by (auto simp: dnat_rule_def Let_def TrimPrefix_def hostPortCommentPrefix_def)
qed

theorem DeleteOrphanHostPortDNAT_removes_orphans:
  assumes "iptables ipt view"
    and "view s (''nat'', ''PREROUTING'') = Some ps" and "view s (''nat'', ''OUTPUT'') = Some qs"
    and "list_all plain_rule ps" and "list_all plain_rule qs"
    and "CHR 0x22 \<notin> set sid" and "forward_proto (hf_Protocol f) \<in> {''tcp'', ''udp''}" and "sid \<noteq> []"
  shows "view (exec (DeleteOrphanHostPortDNAT ipt keep) s) =
      (view s)((''nat'', ''PREROUTING'') \<mapsto> filter (\<lambda>r. \<not> orphan keep ''PREROUTING'' r) ps,
               (''nat'', ''OUTPUT'') \<mapsto> filter (\<lambda>r. \<not> orphan keep ''OUTPUT'' r) qs) \<and>
    (orphan keep ''PREROUTING'' (dnat_rule sid ip f) \<longleftrightarrow> sid \<notin> set keep)"
proof -
  let ?cond = "\<lambda>_ fields. let i = sandboxIDFromRule fields in i \<noteq> [] \<and> i \<notin> set keep"
  let ?s = "exec (delete_lines ipt ?cond ''PREROUTING'') s"
  have o: "?cond l (''-A'' # c # r) = orphan keep c r" for l c r by (simp add: orphan_def Let_def)
  have 1: "view ?s = (view s)((''nat'', ''PREROUTING'') \<mapsto> filter (\<lambda>r. \<not> orphan keep ''PREROUTING'' r) ps)"
    using iptables.delete_lines_view [OF assms(1), OF assms(2,4) nat_chain_words(1), of ?cond] unfolding o .
  have q: "view ?s (''nat'', ''OUTPUT'') = Some qs" unfolding 1 using assms(3) by simp
  have "view (exec (delete_lines ipt ?cond ''OUTPUT'') ?s) =
      (view ?s)((''nat'', ''OUTPUT'') \<mapsto> filter (\<lambda>r. \<not> orphan keep ''OUTPUT'' r) qs)"
    using iptables.delete_lines_view [OF assms(1), OF q assms(5) nat_chain_words(2), of ?cond] unfolding o .
  then have "view (exec (DeleteOrphanHostPortDNAT ipt keep) s) =
      (view s)((''nat'', ''PREROUTING'') \<mapsto> filter (\<lambda>r. \<not> orphan keep ''PREROUTING'' r) ps,
               (''nat'', ''OUTPUT'') \<mapsto> filter (\<lambda>r. \<not> orphan keep ''OUTPUT'' r) qs)"
    unfolding DeleteOrphanHostPortDNAT_def Let_def exec_bind 1 [unfolded Let_def] .
  then show ?thesis
    using sandboxIDFromRule_dnat [OF assms(6,7), of "''PREROUTING''" ip] assms(8) by (simp add: orphan_def)
qed

theorem DeleteOrphanHostPortDNAT_removes_orphans_witness:
  "map_of (exec (DeleteOrphanHostPortDNAT alist_ipt [''sbx-1'']) sample_nat) (''nat'', ''PREROUTING'') = Some []"
proof -
  let ?r = "dnat_rule ''sbx-10'' ''10.89.0.3'' sample_forward"
  have v: "map_of sample_nat (''nat'', ''PREROUTING'') = Some [?r]" "map_of sample_nat (''nat'', ''OUTPUT'') = Some []"
    by (simp_all add: sample_nat_def)
  have "CHR 0x22 \<notin> set ''sbx-10''" "forward_proto (hf_Protocol sample_forward) \<in> {''tcp'', ''udp''}" "''sbx-10'' \<noteq> []" by code_simp+
  note d = DeleteOrphanHostPortDNAT_removes_orphans [OF alist.iptables_axioms, OF v sample_dnat_plain _ this, of "[''sbx-1'']" "''10.89.0.3''"]
  then show ?thesis by simp
qed

section \<open>Chain names may collide\<close>

text \<open>
  The chains of a sandbox are named after a 32-bit hash of its id. Two valid ids can share it; deleting the rules of one
  then empties the chain that isolates the other, which stays hooked.
\<close>

lemma uint_fnv32a: "uint (fnv32a s) = foldl (\<lambda>h c. (h XOR int (of_char c)) * 16777619 mod 2 ^ 32) 2166136261 s"
proof -
  have "uint (foldl (\<lambda>h c. (h XOR of_nat (of_char c)) * 16777619) w s) =
      foldl (\<lambda>h c. (h XOR int (of_char c)) * 16777619 mod 2 ^ 32) (uint w) s" for w :: "32 word"
  proof (induction s arbitrary: w)
    case (Cons c s)
    have "(of_char c :: nat) < 256" using of_char_mod_256 [of c, where 'a = nat] by (metis mod_less_divisor zero_less_numeral)
    then have "int (of_char c) < int 256" by (rule of_nat_less_iff [THEN iffD2])
    also have "int 256 \<le> 2 ^ 32" by simp
    finally have "int (of_char c) < 2 ^ 32" .
    then have "take_bit 32 (int (of_char c)) = int (of_char c)" by (intro take_bit_int_eq_self) simp_all
    then have "uint (of_nat (of_char c) :: 32 word) = int (of_char c)"
      by (simp add: uint_nat unsigned_of_nat of_nat_take_bit)
    then show ?case using Cons by (simp add: uint_word_ariths uint_xor)
  qed simp
  from this [of 2166136261] show ?thesis by (simp add: fnv32a_def)
qed

theorem chain_name_collision:
  "shortID ''sbx-f1or'' = shortID ''sbx-8tnf'' \<and> ValidateSandboxID ''sbx-f1or'' = None \<and> ValidateSandboxID ''sbx-8tnf'' = None"
proof -
  have "foldl (\<lambda>h c. (h XOR int (of_char c)) * 16777619 mod 2 ^ 32) 2166136261 ''sbx-f1or'' =
      foldl (\<lambda>h c. (h XOR int (of_char c)) * 16777619 mod 2 ^ 32) 2166136261 ''sbx-8tnf''" by simp
  then have "fnv32a ''sbx-f1or'' = fnv32a ''sbx-8tnf''" by (simp add: word_uint_eq_iff uint_fnv32a)
  moreover have "ValidateSandboxID ''sbx-f1or'' = None" and "ValidateSandboxID ''sbx-8tnf'' = None" by code_simp+
  ultimately show ?thesis by (simp add: shortID_def)
qed

end
