(* ===== verification/Let_Options.thy ===== *)
theory Let_Options
  imports Let_Resources
begin

text \<open>
  \<open>sandboxd-let/sandbox/runtime_options.go\<close>: how the options of a validated request become the security
  context and the mounts of a container, and the option strings handed to \<open>mount\<close>.
\<close>

section \<open>Security options\<close>

text \<open>\<open>strings.Cut\<close> with its three results.\<close>

definition Cut3 :: "string \<Rightarrow> string \<Rightarrow> string \<times> string \<times> bool" where
  "Cut3 s sep = (case Cut s sep of Some (a, b) \<Rightarrow> (a, b, True) | None \<Rightarrow> (s, [], False))"

datatype SecurityProfile = RuntimeDefault | Unconfined | Localhost string

record resolvedContainerSecurity =
  rc_Capabilities :: "(string list \<times> string list) option"
  rc_NoNewPrivs :: bool
  rc_Seccomp :: "SecurityProfile option"
  rc_AppArmor :: "SecurityProfile option"

definition resolveSecurityProfile :: "string \<Rightarrow> bool \<Rightarrow> go_error + SecurityProfile" where
  "resolveSecurityProfile val seccomp =
     (let v = TrimSpace val; low = ToLower v in
      if low \<in> set [[], ''runtime/default'', ''runtimedefault'', ''default''] then Inr RuntimeDefault
      else if low = ''unconfined'' then Inr Unconfined
      else if HasPrefix v ''localhost/'' then
        (let ref = TrimPrefix v ''localhost/'' in
         if seccomp \<and> \<not> HasPrefix ref ''/'' then Inl (Errorf ''localhost seccomp profile must use an absolute path'' [])
         else if TrimSpace ref = [] then Inl (Errorf ''localhost profile reference is empty'' [])
         else Inr (Localhost ref))
      else Inl (Errorf ''unsupported profile value %q'' [Quo val]))"

definition security_option :: "string \<Rightarrow> string \<times> string" where
  "security_option raw =
     (let (key0, val0, _) = Cut3 raw ''='';
          (key, val) = (if TrimSpace val0 = [] then (let (k, v, _) = Cut3 raw '':'' in (k, v)) else (key0, val0))
      in (ToLower (TrimSpace key), TrimSpace val))"

definition apply_security_opt ::
  "resolvedContainerSecurity \<Rightarrow> string \<Rightarrow> go_error + resolvedContainerSecurity" where
  "apply_security_opt out raw =
     (let (key, val) = security_option raw in
      if key = ''no-new-privileges'' then
        (case ParseBool val of
           None \<Rightarrow> Inl (Errorf ''invalid security_opt %q'' [Quo raw])
         | Some v \<Rightarrow> Inr (out\<lparr> rc_NoNewPrivs := v \<rparr>))
      else if key = ''seccomp'' then
        (case resolveSecurityProfile val True of Inl err \<Rightarrow> Inl err | Inr profile \<Rightarrow> Inr (out\<lparr> rc_Seccomp := Some profile \<rparr>))
      else if key = ''apparmor'' then
        (case resolveSecurityProfile val False of Inl err \<Rightarrow> Inl err | Inr profile \<Rightarrow> Inr (out\<lparr> rc_AppArmor := Some profile \<rparr>))
      else Inl (Errorf ''unsupported security_opt %q'' [Quo raw]))"

text \<open>A loop over options that returns on the first error.\<close>

fun fold_err :: "('s \<Rightarrow> 'a \<Rightarrow> go_error + 's) \<Rightarrow> 's \<Rightarrow> 'a list \<Rightarrow> go_error + 's" where
  "fold_err f s [] = Inr s"
| "fold_err f s (x # xs) = (case f s x of Inl err \<Rightarrow> Inl err | Inr s' \<Rightarrow> fold_err f s' xs)"

definition resolveContainerSecurityOptions :: "CreateContainerRequest \<Rightarrow> go_error + resolvedContainerSecurity" where
  "resolveContainerSecurityOptions c =
     fold_err apply_security_opt
       \<lparr> rc_Capabilities = (if length (cc_CapAdd c) > 0 \<or> length (cc_CapDrop c) > 0 then Some (cc_CapAdd c, cc_CapDrop c) else None),
          rc_NoNewPrivs = True, rc_Seccomp = Some RuntimeDefault, rc_AppArmor = None \<rparr>
       (cc_SecurityOpt c)"

section \<open>tmpfs mounts\<close>

record resolvedTmpfsMount =
  rt_MountPath :: string
  rt_ReadOnly :: bool
  rt_SizeBytes :: int
  rt_Mode :: string
  rt_NoSuid :: bool
  rt_NoDev :: bool
  rt_NoExec :: bool

definition let_parseByteSize :: "quantity_parser \<Rightarrow> string \<Rightarrow> go_error + int" where
  "let_parseByteSize pq raw =
     (let v = TrimSpace raw in
      if v = [] then Inl (Errorf ''size is required'' [])
      else let low = ToLower v in
      case find (\<lambda>(suffix, scale). HasSuffix low suffix) size_suffixes of
        Some (suffix, scale) \<Rightarrow>
          (let num = TrimSpace (take (length v - length suffix) v) in
           if num = [] then Inl (Errorf ''size is required'' [])
           else (case ParseInt64 num of
               Some n \<Rightarrow> if n \<le> 0 then Inl (Errorf ''invalid size %q'' [Quo raw]) else Inr (i64 (n * scale))
             | None \<Rightarrow> Inl (Errorf ''invalid size %q'' [Quo raw])))
      | None \<Rightarrow>
          (let fallback =
             (case ParseInt64 v of
                Some n \<Rightarrow> if n \<le> 0 then Inl (Errorf ''invalid size %q'' [Quo raw]) else Inr n
              | None \<Rightarrow> Inl (Errorf ''invalid size %q'' [Quo raw]))
           in (case let_parseMemoryBytes pq v of
                 Inr bytes \<Rightarrow> if bytes > 0 then Inr bytes else fallback
               | Inl _ \<Rightarrow> fallback)))"

definition tmpfs_option :: "quantity_parser \<Rightarrow> resolvedTmpfsMount \<Rightarrow> string \<Rightarrow> go_error + resolvedTmpfsMount" where
  "tmpfs_option pq out token =
     (let part = TrimSpace token in
      if part = [] \<or> part = ''rw'' then Inr out
      else if part = ''ro'' then Inr (out\<lparr> rt_ReadOnly := True \<rparr>)
      else if part = ''nosuid'' then Inr (out\<lparr> rt_NoSuid := True \<rparr>)
      else if part = ''suid'' then Inr (out\<lparr> rt_NoSuid := False \<rparr>)
      else if part = ''nodev'' then Inr (out\<lparr> rt_NoDev := True \<rparr>)
      else if part = ''dev'' then Inr (out\<lparr> rt_NoDev := False \<rparr>)
      else if part = ''noexec'' then Inr (out\<lparr> rt_NoExec := True \<rparr>)
      else if part = ''exec'' then Inr (out\<lparr> rt_NoExec := False \<rparr>)
      else
        let (key0, val0, ok0) = Cut3 part ''='';
            (key, val, ok) = (if \<not> ok0 then Cut3 part '':'' else (key0, val0, ok0)) in
        if \<not> ok then Inl (Errorf ''unsupported option %q'' [Quo part])
        else let k = ToLower (TrimSpace key) in
        if k = ''mode'' then Inr (out\<lparr> rt_Mode := TrimSpace val \<rparr>)
        else if k = ''size'' then
          (case let_parseByteSize pq (TrimSpace val) of
             Inl _ \<Rightarrow> Inl (Errorf ''invalid size %q'' [Quo val])
           | Inr bytes \<Rightarrow> Inr (out\<lparr> rt_SizeBytes := bytes \<rparr>))
        else Inl (Errorf ''unsupported option %q'' [Quo part]))"

definition resolveTmpfsMountSpec :: "quantity_parser \<Rightarrow> TmpfsMount \<Rightarrow> go_error + resolvedTmpfsMount" where
  "resolveTmpfsMountSpec pq inp =
     (let out = \<lparr> rt_MountPath = TrimSpace (tm_MountPath inp), rt_ReadOnly = False, rt_SizeBytes = 0, rt_Mode = ''1777'',
                   rt_NoSuid = True, rt_NoDev = True, rt_NoExec = False \<rparr> in
      if rt_MountPath out = [] then Inl (Errorf ''mountPath is required'' [])
      else if TrimSpace (tm_Options inp) = [] then Inr out
      else fold_err (tmpfs_option pq) out (Split (tm_Options inp) (CHR '','')))"

text \<open>The option strings of the two calls of \<open>mount\<close>.\<close>

definition tmpfs_mount_options :: "resolvedTmpfsMount \<Rightarrow> string" where
  "tmpfs_mount_options spec =
     Join ([''mode='' @ rt_Mode spec] @ (if rt_SizeBytes spec > 0 then [''size='' @ Itoa (rt_SizeBytes spec)] else []) @
       (if rt_NoSuid spec then [''nosuid''] else []) @ (if rt_NoDev spec then [''nodev''] else []) @
       (if rt_NoExec spec then [''noexec''] else [])) '',''"

definition remount_options :: "bool \<Rightarrow> bool \<Rightarrow> bool \<Rightarrow> bool \<Rightarrow> string" where
  "remount_options readOnly noSuid noDev noExec =
     Join ([''remount'', ''bind''] @ (if readOnly then [''ro''] else [''rw'']) @ (if noSuid then [''nosuid''] else []) @
       (if noDev then [''nodev''] else []) @ (if noExec then [''noexec''] else [])) '',''"

section \<open>Lemmas: both copies of the size parser agree\<close>

lemma let_parseMemoryBytes_trimmed:
  "TrimSpace v = v \<Longrightarrow> v \<noteq> [] \<Longrightarrow> let_parseMemoryBytes pq v =
     (case pq v of Inl _ \<Rightarrow> Inl (Errorf ''invalid memory: %s'' [Str v])
      | Inr q \<Rightarrow> if q_Value q \<le> 0 then Inl (Errorf ''invalid memory: %s'' [Str v]) else Inr (q_Value q))"
  by (simp add: let_parseMemoryBytes_def)

lemma let_parseByteSize_eq: "let_parseByteSize pq raw = parseByteSize pq raw"
proof -
  have "(case let_parseMemoryBytes pq v of Inr bytes \<Rightarrow> if bytes > 0 then Inr bytes else fb | Inl _ \<Rightarrow> fb) =
      (case pq v of Inr q \<Rightarrow> if q_Value q > 0 then Inr (q_Value q) else fb | Inl _ \<Rightarrow> fb)"
    if "v = TrimSpace raw" "v \<noteq> []" for v and fb :: "go_error + int"
    using that by (auto simp: let_parseMemoryBytes_trimmed split: sum.splits)
  then show ?thesis
    unfolding let_parseByteSize_def parseByteSize_def Let_def by (simp cong: option.case_cong)
qed

section \<open>Lemmas: tmpfs options\<close>

text \<open>What a validated option says: the flags are the trimmed parts themselves, sizes and modes are values.\<close>

definition flag_value :: "string \<Rightarrow> string \<Rightarrow> string list \<Rightarrow> bool list" where
  "flag_value on off ps = map (\<lambda>p. p = on) (filter (\<lambda>p. p = on \<or> p = off) ps)"

definition option_values :: "string \<Rightarrow> string list \<Rightarrow> string list" where
  "option_values k ps =
     map (\<lambda>p. snd (the (splitOption p)))
       (filter (\<lambda>p. p \<notin> set tmpfs_flags \<and> splitOption p \<noteq> None \<and> ToLower (fst (the (splitOption p))) = k) ps)"

definition size_value :: "quantity_parser \<Rightarrow> string \<Rightarrow> int" where
  "size_value pq v = (case parseByteSize pq v of Inr n \<Rightarrow> n | Inl _ \<Rightarrow> 0)"

text \<open>The last setting wins, over the given start.\<close>

definition tmpfs_settings :: "quantity_parser \<Rightarrow> resolvedTmpfsMount \<Rightarrow> string list \<Rightarrow> resolvedTmpfsMount" where
  "tmpfs_settings pq out ps =
     \<lparr> rt_MountPath = rt_MountPath out,
        rt_ReadOnly = (rt_ReadOnly out \<or> ''ro'' \<in> set ps),
        rt_SizeBytes = last (rt_SizeBytes out # map (size_value pq) (option_values ''size'' ps)),
        rt_Mode = last (rt_Mode out # option_values ''mode'' ps),
        rt_NoSuid = last (rt_NoSuid out # flag_value ''nosuid'' ''suid'' ps),
        rt_NoDev = last (rt_NoDev out # flag_value ''nodev'' ''dev'' ps),
        rt_NoExec = last (rt_NoExec out # flag_value ''noexec'' ''exec'' ps) \<rparr>"

lemma tmpfs_settings_Cons:
  "tmpfs_settings pq out (p # ps) = tmpfs_settings pq (tmpfs_settings pq out [p]) ps"
proof -
  have last2: "last (last (x # as) # bs) = last (x # as @ bs)" for x :: 'a and as bs by simp
  have fv: "flag_value on off (p # ps) = flag_value on off [p] @ flag_value on off ps" for on off
    by (simp add: flag_value_def)
  have ov: "option_values k (p # ps) = option_values k [p] @ option_values k ps" for k
    by (simp add: option_values_def)
  show ?thesis
    unfolding tmpfs_settings_def fv [of _ _] ov [of _] by (simp del: last.simps add: last2)
qed

lemma splitOption_Cut3:
  assumes "splitOption part = Some (k, v)"
  shows "\<exists>key val. (let (key0, val0, ok0) = Cut3 part ''=''
                    in (if \<not> ok0 then Cut3 part '':'' else (key0, val0, ok0))) = (key, val, True)
    \<and> k = TrimSpace key \<and> v = TrimSpace val"
  using assms by (auto simp: splitOption_def Cut3_def split: option.splits)

lemma splitOption_trimmed: "splitOption part = Some (k, v) \<Longrightarrow> TrimSpace k = k \<and> TrimSpace v = v"
  by (auto simp: splitOption_def split: option.splits)

lemma validated_tmpfs_option_step:
  assumes "validateTmpfsOption pq item = None"
  shows "tmpfs_option pq out item = Inr (tmpfs_settings pq out [TrimSpace item])"
proof (cases "TrimSpace item \<in> set tmpfs_flags")
  case True
  then show ?thesis
    by (auto simp: tmpfs_flags_def tmpfs_option_def tmpfs_settings_def flag_value_def option_values_def Let_def)
next
  case False
  let ?p = "TrimSpace item"
  obtain k v where s: "splitOption ?p = Some (k, v)"
    using assms False by (auto simp: validateTmpfsOption_def Let_def split: option.splits if_splits)
  obtain key val where c: "(let (key0, val0, ok0) = Cut3 ?p ''=''
      in (if \<not> ok0 then Cut3 ?p '':'' else (key0, val0, ok0))) = (key, val, True)"
    and kv: "k = TrimSpace key" "v = TrimSpace val"
    using splitOption_Cut3 [OF s] by blast
  have ne: "?p \<noteq> []" using assms by (auto simp: validateTmpfsOption_def)
  have c': "(if \<not> snd (snd (Cut3 ?p ''='')) then Cut3 ?p '':'' else Cut3 ?p ''='') = (key, val, True)"
    using c by (auto simp: Let_def split: prod.splits)
  have opt: "tmpfs_option pq out item =
      (if ToLower k = ''mode'' then Inr (out\<lparr> rt_Mode := v \<rparr>)
       else if ToLower k = ''size'' then
         (case parseByteSize pq v of Inl _ \<Rightarrow> Inl (Errorf ''invalid size %q'' [Quo val]) | Inr n \<Rightarrow> Inr (out\<lparr> rt_SizeBytes := n \<rparr>))
       else Inl (Errorf ''unsupported option %q'' [Quo ?p]))"
    using False ne c' by (auto simp: tmpfs_option_def Let_def tmpfs_flags_def let_parseByteSize_eq kv split: prod.splits)
  have "ToLower k = ''mode'' \<or> (ToLower k = ''size'' \<and> (\<exists>n. parseByteSize pq v = Inr n))"
    using assms False s splitOption_trimmed [OF s]
    by (auto simp: validateTmpfsOption_def Let_def split: option.splits if_splits sum.splits)
  then show ?thesis
    using False s by (auto simp: opt tmpfs_settings_def flag_value_def option_values_def size_value_def tmpfs_flags_def)
qed

lemma validated_tmpfs_options:
  "list_all (\<lambda>i. validateTmpfsOption pq i = None) items \<Longrightarrow>
   fold_err (tmpfs_option pq) out items = Inr (tmpfs_settings pq out (map TrimSpace items))"
proof (induction items arbitrary: out)
  case Nil
  then show ?case by (simp add: tmpfs_settings_def flag_value_def option_values_def)
next
  case (Cons i items)
  then show ?case
    using tmpfs_settings_Cons [of pq out "TrimSpace i" "map TrimSpace items"] by (simp add: validated_tmpfs_option_step)
qed

lemma validated_mode:
  assumes "list_all (\<lambda>i. validateTmpfsOption pq i = None) items" and "m \<in> set (option_values ''mode'' (map TrimSpace items))"
  shows "ParseUintOctal32 m \<noteq> None"
proof -
  obtain i k where i: "i \<in> set items" "TrimSpace i \<notin> set tmpfs_flags" "splitOption (TrimSpace i) = Some (k, m)" "ToLower k = ''mode''"
    using assms(2) by (auto simp: option_values_def)
  then have "validateTmpfsOption pq i = None" using assms(1) by (simp add: list_all_iff)
  then show ?thesis using i by (auto simp: validateTmpfsOption_def Let_def split: option.splits if_splits)
qed

lemma default_mode: "ParseUintOctal32 ''1777'' \<noteq> None"
  by code_simp

text \<open>The settings of a mount whose options are empty or a comma-separated list.\<close>

definition option_parts :: "string \<Rightarrow> string list" where
  "option_parts opts = (if TrimSpace opts = [] then [] else map TrimSpace (Split opts (CHR '','')))"

definition default_tmpfs :: "string \<Rightarrow> resolvedTmpfsMount" where
  "default_tmpfs path = \<lparr> rt_MountPath = TrimSpace path, rt_ReadOnly = False, rt_SizeBytes = 0, rt_Mode = ''1777'',
     rt_NoSuid = True, rt_NoDev = True, rt_NoExec = False \<rparr>"

text \<open>
  The options of a tmpfs that the request validation accepts always resolve, and to what they
  say: no set-uid programs and no devices unless the last such flag asks for them, read-only as soon as \<open>ro\<close>
  occurs (a later \<open>rw\<close> does not undo it), the size and the mode given last. The mode is then an octal
  number, so that it cannot smuggle further options into the argument of \<open>mount\<close>.
\<close>

theorem validated_tmpfs_resolves:
  assumes "validateTmpfsOptions pq (tm_Options t) = None" and "TrimSpace (tm_MountPath t) \<noteq> []"
  shows "resolveTmpfsMountSpec pq t = Inr (tmpfs_settings pq (default_tmpfs (tm_MountPath t)) (option_parts (tm_Options t))) \<and>
    ParseUintOctal32 (rt_Mode (tmpfs_settings pq (default_tmpfs (tm_MountPath t)) (option_parts (tm_Options t)))) \<noteq> None"
proof (cases "TrimSpace (tm_Options t) = []")
  case True
  then show ?thesis using assms(2)
    by (simp add: resolveTmpfsMountSpec_def default_tmpfs_def tmpfs_settings_def option_parts_def flag_value_def
        option_values_def default_mode)
next
  case False
  let ?items = "Split (tm_Options t) (CHR '','')" and ?d = "default_tmpfs (tm_MountPath t)"
  have v: "list_all (\<lambda>i. validateTmpfsOption pq i = None) ?items"
    using assms(1) False by (simp add: validateTmpfsOptions_def)
  have "resolveTmpfsMountSpec pq t = Inr (tmpfs_settings pq ?d (map TrimSpace ?items))"
    using validated_tmpfs_options [OF v, of ?d] False assms(2) by (simp add: resolveTmpfsMountSpec_def default_tmpfs_def)
  moreover have "ParseUintOctal32 m \<noteq> None" if "m \<in> set (''1777'' # option_values ''mode'' (map TrimSpace ?items))" for m
    using that validated_mode [OF v] default_mode by auto
  then have "ParseUintOctal32 (last (''1777'' # option_values ''mode'' (map TrimSpace ?items))) \<noteq> None"
    using last_in_set [of "''1777'' # option_values ''mode'' (map TrimSpace ?items)"] by blast
  ultimately show ?thesis
    using False by (simp add: option_parts_def tmpfs_settings_def default_tmpfs_def)
qed

definition sample_tmpfs :: TmpfsMount where
  "sample_tmpfs = \<lparr> tm_MountPath = ''/scratch'', tm_Options = ''rw, nosuid,suid,size=64Mi,mode=0700'' \<rparr>"

theorem validated_tmpfs_resolves_witness:
  "resolveTmpfsMountSpec plain_pq sample_tmpfs = Inr \<lparr> rt_MountPath = ''/scratch'', rt_ReadOnly = False,
     rt_SizeBytes = 67108864, rt_Mode = ''0700'', rt_NoSuid = False, rt_NoDev = True, rt_NoExec = False \<rparr>"
proof -
  have "validateTmpfsOptions plain_pq (tm_Options sample_tmpfs) = None" and "TrimSpace (tm_MountPath sample_tmpfs) \<noteq> []"
    by code_simp+
  then have "resolveTmpfsMountSpec plain_pq sample_tmpfs =
      Inr (tmpfs_settings plain_pq (default_tmpfs (tm_MountPath sample_tmpfs)) (option_parts (tm_Options sample_tmpfs)))"
    using validated_tmpfs_resolves by blast
  also have "\<dots> = Inr \<lparr> rt_MountPath = ''/scratch'', rt_ReadOnly = False,
     rt_SizeBytes = 67108864, rt_Mode = ''0700'', rt_NoSuid = False, rt_NoDev = True, rt_NoExec = False \<rparr>"
    by code_simp
  finally show ?thesis .
qed

section \<open>Security options resolve to what they say\<close>

text \<open>Reading an option with the splitter of the validation.\<close>

definition opt_key :: "string \<Rightarrow> string" where
  "opt_key opt = (case splitOption opt of Some (k, _) \<Rightarrow> ToLower k | None \<Rightarrow> [])"

definition opt_value :: "string \<Rightarrow> string" where
  "opt_value opt = (case splitOption opt of Some (_, v) \<Rightarrow> v | None \<Rightarrow> [])"

definition opt_values :: "string \<Rightarrow> string list \<Rightarrow> string list" where
  "opt_values k opts = map opt_value (filter (\<lambda>opt. opt_key opt = k) opts)"

text \<open>A profile is one of the known names or a \<open>localhost/\<close> reference, absolute in the case of seccomp.\<close>

fun known_profile :: "bool \<Rightarrow> string \<Rightarrow> SecurityProfile option" where
  "known_profile seccomp v =
     (if ToLower v \<in> set [''runtime/default'', ''runtimedefault'', ''default''] then Some RuntimeDefault
      else if ToLower v = ''unconfined'' then Some Unconfined
      else if HasPrefix v ''localhost/'' \<and> \<not> (seccomp \<and> \<not> HasPrefix (drop 10 v) ''/'') \<and> TrimSpace (drop 10 v) \<noteq> []
        then Some (Localhost (drop 10 v))
      else None)"

lemma resolveSecurityProfile_known:
  assumes "TrimSpace v = v" and "ToLower v \<noteq> []"
  shows "resolveSecurityProfile v seccomp = Inr p \<longleftrightarrow> known_profile seccomp v = Some p"
    and "(\<exists>e. resolveSecurityProfile v seccomp = Inl e) \<longleftrightarrow> known_profile seccomp v = None"
proof -
  have drop: "TrimPrefix v ''localhost/'' = drop 10 v" if "HasPrefix v ''localhost/''"
    using that by (simp add: TrimPrefix_def numeral_eq_Suc)
  show "resolveSecurityProfile v seccomp = Inr p \<longleftrightarrow> known_profile seccomp v = Some p"
    and "(\<exists>e. resolveSecurityProfile v seccomp = Inl e) \<longleftrightarrow> known_profile seccomp v = None"
    using assms by (auto simp: resolveSecurityProfile_def Let_def drop)
qed

lemma ToLower_Nil_iff: "ToLower s = [] \<longleftrightarrow> s = []"
  by (induction s rule: ToLower.induct) auto

lemma validated_security_option:
  assumes "validateSecurityOpt opt = None" and "TrimSpace opt = opt"
  shows "security_option opt = (opt_key opt, opt_value opt)" and "opt_value opt \<noteq> []" and "TrimSpace (opt_value opt) = opt_value opt"
    and "opt_key opt = ''no-new-privileges'' \<and> ParseBool (opt_value opt) \<noteq> None \<or> opt_key opt = ''seccomp'' \<or> opt_key opt = ''apparmor''"
proof -
  obtain k v where s: "splitOption opt = Some (k, v)"
    using assms by (auto simp: validateSecurityOpt_def Let_def split: option.splits if_splits)
  note tr = splitOption_trimmed [OF s]
  have v: "v \<noteq> []"
    using assms s tr by (auto simp: validateSecurityOpt_def Let_def ParseBool_def split: option.splits if_splits)
  then show "opt_value opt \<noteq> []" and "TrimSpace (opt_value opt) = opt_value opt" using s tr by (auto simp: opt_value_def)
  show "security_option opt = (opt_key opt, opt_value opt)"
    using s v by (auto simp: security_option_def splitOption_def Cut3_def opt_key_def opt_value_def Let_def split: option.splits)
  show "opt_key opt = ''no-new-privileges'' \<and> ParseBool (opt_value opt) \<noteq> None \<or> opt_key opt = ''seccomp'' \<or> opt_key opt = ''apparmor''"
    using assms s tr by (auto simp: validateSecurityOpt_def opt_key_def opt_value_def Let_def split: option.splits if_splits)
qed

text \<open>Does every profile of the options exist? The last setting wins, over the given start.\<close>

definition profile_known :: "string \<Rightarrow> bool" where
  "profile_known opt \<longleftrightarrow>
     (if opt_key opt = ''seccomp'' then known_profile True (opt_value opt) \<noteq> None
      else if opt_key opt = ''apparmor'' then known_profile False (opt_value opt) \<noteq> None else True)"

definition security_settings :: "resolvedContainerSecurity \<Rightarrow> string list \<Rightarrow> resolvedContainerSecurity" where
  "security_settings out opts = out\<lparr>
     rc_NoNewPrivs := last (rc_NoNewPrivs out # map (the \<circ> ParseBool) (opt_values ''no-new-privileges'' opts)),
     rc_Seccomp := last (rc_Seccomp out # map (known_profile True) (opt_values ''seccomp'' opts)),
     rc_AppArmor := last (rc_AppArmor out # map (known_profile False) (opt_values ''apparmor'' opts)) \<rparr>"

lemma security_settings_Cons: "security_settings out (opt # opts) = security_settings (security_settings out [opt]) opts"
proof -
  have last2: "last (last (x # as) # bs) = last (x # as @ bs)" for x :: 'a and as bs by simp
  have ov: "opt_values k (opt # opts) = opt_values k [opt] @ opt_values k opts" for k
    by (simp add: opt_values_def)
  show ?thesis unfolding security_settings_def ov [of _] by (simp del: last.simps add: last2)
qed

lemma apply_validated:
  assumes "validateSecurityOpt opt = None" and "TrimSpace opt = opt"
  shows "if profile_known opt then apply_security_opt out opt = Inr (security_settings out [opt])
    else \<exists>e. apply_security_opt out opt = Inl e"
proof -
  note v = validated_security_option [OF assms]
  have low: "ToLower (opt_value opt) \<noteq> []" using v(2) by (simp add: ToLower_Nil_iff)
  note prof = resolveSecurityProfile_known [OF v(3) low]
  have "\<exists>e. resolveSecurityProfile (opt_value opt) b = (case known_profile b (opt_value opt) of Some p \<Rightarrow> Inr p | None \<Rightarrow> Inl e)" for b
    using prof [of b] by (cases "resolveSecurityProfile (opt_value opt) b") (auto simp del: known_profile.simps split: option.split)
  then obtain e where prof': "resolveSecurityProfile (opt_value opt) b =
      (case known_profile b (opt_value opt) of Some p \<Rightarrow> Inr p | None \<Rightarrow> Inl (e b))" for b by metis
  from v(4) consider "opt_key opt = ''no-new-privileges''" "ParseBool (opt_value opt) \<noteq> None"
    | "opt_key opt = ''seccomp''" | "opt_key opt = ''apparmor''" by blast
  then show ?thesis
    by cases (auto simp: apply_security_opt_def v(1) profile_known_def security_settings_def opt_values_def prof'
        simp del: known_profile.simps split: option.splits)
qed

lemma apply_all_validated:
  "list_all (\<lambda>opt. validateSecurityOpt opt = None \<and> TrimSpace opt = opt) opts \<Longrightarrow>
   if list_all profile_known opts then fold_err apply_security_opt out opts = Inr (security_settings out opts)
   else \<exists>e. fold_err apply_security_opt out opts = Inl e"
proof (induction opts arbitrary: out)
  case (Cons opt opts)
  then show ?case
    using apply_validated [of opt out] security_settings_Cons [of out opt opts] by (auto split: if_splits)
qed (simp add: security_settings_def opt_values_def)

text \<open>
  Security options. For a container whose (trimmed) options the validation accepts, the runtime resolves
  them exactly when every seccomp and apparmor profile is known, and then to what they say: new
  privileges stay forbidden and seccomp stays at the runtime's default profile unless the last
  option for them says otherwise, apparmor is set only when asked for, and the capabilities are
  those of the request.
\<close>

theorem security_options_resolve:
  assumes "list_all (\<lambda>opt. validateSecurityOpt opt = None \<and> TrimSpace opt = opt) (cc_SecurityOpt c)"
  shows "if list_all profile_known (cc_SecurityOpt c)
    then \<exists>r. resolveContainerSecurityOptions c = Inr r \<and>
      rc_NoNewPrivs r = last (True # map (the \<circ> ParseBool) (opt_values ''no-new-privileges'' (cc_SecurityOpt c))) \<and>
      rc_Seccomp r = last (Some RuntimeDefault # map (known_profile True) (opt_values ''seccomp'' (cc_SecurityOpt c))) \<and>
      rc_AppArmor r = last (None # map (known_profile False) (opt_values ''apparmor'' (cc_SecurityOpt c))) \<and>
      rc_Capabilities r = (if cc_CapAdd c @ cc_CapDrop c = [] then None else Some (cc_CapAdd c, cc_CapDrop c))
    else \<exists>e. resolveContainerSecurityOptions c = Inl e"
proof (cases "list_all profile_known (cc_SecurityOpt c)")
  case True
  then show ?thesis
    using apply_all_validated [OF assms] unfolding resolveContainerSecurityOptions_def
    by (simp add: security_settings_def del: known_profile.simps last.simps)
next
  case False
  then show ?thesis using apply_all_validated [OF assms] unfolding resolveContainerSecurityOptions_def by simp
qed

definition sample_secured :: CreateContainerRequest where
  "sample_secured = sample_container\<lparr> cc_SecurityOpt := [''no-new-privileges:false'', ''Seccomp=unconfined'', ''apparmor=localhost/web''] \<rparr>"

theorem security_options_resolve_witness:
  "\<exists>r. resolveContainerSecurityOptions sample_secured = Inr r \<and> rc_NoNewPrivs r = False \<and> rc_Seccomp r = Some Unconfined"
proof -
  have "list_all (\<lambda>opt. validateSecurityOpt opt = None \<and> TrimSpace opt = opt) (cc_SecurityOpt sample_secured)"
    and known: "list_all profile_known (cc_SecurityOpt sample_secured)"
    by code_simp+
  moreover have "last (True # map (the \<circ> ParseBool) (opt_values ''no-new-privileges'' (cc_SecurityOpt sample_secured))) = False"
    and "last (Some RuntimeDefault # map (known_profile True) (opt_values ''seccomp'' (cc_SecurityOpt sample_secured))) = Some Unconfined"
    by code_simp+
  ultimately show ?thesis
    using security_options_resolve [of sample_secured] by (simp only: if_True) metis
qed

end
