(* ===== verification/Let_Paths.thy ===== *)
theory Let_Paths
  imports Let_Model
begin

text \<open>
  The host paths sbxlet builds from request data: the directories of tmpfs and volume mounts and the
  guard \<open>isWithinBase\<close> (\<open>sandboxd-let/sandbox/runtime.go\<close>, \<open>runtime_options.go\<close>), the cgroup of a sandbox,
  its lock file (\<open>lock.go\<close>) and its state file (\<open>sandboxd-let/store/file_store.go\<close>).
\<close>

section \<open>path/filepath\<close>

text \<open>\<open>filepath.Join\<close>: the elements from the first non-empty one on, cleaned.\<close>

definition filepath_Join :: "string list \<Rightarrow> string" where
  "filepath_Join elem = (let els = dropWhile (\<lambda>e. e = []) elem in if els = [] then [] else Clean (Join els ''/''))"

definition path_elems :: "string \<Rightarrow> string list" where
  "path_elems p = filter (\<lambda>e. e \<noteq> []) (Split p (CHR ''/''))"

fun strip_common :: "string list \<Rightarrow> string list \<Rightarrow> string list \<times> string list" where
  "strip_common (b # bs) (t # ts) = (if b = t then strip_common bs ts else (b # bs, t # ts))"
| "strip_common bs ts = (bs, ts)"

text \<open>
  \<open>filepath.Rel\<close> on Unix: what is left of the target after the common elements, below as many \<open>..\<close> as the
  base has elements left. \<open>None\<close> is a non-nil error.
\<close>

definition filepath_Rel :: "string \<Rightarrow> string \<Rightarrow> string option" where
  "filepath_Rel basepath targpath =
     (let base = Clean basepath; targ = Clean targpath in
      if targ = base then Some ''.''
      else let base1 = (if base = ''.'' then [] else base) in
      if HasPrefix base1 ''/'' \<noteq> HasPrefix targ ''/'' then None
      else (case strip_common (path_elems base1) (path_elems targ) of
          (bs, ts) \<Rightarrow> if bs \<noteq> [] \<and> hd bs = ''..'' then None
                     else Some (Join (replicate (length bs) ''..'' @ ts) ''/'')))"

section \<open>The paths\<close>

definition isWithinBase :: "string \<Rightarrow> string \<Rightarrow> bool" where
  "isWithinBase base target =
     (let cleanBase = Clean base; cleanTarget = Clean target in
      if cleanTarget = cleanBase then True
      else (case filepath_Rel cleanBase cleanTarget of
          None \<Rightarrow> False
        | Some rel \<Rightarrow> rel \<noteq> ''..'' \<and> \<not> HasPrefix rel (''..'' @ ''/'')))"

definition safeCgroupNameRe :: "string \<Rightarrow> bool" where "safeCgroupNameRe s = name_re 127 s"

definition sandboxTmpfsRoot :: "string \<Rightarrow> string \<Rightarrow> string" where
  "sandboxTmpfsRoot stateBaseDir sandboxID = filepath_Join [stateBaseDir, sandboxID, ''tmpfs'']"

definition sandboxVolumesRoot :: "string \<Rightarrow> string \<Rightarrow> string" where
  "sandboxVolumesRoot stateBaseDir sandboxID = filepath_Join [stateBaseDir, sandboxID, ''volumes'']"

text \<open>
  The guards of the three mount functions, up to the first change of the file system: an error, or
  the directories that are then made and mounted (no directory when there is nothing to mount).
\<close>

definition tmpfs_mount_dir :: "string \<Rightarrow> string \<Rightarrow> string \<Rightarrow> string \<Rightarrow> int \<Rightarrow> go_error + string" where
  "tmpfs_mount_dir stateBaseDir sandboxID containerName kind bytes =
     (if bytes \<le> 0 then Inr []
      else (case ValidateSandboxID sandboxID of
        Some err \<Rightarrow> Inl err
      | None \<Rightarrow> (case ValidateContainerName containerName of
        Some err \<Rightarrow> Inl err
      | None \<Rightarrow>
          let rootDir = sandboxTmpfsRoot stateBaseDir sandboxID; base = filepath_Join [rootDir, containerName, kind] in
          if \<not> isWithinBase rootDir base then
            Inl (Errorf ''tmpfs mount path %s escapes sandbox tmpfs root %s'' [Str base, Str rootDir])
          else Inr base)))"

definition volume_mount_dir :: "string \<Rightarrow> string \<Rightarrow> string \<Rightarrow> int \<Rightarrow> go_error + string" where
  "volume_mount_dir stateBaseDir sandboxID volumeName bytes =
     (if bytes \<le> 0 then Inl (Errorf ''volume %s has invalid size'' [Str volumeName])
      else (case ValidateSandboxID sandboxID of
        Some err \<Rightarrow> Inl err
      | None \<Rightarrow>
          if \<not> safeCgroupNameRe (TrimSpace volumeName) then Inl (Errorf ''volume %s has unsupported name'' [Str volumeName])
          else let rootDir = sandboxVolumesRoot stateBaseDir sandboxID; base = filepath_Join [rootDir, volumeName] in
          if \<not> isWithinBase rootDir base then
            Inl (Errorf ''volume mount path %s escapes sandbox volumes root %s'' [Str base, Str rootDir])
          else Inr base))"

text \<open>The name of a custom tmpfs is the hash of its mount path; \<open>hash\<close> stands for the first 16 bytes of SHA-256 in hexadecimal.\<close>

definition custom_tmpfs_dirs :: "(string \<Rightarrow> string) \<Rightarrow> string \<Rightarrow> string \<Rightarrow> string \<Rightarrow> string \<Rightarrow> go_error + string \<times> string" where
  "custom_tmpfs_dirs hash stateBaseDir sandboxID containerName mountPath =
     (case ValidateSandboxID sandboxID of
        Some err \<Rightarrow> Inl err
      | None \<Rightarrow> (case ValidateContainerName containerName of
        Some err \<Rightarrow> Inl err
      | None \<Rightarrow>
          let rootDir = sandboxTmpfsRoot stateBaseDir sandboxID;
              base = filepath_Join [rootDir, containerName, ''mounts'', hash mountPath];
              sourcePath = filepath_Join [base, ''source''];
              exportPath = filepath_Join [base, ''export''] in
          if \<not> isWithinBase rootDir sourcePath \<or> \<not> isWithinBase rootDir exportPath then
            Inl (Errorf ''tmpfs mount path %s escapes sandbox tmpfs root %s'' [Str base, Str rootDir])
          else Inr (sourcePath, exportPath)))"

definition lock_path :: "string \<Rightarrow> string \<Rightarrow> string" where
  "lock_path lockDir sandboxID = filepath_Join [lockDir, sandboxID @ ''.lock'']"

definition state_dir :: "string \<Rightarrow> string \<Rightarrow> string" where
  "state_dir baseDir sandboxID = filepath_Join [baseDir, sandboxID]"

definition state_file :: "string \<Rightarrow> string \<Rightarrow> string" where
  "state_file baseDir sandboxID = filepath_Join [baseDir, sandboxID, ''state.json'']"

definition cni_cache_dir :: "string \<Rightarrow> string" where
  "cni_cache_dir sandboxID = filepath_Join [''/var/lib/cni'', sandboxID]"

definition validateSandboxIDCgroupSafe :: "string \<Rightarrow> go_error option" where
  "validateSandboxIDCgroupSafe sandboxID =
     (if TrimSpace sandboxID = [] then Some (Errorf ''sandbox id is empty'' [])
      else if Contains sandboxID ''/'' \<or> Contains sandboxID ''..'' then
        Some (Errorf ''sandbox id %q is not a safe cgroup name'' [Quo sandboxID])
      else if \<not> safeCgroupNameRe sandboxID then Some (Errorf ''sandbox id %q is not a safe cgroup name'' [Quo sandboxID])
      else None)"

text \<open>
  The paths of \<open>ensureSandboxParentCgroup\<close>: the parent in the cgroup file system, the cgroup of the
  sandbox as the runtime names it and its directory.
\<close>

definition cgroup_paths :: "string \<Rightarrow> string \<Rightarrow> go_error + string \<times> string \<times> string" where
  "cgroup_paths baseParent sandboxID =
     (case validateSandboxIDCgroupSafe sandboxID of
        Some err \<Rightarrow> Inl err
      | None \<Rightarrow>
          let parent0 = (if TrimSpace baseParent = [] then ''/k8s.io'' else TrimSpace baseParent);
              parent1 = (if \<not> HasPrefix parent0 ''/'' then ''/'' @ parent0 else parent0);
              parent = Clean parent1 in
          if parent = ''/'' then Inl (Errorf ''invalid cgroup parent %q: root is not allowed'' [Quo baseParent])
          else let parentFsPath = Clean (filepath_Join [''/sys/fs/cgroup'', TrimPrefix parent ''/'']) in
          if \<not> HasPrefix parentFsPath ''/sys/fs/cgroup/'' then
            Inl (Errorf ''invalid cgroup parent %q: escapes /sys/fs/cgroup'' [Quo baseParent])
          else let leaf = ''sbx-'' @ sandboxID; cgroupPath = Clean (parent @ ''/'' @ leaf);
                   fsPath = filepath_Join [''/sys/fs/cgroup'', TrimPrefix cgroupPath ''/''] in
          Inr (parentFsPath, cgroupPath, fsPath))"

text \<open>The directory that \<open>cleanupSandboxParentCgroup\<close> removes, if any.\<close>

definition cleanup_cgroup_path :: "string \<Rightarrow> string \<Rightarrow> string option" where
  "cleanup_cgroup_path baseParent sandboxID =
     (case validateSandboxIDCgroupSafe sandboxID of
        Some _ \<Rightarrow> None
      | None \<Rightarrow>
          let parent0 = (if TrimSpace baseParent = [] then ''/k8s.io'' else TrimSpace baseParent);
              parent1 = (if \<not> HasPrefix parent0 ''/'' then ''/'' @ parent0 else parent0);
              parent = TrimSuffix parent1 ''/'';
              cgroupPath = Clean (parent @ ''/sbx-'' @ sandboxID) in
          Some (filepath_Join [''/sys/fs/cgroup'', TrimPrefix cgroupPath ''/'']))"

section \<open>Lemmas: rooted paths and their elements\<close>

text \<open>The elements of a rooted path after cleaning, and the path with given elements.\<close>

definition clean_elems :: "string \<Rightarrow> string list" where
  "clean_elems p = rev (foldl (clean_step True) [] (Split p (CHR ''/'')))"

definition rooted :: "string list \<Rightarrow> string" where
  "rooted els = ''/'' @ Join els ''/''"

lemma Clean_rooted: "HasPrefix p ''/'' \<Longrightarrow> Clean p = rooted (clean_elems p)"
  by (simp add: Clean_def clean_elems_def rooted_def)

lemma clean_elems_safe: "list_all safe_elem (clean_elems p)"
  using foldl_clean_step_safe [of "Split p (CHR ''/'')" "[]"] Split_no_sep by (auto simp: clean_elems_def)

lemma Split_append_sep: "Split (p @ CHR ''/'' # q) (CHR ''/'') = Split p (CHR ''/'') @ Split q (CHR ''/'')"
  by (induction p) (auto split: list.splits)

lemma clean_elems_append: "clean_elems (p @ ''/'' @ q) = rev (foldl (clean_step True) (rev (clean_elems p)) (Split q (CHR ''/'')))"
  by (simp add: clean_elems_def Split_append_sep)

lemma Split_single: "CHR ''/'' \<notin> set c \<Longrightarrow> Split c (CHR ''/'') = [c]"
  by (induction c) auto

lemma clean_elems_snoc:
  assumes "safe_elem c"
  shows "clean_elems (p @ ''/'' @ c) = clean_elems p @ [c]"
  using assms unfolding clean_elems_append by (simp add: Split_single safe_elem_def clean_step_def)

lemma path_elems_rooted: "list_all safe_elem els \<Longrightarrow> path_elems (rooted els) = els"
proof -
  assume safe: "list_all safe_elem els"
  show "path_elems (rooted els) = els"
  proof (cases "els = []")
    case False
    have "Split (rooted els) (CHR ''/'') = [] # els"
      using False safe Split_Join [of els "CHR ''/''"] by (auto simp: safe_elem_def list_all_iff rooted_def)
    moreover have "filter (\<lambda>e. e \<noteq> []) els = els" using safe by (auto simp: list_all_iff safe_elem_def)
    ultimately show ?thesis by (simp add: path_elems_def)
  qed (simp add: path_elems_def rooted_def)
qed

lemma rooted_inj: "list_all safe_elem a \<Longrightarrow> list_all safe_elem b \<Longrightarrow> rooted a = rooted b \<longleftrightarrow> a = b"
  using path_elems_rooted by metis

lemma Clean_rooted_elems: "list_all safe_elem els \<Longrightarrow> Clean (rooted els) = rooted els"
  unfolding rooted_def by (rule Clean_idem_rooted)

lemma rooted_Nil [simp]: "rooted [] = ''/''"
  by (simp add: rooted_def)

lemma HasPrefix_rooted [simp]: "HasPrefix (rooted els) ''/''"
  by (simp add: rooted_def)

lemma clean_elems_rooted: "list_all safe_elem els \<Longrightarrow> clean_elems (rooted els) = els"
  using Clean_rooted [of "rooted els"] Clean_rooted_elems rooted_inj clean_elems_safe by (metis HasPrefix_rooted)

lemma clean_elems_appends:
  "list_all safe_elem cs \<Longrightarrow> clean_elems (Join (p # cs) ''/'') = clean_elems p @ cs"
proof (induction cs arbitrary: p)
  case (Cons c cs)
  have "Join (p # c # cs) ''/'' = Join ((p @ ''/'' @ c) # cs) ''/''" by (cases cs) simp_all
  then show ?case using Cons by (simp add: clean_elems_snoc del: append_Cons append_Nil append.simps Join.simps)
qed simp

lemma filepath_Join_rooted:
  assumes "HasPrefix p ''/''" and "list_all safe_elem cs"
  shows "filepath_Join (p # cs) = rooted (clean_elems p @ cs)"
proof -
  obtain r where p: "p = CHR ''/'' # r" using assms(1) by (auto simp: HasPrefix_iff)
  have "HasPrefix (Join (p # cs) ''/'') ''/''" by (cases cs) (simp_all add: p)
  then have "Clean (Join (p # cs) ''/'') = rooted (clean_elems p @ cs)"
    using Clean_rooted clean_elems_appends [OF assms(2)] by simp
  then show ?thesis by (simp add: filepath_Join_def p)
qed

lemma strip_common_prefix: "strip_common bs ts = ([], rest) \<longleftrightarrow> ts = bs @ rest"
  by (induction bs ts rule: strip_common.induct) auto

lemma strip_common_safe:
  "strip_common bs ts = (b', t') \<Longrightarrow> list_all safe_elem bs \<Longrightarrow> list_all safe_elem ts \<Longrightarrow>
   list_all safe_elem b' \<and> list_all safe_elem t'"
  by (induction bs ts rule: strip_common.induct) (auto split: if_splits)

lemma Join_safe_not_up:
  assumes "list_all safe_elem ts" and "ts \<noteq> []"
  shows "Join ts ''/'' \<noteq> ''..'' \<and> \<not> HasPrefix (Join ts ''/'') ''../''"
proof -
  have split: "Split (Join ts ''/'') (CHR ''/'') = ts"
    using assms Split_Join [of ts "CHR ''/''"] by (auto simp: safe_elem_def list_all_iff)
  have "hd ts \<noteq> ''..''" using assms by (cases ts) (auto simp: safe_elem_def)
  moreover have "hd (Split s (CHR ''/'')) = ''..''" if "s = ''..'' \<or> HasPrefix s ''../''" for s
    using that by (auto simp: HasPrefix_iff)
  ultimately show ?thesis using split by metis
qed

text \<open>On rooted paths the guard decides whether the base is a prefix of the target, element by element.\<close>

lemma isWithinBase_elems:
  assumes "HasPrefix base ''/''" and "HasPrefix target ''/''"
  shows "isWithinBase base target \<longleftrightarrow> (\<exists>rest. clean_elems target = clean_elems base @ rest)"
proof -
  let ?b = "clean_elems base" and ?t = "clean_elems target"
  note safe = clean_elems_safe [of base] clean_elems_safe [of target]
  have cl: "Clean base = rooted ?b" "Clean target = rooted ?t" using assms Clean_rooted by auto
  obtain bs ts where sc: "strip_common ?b ?t = (bs, ts)" by fastforce
  have safe': "list_all safe_elem bs \<and> list_all safe_elem ts" using strip_common_safe [OF sc] safe by blast
  have noup: "bs \<noteq> [] \<Longrightarrow> hd bs \<noteq> ''..''" using safe' by (cases bs) (auto simp: safe_elem_def)
  have dot: "rooted x \<noteq> ''.''" for x by (simp add: rooted_def)
  have rel: "filepath_Rel (rooted ?b) (rooted ?t) = Some (Join (replicate (length bs) ''..'' @ ts) ''/'')" if "?t \<noteq> ?b"
    using that noup sc safe rooted_inj [of ?t ?b]
    by (auto simp: filepath_Rel_def Let_def Clean_rooted_elems path_elems_rooted dot)
  have up: "Join (''..'' # xs) ''/'' = ''..'' \<or> HasPrefix (Join (''..'' # xs) ''/'') ''../''" for xs
    by (cases xs) simp_all
  have "isWithinBase base target \<longleftrightarrow> bs = []" if "?t \<noteq> ?b"
  proof (cases bs)
    case Nil
    then have "ts \<noteq> []" using sc that strip_common_prefix [of ?b ?t ts] by auto
    then show ?thesis
      using Nil Join_safe_not_up safe' that safe rel by (simp add: isWithinBase_def cl rooted_inj Let_def)
  next
    case (Cons b bs')
    then show ?thesis
      using up [of "replicate (length bs') ''..'' @ ts"] that safe rel
      by (auto simp: isWithinBase_def cl rooted_inj Let_def)
  qed
  moreover have "bs = [] \<longleftrightarrow> (\<exists>rest. ?t = ?b @ rest)" using sc strip_common_prefix [of ?b ?t] by auto
  moreover have "isWithinBase base target" if "?t = ?b" using that by (simp add: isWithinBase_def cl)
  ultimately show ?thesis by (cases "?t = ?b") auto
qed

lemma path_elems_Clean: "HasPrefix p ''/'' \<Longrightarrow> path_elems (Clean p) = clean_elems p"
  by (simp add: Clean_rooted path_elems_rooted clean_elems_safe)

lemma filepath_Join_Clean:
  assumes "HasPrefix p ''/''"
  shows "filepath_Join (p # cs) = rooted (clean_elems (Join (p # cs) ''/''))"
proof -
  obtain r where p: "p = CHR ''/'' # r" using assms by (auto simp: HasPrefix_iff)
  have "HasPrefix (Join (p # cs) ''/'') ''/''" by (cases cs) (simp_all add: p)
  from Clean_rooted [OF this] show ?thesis by (simp add: filepath_Join_def p)
qed

lemma valid_id_safe: "ValidateSandboxID sid = None \<Longrightarrow> safe_elem sid"
  using name_re_safe_elem [of 127 sid] by (simp add: name_validators)

lemma area_root:
  assumes "HasPrefix sbd ''/''" and "ValidateSandboxID sid = None" and "safe_elem area"
  shows "filepath_Join [sbd, sid, area] = rooted (clean_elems sbd @ [sid, area])"
  using filepath_Join_rooted [of sbd "[sid, area]"] assms valid_id_safe by simp

lemma within_area:
  assumes "HasPrefix sbd ''/''" and "ValidateSandboxID sid = None" and "safe_elem area"
    and "isWithinBase (filepath_Join [sbd, sid, area]) dir" and "dir = rooted els" and "list_all safe_elem els"
  shows "\<exists>rest. path_elems dir = path_elems (Clean sbd) @ [sid, area] @ rest"
proof -
  have "list_all safe_elem (clean_elems sbd @ [sid, area])"
    using assms(2,3) valid_id_safe by (simp add: clean_elems_safe)
  then show ?thesis
    using assms(1,4,5,6) isWithinBase_elems [of "rooted (clean_elems sbd @ [sid, area])" dir]
    by (auto simp: area_root [OF assms(1-3)] clean_elems_rooted path_elems_rooted path_elems_Clean)
qed

section \<open>Request data cannot leave the directory of its sandbox\<close>

text \<open>
  C29: the guard against path traversal (\<open>isWithinBase\<close>): on absolute paths it accepts a target exactly when,
  after cleaning, the elements of the base are the first elements of the target.
\<close>

theorem isWithinBase_iff_below:
  assumes "HasPrefix base ''/''" and "HasPrefix target ''/''"
  shows "isWithinBase base target \<longleftrightarrow> (\<exists>rest. path_elems (Clean target) = path_elems (Clean base) @ rest)"
  using isWithinBase_elems [OF assms] assms by (simp add: path_elems_Clean)

theorem isWithinBase_iff_below_witness:
  "isWithinBase ''/var/lib/sbx'' ''/var/lib/sbx/../sbx/a'' \<and> \<not> isWithinBase ''/var/lib/sbx'' ''/var/lib/sbx/../sbx2''"
proof -
  have "path_elems (Clean ''/var/lib/sbx/../sbx/a'') = path_elems (Clean ''/var/lib/sbx'') @ [''a'']"
    and two: "path_elems (Clean ''/var/lib/sbx/../sbx2'') = [''var'', ''lib'', ''sbx2'']"
    and base: "path_elems (Clean ''/var/lib/sbx'') = [''var'', ''lib'', ''sbx'']"
    by code_simp+
  then have "isWithinBase ''/var/lib/sbx'' ''/var/lib/sbx/../sbx/a''"
    using isWithinBase_iff_below [of "''/var/lib/sbx''" "''/var/lib/sbx/../sbx/a''"] by auto
  moreover have "\<not> isWithinBase ''/var/lib/sbx'' ''/var/lib/sbx/../sbx2''"
    using isWithinBase_iff_below [of "''/var/lib/sbx''" "''/var/lib/sbx/../sbx2''"] by (simp add: two base)
  ultimately show ?thesis by blast
qed

lemma tmpfs_dir_within:
  assumes "HasPrefix sbd ''/''" and "tmpfs_mount_dir sbd sid name kind bytes = Inr dir" and "0 < bytes"
  shows "ValidateSandboxID sid = None \<and> (\<exists>rest. path_elems dir = path_elems (Clean sbd) @ [sid, ''tmpfs''] @ rest)"
proof -
  have v: "ValidateSandboxID sid = None" and w: "isWithinBase (filepath_Join [sbd, sid, ''tmpfs'']) dir"
    and d: "dir = filepath_Join [filepath_Join [sbd, sid, ''tmpfs''], name, kind]"
    using assms(2,3) by (auto simp: tmpfs_mount_dir_def sandboxTmpfsRoot_def Let_def split: option.splits if_splits)
  show ?thesis
    using within_area [OF assms(1) v _ w, unfolded d] v
      filepath_Join_Clean [of "filepath_Join [sbd, sid, ''tmpfs'']"] area_root [OF assms(1) v, of "''tmpfs''"] clean_elems_safe
    by (simp add: d safe_elem_def)
qed

lemma volume_dir_within:
  assumes "HasPrefix sbd ''/''" and "volume_mount_dir sbd sid vol bytes = Inr dir"
  shows "ValidateSandboxID sid = None \<and> (\<exists>rest. path_elems dir = path_elems (Clean sbd) @ [sid, ''volumes''] @ rest)"
proof -
  have v: "ValidateSandboxID sid = None" and w: "isWithinBase (filepath_Join [sbd, sid, ''volumes'']) dir"
    and d: "dir = filepath_Join [filepath_Join [sbd, sid, ''volumes''], vol]"
    using assms(2) by (auto simp: volume_mount_dir_def sandboxVolumesRoot_def Let_def split: option.splits if_splits)
  show ?thesis
    using within_area [OF assms(1) v _ w, unfolded d] v
      filepath_Join_Clean [of "filepath_Join [sbd, sid, ''volumes'']"] area_root [OF assms(1) v, of "''volumes''"] clean_elems_safe
    by (simp add: d safe_elem_def)
qed

lemma custom_dirs_within:
  assumes "HasPrefix sbd ''/''" and "custom_tmpfs_dirs hash sbd sid name path = Inr (src, expo)" and "dir = src \<or> dir = expo"
  shows "ValidateSandboxID sid = None \<and> (\<exists>rest. path_elems dir = path_elems (Clean sbd) @ [sid, ''tmpfs''] @ rest)"
proof -
  let ?base = "filepath_Join [filepath_Join [sbd, sid, ''tmpfs''], name, ''mounts'', hash path]"
  have v: "ValidateSandboxID sid = None" and w: "isWithinBase (filepath_Join [sbd, sid, ''tmpfs'']) dir"
    and d: "dir = filepath_Join [?base, ''source''] \<or> dir = filepath_Join [?base, ''export'']"
    using assms(2,3) by (auto simp: custom_tmpfs_dirs_def sandboxTmpfsRoot_def Let_def split: option.splits if_splits)
  have "HasPrefix ?base ''/''"
    using filepath_Join_Clean [of "filepath_Join [sbd, sid, ''tmpfs'']"] area_root [OF assms(1) v, of "''tmpfs''"]
    by (simp add: safe_elem_def)
  then have "\<exists>els. dir = rooted els \<and> list_all safe_elem els"
    using d filepath_Join_Clean [of ?base] clean_elems_safe by blast
  then show ?thesis using within_area [OF assms(1) v _ w] v by (auto simp: safe_elem_def)
qed

text \<open>
  C30: mount directories. Whatever the names in a request are, a directory that sbxlet makes and mounts for a
  container's \<open>/tmp\<close>, for one of its tmpfs or for a volume lies below
  \<open><state dir>/<sandbox id>/tmpfs\<close> or \<open><state dir>/<sandbox id>/volumes\<close>, for a valid sandbox id.
\<close>

theorem mount_dirs_confined:
  assumes "HasPrefix sbd ''/''"
    and "tmpfs_mount_dir sbd sid name kind bytes = Inr dir \<and> 0 < bytes \<or> volume_mount_dir sbd sid name bytes = Inr dir \<or>
      custom_tmpfs_dirs hash sbd sid name path = Inr (src, expo) \<and> dir \<in> {src, expo}"
  shows "ValidateSandboxID sid = None \<and>
    (\<exists>area \<in> {''tmpfs'', ''volumes''}. \<exists>rest. path_elems dir = path_elems (Clean sbd) @ [sid, area] @ rest)"
  using assms(2) tmpfs_dir_within [OF assms(1)] volume_dir_within [OF assms(1)] custom_dirs_within [OF assms(1)] by blast

theorem mount_dirs_confined_witness:
  "ValidateSandboxID ''sbx-1'' = None \<and> (\<exists>area \<in> {''tmpfs'', ''volumes''}. \<exists>rest.
     path_elems ''/var/lib/sbx/sbx-1/volumes/data'' = path_elems (Clean ''/var/lib/sbx/'') @ [''sbx-1'', area] @ rest)"
proof (rule mount_dirs_confined [of "''/var/lib/sbx/''" "''sbx-1''" "''data''" "[]" 4096])
  have "volume_mount_dir ''/var/lib/sbx/'' ''sbx-1'' ''data'' 4096 = Inr ''/var/lib/sbx/sbx-1/volumes/data''" by code_simp
  then show "tmpfs_mount_dir ''/var/lib/sbx/'' ''sbx-1'' ''data'' [] 4096 = Inr ''/var/lib/sbx/sbx-1/volumes/data'' \<and> (0 :: int) < 4096 \<or>
      volume_mount_dir ''/var/lib/sbx/'' ''sbx-1'' ''data'' 4096 = Inr ''/var/lib/sbx/sbx-1/volumes/data'' \<or>
      custom_tmpfs_dirs (\<lambda>s. s) ''/var/lib/sbx/'' ''sbx-1'' ''data'' [] = Inr ([], []) \<and>
        ''/var/lib/sbx/sbx-1/volumes/data'' \<in> {[], []}" by blast
qed simp

section \<open>The cgroup of a sandbox\<close>

lemma Join_Join: "P \<noteq> [] \<Longrightarrow> Join [a, Join P ''/''] ''/'' = Join (a # P) ''/''"
  by (cases P) simp_all

lemma cgroup_fs:
  assumes "list_all safe_elem P" and "P \<noteq> []"
  shows "filepath_Join [''/sys/fs/cgroup'', TrimPrefix (rooted P) ''/''] = rooted ([''sys'', ''fs'', ''cgroup''] @ P)"
proof -
  have "TrimPrefix (rooted P) ''/'' = Join P ''/''" by (simp add: TrimPrefix_def rooted_def)
  moreover have "clean_elems ''/sys/fs/cgroup'' = [''sys'', ''fs'', ''cgroup'']" by code_simp
  ultimately show ?thesis
    using filepath_Join_Clean [of "''/sys/fs/cgroup''" "[Join P ''/'']"] Join_Join [OF assms(2), of "''/sys/fs/cgroup''"]
      clean_elems_appends [OF assms(1), of "''/sys/fs/cgroup''"] by simp
qed

lemma clean_elems_TrimSuffix: "clean_elems (TrimSuffix p ''/'') = clean_elems p"
proof (cases "HasSuffix p ''/''")
  case True
  then obtain q where p: "p = q @ ''/''" by (auto simp: HasSuffix_iff)
  then have "TrimSuffix p ''/'' = q" using True by (simp add: TrimSuffix_def)
  moreover have "clean_elems p = clean_elems q" using clean_elems_append [of q "[]"] by (simp add: p clean_step_def)
  ultimately show ?thesis by simp
qed (simp add: TrimSuffix_def)

lemma cgroup_safe_leaf: "validateSandboxIDCgroupSafe sid = None \<Longrightarrow> safe_elem (''sbx-'' @ sid)"
  using name_re_no_sep [of 127 sid]
  by (auto simp: validateSandboxIDCgroupSafe_def safeCgroupNameRe_def safe_elem_def Contains_char split: if_splits)

text \<open>The configured parent, made absolute.\<close>

definition cgroup_parent :: "string \<Rightarrow> string" where
  "cgroup_parent baseParent =
     (let p = (if TrimSpace baseParent = [] then ''/k8s.io'' else TrimSpace baseParent) in if HasPrefix p ''/'' then p else ''/'' @ p)"

lemma cgroup_parent_rooted: "HasPrefix (cgroup_parent b) ''/''"
  by (simp add: cgroup_parent_def Let_def)

lemma cleanup_cgroup_path_eq:
  assumes "validateSandboxIDCgroupSafe sid = None"
  shows "cleanup_cgroup_path b sid = Some (rooted ([''sys'', ''fs'', ''cgroup''] @ clean_elems (cgroup_parent b) @ [''sbx-'' @ sid]))"
proof -
  let ?q = "TrimSuffix (cgroup_parent b) ''/''" and ?leaf = "''sbx-'' @ sid"
  note leaf = cgroup_safe_leaf [OF assms]
  obtain r where "cgroup_parent b = CHR ''/'' # r" using cgroup_parent_rooted [of b] by (auto simp: HasPrefix_iff)
  then have "HasPrefix (?q @ ''/'' @ ?leaf) ''/''" by (cases r) (auto simp: TrimSuffix_def HasSuffix_def Let_def)
  then have "Clean (?q @ ''/'' @ ?leaf) = rooted (clean_elems (cgroup_parent b) @ [?leaf])"
    by (simp only: Clean_rooted clean_elems_snoc [OF leaf] clean_elems_TrimSuffix)
  moreover have "cleanup_cgroup_path b sid = Some (filepath_Join [''/sys/fs/cgroup'', TrimPrefix (Clean (?q @ ''/'' @ ?leaf)) ''/''])"
    using assms by (simp add: cleanup_cgroup_path_def cgroup_parent_def Let_def)
  ultimately show ?thesis
    using cgroup_fs [of "clean_elems (cgroup_parent b) @ [?leaf]"] leaf by (simp only: list_all_append clean_elems_safe) simp
qed

text \<open>
  C31: the cgroup of a sandbox (\<open>ensureSandboxParentCgroup\<close>, \<open>cleanupSandboxParentCgroup\<close>): its directory is
  \<open>sbx-<id>\<close> directly below the configured parent in the cgroup file system, whatever the
  configured parent looks like; only a parent that cleans to the root, or an unsafe id, is refused,
  the check that the parent stays below \<open>/sys/fs/cgroup\<close> never fires; and the cleanup removes
  exactly the directory that was made.
\<close>

theorem cgroup_path_confined:
  "cgroup_paths b sid =
     (if validateSandboxIDCgroupSafe sid = None \<and> 0 < length (clean_elems (cgroup_parent b))
      then Inr (rooted ([''sys'', ''fs'', ''cgroup''] @ clean_elems (cgroup_parent b)),
                rooted (clean_elems (cgroup_parent b) @ [''sbx-'' @ sid]),
                the (cleanup_cgroup_path b sid))
      else Inl (case validateSandboxIDCgroupSafe sid of Some e \<Rightarrow> e
                | None \<Rightarrow> Errorf ''invalid cgroup parent %q: root is not allowed'' [Quo b])) \<and>
   cleanup_cgroup_path b sid =
     (if validateSandboxIDCgroupSafe sid = None
      then Some (rooted ([''sys'', ''fs'', ''cgroup''] @ clean_elems (cgroup_parent b) @ [''sbx-'' @ sid])) else None)"
proof (cases "validateSandboxIDCgroupSafe sid")
  case None
  let ?P = "clean_elems (cgroup_parent b)" and ?leaf = "''sbx-'' @ sid"
  note leaf = cgroup_safe_leaf [OF None] and cl = cleanup_cgroup_path_eq [OF None, of b]
  have clean: "Clean (cgroup_parent b) = rooted ?P" using Clean_rooted [OF cgroup_parent_rooted] .
  have root_iff: "rooted ?P = ''/'' \<longleftrightarrow> ?P = []"
    using rooted_inj [of ?P "[]"] clean_elems_safe by (simp add: rooted_def)
  have cg: "Clean (rooted ?P @ ''/'' @ ?leaf) = rooted (?P @ [?leaf])"
    using Clean_rooted [of "rooted ?P @ ''/'' @ ?leaf"] clean_elems_snoc [OF leaf, of "rooted ?P"]
      clean_elems_rooted [OF clean_elems_safe] by (simp add: rooted_def)
  have pfs: "Clean (filepath_Join [''/sys/fs/cgroup'', TrimPrefix (rooted ?P) ''/'']) = rooted ([''sys'', ''fs'', ''cgroup''] @ ?P)"
    if "?P \<noteq> []"
    using cgroup_fs [OF clean_elems_safe that] Clean_rooted_elems [of "[''sys'', ''fs'', ''cgroup''] @ ?P"]
    by (simp add: clean_elems_safe safe_elem_def)
  have pre: "HasPrefix (rooted ([''sys'', ''fs'', ''cgroup''] @ ?P)) ''/sys/fs/cgroup/''" if "?P \<noteq> []"
    using that by (cases ?P) (simp_all add: rooted_def)
  have fs: "filepath_Join [''/sys/fs/cgroup'', TrimPrefix (rooted (?P @ [?leaf])) ''/''] =
      rooted ([''sys'', ''fs'', ''cgroup''] @ ?P @ [?leaf])"
    using cgroup_fs [of "?P @ [?leaf]"] leaf by (simp add: clean_elems_safe)
  have "cgroup_paths b sid =
      (if Clean (cgroup_parent b) = ''/'' then Inl (Errorf ''invalid cgroup parent %q: root is not allowed'' [Quo b])
       else let parentFsPath = Clean (filepath_Join [''/sys/fs/cgroup'', TrimPrefix (Clean (cgroup_parent b)) ''/'']) in
         if \<not> HasPrefix parentFsPath ''/sys/fs/cgroup/'' then
           Inl (Errorf ''invalid cgroup parent %q: escapes /sys/fs/cgroup'' [Quo b])
         else Inr (parentFsPath, Clean (Clean (cgroup_parent b) @ ''/'' @ ?leaf),
           filepath_Join [''/sys/fs/cgroup'', TrimPrefix (Clean (Clean (cgroup_parent b) @ ''/'' @ ?leaf)) ''/'']))"
    by (simp add: cgroup_paths_def None cgroup_parent_def Let_def)
  then show ?thesis
    using None cl pfs pre by (cases "?P = []") (simp_all add: clean root_iff Let_def cg fs del: append_Cons append_Nil append.simps)
qed (simp add: cgroup_paths_def cleanup_cgroup_path_def)

end
