(* ===== verification/Let_Store.thy ===== *)
theory Let_Store
  imports Let_Options Let_Paths Let_Firewall
begin

text \<open>
  The state of the sbxlet service, its environment, and the file store (\<open>sandboxd-let/store/file_store.go\<close>).

  A computation runs in the state monad. Whatever it asks of the outside world, it asks the environment at
  the next tick: the clock, the outcome of file operations and commands, locks, and the answers of
  the container runtime. The firewall is an abstract state \<open>'f\<close> with the operations \<open>le_ipt\<close>.
\<close>

section \<open>The container runtime\<close>

datatype cri_state = CONTAINER_CREATED | CONTAINER_RUNNING | CONTAINER_EXITED | CONTAINER_UNKNOWN | CONTAINER_OTHER int

record criContainerDetails =
  cd_ID :: string
  cd_State :: cri_state
  cd_PID :: int

record pod_item =
  pi_Id :: string
  pi_Labels :: "(string \<times> string) list"
  pi_Metadata :: "(string \<times> string) option" \<comment> \<open>uid and name\<close>

record pod_status =
  ps_Ip :: string
  ps_Metadata :: "(string \<times> string) option" \<comment> \<open>uid and name\<close>

record LinuxContainerResources =
  lr_MemoryLimitInBytes :: int
  lr_MemorySwapLimitInBytes :: int
  lr_CpuPeriod :: int
  lr_CpuQuota :: int
  lr_PidsMax :: string

record PodSandboxConfig =
  pc_Name :: string
  pc_Hostname :: string
  pc_LogDirectory :: string
  pc_Labels :: "(string \<times> string) list"
  pc_Annotations :: "(string \<times> string) list"
  pc_CgroupParent :: string
  pc_Resources :: LinuxContainerResources
  pc_DnsServers :: "string list"

record cri_mount =
  mt_ContainerPath :: string
  mt_HostPath :: string
  mt_Readonly :: bool

record ContainerConfig =
  ct_Name :: string
  ct_Image :: string
  ct_Command :: "string list"
  ct_Envs :: "(string \<times> string) list"
  ct_LogPath :: string
  ct_Labels :: "(string \<times> string) list"
  ct_Resources :: LinuxContainerResources
  ct_Privileged :: bool
  ct_MaskedPaths :: "string list"
  ct_ReadonlyPaths :: "string list"
  ct_Security :: resolvedContainerSecurity
  ct_ReadonlyRootfs :: bool
  ct_Mounts :: "cri_mount list"
  ct_WorkingDir :: string

section \<open>Environment and state\<close>

text \<open>
  A file operation succeeds or fails with an error; a failed write may leave the file unreadable.
\<close>

datatype fs_outcome = FsOk | FsErr go_error bool

text \<open>What happened to the outside world, for the facts about provisioning and cleanup.\<close>

datatype let_event =
    EvRunPod string PodSandboxConfig string
  | EvStopPod string
  | EvDialCRI string
  | EvCloseCRI
  | EvRemovePod string
  | EvPullImage string
  | EvCreateContainer string string ContainerConfig PodSandboxConfig
  | EvStartContainer string
  | EvCommand "string list"
  | EvMkdir string
  | EvWrite string string
  | EvRemove string

record 'f let_env =
  le_pq :: quantity_parser
  le_svc :: let_service
  le_limits :: let_limits_config
  le_StateBaseDir :: string
  le_CgroupParent :: string
  le_LockDir :: string
  le_ContainerdAddress :: string
  le_ForwardHookChains :: "string list"
  le_ReconcileGrace :: int
  le_ReconcileHits :: int
  le_numCPU :: int
  le_ipt :: "'f ipt_ops"
  le_hash :: "string \<Rightarrow> string"
  le_now :: "nat \<Rightarrow> int"
  le_fs :: "nat \<Rightarrow> fs_outcome"
  le_meminfo :: "nat \<Rightarrow> go_error + string list"
  le_resolv :: "nat \<Rightarrow> string list"
  le_lines :: "nat \<Rightarrow> string \<Rightarrow> string list option"
  le_readFile :: "nat \<Rightarrow> string \<Rightarrow> go_error + string"
  le_readDir :: "nat \<Rightarrow> string \<Rightarrow> go_error + (string \<times> bool) list"
  le_cniResult :: "nat \<Rightarrow> string \<Rightarrow> go_error + (go_error + string list)"
  le_fileSize :: "nat \<Rightarrow> string \<Rightarrow> go_error + int"
  le_readLog :: "nat \<Rightarrow> string \<Rightarrow> go_error + string \<times> go_error option"
  le_parseTime :: "string \<Rightarrow> int option"
  le_evalSymlinks :: "nat \<Rightarrow> string \<Rightarrow> go_error + string"
  le_walk :: "nat \<Rightarrow> string \<Rightarrow> (string \<times> bool) list"
  le_stat :: "nat \<Rightarrow> string \<Rightarrow> go_error option"
  le_glob :: "nat \<Rightarrow> string \<Rightarrow> go_error + string list"
  le_command :: "nat \<Rightarrow> string list \<Rightarrow> string \<times> go_error option"
  le_newCRI :: "nat \<Rightarrow> string \<Rightarrow> go_error option"
  le_newIPT :: "nat \<Rightarrow> go_error option"
  le_openLock :: "nat \<Rightarrow> string \<Rightarrow> go_error option"
  le_flock :: "nat \<Rightarrow> string \<Rightarrow> bool"
  le_listen :: "nat \<Rightarrow> string \<Rightarrow> string \<Rightarrow> go_error option"
  le_rounds :: "nat \<Rightarrow> nat"
  le_dial :: "nat \<Rightarrow> string \<Rightarrow> go_error option"
  le_httpGet :: "nat \<Rightarrow> string \<Rightarrow> go_error + int"
  le_pods :: "nat \<Rightarrow> go_error + pod_item list"
  le_podStatus :: "nat \<Rightarrow> string \<Rightarrow> go_error + pod_status"
  le_runPod :: "nat \<Rightarrow> go_error + string"
  le_imageStatus :: "nat \<Rightarrow> string \<Rightarrow> bool"
  le_pullImage :: "nat \<Rightarrow> string \<Rightarrow> go_error option"
  le_createContainer :: "nat \<Rightarrow> go_error + string"
  le_startContainer :: "nat \<Rightarrow> go_error option"
  le_containerStatus :: "nat \<Rightarrow> string \<Rightarrow> go_error + criContainerDetails"

text \<open>
  An entry of the base directory is a file or a directory with or without a state file. The content of a
  state file is the sandbox it decodes to; \<open>None\<close> is content that does not decode.
\<close>

datatype dir_entry = PlainFile | SandboxDir "LetSandbox option option"

record 'f let_state =
  lt_dir :: "(string \<times> dir_entry) list"
  lt_reserved :: "(string \<times> string) list"
  lt_since :: "(string \<times> int) list"
  lt_hits :: "(string \<times> int) list"
  lt_fw :: 'f
  lt_events :: "let_event list"
  lt_spawned :: "(string \<times> CreateSandboxRequest) list"
  lt_tick :: nat

definition ask :: "(nat \<Rightarrow> 'a) \<Rightarrow> ('f let_state, 'a) state" where
  "ask f = State (\<lambda>s. (f (lt_tick s), s\<lparr> lt_tick := Suc (lt_tick s) \<rparr>))"

definition emit :: "let_event \<Rightarrow> ('f let_state, unit) state" where
  "emit ev = modify (lt_events_update (\<lambda>es. es @ [ev]))"

definition on_fw :: "('f, 'a) state \<Rightarrow> ('f let_state, 'a) state" where
  "on_fw m = State (\<lambda>s. case run_state m (lt_fw s) of (r, fw) \<Rightarrow> (r, s\<lparr> lt_fw := fw \<rparr>))"

text \<open>A file operation that can fail and whose effect besides is an event.\<close>

definition fs_op :: "'f let_env \<Rightarrow> let_event list \<Rightarrow> ('f let_state, go_error option) state" where
  "fs_op E evs = do {
     r \<leftarrow> ask (le_fs E);
     case r of FsErr err _ \<Rightarrow> ret (Some err) | FsOk \<Rightarrow> do { for_each evs emit; ret None } }"

section \<open>file_store.go\<close>

definition ErrNotExist :: go_error where "ErrNotExist = ErrNew ''file does not exist''"

definition ErrSyntax :: go_error where "ErrSyntax = ErrNew ''invalid character in state file''"

definition lookup_state :: "string \<Rightarrow> (string \<times> dir_entry) list \<Rightarrow> LetSandbox option option" where
  "lookup_state i dir = (case map_of dir i of Some (SandboxDir c) \<Rightarrow> c | _ \<Rightarrow> None)"

text \<open>\<open>os.MkdirAll\<close> keeps a directory that exists and fails on a plain file; entries stay sorted by name.\<close>

fun dir_put :: "string \<Rightarrow> dir_entry \<Rightarrow> (string \<times> dir_entry) list \<Rightarrow> (string \<times> dir_entry) list" where
  "dir_put k v [] = [(k, v)]"
| "dir_put k v ((k', v') # d) =
     (if k = k' then (k, v) # d else if k < k' then (k, v) # (k', v') # d else (k', v') # dir_put k v d)"

definition st_Save :: "'f let_env \<Rightarrow> LetSandbox \<Rightarrow> ('f let_state, go_error option) state" where
  "st_Save E sb =
     (case ValidateSandboxID (ls_ID sb) of
        Some err \<Rightarrow> ret (Some err)
      | None \<Rightarrow> do {
          r \<leftarrow> ask (le_fs E);
          dir \<leftarrow> gets lt_dir;
          case r of
            FsErr err _ \<Rightarrow> ret (Some err)
          | FsOk \<Rightarrow>
              if map_of dir (ls_ID sb) = Some PlainFile then ret (Some (ErrNew ''not a directory''))
              else do {
                (if map_of dir (ls_ID sb) = None then modify (lt_dir_update (dir_put (ls_ID sb) (SandboxDir None))) else ret ());
                w \<leftarrow> ask (le_fs E);
                case w of
                  FsErr err broken \<Rightarrow> do {
                    (if broken then modify (lt_dir_update (dir_put (ls_ID sb) (SandboxDir (Some None)))) else ret ());
                    ret (Some err) }
                | FsOk \<Rightarrow> do { modify (lt_dir_update (dir_put (ls_ID sb) (SandboxDir (Some (Some sb))))); ret None } } })"

definition st_Load :: "'f let_env \<Rightarrow> string \<Rightarrow> ('f let_state, go_error + LetSandbox) state" where
  "st_Load E i =
     (case ValidateSandboxID i of
        Some err \<Rightarrow> ret (Inl err)
      | None \<Rightarrow> do {
          r \<leftarrow> ask (le_fs E);
          dir \<leftarrow> gets lt_dir;
          case r of
            FsErr err _ \<Rightarrow> ret (Inl err)
          | FsOk \<Rightarrow> (case lookup_state i dir of
              None \<Rightarrow> ret (Inl ErrNotExist)
            | Some None \<Rightarrow> ret (Inl ErrSyntax)
            | Some (Some sb) \<Rightarrow> ret (Inr sb)) })"

text \<open>\<open>os.RemoveAll\<close>; an error that says that the directory does not exist means that it is gone.\<close>

definition st_Delete :: "'f let_env \<Rightarrow> string \<Rightarrow> ('f let_state, go_error option) state" where
  "st_Delete E i =
     (case ValidateSandboxID i of
        Some err \<Rightarrow> ret (Some err)
      | None \<Rightarrow> do {
          r \<leftarrow> ask (le_fs E);
          case r of
            FsErr err _ \<Rightarrow> if errors_Is err ErrNotExist then do { modify (lt_dir_update (map_del i)); ret None } else ret (Some err)
          | FsOk \<Rightarrow> do { modify (lt_dir_update (map_del i)); ret None } })"

fun load_all :: "'f let_env \<Rightarrow> (string \<times> dir_entry) list \<Rightarrow> LetSandbox list \<Rightarrow> ('f let_state, LetSandbox list) state" where
  "load_all E [] out = ret out"
| "load_all E ((name, PlainFile) # es) out = load_all E es out"
| "load_all E ((name, SandboxDir _) # es) out = do {
     r \<leftarrow> st_Load E name;
     case r of Inr sb \<Rightarrow> load_all E es (out @ [sb]) | Inl _ \<Rightarrow> load_all E es out }"

definition st_List :: "'f let_env \<Rightarrow> ('f let_state, go_error + LetSandbox list) state" where
  "st_List E = do {
     r \<leftarrow> ask (le_fs E);
     entries \<leftarrow> gets lt_dir;
     case r of
       FsErr err _ \<Rightarrow> ret (Inl err)
     | FsOk \<Rightarrow> do { all \<leftarrow> load_all E entries []; ret (Inr all) } }"

section \<open>The store as a map\<close>

text \<open>The sandboxes that can be loaded, by id.\<close>

definition stored :: "'f let_state \<Rightarrow> (string \<rightharpoonup> LetSandbox)" where
  "stored s i = (case lookup_state i (lt_dir s) of Some (Some sb) \<Rightarrow> Some sb | _ \<Rightarrow> None)"

text \<open>Directory entries are sorted by name, and a state file holds the sandbox it is named after.\<close>

definition dir_wf :: "(string \<times> dir_entry) list \<Rightarrow> bool" where
  "dir_wf d \<longleftrightarrow> sorted_wrt (<) (map fst d) \<and>
     (\<forall>i sb. (i, SandboxDir (Some (Some sb))) \<in> set d \<longrightarrow> ls_ID sb = i \<and> ValidateSandboxID i = None)"

lemma map_of_dir_put [simp]: "map_of (dir_put k v d) = (map_of d)(k \<mapsto> v)"
  if "sorted_wrt (<) (map fst d)" using that
proof (induction k v d rule: dir_put.induct)
  case (2 k v k' v' d)
  have "map_of d k = None" if "k < k'" using that 2(2) by (force simp: map_of_eq_None_iff)
  then show ?case using 2 by (auto simp: fun_eq_iff)
qed simp

lemma set_dir_put_keys: "fst ` set (dir_put k v d) = insert k (fst ` set d)"
  by (induction k v d rule: dir_put.induct) auto

lemma sorted_dir_put: "sorted_wrt (<) (map fst d) \<Longrightarrow> sorted_wrt (<) (map fst (dir_put k v d))"
proof (induction k v d rule: dir_put.induct)
  case (2 k v k' v' d)
  have "k' < x" if "x \<in> fst ` set (dir_put k v d)" "\<not> k < k'" "k \<noteq> k'" for x
    using that 2(2) by (auto simp: set_dir_put_keys)
  then show ?case using 2 by (auto intro: less_trans)
qed simp

lemma set_dir_put: "x \<in> set (dir_put k v d) \<Longrightarrow> x = (k, v) \<or> x \<in> set d"
  by (induction k v d rule: dir_put.induct) (auto split: if_splits)

lemma dir_wf_put:
  assumes "dir_wf d" and "\<And>sb. v = SandboxDir (Some (Some sb)) \<Longrightarrow> ls_ID sb = k \<and> ValidateSandboxID k = None"
  shows "dir_wf (dir_put k v d)"
  using assms by (auto simp: dir_wf_def sorted_dir_put dest!: set_dir_put)

lemma dir_wf_del: "dir_wf d \<Longrightarrow> dir_wf (map_del k d)"
proof -
  assume wf: "dir_wf d"
  have "sorted_wrt (<) (map fst (map_del k d))"
    using wf by (induction d) (auto simp: dir_wf_def map_del_def)
  then show ?thesis using wf by (auto simp: dir_wf_def map_del_def)
qed

lemma run_ask [simp]: "run_state (ask f) s = (f (lt_tick s), s\<lparr> lt_tick := Suc (lt_tick s) \<rparr>)"
  by (simp add: ask_def)

text \<open>
  The interface of the store for the service: what each operation does to the map of stored sandboxes, in
  terms of the state after it and its result.
\<close>

locale sandbox_store =
  fixes save :: "LetSandbox \<Rightarrow> ('s, go_error option) state"
    and load :: "string \<Rightarrow> ('s, go_error + LetSandbox) state"
    and delete :: "string \<Rightarrow> ('s, go_error option) state"
    and view :: "'s \<Rightarrow> (string \<rightharpoonup> LetSandbox)"
    and ok :: "'s \<Rightarrow> bool"
  assumes save_ok: "ok s \<Longrightarrow> run_state (save sb) s = (None, s') \<Longrightarrow> view s' = (view s)(ls_ID sb \<mapsto> sb) \<and> ok s'"
    and save_err: "ok s \<Longrightarrow> run_state (save sb) s = (Some e, s') \<Longrightarrow>
      (view s' = view s \<or> view s' = (view s)(ls_ID sb := None)) \<and> ok s'"
    and load_view: "run_state (load i) s = (r, s') \<Longrightarrow> ok s \<Longrightarrow> view s' = view s \<and> ok s' \<and> (r = Inr sb \<longrightarrow> view s i = Some sb)"
    and delete_ok: "ok s \<Longrightarrow> run_state (delete i) s = (None, s') \<Longrightarrow> view s' = (view s)(i := None) \<and> ok s'"
    and delete_err: "ok s \<Longrightarrow> run_state (delete i) s = (Some e, s') \<Longrightarrow> view s' = view s \<and> ok s'"
begin

text \<open>Whatever an operation returns, sandboxes with another id are untouched.\<close>

lemma save_other:
  assumes "ok s" and "i \<noteq> ls_ID sb"
  shows "view (exec (save sb) s) i = view s i \<and> ok (exec (save sb) s)"
proof -
  obtain r s' where run: "run_state (save sb) s = (r, s')" by fastforce
  then show ?thesis using save_ok [OF assms(1)] save_err [OF assms(1)] assms(2) by (cases r) fastforce+
qed

lemma delete_other:
  assumes "ok s" and "i \<noteq> j"
  shows "view (exec (delete j) s) i = view s i \<and> ok (exec (delete j) s)"
proof -
  obtain r s' where run: "run_state (delete j) s = (r, s')" by fastforce
  then show ?thesis using delete_ok [OF assms(1)] delete_err [OF assms(1)] assms(2) by (cases r) fastforce+
qed

lemma saved_sandbox_loads:
  assumes "ok s" and "run_state (save sb) s = (None, s')" and "run_state (load (ls_ID sb)) s' = (Inr x, s'')"
  shows "x = sb"
  using save_ok [OF assms(1,2)] load_view [OF assms(3), of x] by auto

end

lemma stored_put:
  "dir_wf (lt_dir s) \<Longrightarrow> stored (s\<lparr> lt_tick := n, lt_dir := dir_put k (SandboxDir c) (lt_dir s) \<rparr>) =
     (stored s)(k := (case c of Some (Some sb) \<Rightarrow> Some sb | _ \<Rightarrow> None))"
  by (auto simp: fun_eq_iff stored_def lookup_state_def dir_wf_def split: option.splits)

lemma stored_del: "stored (lt_dir_update (map_del k) s) = (stored s)(k := None)"
  by (auto simp: fun_eq_iff stored_def lookup_state_def)

lemma stored_tick [simp]: "stored (s\<lparr> lt_tick := n \<rparr>) = stored s"
  by (simp add: fun_eq_iff stored_def)

lemma dir_wf_update:
  "dir_wf (lt_dir s) \<Longrightarrow> (\<And>sb. c = Some (Some sb) \<Longrightarrow> ls_ID sb = k \<and> ValidateSandboxID k = None) \<Longrightarrow>
   dir_wf (dir_put k (SandboxDir c) (lt_dir s))"
  by (rule dir_wf_put) auto

lemma dir_put_twice: "sorted_wrt (<) (map fst d) \<Longrightarrow> dir_put k v (dir_put k w d) = dir_put k v d"
  by (induction k v d rule: dir_put.induct) auto

text \<open>What \<open>Save\<close> does to a well-formed directory, by the outcome of its two file operations.\<close>

definition save_effect :: "'f let_env \<Rightarrow> LetSandbox \<Rightarrow> 'f let_state \<Rightarrow> go_error option \<times> LetSandbox option option option" where
  "save_effect E sb s =
     (case le_fs E (lt_tick s) of
        FsErr err _ \<Rightarrow> (Some err, None)
      | FsOk \<Rightarrow>
          if map_of (lt_dir s) (ls_ID sb) = Some PlainFile then (Some (ErrNew ''not a directory''), None)
          else (case le_fs E (Suc (lt_tick s)) of
              FsErr err broken \<Rightarrow> (Some err, if broken then Some (Some None)
                else if map_of (lt_dir s) (ls_ID sb) = None then Some None else None)
            | FsOk \<Rightarrow> (None, Some (Some (Some sb)))))"

lemma run_st_Save:
  assumes "dir_wf (lt_dir s)"
  shows "\<exists>n. run_state (st_Save E sb) s =
    (case ValidateSandboxID (ls_ID sb) of
       Some err \<Rightarrow> (Some err, s)
     | None \<Rightarrow> (case save_effect E sb s of
         (r, None) \<Rightarrow> (r, s\<lparr> lt_tick := n \<rparr>)
       | (r, Some c) \<Rightarrow> (r, s\<lparr> lt_tick := n, lt_dir := dir_put (ls_ID sb) (SandboxDir c) (lt_dir s) \<rparr>)))"
proof (cases "ValidateSandboxID (ls_ID sb)")
  case None
  note twice = dir_put_twice [of "lt_dir s" "ls_ID sb"]
  have srt: "sorted_wrt (<) (map fst (lt_dir s))" using assms by (simp add: dir_wf_def)
  show ?thesis
  proof (cases "le_fs E (lt_tick s) = FsOk \<and> map_of (lt_dir s) (ls_ID sb) \<noteq> Some PlainFile")
    case True
    show ?thesis
      by (rule exI [of _ "Suc (Suc (lt_tick s))"],
          cases "map_of (lt_dir s) (ls_ID sb)"; cases "le_fs E (Suc (lt_tick s))")
        (use None True twice [OF srt] in \<open>simp_all add: st_Save_def save_effect_def\<close>)
  next
    case False
    then show ?thesis
      by (intro exI [of _ "Suc (lt_tick s)"]) (auto simp: st_Save_def save_effect_def None split: fs_outcome.splits)
  qed
qed (simp add: st_Save_def)

lemma save_effect_None: "save_effect E sb s = (None, c) \<Longrightarrow> c = Some (Some (Some sb))"
  by (auto simp: save_effect_def split: fs_outcome.splits if_splits)

lemma save_effect_Some: "save_effect E sb s = (Some e, Some c) \<Longrightarrow> c = None \<or> c = Some None"
  by (auto simp: save_effect_def split: fs_outcome.splits if_splits)

interpretation store: sandbox_store "st_Save E" "st_Load E" "st_Delete E" stored "\<lambda>s. dir_wf (lt_dir s)"
proof
  fix s s' :: "'a let_state" and sb e i r
  assume wf: "dir_wf (lt_dir s)"
  obtain n where save: "run_state (st_Save E sb) s =
    (case ValidateSandboxID (ls_ID sb) of
       Some err \<Rightarrow> (Some err, s)
     | None \<Rightarrow> (case save_effect E sb s of
         (r, None) \<Rightarrow> (r, s\<lparr> lt_tick := n \<rparr>)
       | (r, Some c) \<Rightarrow> (r, s\<lparr> lt_tick := n, lt_dir := dir_put (ls_ID sb) (SandboxDir c) (lt_dir s) \<rparr>)))"
    using run_st_Save [OF wf] by blast
  show "stored s' = (stored s)(ls_ID sb \<mapsto> sb) \<and> dir_wf (lt_dir s')" if "run_state (st_Save E sb) s = (None, s')"
    using that save save_effect_None [of E sb s] stored_put [OF wf] dir_wf_update [OF wf, of "Some (Some sb)" "ls_ID sb"]
    by (auto split: option.splits prod.splits)
  show "(stored s' = stored s \<or> stored s' = (stored s)(ls_ID sb := None)) \<and> dir_wf (lt_dir s')"
    if "run_state (st_Save E sb) s = (Some e, s')"
    using that save save_effect_Some [of E sb s e] stored_put [OF wf] dir_wf_update [OF wf, of None "ls_ID sb"]
      dir_wf_update [OF wf, of "Some None" "ls_ID sb"] wf
    by (auto split: option.splits prod.splits)
  show "stored s' = stored s \<and> dir_wf (lt_dir s') \<and> (r = Inr sb \<longrightarrow> stored s i = Some sb)" if "run_state (st_Load E i) s = (r, s')"
    using that wf by (auto simp: st_Load_def stored_def split: option.splits fs_outcome.splits)
  show "stored s' = (stored s)(i := None) \<and> dir_wf (lt_dir s')" if "run_state (st_Delete E i) s = (None, s')"
    using that wf by (auto simp: st_Delete_def stored_del dir_wf_del split: option.splits fs_outcome.splits if_splits)
  show "stored s' = stored s \<and> dir_wf (lt_dir s')" if "run_state (st_Delete E i) s = (Some e, s')"
    using that wf by (auto simp: st_Delete_def split: option.splits fs_outcome.splits if_splits)
qed

section \<open>Listing without faults\<close>

definition dir_sandboxes :: "(string \<times> dir_entry) list \<Rightarrow> LetSandbox list" where
  "dir_sandboxes d = List.map_filter (\<lambda>(i, e). case e of SandboxDir (Some (Some sb)) \<Rightarrow> Some sb | _ \<Rightarrow> None) d"

lemma map_of_entry: "dir_wf d \<Longrightarrow> (i, e) \<in> set d \<Longrightarrow> map_of d i = Some e"
  by (rule map_of_is_SomeI) (auto simp: dir_wf_def strict_sorted_iff)

lemma load_entry:
  assumes "dir_wf (lt_dir s)" and "(i, SandboxDir c) \<in> set (lt_dir s)" and "le_fs E (lt_tick s) = FsOk"
  shows "\<exists>r n. run_state (st_Load E i) s = (r, s\<lparr> lt_tick := n \<rparr>) \<and> (\<forall>sb. r = Inr sb \<longleftrightarrow> c = Some (Some sb))"
proof (cases "ValidateSandboxID i")
  case None
  have "lookup_state i (lt_dir s) = c" using map_of_entry [OF assms(1,2)] by (simp add: lookup_state_def)
  then show ?thesis using assms(3) None by (auto simp: st_Load_def split: option.split)
next
  case (Some e)
  then have "c \<noteq> Some (Some sb)" for sb using assms(1,2) by (auto simp: dir_wf_def)
  then show ?thesis by (intro exI [of _ "Inl e"] exI [of _ "lt_tick s"]) (simp add: st_Load_def Some)
qed

lemma run_load_all:
  assumes "dir_wf (lt_dir s)" and "le_fs E = (\<lambda>_. FsOk)"
  shows "set es \<subseteq> set (lt_dir s) \<Longrightarrow> \<exists>n. run_state (load_all E es out) s = (out @ dir_sandboxes es, s\<lparr> lt_tick := n \<rparr>)"
  using assms
proof (induction es arbitrary: out s)
  case Nil
  then show ?case by (auto simp: dir_sandboxes_def map_filter_simps intro: exI [of _ "lt_tick s"])
next
  case (Cons x es)
  obtain i e where x: "x = (i, e)" by fastforce
  show ?case
  proof (cases e)
    case PlainFile
    then show ?thesis using Cons by (simp add: x dir_sandboxes_def map_filter_simps)
  next
    case (SandboxDir c)
    then obtain r n where l: "run_state (st_Load E i) s = (r, s\<lparr> lt_tick := n \<rparr>)" and r: "\<forall>sb. r = Inr sb \<longleftrightarrow> c = Some (Some sb)"
      using load_entry [OF Cons.prems(2), of i c E] Cons.prems x by auto
    have IH: "\<exists>m. run_state (load_all E es out') (s\<lparr> lt_tick := n \<rparr>) = (out' @ dir_sandboxes es, s\<lparr> lt_tick := m \<rparr>)" for out'
      using Cons.IH [of "s\<lparr> lt_tick := n \<rparr>" out'] Cons.prems by simp
    show ?thesis
    proof (cases r)
      case (Inr sb)
      then have "dir_sandboxes (x # es) = sb # dir_sandboxes es" using r SandboxDir by (simp add: x dir_sandboxes_def map_filter_simps)
      then show ?thesis using IH [of "out @ [sb]"] l Inr by (simp add: x SandboxDir)
    next
      case (Inl err)
      then have "dir_sandboxes (x # es) = dir_sandboxes es"
        using r SandboxDir by (auto simp: x dir_sandboxes_def map_filter_simps split: option.splits)
      then show ?thesis using IH [of out] l Inl by (simp add: x SandboxDir)
    qed
  qed
qed

lemma sorted_dir_sandboxes: "dir_wf d \<Longrightarrow> sorted_wrt (<) (map ls_ID (dir_sandboxes d))"
proof (induction d)
  case (Cons x d)
  obtain i e where x: "x = (i, e)" by fastforce
  have wf: "dir_wf d" using Cons.prems by (auto simp: dir_wf_def)
  have "\<exists>j. (j, SandboxDir (Some (Some sb))) \<in> set d" if "sb \<in> set (dir_sandboxes d)" for sb
    using that by (force simp: dir_sandboxes_def map_filter_def split: dir_entry.splits option.splits)
  then have "i < ls_ID sb" if "sb \<in> set (dir_sandboxes d)" for sb
    using that Cons.prems by (fastforce simp: dir_wf_def x)
  then show ?case
    using Cons.IH [OF wf] Cons.prems by (auto simp: x dir_sandboxes_def map_filter_simps dir_wf_def split: dir_entry.splits option.splits)
qed (simp add: dir_sandboxes_def map_filter_simps)

lemma set_dir_sandboxes: "dir_wf (lt_dir s) \<Longrightarrow> set (dir_sandboxes (lt_dir s)) = ran (stored s)"
proof -
  assume wf: "dir_wf (lt_dir s)"
  have "sb \<in> set (dir_sandboxes (lt_dir s)) \<longleftrightarrow> (\<exists>i. (i, SandboxDir (Some (Some sb))) \<in> set (lt_dir s))" for sb
    by (force simp: dir_sandboxes_def map_filter_def split: dir_entry.splits option.splits)
  moreover have "(i, SandboxDir (Some (Some sb))) \<in> set (lt_dir s) \<longleftrightarrow> stored s i = Some sb" for i sb
    using map_of_entry [OF wf] by (auto simp: stored_def lookup_state_def split: option.splits dir_entry.splits dest: map_of_SomeD)
  ultimately show ?thesis by (auto simp: ran_def)
qed

lemma run_st_List:
  assumes "dir_wf (lt_dir s)" and "le_fs E = (\<lambda>_. FsOk)"
  shows "\<exists>n. run_state (st_List E) s = (Inr (dir_sandboxes (lt_dir s)), s\<lparr> lt_tick := n \<rparr>)"
proof -
  obtain n where "run_state (load_all E (lt_dir s) []) (s\<lparr> lt_tick := Suc (lt_tick s) \<rparr>) =
      (dir_sandboxes (lt_dir s), s\<lparr> lt_tick := n \<rparr>)"
    using run_load_all [of "s\<lparr> lt_tick := Suc (lt_tick s) \<rparr>" E "lt_dir s" "[]"] assms by auto
  then show ?thesis using assms(2) by (intro exI [of _ n]) (simp add: st_List_def)
qed

text \<open>
  C36: the file store is a map from sandbox ids to sandboxes. On a well-formed state directory and without I/O
  faults, saving a sandbox with a valid id succeeds and stores exactly it, every other sandbox stays;
  loading then gives the stored sandbox or an error, and listing gives every stored sandbox once, in
  the order of the ids; deleting it again leaves the others.
\<close>

theorem file_store_is_map:
  assumes "dir_wf (lt_dir s)" and "le_fs E = (\<lambda>_. FsOk)"
    and "ValidateSandboxID (ls_ID sb) = None" and "map_of (lt_dir s) (ls_ID sb) \<noteq> Some PlainFile"
  shows "\<exists>s1. run_state (st_Save E sb) s = (None, s1) \<and> dir_wf (lt_dir s1) \<and>
    stored s1 = (stored s)(ls_ID sb \<mapsto> sb) \<and> result (st_Load E (ls_ID sb)) s1 = Inr sb \<and>
    (\<exists>xs. result (st_List E) s1 = Inr xs \<and> sorted_wrt (<) (map ls_ID xs) \<and> set xs = ran (stored s1)) \<and>
    stored (exec (st_Delete E (ls_ID sb)) s1) = (stored s)(ls_ID sb := None)"
proof -
  obtain r s1 where run: "run_state (st_Save E sb) s = (r, s1)" by fastforce
  have "r = None" using run_st_Save [OF assms(1), of E sb] assms(2-4) run by (auto simp: save_effect_def)
  then have run: "run_state (st_Save E sb) s = (None, s1)" using run by simp
  then have s1: "stored s1 = (stored s)(ls_ID sb \<mapsto> sb)" and wf: "dir_wf (lt_dir s1)" using store.save_ok [OF assms(1)] by auto
  have "lookup_state (ls_ID sb) (lt_dir s1) = Some (Some sb)"
    using fun_cong [OF s1, of "ls_ID sb"] by (auto simp: stored_def split: option.splits)
  then have load: "result (st_Load E (ls_ID sb)) s1 = Inr sb" using assms(2,3) by (simp add: st_Load_def)
  have list: "result (st_List E) s1 = Inr (dir_sandboxes (lt_dir s1))" using run_st_List [OF wf assms(2)] by auto
  have "stored (exec (st_Delete E (ls_ID sb)) s1) = (stored s)(ls_ID sb := None)"
    using assms(2,3) s1 by (simp add: st_Delete_def stored_del)
  then show ?thesis
    using run wf s1 load list sorted_dir_sandboxes [OF wf] set_dir_sandboxes [OF wf] by auto
qed

text \<open>A node without faults and an empty state directory.\<close>

definition sample_let_env :: "fw_alist let_env" where
  "sample_let_env = \<lparr> le_pq = plain_pq, le_svc = sample_service, le_limits = sample_limits_config,
     le_StateBaseDir = ''/var/lib/sbx'', le_CgroupParent = ''/k8s.io'', le_LockDir = ''/run/sbx'',
     le_ContainerdAddress = ''/run/containerd/containerd.sock'', le_ForwardHookChains = [], le_ReconcileGrace = 30,
     le_ReconcileHits = 3, le_numCPU = 4, le_ipt = alist_ipt, le_hash = (\<lambda>_. ''00''), le_now = int, le_fs = (\<lambda>_. FsOk),
     le_meminfo = (\<lambda>_. Inr [''MemTotal: 8388608 kB'']), le_resolv = (\<lambda>_. []), le_lines = (\<lambda>_ _. None),
     le_readFile = (\<lambda>_ _. Inr ''cpu memory pids''), le_readDir = (\<lambda>_ _. Inl ErrNotExist), le_cniResult = (\<lambda>_ _. Inl ErrNotExist),
     le_fileSize = (\<lambda>_ _. Inr 0), le_readLog = (\<lambda>_ _. Inr ([], None)), le_parseTime = ParseInt64,
     le_evalSymlinks = (\<lambda>_ p. Inr p), le_walk = (\<lambda>_ _. []), le_stat = (\<lambda>_ _. Some ErrNotExist), le_glob = (\<lambda>_ _. Inr []),
     le_command = (\<lambda>_ _. ([], None)), le_newCRI = (\<lambda>_ _. None), le_newIPT = (\<lambda>_. None), le_openLock = (\<lambda>_ _. None), le_flock = (\<lambda>_ _. True), le_listen = (\<lambda>_ _ _. None),
     le_rounds = (\<lambda>_. 5), le_dial = (\<lambda>_ _. None), le_httpGet = (\<lambda>_ _. Inr 200), le_pods = (\<lambda>_. Inr []),
     le_podStatus = (\<lambda>_ _. Inr \<lparr> ps_Ip = ''10.89.0.2'', ps_Metadata = None \<rparr>), le_runPod = (\<lambda>_. Inr ''pod''),
     le_imageStatus = (\<lambda>_ _. False), le_pullImage = (\<lambda>_ _. None), le_createContainer = (\<lambda>_. Inr ''ctr''),
     le_startContainer = (\<lambda>_. None),
     le_containerStatus = (\<lambda>_ i. Inr \<lparr> cd_ID = i, cd_State = CONTAINER_RUNNING, cd_PID = 7 \<rparr>) \<rparr>"

definition sample_let_state :: "fw_alist let_state" where
  "sample_let_state = \<lparr> lt_dir = [], lt_reserved = [], lt_since = [], lt_hits = [],
     lt_fw = [((''filter'', ''FORWARD''), [[''-j'', ''SANDBOX-FWD'']]), ((''filter'', ''SANDBOX-FWD''), []),
       ((''filter'', ''SANDBOX-IN''), []), ((''nat'', ''PREROUTING''), []), ((''nat'', ''OUTPUT''), [])],
     lt_events = [], lt_spawned = [], lt_tick = 0 \<rparr>"

theorem file_store_is_map_witness:
  "\<exists>s1. run_state (st_Save sample_let_env sample_stored) sample_let_state = (None, s1) \<and>
     result (st_Load sample_let_env ''sbx-0'') s1 = Inr sample_stored"
proof -
  have "dir_wf (lt_dir sample_let_state)" and "le_fs sample_let_env = (\<lambda>_. FsOk)"
    and "map_of (lt_dir sample_let_state) (ls_ID sample_stored) \<noteq> Some PlainFile"
    by (simp_all add: dir_wf_def sample_let_state_def sample_let_env_def)
  moreover have "ValidateSandboxID (ls_ID sample_stored) = None" by code_simp
  moreover have "ls_ID sample_stored = ''sbx-0''" by code_simp
  ultimately show ?thesis
    using file_store_is_map [of sample_let_state sample_let_env sample_stored] by auto
qed

end
