(* ===== verification/Let_Runtime.thy ===== *)
theory Let_Runtime
  imports Let_Store
begin

text \<open>
  \<open>sandboxd-let/sandbox/runtime.go\<close>: creating the pod and the containers of a sandbox through the container
  runtime, their mounts and cgroups, cleaning up, and reading the runtime state of a sandbox.
\<close>

section \<open>Names, ports and images\<close>

definition normalizeProto :: "string \<Rightarrow> string" where
  "normalizeProto proto = (let p = ToLower (TrimSpace proto) in if p = [] then ''tcp'' else p)"

definition toPublishedPorts :: "PortMapping list \<Rightarrow> PublishedPort list" where
  "toPublishedPorts pm = map (\<lambda>p. \<lparr> pp_ContainerPort = pm_ContainerPort p, pp_Protocol = normalizeProto (pm_Protocol p) \<rparr>) pm"

definition toHostPortForwards :: "PortMapping list \<Rightarrow> HostPortForward list" where
  "toHostPortForwards pm = map (\<lambda>p. \<lparr> hf_HostPort = pm_HostPort p, hf_ContainerPort = pm_ContainerPort p,
     hf_Protocol = normalizeProto (pm_Protocol p) \<rparr>) pm"

definition normalizeImage :: "string \<Rightarrow> string" where
  "normalizeImage img =
     (if Contains img ''/'' then
        (if Contains img ''.'' \<or> HasPrefix img ''localhost/'' then img else ''docker.io/'' @ img)
      else ''docker.io/library/'' @ img)"

definition isPlaceholderContainerID :: "string \<Rightarrow> string \<Rightarrow> string \<Rightarrow> bool" where
  "isPlaceholderContainerID sandboxID containerName containerID =
     (if sandboxID = [] \<or> containerName = [] \<or> containerID = [] then False
      else containerID = sandboxID @ ''-'' @ containerName)"

definition ContainerPhaseRunning :: string where "ContainerPhaseRunning = ''running''"

definition ContainerPhaseStopped :: string where "ContainerPhaseStopped = ''stopped''"

definition ContainerPhaseError :: string where "ContainerPhaseError = ''error''"

section \<open>Resources of the pod\<close>

fun sum_resources :: "quantity_parser \<Rightarrow> CreateContainerRequest list \<Rightarrow> parsedResource \<Rightarrow> go_error + parsedResource" where
  "sum_resources pq [] sums = Inr sums"
| "sum_resources pq (c # cs) sums =
     (case parseContainerResource pq (cc_Resource c) of
        Inl err \<Rightarrow> Inl (Errorf ''container %s: %w'' [Str (cc_Name c), Wrap err])
      | Inr r \<Rightarrow> sum_resources pq cs (sums\<lparr> pr_CPUMilli := i64 (pr_CPUMilli sums + pr_CPUMilli r),
          pr_MemoryBytes := i64 (pr_MemoryBytes sums + pr_MemoryBytes r) \<rparr>))"

definition linux_resources :: "ResourceLimits \<Rightarrow> LinuxContainerResources" where
  "linux_resources lim = \<lparr> lr_MemoryLimitInBytes = rl_MemoryBytes lim, lr_MemorySwapLimitInBytes = 0,
     lr_CpuPeriod = rl_CPUPeriod lim, lr_CpuQuota = rl_CPUQuota lim, lr_PidsMax = Itoa (rl_PidsLimit lim) \<rparr>"

definition podSandboxResourcesFromRequests ::
  "quantity_parser \<Rightarrow> CreateContainerRequest list \<Rightarrow> go_error + LinuxContainerResources" where
  "podSandboxResourcesFromRequests pq cs =
     (case sum_resources pq cs \<lparr> pr_CPUMilli = 0, pr_MemoryBytes = 0, pr_EphemeralBytes = 0, pr_HasEphemeralSet = False \<rparr> of
        Inl err \<Rightarrow> Inl err
      | Inr sums \<Rightarrow> Inr (linux_resources (parsedResourceToLimits sums)))"

fun estimate_rootfs :: "quantity_parser \<Rightarrow> let_limits_config \<Rightarrow> CreateContainerRequest list \<Rightarrow> int \<Rightarrow> int" where
  "estimate_rootfs pq cfg [] maxRoot = maxRoot"
| "estimate_rootfs pq cfg (c # cs) maxRoot =
     (case parseContainerResource pq (cc_Resource c) of
        Inl _ \<Rightarrow> estimate_rootfs pq cfg cs maxRoot
      | Inr r \<Rightarrow>
          let lim = applyEphemeralLimits cfg (parsedResourceToLimits r) r in
          estimate_rootfs pq cfg cs (if rl_RootfsBytes lim > maxRoot then rl_RootfsBytes lim else maxRoot))"

definition estimatePodRootfsBytes :: "quantity_parser \<Rightarrow> let_limits_config \<Rightarrow> CreateContainerRequest list \<Rightarrow> int" where
  "estimatePodRootfsBytes pq cfg cs = estimate_rootfs pq cfg cs 0"

section \<open>cgroups\<close>

text \<open>\<open>writeCgroupValue\<close> writes a trimmed value, trying at most ten times.\<close>

fun write_tries :: "'f let_env \<Rightarrow> nat \<Rightarrow> string \<Rightarrow> string \<Rightarrow> go_error \<Rightarrow> ('f let_state, go_error option) state" where
  "write_tries E 0 path v lastErr = ret (Some (Errorf ''write %s=%q failed: %w'' [Str path, Quo v, Wrap lastErr]))"
| "write_tries E (Suc n) path v lastErr = do {
     r \<leftarrow> fs_op E [EvWrite path v];
     case r of None \<Rightarrow> ret None | Some err \<Rightarrow> write_tries E n path v err }"

definition writeCgroupValue :: "'f let_env \<Rightarrow> string \<Rightarrow> string \<Rightarrow> ('f let_state, go_error option) state" where
  "writeCgroupValue E path val =
     (let v = TrimSpace val in if v = [] then ret None else write_tries E 10 path v (ErrNew []))"

text \<open>
  The limits, written below a cgroup directory: \<open>ensureSandboxParentCgroup\<close> writes three of them,
  \<open>enforceCgroupV2Limits\<close> also the swap limit.
\<close>

definition write_memory_max :: "'f let_env \<Rightarrow> string \<Rightarrow> LinuxContainerResources \<Rightarrow> ('f let_state, go_error option) state" where
  "write_memory_max E base lim =
     (if lr_MemoryLimitInBytes lim > 0
      then writeCgroupValue E (filepath_Join [base, ''memory.max'']) (Itoa (lr_MemoryLimitInBytes lim)) else ret None)"

definition write_swap_max :: "'f let_env \<Rightarrow> string \<Rightarrow> LinuxContainerResources \<Rightarrow> ('f let_state, go_error option) state" where
  "write_swap_max E base lim =
     (if lr_MemorySwapLimitInBytes lim > 0
      then writeCgroupValue E (filepath_Join [base, ''memory.swap.max'']) (Itoa (lr_MemorySwapLimitInBytes lim)) else ret None)"

definition write_cpu_pids :: "'f let_env \<Rightarrow> string \<Rightarrow> LinuxContainerResources \<Rightarrow> ('f let_state, go_error option) state" where
  "write_cpu_pids E base lim =
     bindO (if lr_CpuPeriod lim > 0 \<and> lr_CpuQuota lim > 0
            then writeCgroupValue E (filepath_Join [base, ''cpu.max'']) (Itoa (lr_CpuQuota lim) @ '' '' @ Itoa (lr_CpuPeriod lim)) else ret None)
     (if TrimSpace (lr_PidsMax lim) \<noteq> []
      then writeCgroupValue E (filepath_Join [base, ''pids.max'']) (lr_PidsMax lim) else ret None)"

fun enable_controllers :: "'f let_env \<Rightarrow> string \<Rightarrow> string list \<Rightarrow> string list \<Rightarrow> string list \<Rightarrow> ('f let_state, go_error option) state" where
  "enable_controllers E path available enabled [] = ret None"
| "enable_controllers E path available enabled (c # cs) =
     (if c \<notin> set available \<or> c \<in> set enabled then enable_controllers E path available enabled cs
      else do {
        r \<leftarrow> writeCgroupValue E (filepath_Join [path, ''cgroup.subtree_control'']) (''+'' @ c);
        case r of
          Some err \<Rightarrow> ret (Some (Errorf ''enable cgroup controller %q under %s: %w'' [Quo c, Str path, Wrap err]))
        | None \<Rightarrow> enable_controllers E path available enabled cs })"

definition ensureCgroupSubtreeControllers :: "'f let_env \<Rightarrow> string \<Rightarrow> string list \<Rightarrow> ('f let_state, go_error option) state" where
  "ensureCgroupSubtreeControllers E cgroupPath controllers = do {
     a \<leftarrow> ask (\<lambda>n. le_readFile E n (filepath_Join [cgroupPath, ''cgroup.controllers'']));
     case a of
       Inl err \<Rightarrow> ret (Some (Errorf ''read %s/cgroup.controllers: %w'' [Str cgroupPath, Wrap err]))
     | Inr availableRaw \<Rightarrow> do {
         e \<leftarrow> ask (\<lambda>n. le_readFile E n (filepath_Join [cgroupPath, ''cgroup.subtree_control'']));
         case e of
           Inl err \<Rightarrow> ret (Some (Errorf ''read %s/cgroup.subtree_control: %w'' [Str cgroupPath, Wrap err]))
         | Inr enabledRaw \<Rightarrow> enable_controllers E cgroupPath (Fields availableRaw) (Fields enabledRaw) controllers } }"

text \<open>\<open>os.MkdirAll\<close> with the error of its caller around its own.\<close>

definition mkdir :: "'f let_env \<Rightarrow> string \<Rightarrow> string \<Rightarrow> ('f let_state, go_error option) state" where
  "mkdir E fmt path = do {
     r \<leftarrow> fs_op E [EvMkdir path];
     case r of Some err \<Rightarrow> ret (Some (Errorf fmt [Str path, Wrap err])) | None \<Rightarrow> ret None }"

definition ensureSandboxParentCgroup ::
  "'f let_env \<Rightarrow> string \<Rightarrow> LinuxContainerResources \<Rightarrow> ('f let_state, go_error + string) state" where
  "ensureSandboxParentCgroup E sandboxID lim =
     (case cgroup_paths (le_CgroupParent E) sandboxID of
        Inl err \<Rightarrow> ret (Inl err)
      | Inr (parentFsPath, cgroupPath, fsPath) \<Rightarrow> do {
          r \<leftarrow> bindO (mkdir E ''create cgroup parent %s: %w'' parentFsPath)
            (bindO (ensureCgroupSubtreeControllers E parentFsPath [''memory'', ''cpu'', ''pids''])
            (bindO (mkdir E ''create cgroup parent %s: %w'' fsPath)
            (bindO (write_memory_max E fsPath lim) (write_cpu_pids E fsPath lim))));
          case r of Some err \<Rightarrow> ret (Inl err) | None \<Rightarrow> ret (Inr cgroupPath) })"

fun first_existing :: "'f let_env \<Rightarrow> string list \<Rightarrow> ('f let_state, go_error + string) state" where
  "first_existing E [] = ret (Inr [])"
| "first_existing E (p # ps) = do {
     r \<leftarrow> ask (\<lambda>n. le_stat E n p);
     case r of
       None \<Rightarrow> ret (Inr p)
     | Some err \<Rightarrow> if \<not> errors_Is err ErrNotExist then ret (Inl (Errorf ''stat cgroup path %s: %w'' [Str p, Wrap err]))
                   else first_existing E ps }"

definition findCgroupV2PathByID :: "'f let_env \<Rightarrow> string \<Rightarrow> ('f let_state, go_error + string) state" where
  "findCgroupV2PathByID E i =
     (if TrimSpace i = [] then ret (Inr [])
      else bindE (first_existing E [filepath_Join [''/sys/fs/cgroup/k8s.io'', i]]) (\<lambda>direct.
        if direct \<noteq> [] then ret (Inr direct)
        else do {
          r \<leftarrow> ask (\<lambda>n. le_glob E n (filepath_Join [''/sys/fs/cgroup/k8s.io'', ''sbx-*'', i]));
          case r of
            Inl err \<Rightarrow> ret (Inl (Errorf ''glob cgroup path for %s: %w'' [Str i, Wrap err]))
          | Inr hits \<Rightarrow> first_existing E hits }))"

text \<open>The cgroup of an id may not exist yet; then nothing is enforced.\<close>

definition enforceCgroupV2Limits :: "'f let_env \<Rightarrow> string \<Rightarrow> LinuxContainerResources \<Rightarrow> ('f let_state, go_error option) state" where
  "enforceCgroupV2Limits E i lim =
     (if TrimSpace i = [] then ret None
      else do {
        r \<leftarrow> findCgroupV2PathByID E i;
        case r of
          Inl err \<Rightarrow> ret (Some err)
        | Inr base \<Rightarrow> if base = [] then ret None else bindO (write_memory_max E base lim) (bindO (write_swap_max E base lim) (write_cpu_pids E base lim)) })"

section \<open>Pods\<close>

fun find_pod :: "string \<Rightarrow> pod_item list \<Rightarrow> string option" where
  "find_pod sandboxID [] = None"
| "find_pod sandboxID (it # items) =
     (if pi_Id it = [] then find_pod sandboxID items
      else if (case map_of (pi_Labels it) ''sandbox-id'' of Some v \<Rightarrow> v | None \<Rightarrow> []) = sandboxID then Some (pi_Id it)
      else if pi_Metadata it = Some (sandboxID, sandboxID) then Some (pi_Id it)
      else find_pod sandboxID items)"

definition findManagedPodSandboxID :: "'f let_env \<Rightarrow> string \<Rightarrow> ('f let_state, string option) state" where
  "findManagedPodSandboxID E sandboxID = do {
     r \<leftarrow> ask (le_pods E);
     case r of Inl _ \<Rightarrow> ret None | Inr items \<Rightarrow> ret (find_pod sandboxID items) }"

definition stopAndRemovePodSandbox :: "string \<Rightarrow> ('f let_state, unit) state" where
  "stopAndRemovePodSandbox podID = (if podID = [] then ret () else do { emit (EvStopPod podID); emit (EvRemovePod podID) })"

section \<open>Name servers\<close>

definition re_space :: "char \<Rightarrow> bool" where
  "re_space c \<longleftrightarrow> c \<in> set [CHR 0x09, CHR 0x0A, CHR 0x0C, CHR 0x0D, CHR 0x20]"

definition re_address :: "char \<Rightarrow> bool" where
  "re_address c \<longleftrightarrow> is_digit c \<or> c \<in> set ''abcdefABCDEF.:''"

text \<open>\<open>nameserverRe\<close>: blanks around the word \<open>nameserver\<close>, at least one blank, and an address, which is the match.\<close>

definition nameserverRe :: "string \<Rightarrow> string option" where
  "nameserverRe line =
     (let l = dropWhile re_space line; rest = TrimPrefix l ''nameserver'';
          addr = rev (dropWhile re_space (rev (dropWhile re_space rest))) in
      if HasPrefix l ''nameserver'' \<and> rest \<noteq> [] \<and> re_space (hd rest) \<and> addr \<noteq> [] \<and> list_all re_address addr
      then Some addr else None)"

fun name_servers :: "string list \<Rightarrow> string list \<Rightarrow> string list" where
  "name_servers [] out = out"
| "name_servers (l # ls) out =
     (case nameserverRe l of
        None \<Rightarrow> name_servers ls out
      | Some m \<Rightarrow>
          let ip = TrimSpace m in
          if HasPrefix ip ''127.'' \<or> ip = ''::1'' \<or> ip \<in> set out then name_servers ls out
          else name_servers ls (out @ [ip]))"

text \<open>\<open>le_lines\<close> holds the lines that the scanner reads, if the file can be opened.\<close>

definition parseNameServers :: "'f let_env \<Rightarrow> string \<Rightarrow> ('f let_state, string list) state" where
  "parseNameServers E path = do {
     f \<leftarrow> ask (\<lambda>n. le_lines E n (Clean path));
     ret (case f of None \<Rightarrow> [] | Some ls \<Rightarrow> name_servers ls []) }"

fun first_servers :: "'f let_env \<Rightarrow> string list \<Rightarrow> ('f let_state, string list) state" where
  "first_servers E [] = ret []"
| "first_servers E (p # ps) = do {
     servers \<leftarrow> parseNameServers E p;
     if servers \<noteq> [] then ret servers else first_servers E ps }"

definition sandboxDNSServers :: "'f let_env \<Rightarrow> ('f let_state, string list) state" where
  "sandboxDNSServers E = first_servers E [''/run/systemd/resolve/resolv.conf'', ''/etc/resolv.conf'']"

section \<open>Creating the pod\<close>

definition runPodSandbox :: "'f let_env \<Rightarrow> PodSandboxConfig \<Rightarrow> string \<Rightarrow> ('f let_state, go_error + string) state" where
  "runPodSandbox E cfg runtimeHandler =
     bindE (ask (le_runPod E)) (\<lambda>podID. do { emit (EvRunPod podID cfg runtimeHandler); ret (Inr podID) })"

definition pod_config :: "'f let_env \<Rightarrow> LetSandbox \<Rightarrow> CreateContainerRequest list \<Rightarrow> string list \<Rightarrow> string \<Rightarrow> LinuxContainerResources \<Rightarrow> PodSandboxConfig" where
  "pod_config E sbx cs dns cgroupParent podRes =
     (let rootfsBytes = estimatePodRootfsBytes (le_pq E) (le_limits E) cs in
      \<lparr> pc_Name = ls_ID sbx, pc_Hostname = ls_ID sbx, pc_LogDirectory = le_StateBaseDir E @ ''/'' @ ls_ID sbx @ ''/logs'',
         pc_Labels = [(''sandbox-id'', ls_ID sbx)],
         pc_Annotations = (if rootfsBytes > 0 then [(''dev.gvisor.flag.overlay2'', ''root:self,size='' @ Itoa rootfsBytes)] else []),
         pc_CgroupParent = cgroupParent, pc_Resources = podRes, pc_DnsServers = dns \<rparr>)"

definition createPodSandboxCRI ::
  "'f let_env \<Rightarrow> LetSandbox \<Rightarrow> CreateContainerRequest list \<Rightarrow> ('f let_state, go_error + string \<times> string \<times> PodSandboxConfig) state" where
  "createPodSandboxCRI E sbx cs = do {
     old \<leftarrow> findManagedPodSandboxID E (ls_ID sbx);
     (case old of Some podID \<Rightarrow> stopAndRemovePodSandbox podID | None \<Rightarrow> ret ());
     case podSandboxResourcesFromRequests (le_pq E) cs of
       Inl err \<Rightarrow> ret (Inl err)
     | Inr podRes \<Rightarrow>
         bindE (ensureSandboxParentCgroup E (ls_ID sbx) podRes) (\<lambda>cgroupParent. do {
           dns \<leftarrow> sandboxDNSServers E;
           let cfg = pod_config E sbx cs dns cgroupParent podRes;
           bindE (runPodSandbox E cfg (sv_runtimeBinary (le_svc E))) (\<lambda>podID. do {
             e \<leftarrow> enforceCgroupV2Limits E podID podRes;
             case e of
               Some err \<Rightarrow> ret (Inl err)
             | None \<Rightarrow> bindE (ask (\<lambda>n. le_podStatus E n podID)) (\<lambda>status. ret (Inr (podID, ps_Ip status, cfg))) }) }) }"

section \<open>Mounts\<close>

definition resolvePath :: "'f let_env \<Rightarrow> string \<Rightarrow> ('f let_state, string) state" where
  "resolvePath E path = do {
     r \<leftarrow> ask (\<lambda>n. le_evalSymlinks E n path);
     ret (case r of Inl _ \<Rightarrow> path | Inr p \<Rightarrow> if TrimSpace p = [] then path else p) }"

definition isMountPoint :: "'f let_env \<Rightarrow> string \<Rightarrow> ('f let_state, bool) state" where
  "isMountPoint E path = do {
     r \<leftarrow> ask (\<lambda>n. le_readFile E n ''/proc/self/mountinfo'');
     ret (case r of
         Inl _ \<Rightarrow> False
       | Inr raw \<Rightarrow> list_ex (\<lambda>ln. Contains ln ('' '' @ path @ '' '')) (Split raw (CHR 0x0A))) }"

definition run_command :: "'f let_env \<Rightarrow> string list \<Rightarrow> ('f let_state, string \<times> go_error option) state" where
  "run_command E args = do { r \<leftarrow> ask (\<lambda>n. le_command E n args); emit (EvCommand args); ret r }"

text \<open>Mount a tmpfs on a resolved directory unless something is mounted there.\<close>

definition mount_tmpfs :: "'f let_env \<Rightarrow> string \<Rightarrow> go_arg list \<Rightarrow> string \<Rightarrow> string \<Rightarrow> ('f let_state, go_error + string) state" where
  "mount_tmpfs E what args opts resolvedBase = do {
     mounted \<leftarrow> isMountPoint E resolvedBase;
     if mounted then ret (Inr resolvedBase)
     else do {
       (out, e) \<leftarrow> run_command E [''mount'', ''-t'', ''tmpfs'', ''-o'', opts, ''tmpfs'', resolvedBase];
       case e of
         Some err \<Rightarrow> ret (Inl (Errorf what (args @ [Str resolvedBase, Str opts, Wrap err, Str (TrimSpace out)])))
       | None \<Rightarrow> ret (Inr resolvedBase) } }"

definition sized_options :: "int \<Rightarrow> string" where
  "sized_options bytes = ''size='' @ Itoa bytes @ '',mode=1777''"

definition ensureSandboxVolumeMount :: "'f let_env \<Rightarrow> string \<Rightarrow> string \<Rightarrow> int \<Rightarrow> ('f let_state, go_error + string) state" where
  "ensureSandboxVolumeMount E sandboxID volumeName bytes =
     (case volume_mount_dir (le_StateBaseDir E) sandboxID volumeName bytes of
        Inl err \<Rightarrow> ret (Inl err)
      | Inr base \<Rightarrow> do {
          r \<leftarrow> mkdir E ''mkdir volume mount path %s: %w'' base;
          case r of
            Some err \<Rightarrow> ret (Inl err)
          | None \<Rightarrow> do {
              resolvedBase \<leftarrow> resolvePath E base;
              mount_tmpfs E ''mount volume %s tmpfs %s (%s): %w: %s'' [Str volumeName] (sized_options bytes) resolvedBase } })"

definition ensureSandboxTmpfsMount :: "'f let_env \<Rightarrow> string \<Rightarrow> string \<Rightarrow> string \<Rightarrow> int \<Rightarrow> ('f let_state, go_error + string) state" where
  "ensureSandboxTmpfsMount E sandboxID containerName kind bytes =
     (if bytes \<le> 0 then ret (Inr [])
      else (case tmpfs_mount_dir (le_StateBaseDir E) sandboxID containerName kind bytes of
        Inl err \<Rightarrow> ret (Inl err)
      | Inr base \<Rightarrow> do {
          r \<leftarrow> mkdir E ''mkdir tmpfs mount path %s: %w'' base;
          case r of
            Some err \<Rightarrow> ret (Inl err)
          | None \<Rightarrow> do {
              resolvedBase \<leftarrow> resolvePath E base;
              mount_tmpfs E ''mount tmpfs %s (%s): %w: %s'' [] (sized_options bytes) resolvedBase } }))"

definition bindRemountPath :: "'f let_env \<Rightarrow> string \<Rightarrow> string \<Rightarrow> bool \<Rightarrow> bool \<Rightarrow> bool \<Rightarrow> bool \<Rightarrow> ('f let_state, go_error option) state" where
  "bindRemountPath E sourcePath targetPath readOnly noSuid noDev noExec = do {
     mounted \<leftarrow> isMountPoint E targetPath;
     (out, b) \<leftarrow> (if \<not> mounted then run_command E [''mount'', ''--bind'', sourcePath, targetPath] else ret ([], None));
     case b of
       Some err \<Rightarrow> ret (Some (Errorf ''bind mount %s -> %s: %w: %s'' [Str sourcePath, Str targetPath, Wrap err, Str (TrimSpace out)]))
     | None \<Rightarrow> do {
         let opts = remount_options readOnly noSuid noDev noExec;
         (out', r) \<leftarrow> run_command E [''mount'', ''-o'', opts, targetPath];
         case r of
           Some err \<Rightarrow> ret (Some (Errorf ''remount bind %s (%s): %w: %s'' [Str targetPath, Str opts, Wrap err, Str (TrimSpace out')]))
         | None \<Rightarrow> ret None } }"

definition ensureSandboxCustomTmpfsMount ::
  "'f let_env \<Rightarrow> string \<Rightarrow> string \<Rightarrow> resolvedTmpfsMount \<Rightarrow> ('f let_state, go_error + string) state" where
  "ensureSandboxCustomTmpfsMount E sandboxID containerName spec =
     (case custom_tmpfs_dirs (le_hash E) (le_StateBaseDir E) sandboxID containerName (rt_MountPath spec) of
        Inl err \<Rightarrow> ret (Inl err)
      | Inr (sourcePath, exportPath) \<Rightarrow> do {
          r \<leftarrow> bindO (mkdir E ''mkdir tmpfs source path %s: %w'' sourcePath) (mkdir E ''mkdir tmpfs export path %s: %w'' exportPath);
          case r of
            Some err \<Rightarrow> ret (Inl err)
          | None \<Rightarrow> do {
              resolvedSource \<leftarrow> resolvePath E sourcePath;
              resolvedExport \<leftarrow> resolvePath E exportPath;
              mounted \<leftarrow> isMountPoint E resolvedExport;
              if mounted then ret (Inr resolvedExport)
              else bindE (mount_tmpfs E ''mount tmpfs %s (%s): %w: %s'' [] (tmpfs_mount_options spec) resolvedSource) (\<lambda>_. do {
                e \<leftarrow> bindRemountPath E resolvedSource resolvedExport (rt_ReadOnly spec) (rt_NoSuid spec) (rt_NoDev spec) (rt_NoExec spec);
                case e of Some err \<Rightarrow> ret (Inl err) | None \<Rightarrow> ret (Inr resolvedExport) }) } })"

definition hasTmpfsMountAt :: "TmpfsMount list \<Rightarrow> string \<Rightarrow> bool" where
  "hasTmpfsMountAt mounts mountPath = list_ex (\<lambda>m. TrimSpace (tm_MountPath m) = TrimSpace mountPath) mounts"

section \<open>Containers\<close>

definition container_envs :: "string list \<Rightarrow> (string \<times> string) list" where
  "container_envs kvs = List.map_filter (\<lambda>kv. Cut kv ''='') kvs"

fun volume_sizes :: "quantity_parser \<Rightarrow> VolumeSpec list \<Rightarrow> (string \<times> int) list \<Rightarrow> go_error + (string \<times> int) list" where
  "volume_sizes pq [] out = Inr out"
| "volume_sizes pq (v # vs) out =
     (case let_parseMemoryBytes pq (vs_EphemeralStorage v) of
        Inl _ \<Rightarrow> Inl (Errorf ''volume %s: invalid ephemeralStorage: %s'' [Str (vs_Name v), Str (vs_EphemeralStorage v)])
      | Inr bytes \<Rightarrow> volume_sizes pq vs (map_put (vs_Name v) bytes out))"

fun tmpfs_mounts :: "'f let_env \<Rightarrow> string \<Rightarrow> string \<Rightarrow> TmpfsMount list \<Rightarrow> cri_mount list \<Rightarrow> ('f let_state, go_error + cri_mount list) state" where
  "tmpfs_mounts E sid name [] mounts = ret (Inr mounts)"
| "tmpfs_mounts E sid name (tm # tms) mounts =
     (case resolveTmpfsMountSpec (le_pq E) tm of
        Inl err \<Rightarrow> ret (Inl (Errorf ''tmpfs %s: %w'' [Str (tm_MountPath tm), Wrap err]))
      | Inr resolved \<Rightarrow> bindE (ensureSandboxCustomTmpfsMount E sid name resolved) (\<lambda>hostPath.
          tmpfs_mounts E sid name tms
            (mounts @ [\<lparr> mt_ContainerPath = rt_MountPath resolved, mt_HostPath = hostPath, mt_Readonly = rt_ReadOnly resolved \<rparr>])))"

fun volume_mounts :: "'f let_env \<Rightarrow> string \<Rightarrow> (string \<times> int) list \<Rightarrow> VolumeMount list \<Rightarrow> cri_mount list \<Rightarrow> ('f let_state, go_error + cri_mount list) state" where
  "volume_mounts E sid sizes [] mounts = ret (Inr mounts)"
| "volume_mounts E sid sizes (vm # vms) mounts =
     bindE (ensureSandboxVolumeMount E sid (vm_Name vm) (case map_of sizes (vm_Name vm) of Some b \<Rightarrow> b | None \<Rightarrow> 0)) (\<lambda>hostPath.
       volume_mounts E sid sizes vms
         (mounts @ [\<lparr> mt_ContainerPath = vm_MountPath vm, mt_HostPath = hostPath, mt_Readonly = vm_ReadOnly vm \<rparr>]))"

definition container_config ::
  "LetSandbox \<Rightarrow> CreateContainerRequest \<Rightarrow> ResourceLimits \<Rightarrow> cri_mount list \<Rightarrow> resolvedContainerSecurity \<Rightarrow> ContainerConfig" where
  "container_config sbx c lim mounts sec = \<lparr> ct_Name = cc_Name c, ct_Image = normalizeImage (cc_Image c), ct_Command = cc_Args c,
     ct_Envs = container_envs (cc_Env c), ct_LogPath = cc_Name c @ ''.log'',
     ct_Labels = [(''sandbox-id'', ls_ID sbx), (''container'', cc_Name c)], ct_Resources = linux_resources lim,
     ct_Privileged = False,
     ct_MaskedPaths = [''/proc/acpi'', ''/proc/kcore'', ''/proc/keys'', ''/proc/timer_list'', ''/sys/firmware''],
     ct_ReadonlyPaths = [''/proc/bus'', ''/proc/fs'', ''/proc/irq'', ''/proc/sys'', ''/proc/sysrq-trigger''],
     ct_Security = sec, ct_ReadonlyRootfs = cc_ReadOnly c, ct_Mounts = mounts, ct_WorkingDir = cc_WorkDir c \<rparr>"

definition started_container :: "'f let_env \<Rightarrow> CreateContainerRequest \<Rightarrow> criContainerDetails \<Rightarrow> ContainerState" where
  "started_container E c details = \<lparr> cs_ID = cd_ID details, cs_Name = cc_Name c, cs_Phase = ContainerPhaseRunning, cs_Error = [],
     cs_Image = normalizeImage (cc_Image c), cs_Args = cc_Args c, cs_Env = cc_Env c, cs_CapAdd = cc_CapAdd c,
     cs_CapDrop = cc_CapDrop c, cs_SecurityOpt = cc_SecurityOpt c, cs_ReadOnly = cc_ReadOnly c, cs_Tmpfs = cc_Tmpfs c,
     cs_VolumeMounts = cc_VolumeMounts c, cs_Resource = cc_Resource c, cs_TaskPID = cd_PID details,
     cs_Runtime = sv_runtimeBinary (le_svc E), cs_TaskStatus = ''running'' \<rparr>"

definition createAndStartCRIContainer ::
  "'f let_env \<Rightarrow> LetSandbox \<Rightarrow> string \<Rightarrow> PodSandboxConfig \<Rightarrow> CreateContainerRequest \<Rightarrow> ResourceLimits \<Rightarrow>
   ('f let_state, go_error + ContainerState) state" where
  "createAndStartCRIContainer E sbx podID sbxCfg c lim =
     (case volume_sizes (le_pq E) (ls_Volumes sbx) [] of
        Inl err \<Rightarrow> ret (Inl err)
      | Inr sizes \<Rightarrow>
     bindE (if \<not> hasTmpfsMountAt (cc_Tmpfs c) ''/tmp''
            then ensureSandboxTmpfsMount E (ls_ID sbx) (cc_Name c) ''tmp'' (rl_TmpfsBytes lim) else ret (Inr []))
     (\<lambda>tmpHostPath.
     bindE (tmpfs_mounts E (ls_ID sbx) (cc_Name c) (cc_Tmpfs c)
       (if tmpHostPath \<noteq> [] then [\<lparr> mt_ContainerPath = ''/tmp'', mt_HostPath = tmpHostPath, mt_Readonly = False \<rparr>] else []))
     (\<lambda>mounts1.
     bindE (volume_mounts E (ls_ID sbx) sizes (cc_VolumeMounts c) mounts1)
     (\<lambda>mounts.
     case resolveContainerSecurityOptions c of
       Inl err \<Rightarrow> ret (Inl (Errorf ''container %s: %w'' [Str (cc_Name c), Wrap err]))
     | Inr sec \<Rightarrow>
         (let cfg = container_config sbx c lim mounts sec in
          bindE (ask (le_createContainer E)) (\<lambda>containerID. do {
            emit (EvCreateContainer podID containerID cfg sbxCfg);
            e \<leftarrow> ask (le_startContainer E);
            case e of
              Some err \<Rightarrow> ret (Inl err)
            | None \<Rightarrow> do {
                emit (EvStartContainer containerID);
                f \<leftarrow> enforceCgroupV2Limits E containerID (ct_Resources cfg);
                case f of
                  Some err \<Rightarrow> ret (Inl err)
                | None \<Rightarrow> bindE (ask (\<lambda>n. le_containerStatus E n containerID)) (\<lambda>details.
                    ret (Inr (started_container E c details))) } }))))))"

section \<open>Cleanup\<close>

text \<open>The walk visits a directory and everything below it; entries that cannot be read are skipped.\<close>

definition unmount_visited :: "'f let_env \<Rightarrow> string \<times> bool \<Rightarrow> ('f let_state, unit) state" where
  "unmount_visited E = (\<lambda>(path, isDir).
     if \<not> isDir then ret ()
     else do {
       resolvedPath \<leftarrow> resolvePath E path;
       mounted \<leftarrow> isMountPoint E resolvedPath;
       if \<not> mounted then ret () else do { _ \<leftarrow> run_command E [''umount'', ''-l'', resolvedPath]; ret () } })"

definition cleanup_mounts :: "'f let_env \<Rightarrow> string \<Rightarrow> string \<Rightarrow> ('f let_state, unit) state" where
  "cleanup_mounts E sandboxID area =
     (if ValidateSandboxID sandboxID \<noteq> None then ret ()
      else do {
        base \<leftarrow> resolvePath E (filepath_Join [le_StateBaseDir E, sandboxID, area]);
        visited \<leftarrow> ask (\<lambda>n. le_walk E n base);
        for_each visited (unmount_visited E);
        emit (EvRemove base) })"

definition cleanupSandboxTmpfsMounts :: "'f let_env \<Rightarrow> string \<Rightarrow> ('f let_state, unit) state" where
  "cleanupSandboxTmpfsMounts E sandboxID = cleanup_mounts E sandboxID ''tmpfs''"

definition cleanupSandboxVolumeMounts :: "'f let_env \<Rightarrow> string \<Rightarrow> ('f let_state, unit) state" where
  "cleanupSandboxVolumeMounts E sandboxID = cleanup_mounts E sandboxID ''volumes''"

definition cleanupCNICache :: "string \<Rightarrow> ('f let_state, unit) state" where
  "cleanupCNICache sandboxID = (if ValidateSandboxID sandboxID \<noteq> None then ret () else emit (EvRemove (cni_cache_dir sandboxID)))"

definition cleanupSandboxParentCgroup :: "'f let_env \<Rightarrow> string \<Rightarrow> ('f let_state, unit) state" where
  "cleanupSandboxParentCgroup E sandboxID =
     (case cleanup_cgroup_path (le_CgroupParent E) sandboxID of None \<Rightarrow> ret () | Some p \<Rightarrow> emit (EvRemove p))"

definition applySandboxNetworkPolicy :: "'f let_env \<Rightarrow> LetSandbox \<Rightarrow> ('f let_state, go_error option) state" where
  "applySandboxNetworkPolicy E sbx = do {
     conf \<leftarrow> ask (le_resolv E);
     on_fw (ApplySandboxRules (le_ipt E) conf (ls_ID sbx) (ls_IP sbx) (sv_cidr (le_svc E)) (sv_bridgeIF (le_svc E))
       (ls_Egress sbx) (toPublishedPorts (ls_Ports sbx))) }"

definition applyHostPortPublish :: "'f let_env \<Rightarrow> LetSandbox \<Rightarrow> ('f let_state, go_error option) state" where
  "applyHostPortPublish E sbx = on_fw (ApplyHostPortDNAT (le_ipt E) (ls_ID sbx) (ls_IP sbx) (toHostPortForwards (ls_Ports sbx)))"

definition cleanupHostPortPublish :: "'f let_env \<Rightarrow> LetSandbox \<Rightarrow> ('f let_state, unit) state" where
  "cleanupHostPortPublish E sbx = do {
     (if ls_IP sbx \<noteq> [] then on_fw (DeleteHostPortDNAT (le_ipt E) (ls_ID sbx) (ls_IP sbx) (toHostPortForwards (ls_Ports sbx))) else ret ());
     on_fw (DeleteHostPortDNATBySandbox (le_ipt E) (ls_ID sbx)) }"

definition cleanupSandboxNetworkPolicy :: "'f let_env \<Rightarrow> LetSandbox \<Rightarrow> ('f let_state, unit) state" where
  "cleanupSandboxNetworkPolicy E sbx =
     (if ls_IP sbx = [] then ret ()
      else on_fw (DeleteSandboxRules (le_ipt E) (ls_ID sbx) (ls_IP sbx) (ls_BridgeName sbx) (toPublishedPorts (ls_Ports sbx))))"

definition deleteSandboxRuntimeArtifacts :: "'f let_env \<Rightarrow> LetSandbox \<Rightarrow> ('f let_state, unit) state" where
  "deleteSandboxRuntimeArtifacts E sbx = do {
     (if ls_PauseID sbx \<noteq> [] then stopAndRemovePodSandbox (ls_PauseID sbx) else ret ());
     cleanupHostPortPublish E sbx;
     cleanupSandboxNetworkPolicy E sbx;
     cleanupCNICache (ls_ID sbx);
     cleanupSandboxTmpfsMounts E (ls_ID sbx);
     cleanupSandboxVolumeMounts E (ls_ID sbx);
     cleanupSandboxParentCgroup E (ls_ID sbx) }"

text \<open>The cleanup of the runtime never reports an error; the error of deleting the state is dropped.\<close>

definition deleteSandboxFromState :: "'f let_env \<Rightarrow> LetSandbox \<Rightarrow> ('f let_state, unit) state" where
  "deleteSandboxFromState E sbx = do {
     deleteSandboxRuntimeArtifacts E sbx;
     _ \<leftarrow> st_Delete E (ls_ID sbx);
     ret () }"

section \<open>The runtime state of a sandbox\<close>

definition fillContainerRuntimeState :: "'f let_env \<Rightarrow> ContainerState \<Rightarrow> ('f let_state, ContainerState) state" where
  "fillContainerRuntimeState E st = do {
     r \<leftarrow> ask (\<lambda>n. le_containerStatus E n (cs_ID st));
     case r of
       Inl _ \<Rightarrow> ret (st\<lparr> cs_TaskStatus := ''not_found'', cs_Phase := ContainerPhaseError, cs_Error := ''container not found'' \<rparr>)
     | Inr details \<Rightarrow>
         let st1 = st\<lparr> cs_TaskPID := cd_PID details \<rparr> in
         ret (case cd_State details of
             CONTAINER_RUNNING \<Rightarrow> st1\<lparr> cs_TaskStatus := ''running'', cs_Phase := ContainerPhaseRunning, cs_Error := [] \<rparr>
           | CONTAINER_CREATED \<Rightarrow> st1\<lparr> cs_TaskStatus := ''created'', cs_Phase := ContainerPhaseCreating, cs_Error := [] \<rparr>
           | CONTAINER_EXITED \<Rightarrow> st1\<lparr> cs_TaskStatus := ''container_exited'', cs_Phase := ContainerPhaseStopped, cs_Error := [] \<rparr>
           | CONTAINER_UNKNOWN \<Rightarrow> st1\<lparr> cs_TaskStatus := ''container_unknown'', cs_Phase := ContainerPhaseStopped, cs_Error := [] \<rparr>
           | CONTAINER_OTHER _ \<Rightarrow> st1\<lparr> cs_TaskStatus := ''unknown'', cs_Phase := ContainerPhaseError,
               cs_Error := ''failed to read container state'' \<rparr>) }"

text \<open>While a sandbox is being created, a placeholder that is not found yet is still being created.\<close>

definition transient_container :: "LetSandbox \<Rightarrow> ContainerState \<Rightarrow> ContainerState" where
  "transient_container sbx st =
     (if ls_Phase sbx = SandboxPhaseCreating \<and> cs_TaskStatus st = ''not_found'' \<and> isPlaceholderContainerID (ls_ID sbx) (cs_Name st) (cs_ID st)
      then st\<lparr> cs_Phase := ContainerPhaseCreating, cs_Error := [], cs_TaskStatus := ''creating'' \<rparr> else st)"

text \<open>
  The loop over the containers, from what the pod said: has there been an error, which message,
  are all running. A Go map is visited in some order; here it is the order of the association list.
\<close>

fun refresh_containers ::
  "'f let_env \<Rightarrow> LetSandbox \<Rightarrow> (string \<times> ContainerState) list \<Rightarrow> (string \<times> ContainerState) list \<Rightarrow> bool \<times> string \<times> bool \<Rightarrow>
   ('f let_state, (string \<times> ContainerState) list \<times> bool \<times> string \<times> bool) state" where
  "refresh_containers E sbx [] out acc = ret (out, acc)"
| "refresh_containers E sbx ((name, st) # cs) out (hasError, sandboxErr, allRunning) = do {
     filled \<leftarrow> fillContainerRuntimeState E st;
     let st1 = transient_container sbx filled;
     let err = cs_Phase st1 = ContainerPhaseError;
     refresh_containers E sbx cs (out @ [(name, st1)])
       (hasError \<or> err, if err \<and> sandboxErr = [] \<and> cs_Error st1 \<noteq> [] then cs_Error st1 else sandboxErr,
        allRunning \<and> cs_Phase st1 = ContainerPhaseRunning) }"

definition refreshSandboxRuntimeState :: "'f let_env \<Rightarrow> LetSandbox \<Rightarrow> ('f let_state, LetSandbox) state" where
  "refreshSandboxRuntimeState E sbx =
     (if ls_Phase sbx = SandboxPhaseError \<and> ls_Error sbx \<noteq> [] \<or> ls_Containers sbx = [] then do {
        now \<leftarrow> ask (le_now E);
        ret (sbx\<lparr> ls_UpdatedAt := now \<rparr>) }
      else do {
        pod \<leftarrow> (if ls_PauseID sbx \<noteq> [] then do { r \<leftarrow> ask (\<lambda>n. le_podStatus E n (ls_PauseID sbx)); ret (Some r) } else ret None);
        let podErr = (case pod of Some (Inl _) \<Rightarrow> True | _ \<Rightarrow> False);
        (cs, hasError, sandboxErr, allRunning) \<leftarrow> refresh_containers E sbx (ls_Containers sbx) []
          (podErr, if podErr then ''pause container is not running'' else [], \<not> podErr);
        now \<leftarrow> ask (le_now E);
        let sbx1 = sbx\<lparr> ls_Containers := cs, ls_UpdatedAt := now \<rparr>;
        ret (if ls_Phase sbx = LetPhaseDeleting then sbx1
             else if hasError then sbx1\<lparr> ls_Phase := SandboxPhaseError, ls_Error := sandboxErr \<rparr>
             else if allRunning then sbx1\<lparr> ls_Phase := LetPhaseRunning, ls_Error := [] \<rparr>
             else sbx1\<lparr> ls_Phase := SandboxPhaseCreating \<rparr>) })"

definition isContainerRunning :: "'f let_env \<Rightarrow> string \<Rightarrow> ('f let_state, bool) state" where
  "isContainerRunning E i = do {
     r \<leftarrow> ask (\<lambda>n. le_containerStatus E n i);
     ret (case r of Inl _ \<Rightarrow> False | Inr d \<Rightarrow> cd_State d = CONTAINER_RUNNING) }"

end
