(* ===== verification/Let_Net.thy ===== *)
theory Let_Net
  imports Let_Runtime
begin

text \<open>
  The connection to the container runtime (\<open>sandboxd-let/sandbox/cri_client.go\<close>), the kernel flags for
  bridged traffic (\<open>network/bridge_nf.go\<close>) and the result cache of the network plugin
  (\<open>network/cni_cache.go\<close>). The answers of the runtime and the contents of files come from the environment.
\<close>

section \<open>cri_client.go\<close>

definition normalizeCRIEndpoint :: "string \<Rightarrow> string" where
  "normalizeCRIEndpoint addr = TrimPrefix (TrimPrefix (TrimSpace addr) ''unix://'') ''unix:''"

definition newCRIClient :: "'f let_env \<Rightarrow> string \<Rightarrow> ('f let_state, go_error option) state" where
  "newCRIClient E endpoint = do {
     let target = ''unix://'' @ normalizeCRIEndpoint endpoint;
     r \<leftarrow> ask (\<lambda>n. le_newCRI E n target);
     case r of
       Some err \<Rightarrow> ret (Some (Errorf ''dial cri endpoint %q: %w'' [Quo endpoint, Wrap err]))
     | None \<Rightarrow> do { emit (EvDialCRI target); ret None } }"

text \<open>
  A pull that is already under way for the image is shared; \<open>le_pullImage\<close> is what this caller gets back, the
  outcome of the pull or the end of its own context.
\<close>

definition pullImage :: "'f let_env \<Rightarrow> string \<Rightarrow> ('f let_state, go_error option) state" where
  "pullImage E img = do {
     present \<leftarrow> ask (\<lambda>n. le_imageStatus E n img);
     if present then ret None
     else do {
       emit (EvPullImage img);
       ask (\<lambda>n. le_pullImage E n img) } }"

section \<open>bridge\_nf.go\<close>

text \<open>The flag may be missing until the kernel module is loaded.\<close>

definition load_bridge_module :: "'f let_env \<Rightarrow> string \<Rightarrow> ('f let_state, go_error option) state" where
  "load_bridge_module E path = do {
     st \<leftarrow> ask (\<lambda>n. le_stat E n path);
     case st of
       None \<Rightarrow> ret None
     | Some _ \<Rightarrow> do {
         (_, m) \<leftarrow> run_command E [''modprobe'', ''br_netfilter''];
         case m of
           Some modErr \<Rightarrow> ret (Some (Errorf ''load br_netfilter for %s: %w'' [Str path, Wrap modErr]))
         | None \<Rightarrow> do {
             st2 \<leftarrow> ask (\<lambda>n. le_stat E n path);
             case st2 of
               Some err2 \<Rightarrow> ret (Some (Errorf ''missing %s after modprobe: %w'' [Str path, Wrap err2]))
             | None \<Rightarrow> ret None } } }"

definition ensureProcFlag :: "'f let_env \<Rightarrow> string \<Rightarrow> string \<Rightarrow> ('f let_state, go_error option) state" where
  "ensureProcFlag E path want =
     bindO (load_bridge_module E path) (do {
       b \<leftarrow> ask (\<lambda>n. le_readFile E n path);
       if (case b of Inr raw \<Rightarrow> TrimSpace raw = want | Inl _ \<Rightarrow> False) then ret None
       else do {
         w \<leftarrow> fs_op E [EvWrite path (want @ [CHR 0x0A])];
         case w of
           Some err \<Rightarrow> ret (Some (Errorf ''set %s=%s: %w'' [Str path, Str want, Wrap err]))
         | None \<Rightarrow> ret None } })"

definition EnsureBridgeNetfilter :: "'f let_env \<Rightarrow> ('f let_state, go_error option) state" where
  "EnsureBridgeNetfilter E =
     bindO (ensureProcFlag E ''/proc/sys/net/bridge/bridge-nf-call-iptables'' ''1'')
       (ensureProcFlag E ''/proc/sys/net/bridge/bridge-nf-call-ip6tables'' ''1'')"

section \<open>cni\_cache.go\<close>

text \<open>
  \<open>netip.ParsePrefix\<close> for an IPv4 prefix: the text of its address. Anything else is skipped by the caller.
\<close>

definition prefix_bits_ok :: "string \<Rightarrow> bool" where
  "prefix_bits_ok bits \<longleftrightarrow> bits \<noteq> [] \<and> list_all is_digit bits \<and> (length bits > 1 \<longrightarrow> hd bits \<noteq> CHR ''0'') \<and> digits_val 10 bits \<le> 32"

definition ParsePrefix_v4 :: "string \<Rightarrow> string option" where
  "ParsePrefix_v4 s =
     (case Cut s ''/'' of
        None \<Rightarrow> None
      | Some (a, bits) \<Rightarrow>
          if CHR '':'' \<in> set a \<or> \<not> prefix_bits_ok bits then None
          else (case ParseIP a of None \<Rightarrow> None | Some ip \<Rightarrow> map_option ipv4_text (To4 ip)))"

fun first_ipv4 :: "string list \<Rightarrow> string option" where
  "first_ipv4 [] = None"
| "first_ipv4 (a # as) = (case ParsePrefix_v4 a of Some ip \<Rightarrow> Some ip | None \<Rightarrow> first_ipv4 as)"

text \<open>\<open>le_cniResult\<close>: the error of reading the file, or that of decoding it, or the addresses it lists.\<close>

definition parseIPv4FromCNIResultFile :: "'f let_env \<Rightarrow> string \<Rightarrow> ('f let_state, go_error + string) state" where
  "parseIPv4FromCNIResultFile E cachePath = do {
     r \<leftarrow> ask (\<lambda>n. le_cniResult E n cachePath);
     ret (case r of
         Inl err \<Rightarrow> Inl err
       | Inr (Inl err) \<Rightarrow> Inl (Errorf ''parse cni cache %s: %w'' [Str cachePath, Wrap err])
       | Inr (Inr addrs) \<Rightarrow>
           (case first_ipv4 addrs of Some ip \<Rightarrow> Inr ip | None \<Rightarrow> Inl (Errorf ''no ipv4 in %s'' [Str cachePath]))) }"

definition containsSandboxID :: "string \<Rightarrow> string \<Rightarrow> bool" where
  "containsSandboxID name sandboxID = Contains name sandboxID"

text \<open>The files of a directory whose name passes a test.\<close>

definition cache_files :: "'f let_env \<Rightarrow> string \<Rightarrow> (string \<Rightarrow> bool) \<Rightarrow> ('f let_state, string list) state" where
  "cache_files E dir wanted = do {
     r \<leftarrow> ask (\<lambda>n. le_readDir E n dir);
     ret (case r of
         Inl _ \<Rightarrow> []
       | Inr entries \<Rightarrow> map (\<lambda>(name, _). filepath_Join [dir, name]) (filter (\<lambda>(name, isDir). \<not> isDir \<and> wanted name) entries)) }"

fun first_parsed :: "'f let_env \<Rightarrow> string \<Rightarrow> string list \<Rightarrow> ('f let_state, go_error + string) state" where
  "first_parsed E sandboxID [] = ret (Inl (Errorf ''no ipv4 cni cache found for sandbox: %s'' [Str sandboxID]))"
| "first_parsed E sandboxID (p # ps) = do {
     r \<leftarrow> parseIPv4FromCNIResultFile E p;
     case r of Inr ip \<Rightarrow> ret (Inr ip) | Inl _ \<Rightarrow> first_parsed E sandboxID ps }"

definition LookupSandboxIPv4FromResultCache :: "'f let_env \<Rightarrow> string \<Rightarrow> ('f let_state, go_error + string) state" where
  "LookupSandboxIPv4FromResultCache E sandboxID =
     (case ValidateSandboxID sandboxID of
        Some err \<Rightarrow> ret (Inl err)
      | None \<Rightarrow> do {
          own \<leftarrow> cache_files E (filepath_Join [''/var/lib/cni'', sandboxID, ''results'']) (\<lambda>_. True);
          shared \<leftarrow> cache_files E ''/var/lib/cni/results'' (\<lambda>name. containsSandboxID name sandboxID);
          first_parsed E sandboxID (own @ shared) })"

definition sandboxIPFromCNICache :: "'f let_env \<Rightarrow> string \<Rightarrow> ('f let_state, string) state" where
  "sandboxIPFromCNICache E sandboxID =
     (if ValidateSandboxID sandboxID \<noteq> None then ret []
      else do {
        r \<leftarrow> LookupSandboxIPv4FromResultCache E sandboxID;
        ret (case r of Inl _ \<Rightarrow> [] | Inr ip \<Rightarrow> ip) })"

end
