(* ===== verification/Let_Service.thy ===== *)
theory Let_Service
  imports Let_Net
begin

text \<open>
  \<open>sandboxd-let/sandbox/service.go\<close>, \<open>reconcile.go\<close> and \<open>lock.go\<close>: the operations of the sbxlet service. The waits poll until their context is done, after
  \<open>le_rounds\<close> rounds. The goroutines that an operation starts are recorded in \<open>lt_spawned\<close>.
\<close>

section \<open>Locks\<close>

text \<open>
  The lock file is tried until the deadline, at least once; a round is one attempt. The lock that an operation
  acquires is released when it returns.
\<close>

fun lock_rounds :: "'f let_env \<Rightarrow> string \<Rightarrow> string \<Rightarrow> nat \<Rightarrow> ('f let_state, go_error option) state" where
  "lock_rounds E sandboxID lockPath 0 = do {
     got \<leftarrow> ask (\<lambda>k. le_flock E k lockPath);
     if got then ret None else ret (Some (Errorf ''lock timeout for %s'' [Str sandboxID])) }"
| "lock_rounds E sandboxID lockPath (Suc n) = do {
     got \<leftarrow> ask (\<lambda>k. le_flock E k lockPath);
     if got then ret None else lock_rounds E sandboxID lockPath n }"

definition acquireSandboxLock :: "'f let_env \<Rightarrow> string \<Rightarrow> ('f let_state, go_error option) state" where
  "acquireSandboxLock E sandboxID =
     (if sandboxID = [] then ret (Some (Errorf ''sandbox id is required'' []))
      else do {
        let lockPath = lock_path (le_LockDir E) sandboxID;
        r \<leftarrow> ask (\<lambda>k. le_openLock E k lockPath);
        case r of
          Some err \<Rightarrow> ret (Some err)
        | None \<Rightarrow> do { n \<leftarrow> ask (le_rounds E); lock_rounds E sandboxID lockPath n } })"

definition isSandboxLockHeld :: "'f let_env \<Rightarrow> string \<Rightarrow> ('f let_state, bool) state" where
  "isSandboxLockHeld E sandboxID =
     (if sandboxID = [] then ret False
      else do {
        let lockPath = lock_path (le_LockDir E) sandboxID;
        r \<leftarrow> ask (\<lambda>k. le_openLock E k lockPath);
        case r of
          Some _ \<Rightarrow> ret False
        | None \<Rightarrow> do { got \<leftarrow> ask (\<lambda>k. le_flock E k lockPath); ret (\<not> got) } })"

section \<open>New\<close>

definition NewFileStore :: "'f let_env \<Rightarrow> ('f let_state, go_error option) state" where
  "NewFileStore E = fs_op E [EvMkdir (le_StateBaseDir E)]"

text \<open>Whatever fails after the connection to the runtime is made closes it again.\<close>

definition let_New :: "'f let_env \<Rightarrow> ('f let_state, go_error option) state" where
  "let_New E =
     bindO (newCRIClient E (le_ContainerdAddress E)) (do {
       e \<leftarrow> bindO (ask (le_newIPT E)) (bindO (EnsureBridgeNetfilter E) (bindO (NewFileStore E)
         (bindO (on_fw (EnsureGlobalChains (le_ipt E) (le_ForwardHookChains E))) (do {
           modify (\<lambda>s. s\<lparr> lt_reserved := [], lt_since := [], lt_hits := [] \<rparr>);
           fs_op E [EvMkdir (le_LockDir E)] }))));
       case e of
         Some err \<Rightarrow> do { emit EvCloseCRI; ret (Some err) }
       | None \<Rightarrow> ret None })"

section \<open>Host ports\<close>

definition portKey :: "int \<Rightarrow> string \<Rightarrow> string" where
  "portKey port proto = Itoa port @ ''/'' @ normalizeProto proto"

text \<open>The table of used ports maps a host port to its last user in the listing.\<close>

definition used_ports :: "string \<Rightarrow> LetSandbox list \<Rightarrow> (int \<times> string \<times> string) list" where
  "used_ports sandboxID all =
     foldl (\<lambda>m (i, p). map_put (pm_HostPort p) (i, normalizeProto (pm_Protocol p)) m) []
       (concat (map (\<lambda>sb. map (\<lambda>p. (ls_ID sb, p)) (ls_Ports sb)) (filter (\<lambda>sb. ls_ID sb \<noteq> sandboxID) all)))"

definition ensureLocalPortFree :: "'f let_env \<Rightarrow> int \<Rightarrow> string \<Rightarrow> ('f let_state, go_error option) state" where
  "ensureLocalPortFree E port proto =
     (let addr = ''0.0.0.0:'' @ Itoa port in
      if proto = ''udp'' then ask (\<lambda>n. le_listen E n ''udp'' addr) else ask (\<lambda>n. le_listen E n ''tcp'' addr))"

definition reservedPortOwner :: "int \<Rightarrow> string \<Rightarrow> ('f let_state, string option) state" where
  "reservedPortOwner port proto = gets (\<lambda>s. map_of (lt_reserved s) (portKey port proto))"

text \<open>One requested port against the table of used ports, the reservations and the host.\<close>

definition check_host_port :: "'f let_env \<Rightarrow> string \<Rightarrow> (int \<times> string \<times> string) list \<Rightarrow> PortMapping \<Rightarrow> ('f let_state, go_error option) state" where
  "check_host_port E sandboxID used p = do {
     let proto = normalizeProto (pm_Protocol p);
     owner \<leftarrow> reservedPortOwner (pm_HostPort p) proto;
     let inUse = (case map_of used (pm_HostPort p) of Some (user, pr) \<Rightarrow> if pr = proto then Some user else None | None \<Rightarrow> None);
     let taken = (case owner of Some i \<Rightarrow> if i \<noteq> sandboxID then Some i else None | None \<Rightarrow> None);
     (case inUse of
        Some user \<Rightarrow> ret (Some (Errorf ''host port already in use: %d/%s (sandbox %s)'' [Dec (pm_HostPort p), Str proto, Str user]))
      | None \<Rightarrow>
     (case taken of
        Some i \<Rightarrow> ret (Some (Errorf ''host port already reserved: %d/%s (sandbox %s)'' [Dec (pm_HostPort p), Str proto, Str i]))
      | None \<Rightarrow> do {
          r \<leftarrow> ensureLocalPortFree E (pm_HostPort p) proto;
          case r of
            Some err \<Rightarrow> ret (Some (Errorf ''host port already in use: %d/%s (%v)'' [Dec (pm_HostPort p), Str proto, Val err]))
          | None \<Rightarrow> ret None })) }"

definition ensureHostPortsAvailable :: "'f let_env \<Rightarrow> string \<Rightarrow> PortMapping list \<Rightarrow> ('f let_state, go_error option) state" where
  "ensureHostPortsAvailable E sandboxID requested =
     (if requested = [] then ret None
      else do {
        r \<leftarrow> st_List E;
        case r of Inl err \<Rightarrow> ret (Some err) | Inr all \<Rightarrow> for_ret requested (check_host_port E sandboxID (used_ports sandboxID all)) })"

definition request_keys :: "PortMapping list \<Rightarrow> string list" where
  "request_keys requested = map (\<lambda>p. portKey (pm_HostPort p) (normalizeProto (pm_Protocol p))) requested"

definition reserveRequestedPorts :: "string \<Rightarrow> PortMapping list \<Rightarrow> ('f let_state, unit) state" where
  "reserveRequestedPorts sandboxID requested =
     modify (lt_reserved_update (\<lambda>m. foldl (\<lambda>m k. map_put k sandboxID m) m (request_keys requested)))"

text \<open>The function that \<open>reserveRequestedPorts\<close> returns.\<close>

definition releaseRequestedPorts :: "string \<Rightarrow> PortMapping list \<Rightarrow> ('f let_state, unit) state" where
  "releaseRequestedPorts sandboxID requested =
     modify (lt_reserved_update (\<lambda>m. foldl (\<lambda>m k. if map_of m k = Some sandboxID then map_del k m else m) m (request_keys requested)))"

definition releaseReservedPorts :: "string \<Rightarrow> ('f let_state, unit) state" where
  "releaseReservedPorts sandboxID = modify (lt_reserved_update (filter (\<lambda>(_, v). v \<noteq> sandboxID)))"

section \<open>Waiting\<close>

text \<open>The verdict of one poll: still waiting, ready, or an error.\<close>

datatype poll = Waiting | Ready | Broken go_error

fun poll_containers :: "'f let_env \<Rightarrow> string \<Rightarrow> (string \<times> ContainerState) list \<Rightarrow> ('f let_state, poll) state" where
  "poll_containers E sid [] = ret Ready"
| "poll_containers E sid ((_, c) # cs) = do {
     r \<leftarrow> ask (\<lambda>n. le_containerStatus E n (cs_ID c));
     case r of
       Inl _ \<Rightarrow> ret Waiting
     | Inr st \<Rightarrow> (case cd_State st of
           CONTAINER_EXITED \<Rightarrow> ret (Broken (Errorf ''sandbox %s container %s became %s before ready'' [Str sid, Str (cs_Name c), Str ''container_exited'']))
         | CONTAINER_UNKNOWN \<Rightarrow> ret (Broken (Errorf ''sandbox %s container %s became %s before ready'' [Str sid, Str (cs_Name c), Str ''container_unknown'']))
         | CONTAINER_RUNNING \<Rightarrow> poll_containers E sid cs
         | _ \<Rightarrow> ret Waiting) }"

definition ctx_Err :: go_error where "ctx_Err = ErrNew ''context deadline exceeded''"

fun wait_rounds :: "'f let_env \<Rightarrow> LetSandbox \<Rightarrow> nat \<Rightarrow> ('f let_state, go_error option) state" where
  "wait_rounds E sbx 0 = ret (Some (Errorf ''sandbox %s readiness canceled: %w'' [Str (ls_ID sbx), Wrap ctx_Err]))"
| "wait_rounds E sbx (Suc n) = do {
     pod \<leftarrow> ask (\<lambda>k. le_podStatus E k (ls_PauseID sbx));
     case pod of
       Inl _ \<Rightarrow> wait_rounds E sbx n
     | Inr _ \<Rightarrow> do {
         v \<leftarrow> poll_containers E (ls_ID sbx) (ls_Containers sbx);
         case v of Ready \<Rightarrow> ret None | Broken err \<Rightarrow> ret (Some err) | Waiting \<Rightarrow> wait_rounds E sbx n } }"

definition waitSandboxReady :: "'f let_env \<Rightarrow> LetSandbox \<Rightarrow> ('f let_state, go_error option) state" where
  "waitSandboxReady E sbx = do { n \<leftarrow> ask (le_rounds E); wait_rounds E sbx n }"

text \<open>
  The readiness probe is a TCP connection or an HTTP request (\<open>le_httpGet\<close> is the status code of the response). Both
  counters of results in a row are kept. The timeout of the error message is printed in seconds.
\<close>

definition probeReadiness :: "'f let_env \<Rightarrow> string \<Rightarrow> string \<Rightarrow> string \<Rightarrow> ('f let_state, go_error option) state" where
  "probeReadiness E addr proto path =
     (if proto = ''tcp'' then ask (\<lambda>n. le_dial E n addr)
      else if proto = ''http'' then do {
        r \<leftarrow> ask (\<lambda>n. le_httpGet E n (''http://'' @ addr @ path));
        ret (case r of
            Inl err \<Rightarrow> Some err
          | Inr code \<Rightarrow> if code < 200 \<or> code \<ge> 400 then Some (Errorf ''unexpected status code %d'' [Dec code]) else None) }
      else ret (Some (Errorf ''unsupported readiness protocol %q'' [Quo proto])))"

definition JoinHostPort :: "string \<Rightarrow> string \<Rightarrow> string" where
  "JoinHostPort host port = (if CHR '':'' \<in> set host then ''['' @ host @ '']:'' @ port else host @ '':'' @ port)"

definition probe_addr :: "string \<Rightarrow> ReadinessProbeSpec \<Rightarrow> string" where
  "probe_addr ip probe = JoinHostPort ip (Itoa (rp_Port probe))"

fun probe_rounds :: "'f let_env \<Rightarrow> string \<Rightarrow> string \<Rightarrow> ReadinessProbeSpec \<Rightarrow> nat \<Rightarrow> int \<Rightarrow> int \<Rightarrow> ('f let_state, go_error option) state" where
  "probe_rounds E sid ip probe 0 success failure =
     ret (Some (Errorf ''sandbox %s readiness probe canceled: %w'' [Str sid, Wrap ctx_Err]))"
| "probe_rounds E sid ip probe (Suc n) success failure = do {
     let proto = ToLower (TrimSpace (rp_Protocol probe));
     let path = TrimSpace (rp_Path probe);
     r \<leftarrow> probeReadiness E (probe_addr ip probe) proto path;
     case r of
       Some err \<Rightarrow>
         if failure + 1 \<ge> rp_FailureThreshold probe then
           ret (Some (Errorf ''sandbox %s readiness probe failed: protocol=%s target=%s path=%s failed %d times (timeout=%s): %w''
             [Str sid, Str proto, Str (probe_addr ip probe), Str path, Dec (failure + 1), Str (Itoa (rp_TimeoutSeconds probe) @ ''s''), Wrap err]))
         else probe_rounds E sid ip probe n 0 (failure + 1)
     | None \<Rightarrow>
         if success + 1 \<ge> rp_SuccessThreshold probe then ret None
         else probe_rounds E sid ip probe n (success + 1) 0 }"

definition waitReadinessProbe :: "'f let_env \<Rightarrow> LetSandbox \<Rightarrow> ReadinessProbeSpec \<Rightarrow> ('f let_state, go_error option) state" where
  "waitReadinessProbe E sbx probe = do {
     n \<leftarrow> ask (le_rounds E);
     if n = 0 then ret (Some (Errorf ''sandbox %s readiness probe canceled before start: %w'' [Str (ls_ID sbx), Wrap ctx_Err]))
     else probe_rounds E (ls_ID sbx) (ls_IP sbx) probe n 0 0 }"

section \<open>Creating a sandbox\<close>

text \<open>The loop over the containers: the sandbox with those started so far, and the error that ended it.\<close>

fun provision_containers ::
  "'f let_env \<Rightarrow> string \<Rightarrow> PodSandboxConfig \<Rightarrow> CreateContainerRequest list \<Rightarrow> LetSandbox \<Rightarrow> ('f let_state, LetSandbox \<times> go_error option) state" where
  "provision_containers E podID podCfg [] sbx = ret (sbx, None)"
| "provision_containers E podID podCfg (c # cs) sbx =
     (case parseContainerResource (le_pq E) (cc_Resource c) of
        Inl err \<Rightarrow> (let e = Errorf ''container %s: %w'' [Str (cc_Name c), Wrap err] in ret (sbx\<lparr> ls_Error := Error e \<rparr>, Some e))
      | Inr parsed \<Rightarrow> do {
          let lim = applyEphemeralLimits (le_limits E) (parsedResourceToLimits parsed) parsed;
          p \<leftarrow> pullImage E (normalizeImage (cc_Image c));
          case p of
            Some pullErr \<Rightarrow>
              (let e = Errorf ''pull image %q: %w'' [Quo (normalizeImage (cc_Image c)), Wrap pullErr] in ret (sbx\<lparr> ls_Error := Error e \<rparr>, Some e))
          | None \<Rightarrow> do {
              r \<leftarrow> createAndStartCRIContainer E sbx podID podCfg c lim;
              case r of
                Inl e \<Rightarrow> ret (sbx\<lparr> ls_Error := Error e \<rparr>, Some e)
              | Inr st \<Rightarrow> provision_containers E podID podCfg cs (sbx\<lparr> ls_Containers := map_put (cc_Name c) st (ls_Containers sbx) \<rparr>) } })"

text \<open>The steps after the containers run, up to the readiness probe; only the probe sets the error of the sandbox.\<close>

definition provision_network :: "'f let_env \<Rightarrow> CreateSandboxRequest \<Rightarrow> LetSandbox \<Rightarrow> ('f let_state, LetSandbox \<times> go_error option) state" where
  "provision_network E req sbx =
     (if ls_IP sbx = [] then ret (sbx, Some (Errorf ''sandbox ip not assigned by cni'' []))
      else do {
        e \<leftarrow> bindO (applySandboxNetworkPolicy E sbx) (bindO (waitSandboxReady E sbx) (applyHostPortPublish E sbx));
        case e of
          Some err \<Rightarrow> ret (sbx, Some err)
        | None \<Rightarrow>
            (case cr_Readiness req of
               None \<Rightarrow> ret (sbx, None)
             | Some probe \<Rightarrow> do {
                 f \<leftarrow> waitReadinessProbe E sbx probe;
                 case f of Some err \<Rightarrow> ret (sbx\<lparr> ls_Error := Error err \<rparr>, Some err) | None \<Rightarrow> ret (sbx, None) }) })"

text \<open>What follows the containers; the sandbox is running when it is saved.\<close>

definition provision_finish :: "'f let_env \<Rightarrow> CreateSandboxRequest \<Rightarrow> LetSandbox \<Rightarrow> ('f let_state, LetSandbox \<times> go_error option) state" where
  "provision_finish E req sbx1 = do {
     (sbx2, f) \<leftarrow> provision_network E req sbx1;
     case f of
       Some err \<Rightarrow> ret (sbx2, Some err)
     | None \<Rightarrow> do {
         sbx3 \<leftarrow> refreshSandboxRuntimeState E sbx2;
         now \<leftarrow> ask (le_now E);
         let sbx4 = setSandboxPhase now sbx3 LetPhaseRunning [];
         g \<leftarrow> st_Save E sbx4;
         ret (sbx4, g) } }"

definition provision_steps :: "'f let_env \<Rightarrow> LetSandbox \<Rightarrow> CreateSandboxRequest \<Rightarrow> ('f let_state, LetSandbox \<times> go_error option) state" where
  "provision_steps E sbx req = do {
     r \<leftarrow> createPodSandboxCRI E sbx (cr_Containers req);
     case r of
       Inl err \<Rightarrow> ret (sbx\<lparr> ls_Error := Error err \<rparr>, Some err)
     | Inr (podID, assignedIP, podCfg) \<Rightarrow> do {
         (sbx1, e) \<leftarrow> provision_containers E podID podCfg (cr_Containers req) (sbx\<lparr> ls_PauseID := podID, ls_IP := assignedIP \<rparr>);
         case e of
           Some err \<Rightarrow> ret (sbx1, Some err)
         | None \<Rightarrow> provision_finish E req sbx1 } }"

text \<open>The deferred function runs when the sandbox was not created.\<close>

definition provision_failed :: "'f let_env \<Rightarrow> LetSandbox \<Rightarrow> ('f let_state, unit) state" where
  "provision_failed E sbx = do {
     now \<leftarrow> ask (le_now E);
     let sbx1 = setSandboxPhase now sbx SandboxPhaseError (ls_Error sbx);
     let sbx2 = (if ls_Error sbx1 = [] then sbx1\<lparr> ls_Error := ''provision failed'' \<rparr> else sbx1);
     _ \<leftarrow> st_Save E sbx2;
     deleteSandboxRuntimeArtifacts E sbx2 }"

definition provisionSandboxSync :: "'f let_env \<Rightarrow> LetSandbox \<Rightarrow> CreateSandboxRequest \<Rightarrow> ('f let_state, go_error + LetSandbox) state" where
  "provisionSandboxSync E sbx req = do {
     (sbx1, e) \<leftarrow> provision_steps E sbx req;
     case e of
       None \<Rightarrow> ret (Inr sbx1)
     | Some err \<Rightarrow> do { provision_failed E sbx1; ret (Inl err) } }"

definition markSandboxError :: "'f let_env \<Rightarrow> string \<Rightarrow> go_error \<Rightarrow> ('f let_state, unit) state" where
  "markSandboxError E sandboxID err = do {
     r \<leftarrow> st_Load E sandboxID;
     case r of
       Inl _ \<Rightarrow> ret ()
     | Inr sbx \<Rightarrow> do {
         now \<leftarrow> ask (le_now E);
         _ \<leftarrow> st_Save E (setSandboxPhase now sbx SandboxPhaseError (Error err));
         ret () } }"

definition provisionSandbox :: "'f let_env \<Rightarrow> string \<Rightarrow> CreateSandboxRequest \<Rightarrow> ('f let_state, unit) state" where
  "provisionSandbox E sandboxID req = do {
     l \<leftarrow> acquireSandboxLock E sandboxID;
     case l of
       Some err \<Rightarrow> markSandboxError E sandboxID err
     | None \<Rightarrow> do {
         r \<leftarrow> st_Load E sandboxID;
         case r of
           Inl _ \<Rightarrow> ret ()
         | Inr sbx \<Rightarrow> do {
             p \<leftarrow> provisionSandboxSync E sbx req;
             case p of Inl err \<Rightarrow> markSandboxError E sandboxID err | Inr _ \<Rightarrow> ret () } } }"

text \<open>Artifacts of an earlier sandbox with the same id: a CNI directory or a pod with that name.\<close>

definition hasRuntimeArtifacts :: "'f let_env \<Rightarrow> string \<Rightarrow> ('f let_state, bool) state" where
  "hasRuntimeArtifacts E sandboxID =
     (if ValidateSandboxID sandboxID \<noteq> None then ret False
      else do {
        r \<leftarrow> ask (\<lambda>n. le_stat E n (cni_cache_dir sandboxID));
        if r = None then ret True
        else do {
          p \<leftarrow> ask (le_pods E);
          case p of
            Inl _ \<Rightarrow> ret False
          | Inr items \<Rightarrow> ret (list_ex (\<lambda>it. case pi_Metadata it of Some (_, name) \<Rightarrow> name = sandboxID | None \<Rightarrow> False) items) } })"

definition orphan_sandbox :: "'f let_env \<Rightarrow> string \<Rightarrow> string \<Rightarrow> string \<Rightarrow> LetSandbox" where
  "orphan_sandbox E sandboxID ip pauseID = \<lparr> ls_ID = sandboxID, ls_Phase = [], ls_Error = [], ls_Namespace = sv_namespace (le_svc E),
     ls_IP = ip, ls_SubnetCIDR = [], ls_BridgeName = sv_bridgeIF (le_svc E), ls_Egress = False, ls_Ports = [], ls_Volumes = [],
     ls_Containers = [], ls_PauseID = pauseID, ls_CNIConfPath = [], ls_CreatedAt = 0, ls_UpdatedAt = 0 \<rparr>"

definition cleanupOrphanRuntimeSandbox :: "'f let_env \<Rightarrow> string \<Rightarrow> ('f let_state, go_error option) state" where
  "cleanupOrphanRuntimeSandbox E sandboxID =
     (case ValidateSandboxID sandboxID of
        Some err \<Rightarrow> ret (Some err)
      | None \<Rightarrow> do {
          ip \<leftarrow> sandboxIPFromCNICache E sandboxID;
          pod \<leftarrow> findManagedPodSandboxID E sandboxID;
          let tmp = orphan_sandbox E sandboxID ip (case pod of Some p \<Rightarrow> p | None \<Rightarrow> []);
          (if ls_IP tmp = [] \<and> ls_PauseID tmp = [] then cleanupHostPortPublish E tmp else deleteSandboxFromState E tmp);
          ret None })"

definition enforce_admission_now :: "'f let_env \<Rightarrow> CreateSandboxRequest \<Rightarrow> ('f let_state, go_error option) state" where
  "enforce_admission_now E req =
     (case request_total (le_pq E) (cr_Containers req) 0 0 of
        Inl err \<Rightarrow> ret (Some err)
      | Inr _ \<Rightarrow> do {
          listing \<leftarrow> st_List E;
          mem \<leftarrow> ask (le_meminfo E);
          ret (enforceAdmission (le_pq E) (le_limits E) listing (le_numCPU E)
            (case mem of Inl err \<Rightarrow> Inl err | Inr ls \<Rightarrow> hostTotalMemoryBytes ls) req) })"

definition ensure_capacity_now :: "'f let_env \<Rightarrow> string \<Rightarrow> ('f let_state, go_error option) state" where
  "ensure_capacity_now E sandboxID = do {
     listing \<leftarrow> st_List E;
     ret (ensureIPCapacity (sv_cidr (le_svc E)) listing sandboxID) }"

text \<open>The part of \<open>createSandbox\<close> that holds the reservation of the host ports, then the release it defers.\<close>

definition create_admitted :: "'f let_env \<Rightarrow> CreateSandboxRequest \<Rightarrow> bool \<Rightarrow> ('f let_state, go_error + LetSandbox) state" where
  "create_admitted E req async = do {
     e \<leftarrow> bindO (acquireSandboxLock E ''_admission'')
       (bindO (enforce_admission_now E req) (ensure_capacity_now E (cr_ID req)));
     case e of
       Some err \<Rightarrow> ret (Inl err)
     | None \<Rightarrow> do {
         now \<leftarrow> ask (le_now E);
         let sbx = newSandboxState (le_svc E) now req;
         f \<leftarrow> st_Save E sbx;
         case f of
           Some err \<Rightarrow> ret (Inl err)
         | None \<Rightarrow>
             if async then do { modify (lt_spawned_update (\<lambda>g. g @ [(cr_ID req, req)])); ret (Inr sbx) }
             else provisionSandboxSync E sbx req } }"

definition createSandbox :: "'f let_env \<Rightarrow> CreateSandboxRequest \<Rightarrow> bool \<Rightarrow> ('f let_state, go_error + LetSandbox) state" where
  "createSandbox E req async =
     (case Validate (le_pq E) req of
        Some err \<Rightarrow> ret (Inl err)
      | None \<Rightarrow> do {
          l \<leftarrow> acquireSandboxLock E (cr_ID req);
          case l of
            Some err \<Rightarrow> ret (Inl err)
          | None \<Rightarrow> do {
              r \<leftarrow> st_Load E (cr_ID req);
              case r of
                Inr _ \<Rightarrow> ret (Inl (Errorf ''sandbox already exists: %s'' [Str (cr_ID req)]))
              | Inl err \<Rightarrow>
                  if \<not> errors_Is err ErrNotExist then ret (Inl err)
                  else do {
                    old \<leftarrow> hasRuntimeArtifacts E (cr_ID req);
                    (if old then do { _ \<leftarrow> cleanupOrphanRuntimeSandbox E (cr_ID req); cleanupCNICache (cr_ID req) } else ret ());
                    p \<leftarrow> bindO (acquireSandboxLock E ''_ports'') (ensureHostPortsAvailable E (cr_ID req) (cr_Ports req));
                    case p of
                      Some err \<Rightarrow> ret (Inl err)
                    | None \<Rightarrow> do {
                        reserveRequestedPorts (cr_ID req) (cr_Ports req);
                        out \<leftarrow> create_admitted E req async;
                        releaseRequestedPorts (cr_ID req) (cr_Ports req);
                        ret out } } } })"

definition CreateSandbox :: "'f let_env \<Rightarrow> CreateSandboxRequest \<Rightarrow> ('f let_state, go_error + LetSandbox) state" where
  "CreateSandbox E req = createSandbox E req False"

definition CreateSandboxAsync :: "'f let_env \<Rightarrow> CreateSandboxRequest \<Rightarrow> ('f let_state, go_error + LetSandbox) state" where
  "CreateSandboxAsync E req = createSandbox E req True"

section \<open>Deleting and reading\<close>

definition clearUnhealthy :: "string \<Rightarrow> ('f let_state, unit) state" where
  "clearUnhealthy sandboxID = modify (\<lambda>s. s\<lparr> lt_since := map_del sandboxID (lt_since s), lt_hits := map_del sandboxID (lt_hits s) \<rparr>)"

definition let_DeleteSandbox :: "'f let_env \<Rightarrow> string \<Rightarrow> ('f let_state, go_error option) state" where
  "let_DeleteSandbox E sandboxID =
     (case ValidateSandboxID sandboxID of
        Some err \<Rightarrow> ret (Some err)
      | None \<Rightarrow> do {
          l \<leftarrow> acquireSandboxLock E sandboxID;
          case l of
            Some err \<Rightarrow> ret (Some err)
          | None \<Rightarrow> do {
              r \<leftarrow> st_Load E sandboxID;
              case r of
                Inl err \<Rightarrow> if errors_Is err ErrNotExist then do { releaseReservedPorts sandboxID; ret None } else ret (Some err)
              | Inr sbx0 \<Rightarrow> do {
                  now \<leftarrow> ask (le_now E);
                  let sbx = setSandboxPhase now sbx0 LetPhaseDeleting [];
                  _ \<leftarrow> st_Save E sbx;
                  deleteSandboxFromState E sbx;
                  releaseReservedPorts sandboxID;
                  clearUnhealthy sandboxID;
                  ret None } } })"

fun refresh_all :: "'f let_env \<Rightarrow> LetSandbox list \<Rightarrow> LetSandbox list \<Rightarrow> ('f let_state, LetSandbox list) state" where
  "refresh_all E [] out = ret out"
| "refresh_all E (sbx # rest) out = do { cp \<leftarrow> refreshSandboxRuntimeState E sbx; refresh_all E rest (out @ [cp]) }"

definition let_ListSandboxes :: "'f let_env \<Rightarrow> ('f let_state, go_error + LetSandbox list) state" where
  "let_ListSandboxes E = do {
     r \<leftarrow> st_List E;
     case r of Inl err \<Rightarrow> ret (Inl err) | Inr all \<Rightarrow> do { out \<leftarrow> refresh_all E all []; ret (Inr out) } }"

definition let_GetSandbox :: "'f let_env \<Rightarrow> string \<Rightarrow> ('f let_state, go_error + LetSandbox) state" where
  "let_GetSandbox E i =
     (case ValidateSandboxID i of
        Some err \<Rightarrow> ret (Inl err)
      | None \<Rightarrow> bindE (st_Load E i) (\<lambda>sbx. do { cp \<leftarrow> refreshSandboxRuntimeState E sbx; ret (Inr cp) }))"

text \<open>The index of the first sandbox of a page: the first one after the cursor.\<close>

definition page_start :: "string \<Rightarrow> LetSandbox list \<Rightarrow> nat" where
  "page_start cursor all = (if cursor = [] then 0 else length (takeWhile (\<lambda>sb. \<not> cursor < ls_ID sb) all))"

definition page_limit :: "int \<Rightarrow> int" where
  "page_limit limit = (let l = (if limit \<le> 0 then 20 else limit) in if l > 200 then 200 else l)"

definition page_of :: "string \<Rightarrow> int \<Rightarrow> LetSandbox list \<Rightarrow> LetSandbox list \<times> string" where
  "page_of cursor limit all0 =
     (let all = sort_slice (\<lambda>a b. ls_ID a < ls_ID b) all0;
          start = page_start cursor all;
          page = take (nat (page_limit limit)) (drop start all)
      in (page, if start + length page < length all \<and> length page > 0 then ls_ID (last page) else []))"

definition ListSandboxesPage :: "'f let_env \<Rightarrow> string \<Rightarrow> int \<Rightarrow> ('f let_state, go_error + LetSandbox list \<times> string) state" where
  "ListSandboxesPage E cursor limit = do {
     r \<leftarrow> st_List E;
     case r of
       Inl err \<Rightarrow> ret (Inl err)
     | Inr all \<Rightarrow> do {
         let (page, nextCursor) = page_of cursor limit all;
         out \<leftarrow> refresh_all E page [];
         ret (Inr (out, nextCursor)) } }"

section \<open>reconcile.go\<close>

text \<open>Both maps always have the same keys; a missing counter reads as zero.\<close>

definition shouldFinalizeUnhealthy :: "'f let_env \<Rightarrow> string \<Rightarrow> ('f let_state, bool) state" where
  "shouldFinalizeUnhealthy E sandboxID = do {
     now \<leftarrow> ask (le_now E);
     since \<leftarrow> gets lt_since;
     case map_of since sandboxID of
       None \<Rightarrow> do {
         modify (\<lambda>s. s\<lparr> lt_since := map_put sandboxID now (lt_since s), lt_hits := map_put sandboxID 1 (lt_hits s) \<rparr>);
         ret False }
     | Some t0 \<Rightarrow> do {
         modify (\<lambda>s. s\<lparr> lt_hits := map_put sandboxID ((case map_of (lt_hits s) sandboxID of Some h \<Rightarrow> h | None \<Rightarrow> 0) + 1) (lt_hits s) \<rparr>);
         hits \<leftarrow> gets lt_hits;
         if now - t0 < le_ReconcileGrace E then ret False
         else ret ((case map_of hits sandboxID of Some h \<Rightarrow> h | None \<Rightarrow> 0) \<ge> le_ReconcileHits E) } }"

definition twoMinutes :: int where "twoMinutes = 120000000000"

fun all_running :: "'f let_env \<Rightarrow> (string \<times> ContainerState) list \<Rightarrow> ('f let_state, bool) state" where
  "all_running E [] = ret True"
| "all_running E ((_, c) # cs) = do { r \<leftarrow> isContainerRunning E (cs_ID c); if \<not> r then ret False else all_running E cs }"

text \<open>Is the sandbox gone or unhealthy? The pod is asked first, then its containers.\<close>

definition runtime_unhealthy :: "'f let_env \<Rightarrow> LetSandbox \<Rightarrow> ('f let_state, bool) state" where
  "runtime_unhealthy E sbx = do {
     pod \<leftarrow> (if ls_PauseID sbx \<noteq> [] then do { r \<leftarrow> ask (\<lambda>n. le_podStatus E n (ls_PauseID sbx)); ret (Some r) } else ret None);
     case pod of
       None \<Rightarrow> ret True
     | Some (Inl _) \<Rightarrow> ret True
     | Some (Inr _) \<Rightarrow> do { r \<leftarrow> all_running E (ls_Containers sbx); ret (\<not> r) } }"

definition let_reconcile_one :: "'f let_env \<Rightarrow> LetSandbox \<Rightarrow> ('f let_state, unit) state" where
  "let_reconcile_one E sbx = do {
     held \<leftarrow> isSandboxLockHeld E (ls_ID sbx);
     if held \<or> ls_Phase sbx = LetPhaseDeleting then ret ()
     else if ls_Phase sbx = SandboxPhaseCreating then do {
       now \<leftarrow> ask (le_now E);
       if now - ls_CreatedAt sbx < twoMinutes then ret ()
       else do {
         _ \<leftarrow> st_Save E (setSandboxPhase now sbx SandboxPhaseError ''provisioning timeout'');
         ret () } }
     else do {
       bad \<leftarrow> runtime_unhealthy E sbx;
       if bad then do {
         fin \<leftarrow> shouldFinalizeUnhealthy E (ls_ID sbx);
         (if fin then do { deleteSandboxFromState E sbx; clearUnhealthy (ls_ID sbx) } else ret ()) }
       else clearUnhealthy (ls_ID sbx) } }"

definition ReconcileOnce :: "'f let_env \<Rightarrow> ('f let_state, go_error option) state" where
  "ReconcileOnce E = do {
     r \<leftarrow> st_List E;
     case r of
       Inl err \<Rightarrow> ret (Some err)
     | Inr stateList \<Rightarrow> do {
         for_each stateList (let_reconcile_one E);
         on_fw (DeleteOrphanHostPortDNAT (le_ipt E) (map ls_ID stateList));
         ret None } }"

text \<open>The ids of the pods that carry the name of a sandbox, sorted, without repetition.\<close>

definition listCRISandboxIDs :: "'f let_env \<Rightarrow> ('f let_state, go_error + string list) state" where
  "listCRISandboxIDs E =
     bindE (ask (le_pods E)) (\<lambda>items. ret (Inr (filter (\<lambda>i. i \<noteq> []) (map pi_Id items))))"

definition runtime_sandbox_id :: "pod_status \<Rightarrow> string option" where
  "runtime_sandbox_id st =
     (case ps_Metadata st of
        None \<Rightarrow> None
      | Some (uid, name) \<Rightarrow>
          if HasPrefix uid ''sbx-'' \<or> HasPrefix name ''sbx-'' then
            (let sbxID = (if TrimSpace uid = [] then TrimSpace name else TrimSpace uid) in if sbxID \<noteq> [] then Some sbxID else None)
          else None)"

fun collect_runtime_ids :: "'f let_env \<Rightarrow> string list \<Rightarrow> string list \<Rightarrow> ('f let_state, string list) state" where
  "collect_runtime_ids E [] ids = ret ids"
| "collect_runtime_ids E (i # rest) ids =
     (if i = [] then collect_runtime_ids E rest ids
      else do {
        r \<leftarrow> ask (\<lambda>n. le_podStatus E n i);
        case r of
          Inl _ \<Rightarrow> collect_runtime_ids E rest ids
        | Inr st \<Rightarrow>
            (case runtime_sandbox_id st of
               None \<Rightarrow> collect_runtime_ids E rest ids
             | Some sbxID \<Rightarrow> collect_runtime_ids E rest (if sbxID \<in> set ids then ids else ids @ [sbxID])) })"

definition ListRuntimeSandboxIDs :: "'f let_env \<Rightarrow> ('f let_state, go_error + string list) state" where
  "ListRuntimeSandboxIDs E =
     bindE (listCRISandboxIDs E) (\<lambda>pods. do {
       ids \<leftarrow> collect_runtime_ids E pods [];
       ret (Inr (sort_slice (<) ids)) })"

definition IsSandboxHealthy :: "'f let_env \<Rightarrow> string \<Rightarrow> ('f let_state, go_error + bool) state" where
  "IsSandboxHealthy E sandboxID =
     (case ValidateSandboxID sandboxID of
        Some err \<Rightarrow> ret (Inl err)
      | None \<Rightarrow> bindE (st_Load E sandboxID) (\<lambda>sbx. do { r \<leftarrow> all_running E (ls_Containers sbx); ret (Inr r) }))"

definition CleanupSandboxResources :: "'f let_env \<Rightarrow> string \<Rightarrow> ('f let_state, go_error option) state" where
  "CleanupSandboxResources E sandboxID =
     (case ValidateSandboxID sandboxID of
        Some err \<Rightarrow> ret (Some err)
      | None \<Rightarrow> do {
          r \<leftarrow> st_Load E sandboxID;
          case r of
            Inr sbx \<Rightarrow> do { deleteSandboxFromState E sbx; ret None }
          | Inl err \<Rightarrow> if \<not> errors_Is err ErrNotExist then ret (Some err) else cleanupOrphanRuntimeSandbox E sandboxID })"

end
