(* ===== verification/Let_Frame.thy ===== *)
theory Let_Frame
  imports Let_Service "HOL-Library.Sublist"
begin

text \<open>
  What the operations of sbxlet leave alone. \<open>let_frame\<close> is the contract of the code that only talks to the outside
  world: it holds for every relation that a tick, a new event and a change of the firewall respect. \<open>let_ops\<close>
  adds the operations of the store, of the port reservations and of the health counters, and
  gives the relation for every operation of the service. Their interpretations: the state directory and
  the counters are untouched by the runtime code, events are only ever added, every operation keeps the
  state well-formed, and every operation is a sequence of the steps of a step relation.
\<close>

lemma bindO_unfold: "bindO m k = do { r \<leftarrow> m; case r of None \<Rightarrow> k | Some err \<Rightarrow> ret (Some err) }"
  unfolding bindO_def by (rule arg_cong [of _ _ "State_Monad.bind m"]) (auto simp: fun_eq_iff split: option.splits)

section \<open>Code that only talks to the outside world\<close>

locale let_frame = effect_rel R for R :: "'f let_state \<Rightarrow> 'f let_state \<Rightarrow> bool" +
  assumes tick: "R s (s\<lparr> lt_tick := n \<rparr>)"
    and event: "R s (lt_events_update (\<lambda>es. es @ [ev]) s)"
    and firewall: "R s (s\<lparr> lt_fw := fw \<rparr>)"
begin

abbreviation eff :: "('f let_state, 'a) state \<Rightarrow> bool" where
  "eff m \<equiv> state_io_rel R m"

lemma eff_ask: "eff (ask f)"
  by (rule state_io_relI) (auto intro: tick)

lemma eff_emit: "eff (emit ev)"
  by (rule state_io_relI) (auto simp: emit_def intro: event)

lemma eff_on_fw: "eff (on_fw m)"
  by (rule state_io_relI) (auto simp: on_fw_def split: prod.splits intro: firewall)

lemma eff_bindO: "eff m \<Longrightarrow> eff k \<Longrightarrow> eff (bindO m k)"
  unfolding bindO_unfold by (intro eff_bind eff_case_option eff_ret)

lemma eff_case_fs: "eff m \<Longrightarrow> (\<And>e b. eff (f e b)) \<Longrightarrow> eff (case r of FsOk \<Rightarrow> m | FsErr e b \<Rightarrow> f e b)"
  by (cases r) auto

lemma eff_case_poll: "eff m \<Longrightarrow> eff n \<Longrightarrow> (\<And>e. eff (f e)) \<Longrightarrow> eff (case r of Waiting \<Rightarrow> m | Ready \<Rightarrow> n | Broken e \<Rightarrow> f e)"
  by (cases r) auto

lemma eff_case_nat: "eff m \<Longrightarrow> (\<And>k. eff (f k)) \<Longrightarrow> eff (case n of 0 \<Rightarrow> m | Suc k \<Rightarrow> f k)"
  by (cases n) auto

lemmas frame_rules = eff_ret eff_gets eff_bind eff_if eff_case_option eff_case_sum eff_case_prod eff_case_list eff_bindE
  eff_let eff_for_each eff_for_ret eff_ask eff_emit eff_on_fw eff_bindO eff_case_fs eff_case_poll eff_case_nat

lemma eff_fs_op: "eff (fs_op E evs)"
  unfolding fs_op_def by (intro frame_rules)

lemma eff_st_Load: "eff (st_Load E i)"
  unfolding st_Load_def by (intro frame_rules)

lemma eff_load_all: "eff (load_all E es out)"
  by (induction E es out rule: load_all.induct) (auto intro!: frame_rules eff_st_Load)

lemma eff_st_List: "eff (st_List E)"
  unfolding st_List_def by (intro frame_rules eff_load_all)

subsection \<open>runtime.go\<close>

lemma eff_write_tries: "eff (write_tries E n p v e)"
  by (induction E n p v e rule: write_tries.induct) (auto intro!: frame_rules eff_fs_op)

lemma eff_writeCgroupValue: "eff (writeCgroupValue E p v)"
  unfolding writeCgroupValue_def by (intro frame_rules eff_write_tries)

lemma eff_write_limits: "eff (write_memory_max E b lim)" "eff (write_swap_max E b lim)" "eff (write_cpu_pids E b lim)"
  unfolding write_memory_max_def write_swap_max_def write_cpu_pids_def by (intro frame_rules eff_writeCgroupValue)+

lemma eff_enable_controllers: "eff (enable_controllers E p av en cs)"
  by (induction E p av en cs rule: enable_controllers.induct) (auto intro!: frame_rules eff_writeCgroupValue)

lemma eff_mkdir: "eff (mkdir E f p)"
  unfolding mkdir_def by (intro frame_rules eff_fs_op)

lemma eff_ensureSandboxParentCgroup: "eff (ensureSandboxParentCgroup E i lim)"
  unfolding ensureSandboxParentCgroup_def ensureCgroupSubtreeControllers_def
  by (intro frame_rules eff_mkdir eff_write_limits eff_enable_controllers)

lemma eff_first_existing: "eff (first_existing E ps)"
  by (induction ps) (auto intro!: frame_rules)

lemma eff_enforceCgroupV2Limits: "eff (enforceCgroupV2Limits E i lim)"
  unfolding enforceCgroupV2Limits_def findCgroupV2PathByID_def
  by (intro frame_rules eff_first_existing eff_write_limits)

lemma eff_stopAndRemovePodSandbox: "eff (stopAndRemovePodSandbox p)"
  unfolding stopAndRemovePodSandbox_def by (intro frame_rules)

lemma eff_findManagedPodSandboxID: "eff (findManagedPodSandboxID E i)"
  unfolding findManagedPodSandboxID_def by (intro frame_rules)

lemma eff_first_servers: "eff (first_servers E ps)"
  by (induction ps) (auto simp: parseNameServers_def intro!: frame_rules)

lemma eff_createPodSandboxCRI: "eff (createPodSandboxCRI E sbx cs)"
  unfolding createPodSandboxCRI_def sandboxDNSServers_def runPodSandbox_def
  by (intro frame_rules eff_findManagedPodSandboxID eff_stopAndRemovePodSandbox eff_ensureSandboxParentCgroup
      eff_first_servers eff_enforceCgroupV2Limits)

lemma eff_resolvePath: "eff (resolvePath E p)"
  unfolding resolvePath_def by (intro frame_rules)

lemma eff_isMountPoint: "eff (isMountPoint E p)"
  unfolding isMountPoint_def by (intro frame_rules)

lemma eff_run_command: "eff (run_command E args)"
  unfolding run_command_def by (intro frame_rules)

lemma eff_mount_tmpfs: "eff (mount_tmpfs E w as opts p)"
  unfolding mount_tmpfs_def by (intro frame_rules eff_isMountPoint eff_run_command)

lemmas mount_rules = frame_rules eff_mkdir eff_resolvePath eff_isMountPoint eff_run_command eff_mount_tmpfs

lemma eff_tmpfs_mounts: "eff (tmpfs_mounts E sid name tms ms)"
  by (induction tms arbitrary: ms)
    (auto simp: ensureSandboxCustomTmpfsMount_def bindRemountPath_def intro!: mount_rules)

lemma eff_volume_mounts: "eff (volume_mounts E sid sizes vms ms)"
  by (induction vms arbitrary: ms) (auto simp: ensureSandboxVolumeMount_def intro!: mount_rules)

lemma eff_createAndStartCRIContainer: "eff (createAndStartCRIContainer E sbx podID cfg c lim)"
  unfolding createAndStartCRIContainer_def ensureSandboxTmpfsMount_def
  by (intro mount_rules eff_tmpfs_mounts eff_volume_mounts eff_enforceCgroupV2Limits)

lemma eff_cleanup_mounts: "eff (cleanup_mounts E i area)"
  unfolding cleanup_mounts_def unmount_visited_def by (intro mount_rules)

lemma eff_cleanupCNICache: "eff (cleanupCNICache i)"
  unfolding cleanupCNICache_def by (intro frame_rules)

lemma eff_cleanupHostPortPublish: "eff (cleanupHostPortPublish E sbx)"
  unfolding cleanupHostPortPublish_def by (intro frame_rules)

lemma eff_deleteSandboxRuntimeArtifacts: "eff (deleteSandboxRuntimeArtifacts E sbx)"
  unfolding deleteSandboxRuntimeArtifacts_def cleanupSandboxNetworkPolicy_def cleanupSandboxTmpfsMounts_def
    cleanupSandboxVolumeMounts_def cleanupSandboxParentCgroup_def
  by (intro frame_rules eff_stopAndRemovePodSandbox eff_cleanupHostPortPublish eff_cleanupCNICache eff_cleanup_mounts)

lemma eff_refresh_containers: "eff (refresh_containers E sbx cs out acc)"
  by (induction E sbx cs out acc rule: refresh_containers.induct)
    (auto simp: fillContainerRuntimeState_def Let_def intro!: frame_rules)

lemma eff_refreshSandboxRuntimeState: "eff (refreshSandboxRuntimeState E sbx)"
  unfolding refreshSandboxRuntimeState_def by (intro frame_rules eff_refresh_containers)

subsection \<open>cri\_client.go, bridge\_nf.go, cni\_cache.go\<close>

lemma eff_pullImage: "eff (pullImage E img)"
  unfolding pullImage_def by (intro frame_rules)

lemma eff_newCRIClient: "eff (newCRIClient E a)"
  unfolding newCRIClient_def by (intro frame_rules)

lemma eff_EnsureBridgeNetfilter: "eff (EnsureBridgeNetfilter E)"
  unfolding EnsureBridgeNetfilter_def ensureProcFlag_def load_bridge_module_def
  by (intro frame_rules eff_run_command eff_fs_op)

lemma eff_first_parsed: "eff (first_parsed E i ps)"
  by (induction ps) (auto simp: parseIPv4FromCNIResultFile_def intro!: frame_rules)

lemma eff_sandboxIPFromCNICache: "eff (sandboxIPFromCNICache E i)"
  unfolding sandboxIPFromCNICache_def LookupSandboxIPv4FromResultCache_def cache_files_def
  by (intro frame_rules eff_first_parsed)

subsection \<open>Locks, ports and waits\<close>

lemma eff_lock_rounds: "eff (lock_rounds E i p n)"
  by (induction n) (auto intro!: frame_rules)

lemma eff_acquireSandboxLock: "eff (acquireSandboxLock E i)"
  unfolding acquireSandboxLock_def by (intro frame_rules eff_lock_rounds)

lemma eff_isSandboxLockHeld: "eff (isSandboxLockHeld E i)"
  unfolding isSandboxLockHeld_def by (intro frame_rules)

lemma eff_ensureHostPortsAvailable: "eff (ensureHostPortsAvailable E i ps)"
  unfolding ensureHostPortsAvailable_def check_host_port_def reservedPortOwner_def ensureLocalPortFree_def
  by (intro frame_rules eff_st_List)

lemma eff_poll_containers: "eff (poll_containers E i cs)"
  by (induction cs) (auto intro!: frame_rules split: cri_state.splits)

lemma eff_wait_rounds: "eff (wait_rounds E sbx n)"
  by (induction n) (auto intro!: frame_rules eff_poll_containers)

lemma eff_probe_rounds: "eff (probe_rounds E sid ip probe n k f)"
  by (induction n arbitrary: k f) (auto simp: probeReadiness_def Let_def intro!: frame_rules)

lemma eff_provision_containers: "eff (provision_containers E podID cfg cs sbx)"
  by (induction cs arbitrary: sbx)
    (auto simp: Let_def intro!: frame_rules eff_pullImage eff_createAndStartCRIContainer)

lemma eff_provision_network: "eff (provision_network E req sbx)"
  unfolding provision_network_def applySandboxNetworkPolicy_def applyHostPortPublish_def waitSandboxReady_def waitReadinessProbe_def
  by (intro frame_rules eff_wait_rounds eff_probe_rounds)

lemma eff_hasRuntimeArtifacts: "eff (hasRuntimeArtifacts E i)"
  unfolding hasRuntimeArtifacts_def by (intro frame_rules)

lemma eff_admission: "eff (enforce_admission_now E req)" "eff (ensure_capacity_now E i)"
  unfolding enforce_admission_now_def ensure_capacity_now_def by (intro frame_rules eff_st_List)+

lemma eff_refresh_all: "eff (refresh_all E sbs out)"
  by (induction E sbs out rule: refresh_all.induct) (auto intro!: frame_rules eff_refreshSandboxRuntimeState)

lemma eff_all_running: "eff (all_running E cs)"
  by (induction cs) (auto simp: isContainerRunning_def intro!: frame_rules)

lemma eff_runtime_unhealthy: "eff (runtime_unhealthy E sbx)"
  unfolding runtime_unhealthy_def by (intro frame_rules eff_all_running)

lemma eff_collect_runtime_ids: "eff (collect_runtime_ids E is ids)"
  by (induction "is" arbitrary: ids) (auto intro!: frame_rules)

text \<open>The operations that only read.\<close>

lemma eff_reads:
  "eff (let_ListSandboxes E)" "eff (let_GetSandbox E i)" "eff (ListSandboxesPage E c l)" "eff (ListRuntimeSandboxIDs E)"
  "eff (IsSandboxHealthy E i)"
  unfolding let_ListSandboxes_def let_GetSandbox_def ListSandboxesPage_def ListRuntimeSandboxIDs_def listCRISandboxIDs_def
    IsSandboxHealthy_def
  by (intro frame_rules eff_st_List eff_st_Load eff_refresh_all eff_refreshSandboxRuntimeState eff_all_running
      eff_collect_runtime_ids)+

end

section \<open>Every operation of the service\<close>

locale let_ops = let_frame R for R :: "'f let_state \<Rightarrow> 'f let_state \<Rightarrow> bool" +
  fixes E :: "'f let_env"
  assumes save: "state_io_rel R (st_Save E sb)"
    and delete: "state_io_rel R (st_Delete E i)"
    and reserve: "R s (lt_reserved_update f s)"
    and spawn: "R s (lt_spawned_update g s)"
    and observe: "state_io_rel R (shouldFinalizeUnhealthy E i)"
    and clear: "state_io_rel R (clearUnhealthy i)"
    and restart: "R s (s\<lparr> lt_reserved := [], lt_since := [], lt_hits := [] \<rparr>)"
begin

lemma eff_ports: "eff (reserveRequestedPorts i ps)" "eff (releaseRequestedPorts i ps)" "eff (releaseReservedPorts i)"
  unfolding reserveRequestedPorts_def releaseRequestedPorts_def releaseReservedPorts_def
  by (rule state_io_relI, auto intro: reserve)+

lemma eff_spawn: "eff (modify (lt_spawned_update g))"
  by (rule state_io_relI) (auto intro: spawn)

lemma eff_restart: "eff (modify (\<lambda>s. s\<lparr> lt_reserved := [], lt_since := [], lt_hits := [] \<rparr>))"
  by (rule state_io_relI) (auto intro: restart)

lemma eff_deleteSandboxFromState: "eff (deleteSandboxFromState E sbx)"
  unfolding deleteSandboxFromState_def by (intro frame_rules eff_deleteSandboxRuntimeArtifacts delete)

lemma eff_let_New: "eff (let_New E)"
  unfolding let_New_def NewFileStore_def
  by (intro frame_rules eff_newCRIClient eff_EnsureBridgeNetfilter eff_fs_op eff_restart)

lemma eff_provisionSandboxSync: "eff (provisionSandboxSync E sbx req)"
  unfolding provisionSandboxSync_def provision_steps_def provision_finish_def provision_failed_def
  by (intro frame_rules eff_createPodSandboxCRI eff_provision_containers eff_provision_network
      eff_refreshSandboxRuntimeState eff_deleteSandboxRuntimeArtifacts save)

lemma eff_provisionSandbox: "eff (provisionSandbox E i req)"
  unfolding provisionSandbox_def markSandboxError_def
  by (intro frame_rules eff_acquireSandboxLock eff_st_Load eff_provisionSandboxSync save)

lemma eff_cleanupOrphan: "eff (cleanupOrphanRuntimeSandbox E i)"
  unfolding cleanupOrphanRuntimeSandbox_def
  by (intro frame_rules eff_sandboxIPFromCNICache eff_findManagedPodSandboxID eff_cleanupHostPortPublish
      eff_deleteSandboxFromState)

lemma eff_createSandbox: "eff (createSandbox E req async)"
  unfolding createSandbox_def create_admitted_def
  by (intro frame_rules eff_acquireSandboxLock eff_st_Load eff_hasRuntimeArtifacts eff_cleanupOrphan eff_cleanupCNICache
      eff_ensureHostPortsAvailable eff_ports eff_admission eff_spawn eff_provisionSandboxSync save)

lemma eff_let_DeleteSandbox: "eff (let_DeleteSandbox E i)"
  unfolding let_DeleteSandbox_def
  by (intro frame_rules eff_acquireSandboxLock eff_st_Load eff_ports eff_deleteSandboxFromState save clear)

lemma eff_let_reconcile_one: "eff (let_reconcile_one E sbx)"
  unfolding let_reconcile_one_def
  by (intro frame_rules eff_isSandboxLockHeld eff_runtime_unhealthy eff_deleteSandboxFromState save observe clear)

lemma eff_ReconcileOnce: "eff (ReconcileOnce E)"
  unfolding ReconcileOnce_def by (intro frame_rules eff_st_List eff_let_reconcile_one)

lemma eff_CleanupSandboxResources: "eff (CleanupSandboxResources E i)"
  unfolding CleanupSandboxResources_def by (intro frame_rules eff_st_Load eff_deleteSandboxFromState eff_cleanupOrphan)

lemmas operations = eff_let_New eff_createSandbox eff_provisionSandbox eff_let_DeleteSandbox eff_ReconcileOnce
  eff_CleanupSandboxResources eff_reads

end

section \<open>The contracts hold of the model\<close>

text \<open>Everything the service keeps in memory or on disk.\<close>

definition same_books :: "'f let_state \<Rightarrow> 'f let_state \<Rightarrow> bool" where
  "same_books s t \<longleftrightarrow> lt_dir t = lt_dir s \<and> lt_reserved t = lt_reserved s \<and> lt_since t = lt_since s \<and>
     lt_hits t = lt_hits s \<and> lt_spawned t = lt_spawned s"

interpretation books: let_frame same_books
  by unfold_locales (auto simp: same_books_def)

text \<open>Events are only added.\<close>

definition events_grow :: "'f let_state \<Rightarrow> 'f let_state \<Rightarrow> bool" where
  "events_grow s t \<longleftrightarrow> prefix (lt_events s) (lt_events t)"

interpretation log: let_frame events_grow
  by unfold_locales (auto simp: events_grow_def)

text \<open>
  The state of the service is well-formed: the state directory is, both health counters are kept for the same
  sandboxes, and every number of observations is positive.
\<close>

definition let_ok :: "'f let_state \<Rightarrow> bool" where
  "let_ok s \<longleftrightarrow> dir_wf (lt_dir s) \<and> dom (map_of (lt_since s)) = dom (map_of (lt_hits s)) \<and>
     (\<forall>i h. map_of (lt_hits s) i = Some h \<longrightarrow> 1 \<le> h)"

lemma save_keeps_ok: "state_io_rel (keeps let_ok) (st_Save E sb)"
proof (rule keepsI)
  fix s :: "'a let_state"
  assume ok: "let_ok s"
  obtain r t where run: "run_state (st_Save E sb) s = (r, t)" by fastforce
  have "dir_wf (lt_dir t)"
    using ok run store.save_ok [of s E sb t] store.save_err [of s E sb _ t] by (cases r) (auto simp: let_ok_def)
  moreover have "lt_since t = lt_since s \<and> lt_hits t = lt_hits s"
    using run by (auto simp: st_Save_def split: option.splits fs_outcome.splits if_splits)
  ultimately show "let_ok (exec (st_Save E sb) s)" using ok run by (simp add: let_ok_def)
qed

lemma delete_keeps_ok: "state_io_rel (keeps let_ok) (st_Delete E i)"
  by (rule keepsI) (auto simp: let_ok_def st_Delete_def dir_wf_del split: option.splits fs_outcome.splits)

lemma hits_nonneg: "let_ok s \<Longrightarrow> map_of (lt_hits s) i = Some h \<Longrightarrow> 0 \<le> h"
  by (force simp: let_ok_def)

lemma observe_keeps_ok: "state_io_rel (keeps let_ok) (shouldFinalizeUnhealthy E i)"
proof (rule keepsI)
  fix s :: "'a let_state"
  assume ok: "let_ok s"
  then show "let_ok (exec (shouldFinalizeUnhealthy E i) s)"
    using hits_nonneg [OF ok, of i]
    by (auto simp: let_ok_def shouldFinalizeUnhealthy_def dom_def fun_eq_iff split: option.splits if_splits)
qed

lemma clear_keeps_ok: "state_io_rel (keeps let_ok) (clearUnhealthy i)"
  by (rule keepsI) (auto simp: let_ok_def clearUnhealthy_def split: if_splits)

interpretation ok_rel: effect_rel "keeps let_ok"
  by (rule effect_rel_keeps)

interpretation wf: let_ops "keeps let_ok" E for E
  by unfold_locales (simp_all add: save_keeps_ok delete_keeps_ok observe_keeps_ok clear_keeps_ok, simp_all add: keeps_def let_ok_def)

section \<open>Steps\<close>

text \<open>
  The steps that concurrent operations interleave: one operation of the store, a change of the reservations or of
  the list of background tasks under their lock, one observation of the health counters, and
  anything that happens outside.
\<close>

inductive let_step :: "'f let_env \<Rightarrow> 'f let_state \<Rightarrow> 'f let_state \<Rightarrow> bool" for E where
  step_outside: "same_books s t \<Longrightarrow> let_step E s t"
| step_save: "let_step E s (exec (st_Save E sb) s)"
| step_delete: "let_step E s (exec (st_Delete E i) s)"
| step_reserve: "let_step E s (lt_reserved_update f s)"
| step_spawn: "let_step E s (lt_spawned_update g s)"
| step_observe: "let_step E s (exec (shouldFinalizeUnhealthy E i) s)"
| step_clear: "let_step E s (exec (clearUnhealthy i) s)"
| step_restart: "let_step E s (s\<lparr> lt_reserved := [], lt_since := [], lt_hits := [] \<rparr>)"

abbreviation let_steps :: "'f let_env \<Rightarrow> 'f let_state \<Rightarrow> 'f let_state \<Rightarrow> bool" where
  "let_steps E \<equiv> (let_step E)\<^sup>*\<^sup>*"

lemma io_step: "(\<And>s. let_step E s (exec m s)) \<Longrightarrow> state_io_rel (let_steps E) m"
  by (auto simp: state_io_rel_def)

lemma outside_steps: "same_books s t \<Longrightarrow> let_steps E s t"
  by (intro r_into_rtranclp step_outside)

lemma memory_steps:
  "let_steps E s (lt_reserved_update f s)" "let_steps E s (lt_spawned_update g s)"
  "let_steps E s (s\<lparr> lt_reserved := [], lt_since := [], lt_hits := [] \<rparr>)"
  by (intro r_into_rtranclp let_step.intros)+

interpretation steps: let_ops "let_steps E" E for E
  by unfold_locales
    (simp_all add: outside_steps same_books_def io_step let_step.intros memory_steps)

lemma let_step_ok: "let_step E s t \<Longrightarrow> let_ok s \<Longrightarrow> let_ok t"
proof (induction rule: let_step.induct)
  case (step_save s sb) then show ?case by (rule keepsD [OF save_keeps_ok])
next
  case (step_delete s i) then show ?case by (rule keepsD [OF delete_keeps_ok])
next
  case (step_observe s i) then show ?case by (rule keepsD [OF observe_keeps_ok])
next
  case (step_clear s i) then show ?case by (rule keepsD [OF clear_keeps_ok])
qed (auto simp: same_books_def let_ok_def)

lemma let_steps_ok: "let_steps E s t \<Longrightarrow> let_ok s \<Longrightarrow> let_ok t"
  by (induction rule: rtranclp_induct) (auto intro: let_step_ok)

end
