(* ===== verification/Let_Logs.thy ===== *)
theory Let_Logs
  imports Let_Frame
begin

text \<open>
  \<open>sandboxd-let/sandbox/logs.go\<close>: the logs of a container, and those of all containers of a sandbox merged by time.
  \<open>le_readLog\<close> is what reading a log file gives: the error of opening it, or the text that was read and the error
  that ended it before the end of the file. \<open>le_parseTime\<close> is \<open>time.Parse\<close> for RFC 3339 timestamps, as an instant.
\<close>

section \<open>Paths and files\<close>

definition ErrLogTooLarge :: go_error where "ErrLogTooLarge = ErrNew ''log too large''"

definition maxLogFileBytes :: int where "maxLogFileBytes = 33554432"

definition maxSandboxLogBytes :: int where "maxSandboxLogBytes = 134217728"

record logEntry =
  en_line :: string
  en_ts :: int
  en_hasTime :: bool
  en_container :: int
  en_seq :: int

definition validatePathToken :: "string \<Rightarrow> go_error option" where
  "validatePathToken v =
     (if v = [] then Some (Errorf ''empty path token'' [])
      else if Contains v ''/'' \<or> Contains v [CHR 0x5C] \<or> Contains v ''..'' then Some (Errorf ''invalid path token'' [])
      else None)"

definition containerLogPath :: "string \<Rightarrow> string \<Rightarrow> string \<Rightarrow> go_error + string" where
  "containerLogPath stateBaseDir sandboxID containerName =
     (case ValidateSandboxID sandboxID of
        Some err \<Rightarrow> Inl (Errorf ''invalid sandbox id: %w'' [Wrap err])
      | None \<Rightarrow>
          if validatePathToken containerName \<noteq> None then Inl (Errorf ''invalid container name'' [])
          else let logDir = filepath_Join [stateBaseDir, sandboxID, ''logs''];
                   path = Clean (filepath_Join [logDir, containerName @ ''.log'']);
                   logDirClean = Clean logDir in
               if path \<noteq> logDirClean \<and> \<not> HasPrefix path (logDirClean @ ''/'') then Inl (Errorf ''invalid log path'' [])
               else Inr path)"

definition logFileSize :: "'f let_env \<Rightarrow> string \<Rightarrow> ('f let_state, go_error + int) state" where
  "logFileSize E path = do {
     st \<leftarrow> ask (\<lambda>n. le_fileSize E n path);
     ret (case st of
         Inl err \<Rightarrow> Inl err
       | Inr sz \<Rightarrow> if sz > maxLogFileBytes then Inl ErrLogTooLarge else Inr sz) }"

text \<open>The pieces that \<open>ReadString\<close> returns, without the line ends that \<open>TrimRight\<close> cuts off.\<close>

definition trim_eol :: "string \<Rightarrow> string" where
  "trim_eol l = rev (dropWhile (\<lambda>c. c = CHR 0x0D \<or> c = CHR 0x0A) (rev l))"

definition log_lines :: "string \<Rightarrow> string list" where
  "log_lines raw = (let ps = Split raw (CHR 0x0A) in map trim_eol (if last ps = [] then butlast ps else ps))"

definition readLogLines :: "'f let_env \<Rightarrow> string \<Rightarrow> string \<Rightarrow> int \<Rightarrow> ('f let_state, go_error + string list) state" where
  "readLogLines E path pfx maxBytes =
     bindE (logFileSize E path) (\<lambda>sz.
       if sz > maxBytes then ret (Inl ErrLogTooLarge)
       else do {
         f \<leftarrow> ask (\<lambda>n. le_readLog E n path);
         ret (case f of
             Inl err \<Rightarrow> Inl err
           | Inr (_, Some err) \<Rightarrow> Inl err
           | Inr (raw, None) \<Rightarrow> Inr (map (\<lambda>l. pfx @ l) (log_lines raw))) })"

definition parseCRILogTimestamp :: "(string \<Rightarrow> int option) \<Rightarrow> string \<Rightarrow> int option" where
  "parseCRILogTimestamp parse line =
     (case Cut line '' '' of
        None \<Rightarrow> None
      | Some (tsRaw, _) \<Rightarrow> if tsRaw = [] then None else parse tsRaw)"

definition log_entry :: "(string \<Rightarrow> int option) \<Rightarrow> string \<Rightarrow> int \<Rightarrow> int \<Rightarrow> string \<Rightarrow> logEntry" where
  "log_entry parse pfx containerIndex seq line =
     (let t = parseCRILogTimestamp parse line in
      \<lparr> en_line = pfx @ line, en_ts = (case t of Some v \<Rightarrow> v | None \<Rightarrow> 0), en_hasTime = (t \<noteq> None),
        en_container = containerIndex, en_seq = seq \<rparr>)"

fun number_entries :: "(string \<Rightarrow> int option) \<Rightarrow> string \<Rightarrow> int \<Rightarrow> int \<Rightarrow> string list \<Rightarrow> logEntry list \<times> int" where
  "number_entries parse pfx ci seq [] = ([], seq)"
| "number_entries parse pfx ci seq (l # ls) =
     (let (es, seq') = number_entries parse pfx ci (seq + 1) ls in (log_entry parse pfx ci seq l # es, seq'))"

text \<open>The counter is advanced for every line that was read, also when reading fails in the end.\<close>

definition readLogEntries :: "'f let_env \<Rightarrow> string \<Rightarrow> string \<Rightarrow> int \<Rightarrow> int \<Rightarrow> ('f let_state, (go_error + logEntry list) \<times> int) state" where
  "readLogEntries E path pfx containerIndex seq = do {
     r \<leftarrow> logFileSize E path;
     case r of
       Inl err \<Rightarrow> ret (Inl err, seq)
     | Inr _ \<Rightarrow> do {
         f \<leftarrow> ask (\<lambda>n. le_readLog E n path);
         ret (case f of
             Inl err \<Rightarrow> (Inl err, seq)
           | Inr (raw, e) \<Rightarrow>
               let (es, seq') = number_entries (le_parseTime E) pfx containerIndex seq (log_lines raw) in
               (case e of Some err \<Rightarrow> (Inl err, seq') | None \<Rightarrow> (Inr es, seq'))) } }"

section \<open>Merging\<close>

definition entry_less :: "logEntry \<Rightarrow> logEntry \<Rightarrow> bool" where
  "entry_less left right =
     (if en_hasTime left \<and> en_hasTime right then
        (if en_ts left = en_ts right then en_seq left < en_seq right else en_ts left < en_ts right)
      else if en_hasTime left \<noteq> en_hasTime right then en_hasTime left
      else if en_container left = en_container right then en_seq left < en_seq right
      else en_container left < en_container right)"

definition merge_entries :: "logEntry list \<Rightarrow> logEntry list" where
  "merge_entries entries = sort_slice entry_less entries"

text \<open>The loop over the containers: the entries so far, the counter and the number of bytes.\<close>

fun collect_entries ::
  "'f let_env \<Rightarrow> string \<Rightarrow> (int \<times> string) list \<Rightarrow> logEntry list \<Rightarrow> int \<Rightarrow> int \<Rightarrow> ('f let_state, go_error + logEntry list) state" where
  "collect_entries E sandboxID [] entries seq totalBytes = ret (Inr entries)"
| "collect_entries E sandboxID ((ci, name) # names) entries seq totalBytes =
     (case containerLogPath (le_StateBaseDir E) sandboxID name of
        Inl err \<Rightarrow> ret (Inl err)
      | Inr path \<Rightarrow> do {
          r \<leftarrow> logFileSize E path;
          case r of
            Inl err \<Rightarrow>
              if errors_Is err ErrNotExist then collect_entries E sandboxID names entries seq totalBytes else ret (Inl err)
          | Inr sz \<Rightarrow>
              if sz > maxLogFileBytes then ret (Inl ErrLogTooLarge)
              else let total' = i64 (totalBytes + sz) in
              if total' > maxSandboxLogBytes then ret (Inl ErrLogTooLarge)
              else do {
                (es, seq') \<leftarrow> readLogEntries E path (''['' @ name @ ''] '') ci seq;
                case es of
                  Inl err \<Rightarrow>
                    if errors_Is err ErrNotExist then collect_entries E sandboxID names entries seq' total' else ret (Inl err)
                | Inr new \<Rightarrow> collect_entries E sandboxID names (entries @ new) seq' total' } })"

definition GetContainerLogs :: "'f let_env \<Rightarrow> string \<Rightarrow> string \<Rightarrow> ('f let_state, go_error + string list) state" where
  "GetContainerLogs E sandboxID containerName =
     (if sandboxID = [] \<or> containerName = [] then ret (Inl (Errorf ''sandbox id and container name are required'' []))
      else (case containerLogPath (le_StateBaseDir E) sandboxID containerName of
          Inl err \<Rightarrow> ret (Inl err)
        | Inr path \<Rightarrow> readLogLines E path [] maxLogFileBytes))"

definition GetSandboxLogs :: "'f let_env \<Rightarrow> string \<Rightarrow> ('f let_state, go_error + string list) state" where
  "GetSandboxLogs E sandboxID =
     (if sandboxID = [] then ret (Inl (Errorf ''sandbox id is required'' []))
      else (case ValidateSandboxID sandboxID of
          Some err \<Rightarrow> ret (Inl (Errorf ''invalid sandbox id: %w'' [Wrap err]))
        | None \<Rightarrow> bindE (st_Load E sandboxID) (\<lambda>sbx.
            if \<not> list_all (\<lambda>(name, _). validatePathToken name = None) (ls_Containers sbx)
            then ret (Inl (Errorf ''invalid container name'' []))
            else let names = sort_slice (<) (map fst (ls_Containers sbx)) in
              bindE (collect_entries E sandboxID (zip (map int [0..<length names]) names) [] 0 0) (\<lambda>entries.
                ret (Inr (map en_line (merge_entries entries)))))))"

section \<open>Log paths\<close>

text \<open>
  A log path is the file of the container in the log directory of its sandbox, and every valid id and container name has one.
\<close>

lemma log_file_safe: "validatePathToken name = None \<Longrightarrow> safe_elem (name @ ''.log'')"
  by (auto simp: validatePathToken_def safe_elem_def Contains_char append_eq_Cons_conv split: if_splits)

lemma HasPrefix_rooted_append:
  "list_all safe_elem (els @ [x]) \<Longrightarrow> els \<noteq> [] \<Longrightarrow> HasPrefix (rooted (els @ [x])) (rooted els @ ''/'')"
proof -
  assume "els \<noteq> []"
  then have "Join (els @ [x]) ''/'' = Join els ''/'' @ ''/'' @ x"
  proof (induction els)
    case (Cons e els) then show ?case by (cases els) auto
  qed simp
  then show ?thesis by (simp add: rooted_def HasPrefix_iff)
qed

theorem containerLogPath_confined:
  assumes "HasPrefix sbd ''/''"
  shows "(containerLogPath sbd sid name = Inr path \<longrightarrow>
      path_elems path = path_elems (Clean sbd) @ [sid, ''logs'', name @ ''.log'']) \<and>
    ((\<exists>path. containerLogPath sbd sid name = Inr path) \<longleftrightarrow> ValidateSandboxID sid = None \<and> validatePathToken name = None)"
proof (cases "ValidateSandboxID sid = None \<and> validatePathToken name = None")
  case True
  let ?d = "clean_elems sbd @ [sid, ''logs'']" and ?f = "name @ ''.log''"
  have safe: "list_all safe_elem ?d" "safe_elem ?f"
    using True valid_id_safe log_file_safe by (simp_all add: clean_elems_safe safe_elem_def)
  have dir: "filepath_Join [sbd, sid, ''logs''] = rooted ?d" using area_root assms True by (simp add: safe_elem_def)
  have fjoin: "filepath_Join [rooted ?d, ?f] = rooted (?d @ [?f])"
    using filepath_Join_rooted [of "rooted ?d" "[?f]"] safe by (simp add: clean_elems_rooted)
  have clean: "Clean (rooted (?d @ [?f])) = rooted (?d @ [?f])" "Clean (rooted ?d) = rooted ?d"
    using safe by (intro Clean_rooted_elems; simp)+
  have "HasPrefix (rooted (?d @ [?f])) (rooted ?d @ ''/'')" using safe by (intro HasPrefix_rooted_append) simp_all
  then have "containerLogPath sbd sid name = Inr (rooted (?d @ [?f]))"
    using True unfolding containerLogPath_def dir Let_def fjoin clean by simp
  moreover have "path_elems (rooted (?d @ [?f])) = path_elems (Clean sbd) @ [sid, ''logs'', ?f]"
    using safe assms by (simp add: path_elems_rooted path_elems_Clean)
  ultimately show ?thesis using True by auto
qed (auto simp: containerLogPath_def Let_def split: option.splits)

section \<open>Merged logs\<close>

lemma sorted_unique:
  assumes "sorted_wrt (\<lambda>a b. \<not> lt b a) xs" and "sorted_wrt lt ys" and "mset xs = mset ys"
  shows "xs = ys"
  using assms
proof (induction ys arbitrary: xs)
  case (Cons y ys)
  then obtain x xs' where xs: "xs = x # xs'" by (cases xs) auto
  have "x = y"
  proof (rule ccontr)
    assume ne: "x \<noteq> y"
    have "set xs = set (y # ys)" using Cons.prems(3) by (metis mset_eq_setD)
    then have "x \<in> set ys" "y \<in> set xs'" using xs ne by auto
    then show False using Cons.prems(1,2) xs by auto
  qed
  then show ?case using Cons xs by auto
qed simp

lemma entry_less_order:
  "entry_less a b \<Longrightarrow> \<not> entry_less b a" "\<not> entry_less b a \<Longrightarrow> \<not> entry_less c b \<Longrightarrow> \<not> entry_less c a" "entry_less a b \<Longrightarrow> entry_less b c \<Longrightarrow> entry_less a c"
  by (auto simp: entry_less_def split: if_splits)

lemma sorted_insort_entries:
  assumes "sorted_wrt entry_less ys" and "\<forall>y \<in> set ys. en_hasTime y \<and> en_seq x < en_seq y" and "en_hasTime x"
  shows "sorted_wrt entry_less (insort_key en_ts x ys)"
  using assms
proof (induction ys)
  case (Cons y ys)
  show ?case
  proof (cases "en_ts x \<le> en_ts y")
    case True
    then have xy: "entry_less x y" using Cons.prems by (auto simp: entry_less_def)
    then have "\<forall>z \<in> set ys. entry_less x z" using Cons.prems(1) by (auto intro: entry_less_order(3))
    then show ?thesis using True xy Cons.prems by simp
  next
    case False
    then have "entry_less y x" using Cons.prems by (auto simp: entry_less_def)
    then show ?thesis using False Cons by (auto simp: set_insort_key)
  qed
qed simp

text \<open>Entries in the order in which they are read.\<close>

definition in_order :: "logEntry list \<Rightarrow> bool" where
  "in_order es \<longleftrightarrow> sorted_wrt (\<lambda>a b. en_seq a < en_seq b \<and> en_container a \<le> en_container b) es"

lemma sorted_by_time: "in_order es \<Longrightarrow> \<forall>e \<in> set es. en_hasTime e \<Longrightarrow> sorted_wrt entry_less (sort_key en_ts es)"
  by (induction es) (auto simp: in_order_def intro!: sorted_insort_entries)

lemma in_order_filter: "in_order es \<Longrightarrow> in_order (filter P es)"
  by (simp add: in_order_def sorted_wrt_filter)

lemma merge_in_order:
  assumes "in_order es"
  shows "merge_entries es = sort_key en_ts (filter en_hasTime es) @ filter (\<lambda>e. \<not> en_hasTime e) es"
proof -
  let ?t = "sort_key en_ts (filter en_hasTime es)" and ?u = "filter (\<lambda>e. \<not> en_hasTime e) es"
  have "sorted_wrt entry_less ?u"
    using in_order_filter [OF assms, of "\<lambda>e. \<not> en_hasTime e"] unfolding in_order_def
    by (rule sorted_wrt_mono_rel [rotated]) (auto simp: entry_less_def)
  moreover have "sorted_wrt entry_less ?t" using in_order_filter [OF assms] by (intro sorted_by_time) auto
  ultimately have "sorted_wrt entry_less (?t @ ?u)" by (auto simp: sorted_wrt_append entry_less_def)
  moreover have "mset (merge_entries es) = mset (?t @ ?u)" by (simp add: merge_entries_def)
  moreover have "sorted_wrt (\<lambda>a b. \<not> entry_less b a) (merge_entries es)"
    unfolding merge_entries_def by (rule sorted_sort_slice) (use entry_less_order in blast)+
  ultimately show ?thesis using sorted_unique by blast
qed

lemma number_entries_order:
  "number_entries parse pfx ci seq ls = (es, seq') \<Longrightarrow>
   in_order es \<and> (\<forall>e \<in> set es. seq \<le> en_seq e \<and> en_seq e < seq' \<and> en_container e = ci) \<and> seq \<le> seq'"
proof (induction ls arbitrary: seq es)
  case (Cons l ls)
  obtain fs where fs: "number_entries parse pfx ci (seq + 1) ls = (fs, seq')" "es = log_entry parse pfx ci seq l # fs"
    using Cons.prems by (auto simp: Let_def split: prod.splits)
  from Cons.IH [OF fs(1)] show ?case by (auto simp: fs(2) in_order_def log_entry_def Let_def)
qed (auto simp: in_order_def)

lemma readLogEntries_order:
  "result (readLogEntries E path pfx ci seq) s = (Inr es, seq') \<Longrightarrow>
   in_order es \<and> (\<forall>e \<in> set es. seq \<le> en_seq e \<and> en_seq e < seq' \<and> en_container e = ci) \<and> seq \<le> seq'"
  by (auto simp: readLogEntries_def result_bind Let_def simp del: run_state_bind split: sum.splits prod.splits option.splits
      dest: number_entries_order)

lemma readLogEntries_seq: "result (readLogEntries E path pfx ci seq) s = (r, seq') \<Longrightarrow> seq \<le> seq'"
  by (auto simp: readLogEntries_def result_bind Let_def simp del: run_state_bind split: sum.splits prod.splits option.splits
      dest: number_entries_order)

lemma collect_entries_order:
  assumes "result (collect_entries E sid ns es seq tot) s = Inr out" and "in_order es"
    and "\<forall>e \<in> set es. en_seq e < seq \<and> (\<forall>n \<in> set ns. en_container e \<le> fst n)" and "sorted_wrt (<) (map fst ns)"
  shows "in_order out"
  using assms
proof (induction ns arbitrary: es seq tot s)
  case (Cons n ns)
  obtain ci name where n: "n = (ci, name)" by fastforce
  obtain path where path: "containerLogPath (le_StateBaseDir E) sid name = Inr path"
    using Cons.prems(1) by (auto simp: n split: sum.splits)
  define s1 where "s1 = exec (logFileSize E path) s"
  have less: "\<forall>m \<in> set ns. ci < fst m" using Cons.prems(4) by (auto simp: n)
  note step = n path result_bind s1_def [symmetric]
  show ?case
  proof (cases "result (logFileSize E path) s")
    case (Inl err)
    then have "result (collect_entries E sid ns es seq tot) s1 = Inr out"
      using Cons.prems(1) by (simp add: step split: if_splits del: run_state_bind)
    then show ?thesis using Cons.IH Cons.prems by auto
  next
    case (Inr sz)
    obtain r seq' where r: "result (readLogEntries E path (''['' @ name @ ''] '') ci seq) s1 = (r, seq')" by fastforce
    define s2 where "s2 = exec (readLogEntries E path (''['' @ name @ ''] '') ci seq) s1"
    have le: "seq \<le> seq'" by (rule readLogEntries_seq [OF r])
    show ?thesis
    proof (cases r)
      case (Inl err)
      then have "result (collect_entries E sid ns es seq' (i64 (tot + sz))) s2 = Inr out"
        using Cons.prems(1) r Inr by (simp add: step Let_def s2_def split: if_splits del: run_state_bind)
      then show ?thesis using Cons.IH Cons.prems le by (fastforce simp: n)
    next
      case new: (Inr new)
      then have run: "result (collect_entries E sid ns (es @ new) seq' (i64 (tot + sz))) s2 = Inr out"
        using Cons.prems(1) r Inr by (simp add: step Let_def s2_def split: if_splits del: run_state_bind)
      have ord: "in_order new" "\<forall>e \<in> set new. seq \<le> en_seq e \<and> en_seq e < seq' \<and> en_container e = ci"
        using readLogEntries_order [of E path _ ci seq s1 new seq'] r new by auto
      have "in_order (es @ new)" using ord Cons.prems(2,3) by (fastforce simp: in_order_def sorted_wrt_append n)
      moreover have "\<forall>e \<in> set (es @ new). en_seq e < seq' \<and> (\<forall>m \<in> set ns. en_container e \<le> fst m)"
        using ord(2) Cons.prems(3) le less by (fastforce simp: n)
      ultimately show ?thesis using Cons.IH [OF run] Cons.prems(4) by auto
    qed
  qed
qed simp

text \<open>
  C27: the merged log of a sandbox holds every line that was read exactly once: first the lines with a timestamp, in
  the order of time and for the same time in the order in which they were read, then the lines without one in the
  order in which they were read.
\<close>

theorem merged_logs_ordered:
  assumes "result (collect_entries E sid (zip (map int [0..<length names]) names) [] 0 0) s = Inr entries"
  shows "merge_entries entries = sort_key en_ts (filter en_hasTime entries) @ filter (\<lambda>e. \<not> en_hasTime e) entries"
proof (rule merge_in_order)
  have "sorted_wrt (<) (map fst (zip (map int [0..<length names]) names))"
    by (simp add: sorted_wrt_map sorted_wrt_iff_nth_less)
  then show "in_order entries" using collect_entries_order [OF assms] by (simp add: in_order_def)
qed

definition log_env :: "fw_alist let_env" where
  "log_env = sample_let_env\<lparr> le_readLog := (\<lambda>_ path. Inr (if HasSuffix path ''b.log'' then ''3 two'' else ''5 one'', None)) \<rparr>"

definition log_entries :: "logEntry list" where
  "log_entries = [\<lparr> en_line = ''[a] 5 one'', en_ts = 5, en_hasTime = True, en_container = 0, en_seq = 0 \<rparr>,
     \<lparr> en_line = ''[b] 3 two'', en_ts = 3, en_hasTime = True, en_container = 1, en_seq = 1 \<rparr>]"

theorem merged_logs_ordered_witness:
  "result (collect_entries log_env ''s1'' (zip (map int [0..<length [''a'', ''b'']]) [''a'', ''b'']) [] 0 0) sample_let_state = Inr log_entries \<and>
   map en_line (merge_entries log_entries) = [''[b] 3 two'', ''[a] 5 one'']"
proof
  show run: "result (collect_entries log_env ''s1'' (zip (map int [0..<length [''a'', ''b'']]) [''a'', ''b'']) [] 0 0) sample_let_state = Inr log_entries"
    by code_simp
  show "map en_line (merge_entries log_entries) = [''[b] 3 two'', ''[a] 5 one'']"
    using merged_logs_ordered [OF run] by (simp add: log_entries_def)
qed

end
