(* ===== verification/Let_Http.thy ===== *)
theory Let_Http
  imports Let_Logs Http_Wire
begin

text \<open>
  Package \<open>sandboxd-let/http\<close>: the handlers of sbxlet (\<open>handlers.go\<close>, \<open>response.go\<close>), its answers (\<open>dto.go\<close>) and its
  routes (\<open>router.go\<close>). A handler gets the parameters, the query and the body of a request and
  runs operations of the service; its result is the status code and the body of the answer. The time limits that a
  handler puts on an operation are part of what the environment answers.
\<close>

section \<open>dto.go\<close>

text \<open>The status types have the fields of the types that the client of the orchestrator decodes them to.\<close>

datatype let_response =
    LetErrorResponse string
  | LetHealthResponse bool
  | NodeStatusResponse bool NodeResourceSnapshot
  | CreateSandboxResponse LetSandbox
  | GetSandboxResponse LetSandbox
  | ListSandboxesResponse "LetSandbox list" string
  | LetStatusesResponse SandboxStatusesResponse
  | LetDeleteResponse string string
  | ReconcileResponse bool
  | ContainerLogsResponse string string "string list"
  | SandboxLogsResponse string "string list"
  | StaticFile string

type_synonym 'f let_handler = "('f let_state, int \<times> let_response) state"

text \<open>What the body of a request decodes to, as each type that a handler binds.\<close>

record let_body =
  lb_create :: "go_error + CreateSandboxRequest"
  lb_ids :: "go_error + string list"

section \<open>response.go\<close>

definition respondErrorMessage :: "int \<Rightarrow> string \<Rightarrow> int \<times> let_response" where
  "respondErrorMessage code msg = (code, LetErrorResponse msg)"

definition respondError :: "int \<Rightarrow> go_error \<Rightarrow> int \<times> let_response" where
  "respondError code err = respondErrorMessage code (Error err)"

section \<open>handlers.go\<close>

definition http_healthz :: "'f let_handler" where
  "http_healthz = ret (200, LetHealthResponse True)"

definition http_nodeStatus :: "'f let_env \<Rightarrow> 'f let_handler" where
  "http_nodeStatus E = do {
     mem \<leftarrow> ask (le_meminfo E);
     listing \<leftarrow> st_List E;
     now \<leftarrow> ask (le_now E);
     ret (case let_NodeResourceSnapshot (le_pq E) (le_limits E) listing (le_numCPU E)
                 (case mem of Inl err \<Rightarrow> Inl err | Inr ls \<Rightarrow> hostTotalMemoryBytes ls) now of
            Inl err \<Rightarrow> respondError 500 err
          | Inr snap \<Rightarrow> (200, NodeStatusResponse True snap)) }"

text \<open>\<open>Format("20060102-150405")\<close> of a time in UTC, in nanoseconds since 1970.\<close>

definition pad :: "nat \<Rightarrow> int \<Rightarrow> string" where
  "pad n v = (let ds = show_digits v in replicate (n - length ds) (CHR ''0'') @ ds)"

definition civil_date :: "int \<Rightarrow> int \<times> int \<times> int" where
  "civil_date days =
     (let z = days + 719468; era = z div 146097; doe = z mod 146097;
          yoe = (doe - doe div 1460 + doe div 36524 - doe div 146096) div 365;
          doy = doe - (365 * yoe + yoe div 4 - yoe div 100);
          mp = (5 * doy + 2) div 153; d = doy - (153 * mp + 2) div 5 + 1;
          m = (if mp < 10 then mp + 3 else mp - 9);
          y = yoe + era * 400 + (if m \<le> 2 then 1 else 0)
      in (y, m, d))"

definition compact_stamp :: "int \<Rightarrow> string" where
  "compact_stamp t =
     (let secs = t div 1000000000; tod = secs mod 86400; (y, m, d) = civil_date (secs div 86400)
      in pad 4 y @ pad 2 m @ pad 2 d @ ''-'' @ pad 2 (tod div 3600) @ pad 2 (tod div 60 mod 60) @ pad 2 (tod mod 60))"

definition http_createSandbox :: "'f let_env \<Rightarrow> go_error + CreateSandboxRequest \<Rightarrow> 'f let_handler" where
  "http_createSandbox E body =
     (case body of
        Inl err \<Rightarrow> ret (respondError 400 err)
      | Inr req0 \<Rightarrow> do {
          req \<leftarrow> (if cr_ID req0 = [] then do { now \<leftarrow> ask (le_now E); ret (req0\<lparr> cr_ID := ''sbx-'' @ compact_stamp now \<rparr>) }
                 else ret req0);
          r \<leftarrow> CreateSandboxAsync E req;
          ret (case r of Inl err \<Rightarrow> respondError 400 err | Inr sbx \<Rightarrow> (202, CreateSandboxResponse sbx)) })"

definition http_getSandbox :: "'f let_env \<Rightarrow> string \<Rightarrow> 'f let_handler" where
  "http_getSandbox E sandboxID = do {
     r \<leftarrow> let_GetSandbox E sandboxID;
     ret (case r of
            Inl err \<Rightarrow> if errors_Is err ErrNotExist then respondErrorMessage 404 ''not found'' else respondError 500 err
          | Inr sbx \<Rightarrow> (200, GetSandboxResponse sbx)) }"

definition http_list_page :: "'f let_env \<Rightarrow> string \<Rightarrow> int \<Rightarrow> 'f let_handler" where
  "http_list_page E cursor limit = do {
     r \<leftarrow> ListSandboxesPage E cursor limit;
     ret (case r of
            Inl err \<Rightarrow> respondError 500 err
          | Inr (items, nextCursor) \<Rightarrow> (200, ListSandboxesResponse items nextCursor)) }"

definition http_listSandboxes :: "'f let_env \<Rightarrow> (string \<times> string) list \<Rightarrow> 'f let_handler" where
  "http_listSandboxes E q = http_list_page E (Query q ''cursor'') (Atoi (DefaultQuery q ''limit'' ''20''))"

text \<open>The ids of a status request: trimmed, without blanks and repetitions, in the order of the request.\<close>

fun clean_ids :: "string list \<Rightarrow> string list \<Rightarrow> string list" where
  "clean_ids [] ids = ids"
| "clean_ids (raw # raws) ids =
     (let i = TrimSpace raw in if i = [] \<or> i \<in> set ids then clean_ids raws ids else clean_ids raws (ids @ [i]))"

definition healthy_state :: "ContainerState \<Rightarrow> bool" where
  "healthy_state st \<longleftrightarrow> (let phase = ToLower (TrimSpace (cs_Phase st)) in
     (phase = ''running'' \<or> phase = ''creating'') \<and> TrimSpace (cs_Error st) = [])"

definition toSandboxSyncStatus :: "LetSandbox \<Rightarrow> SandboxSyncStatus" where
  "toSandboxSyncStatus sbx =
     \<lparr> sy_ID = ls_ID sbx, sy_IP = ls_IP sbx, sy_Phase = ls_Phase sbx, sy_Error = ls_Error sbx,
       sy_UnhealthyContainers = map (\<lambda>(_, st). \<lparr> cy_Name = cs_Name st, cy_Phase = cs_Phase st, cy_Error = cs_Error st,
           cy_TaskStatus = cs_TaskStatus st \<rparr>) (filter (\<lambda>(_, st). \<not> healthy_state st) (ls_Containers sbx)) \<rparr>"

text \<open>The loop over the ids: the statuses so far and the ids that are missing.\<close>

fun collect_statuses ::
  "'f let_env \<Rightarrow> string list \<Rightarrow> SandboxSyncStatus list \<Rightarrow> string list \<Rightarrow>
   ('f let_state, go_error + SandboxSyncStatus list \<times> string list) state" where
  "collect_statuses E [] items missing = ret (Inr (items, missing))"
| "collect_statuses E (i # ids) items missing = do {
     r \<leftarrow> let_GetSandbox E i;
     case r of
       Inl err \<Rightarrow> if errors_Is err ErrNotExist then collect_statuses E ids items (missing @ [i]) else ret (Inl err)
     | Inr sbx \<Rightarrow> collect_statuses E ids (items @ [toSandboxSyncStatus sbx]) missing }"

definition http_sandboxStatuses :: "'f let_env \<Rightarrow> go_error + string list \<Rightarrow> 'f let_handler" where
  "http_sandboxStatuses E body =
     (case body of
        Inl err \<Rightarrow> ret (respondError 400 err)
      | Inr raws \<Rightarrow>
          if raws = [] then ret (200, LetStatusesResponse \<lparr> sr_Items = [], sr_Missing = [] \<rparr>)
          else let ids = clean_ids raws [] in
          if length ids > 200 then ret (respondErrorMessage 400 ''too many ids (max 200)'')
          else do {
            r \<leftarrow> collect_statuses E ids [] [];
            ret (case r of
                   Inl err \<Rightarrow> respondError 500 err
                 | Inr (items, missing) \<Rightarrow>
                     (200, LetStatusesResponse \<lparr> sr_Items = items, sr_Missing = sort_slice (<) missing \<rparr>)) })"

definition http_deleteSandbox :: "'f let_env \<Rightarrow> string \<Rightarrow> 'f let_handler" where
  "http_deleteSandbox E sandboxID = do {
     r \<leftarrow> let_DeleteSandbox E sandboxID;
     ret (case r of Some err \<Rightarrow> respondError 500 err | None \<Rightarrow> (200, LetDeleteResponse sandboxID ''deleted'')) }"

definition http_reconcile :: "'f let_env \<Rightarrow> 'f let_handler" where
  "http_reconcile E = do {
     r \<leftarrow> ReconcileOnce E;
     ret (case r of Some err \<Rightarrow> respondError 500 err | None \<Rightarrow> (200, ReconcileResponse True)) }"

definition http_getContainerLogs :: "'f let_env \<Rightarrow> string \<Rightarrow> string \<Rightarrow> 'f let_handler" where
  "http_getContainerLogs E sandboxID containerName = do {
     r \<leftarrow> GetContainerLogs E sandboxID containerName;
     case r of
       Inr logs \<Rightarrow> ret (200, ContainerLogsResponse sandboxID containerName logs)
     | Inl err \<Rightarrow>
         if errors_Is err ErrNotExist then do {
           sb \<leftarrow> let_GetSandbox E sandboxID;
           ret (case sb of
                  Inr sbx \<Rightarrow>
                    if map_of (ls_Containers sbx) containerName \<noteq> None
                    then (200, ContainerLogsResponse sandboxID containerName [])
                    else respondErrorMessage 404 ''logs not found''
                | Inl _ \<Rightarrow> respondErrorMessage 404 ''logs not found'') }
         else if errors_Is err ErrLogTooLarge then ret (respondErrorMessage 413 ''logs too large'')
         else ret (respondErrorMessage 500 ''failed to read logs'') }"

definition http_getSandboxLogs :: "'f let_env \<Rightarrow> string \<Rightarrow> 'f let_handler" where
  "http_getSandboxLogs E sandboxID = do {
     r \<leftarrow> GetSandboxLogs E sandboxID;
     ret (case r of
            Inr logs \<Rightarrow> (200, SandboxLogsResponse sandboxID logs)
          | Inl err \<Rightarrow>
              if errors_Is err ErrNotExist then respondErrorMessage 404 ''logs not found''
              else if errors_Is err ErrLogTooLarge then respondErrorMessage 413 ''logs too large''
              else respondErrorMessage 500 ''failed to read logs'') }"

section \<open>router.go\<close>

text \<open>The start page and the pages of the API description are static files.\<close>

definition let_routes :: "route list" where
  "let_routes =
     [(''GET'', ''/'', False), (''GET'', ''/swagger/*any'', False), (''GET'', ''/healthz'', False),
      (''GET'', ''/v1/node/status'', True), (''GET'', ''/v1/sandboxes'', True), (''GET'', ''/v1/sandboxes/:id'', True),
      (''GET'', ''/v1/sandboxes/:id/logs'', True), (''GET'', ''/v1/sandboxes/:id/containers/:name/logs'', True),
      (''POST'', ''/v1/sandboxes/statuses'', True), (''POST'', ''/v1/sandboxes'', True),
      (''DELETE'', ''/v1/sandboxes/:id'', True), (''POST'', ''/v1/reconcile'', True)]"

definition let_handle ::
  "'f let_env \<Rightarrow> string \<Rightarrow> string \<Rightarrow> (string \<times> string) list \<Rightarrow> (string \<times> string) list \<Rightarrow> let_body \<Rightarrow> 'f let_handler" where
  "let_handle E m pat ps q body =
     (if (m, pat) = (''GET'', ''/healthz'') then http_healthz
      else if (m, pat) = (''GET'', ''/v1/node/status'') then http_nodeStatus E
      else if (m, pat) = (''GET'', ''/v1/sandboxes'') then http_listSandboxes E q
      else if (m, pat) = (''GET'', ''/v1/sandboxes/:id'') then http_getSandbox E (Param ps ''id'')
      else if (m, pat) = (''GET'', ''/v1/sandboxes/:id/logs'') then http_getSandboxLogs E (Param ps ''id'')
      else if (m, pat) = (''GET'', ''/v1/sandboxes/:id/containers/:name/logs'')
        then http_getContainerLogs E (Param ps ''id'') (Param ps ''name'')
      else if (m, pat) = (''POST'', ''/v1/sandboxes/statuses'') then http_sandboxStatuses E (lb_ids body)
      else if (m, pat) = (''POST'', ''/v1/sandboxes'') then http_createSandbox E (lb_create body)
      else if (m, pat) = (''DELETE'', ''/v1/sandboxes/:id'') then http_deleteSandbox E (Param ps ''id'')
      else if (m, pat) = (''POST'', ''/v1/reconcile'') then http_reconcile E
      else ret (200, StaticFile pat))"

definition let_serve :: "router \<Rightarrow> 'f let_env \<Rightarrow> string \<Rightarrow> let_body http_req \<Rightarrow> 'f let_handler" where
  "let_serve router E sharedSecret r = serve router let_routes LetErrorResponse sharedSecret (let_handle E) r"

end
