(* ===== verification/Let_ServiceProps.thy ===== *)
theory Let_ServiceProps
  imports Let_Frame
begin

text \<open>
  Properties of the sbxlet service: the state stays well-formed under every interleaving of operations, how
  provisioning ends, when the reconcile loop gives a sandbox up, and that a client that follows the cursors
  of the listing sees every sandbox once.
\<close>

section \<open>Well-formedness\<close>

lemma stored_wf: "dir_wf (lt_dir s) \<Longrightarrow> stored s i = Some sb \<Longrightarrow> ls_ID sb = i \<and> ValidateSandboxID i = None"
  by (auto simp: stored_def lookup_state_def dir_wf_def split: option.splits dir_entry.splits dest!: map_of_SomeD)

lemma io_steps: "state_io_rel (let_steps E) m \<Longrightarrow> let_steps E s (exec m s)"
  by (auto simp: state_io_rel_def)

text \<open>
  C37: the state of sbxlet stays well-formed, whatever requests, background tasks and reconcile passes run in
  parallel. In every state that interleaved steps reach from a well-formed one, a stored sandbox is
  found under its own valid id, and the two health counters are kept for the same sandboxes; and every
  operation of the service is a sequence of such steps, so that it leads to such a state again.
\<close>

theorem interleaved_operations_keep_state_well_formed:
  assumes "let_ok s" and "let_steps E s t"
  shows "let_ok t \<and> (\<forall>i sb. stored t i = Some sb \<longrightarrow> ls_ID sb = i \<and> ValidateSandboxID i = None) \<and>
    let_steps E s (exec (let_New E) t) \<and> let_steps E s (exec (createSandbox E req async) t) \<and>
    let_steps E s (exec (provisionSandbox E i req) t) \<and> let_steps E s (exec (let_DeleteSandbox E i) t) \<and>
    let_steps E s (exec (ReconcileOnce E) t) \<and> let_steps E s (exec (CleanupSandboxResources E i) t) \<and>
    let_steps E s (exec (let_ListSandboxes E) t) \<and> let_steps E s (exec (let_GetSandbox E i) t) \<and>
    let_steps E s (exec (ListSandboxesPage E cursor limit) t) \<and> let_steps E s (exec (IsSandboxHealthy E i) t)"
proof -
  have ok: "let_ok t" using let_steps_ok assms by blast
  have "\<forall>i sb. stored t i = Some sb \<longrightarrow> ls_ID sb = i \<and> ValidateSandboxID i = None"
    using ok stored_wf by (auto simp: let_ok_def)
  then show ?thesis
    using ok assms(2) by (auto intro!: rtranclp_trans [OF assms(2)] io_steps steps.operations)
qed

theorem interleaved_operations_keep_state_well_formed_witness:
  "let_ok sample_let_state \<and> let_ok (exec (st_Save sample_let_env sample_stored) sample_let_state)"
proof -
  have ok: "let_ok sample_let_state" by (simp add: let_ok_def sample_let_state_def dir_wf_def)
  moreover have "let_steps sample_let_env sample_let_state (exec (st_Save sample_let_env sample_stored) sample_let_state)"
    by (intro r_into_rtranclp step_save)
  ultimately show ?thesis using interleaved_operations_keep_state_well_formed by blast
qed

section \<open>How provisioning ends\<close>

text \<open>The state in which sandbox \<open>i\<close> can be saved: no I/O faults, a valid id, and no plain file of that name.\<close>

definition can_save :: "'f let_env \<Rightarrow> string \<Rightarrow> 'f let_state \<Rightarrow> bool" where
  "can_save E i s \<longleftrightarrow> dir_wf (lt_dir s) \<and> le_fs E = (\<lambda>_. FsOk) \<and> ValidateSandboxID i = None \<and> map_of (lt_dir s) i \<noteq> Some PlainFile"

lemma can_save_same: "lt_dir t = lt_dir s \<Longrightarrow> can_save E i t = can_save E i s"
  by (simp add: can_save_def)

lemma stored_same: "lt_dir t = lt_dir s \<Longrightarrow> stored t = stored s"
  by (simp add: stored_def fun_eq_iff)

lemma save_works:
  assumes "can_save E (ls_ID sb) s"
  shows "result (st_Save E sb) s = None \<and> stored (exec (st_Save E sb) s) = (stored s)(ls_ID sb \<mapsto> sb) \<and>
    lt_events (exec (st_Save E sb) s) = lt_events s"
proof -
  obtain r t where run: "run_state (st_Save E sb) s = (r, t)" by fastforce
  have wf: "dir_wf (lt_dir s)" using assms by (simp add: can_save_def)
  obtain n where "run_state (st_Save E sb) s = (None, s\<lparr> lt_tick := n, lt_dir := dir_put (ls_ID sb) (SandboxDir (Some (Some sb))) (lt_dir s) \<rparr>)"
    using run_st_Save [OF wf, of E sb] assms by (auto simp: save_effect_def can_save_def)
  moreover from this have "stored t = (stored s)(ls_ID sb \<mapsto> sb)"
    using store.save_ok [OF wf] run by auto
  ultimately show ?thesis using run by auto
qed

lemma same_dir: "state_io_rel same_books m \<Longrightarrow> lt_dir (exec m s) = lt_dir s"
  by (auto simp: state_io_rel_def same_books_def)

lemmas books_dir = same_dir [OF books.eff_createPodSandboxCRI] same_dir [OF books.eff_provision_containers]
  same_dir [OF books.eff_provision_network] same_dir [OF books.eff_refreshSandboxRuntimeState]
  same_dir [OF books.eff_deleteSandboxRuntimeArtifacts] same_dir [OF books.eff_ask]

lemma provision_containers_identity:
  "ls_ID (fst (result (provision_containers E p cfg cs sbx) s)) = ls_ID sbx \<and>
   ls_PauseID (fst (result (provision_containers E p cfg cs sbx) s)) = ls_PauseID sbx"
proof (induction cs arbitrary: sbx s)
  case (Cons c cs)
  show ?case
    by (auto simp: Cons.IH result_bind Let_def simp del: run_state_bind split: sum.split option.split)
qed simp

lemma provision_network_identity:
  "ls_ID (fst (result (provision_network E req sbx) s)) = ls_ID sbx \<and>
   ls_PauseID (fst (result (provision_network E req sbx) s)) = ls_PauseID sbx"
  by (auto simp: provision_network_def result_bind simp del: run_state_bind split: option.split)

lemma refresh_identity:
  "ls_ID (result (refreshSandboxRuntimeState E sbx) s) = ls_ID sbx \<and>
   ls_PauseID (result (refreshSandboxRuntimeState E sbx) s) = ls_PauseID sbx"
  by (auto simp: refreshSandboxRuntimeState_def result_bind Let_def simp del: run_state_bind split: prod.split)

text \<open>What a part of the provisioning leaves: the saved running sandbox, or an error and the directory as it was.\<close>

definition provisioned :: "'f let_state \<Rightarrow> LetSandbox \<Rightarrow> LetSandbox \<times> go_error option \<Rightarrow> 'f let_state \<Rightarrow> bool" where
  "provisioned s sbx out t = (case out of (sbx', e) \<Rightarrow>
     ls_ID sbx' = ls_ID sbx \<and>
     (if e = None then stored t = (stored s)(ls_ID sbx \<mapsto> sbx') \<and> ls_Phase sbx' = LetPhaseRunning \<and> ls_Error sbx' = []
      else lt_dir t = lt_dir s))"

lemma provision_finish_outcome:
  assumes "can_save E (ls_ID sbx) s"
  shows "provisioned s sbx (result (provision_finish E req sbx) s) (exec (provision_finish E req sbx) s) \<and>
    ls_PauseID (fst (result (provision_finish E req sbx) s)) = ls_PauseID sbx"
proof -
  obtain sbx2 f where r2: "result (provision_network E req sbx) s = (sbx2, f)" by fastforce
  define s3 where "s3 = exec (provision_network E req sbx) s"
  have d3: "lt_dir s3 = lt_dir s" by (simp add: s3_def books_dir)
  have i2: "ls_ID sbx2 = ls_ID sbx" "ls_PauseID sbx2 = ls_PauseID sbx"
    using provision_network_identity [of E req sbx s] r2 by simp_all
  note step = provision_finish_def result_bind exec_bind r2 s3_def [symmetric]
  show ?thesis
  proof (cases f)
    case (Some err)
    then show ?thesis using d3 i2 by (auto simp: step provisioned_def simp del: run_state_bind)
  next
    case None
    define s4 where "s4 = exec (ask (le_now E)) (exec (refreshSandboxRuntimeState E sbx2) s3)"
    define sbx4 where "sbx4 = setSandboxPhase (result (ask (le_now E)) (exec (refreshSandboxRuntimeState E sbx2) s3))
      (result (refreshSandboxRuntimeState E sbx2) s3) LetPhaseRunning []"
    have d4: "lt_dir s4 = lt_dir s" by (simp only: s4_def books_dir d3)
    have i4: "ls_ID sbx4 = ls_ID sbx" "ls_PauseID sbx4 = ls_PauseID sbx" "ls_Phase sbx4 = LetPhaseRunning" "ls_Error sbx4 = []"
      by (simp_all add: sbx4_def setSandboxPhase_def refresh_identity i2 LetPhaseRunning_def SandboxPhaseError_def)
    have sv: "result (st_Save E sbx4) s4 = None" "stored (exec (st_Save E sbx4) s4) = (stored s)(ls_ID sbx \<mapsto> sbx4)"
      using save_works [of E sbx4 s4] assms i4(1) can_save_same [OF d4] stored_same [OF d4] by auto
    have "result (provision_finish E req sbx) s = (sbx4, None)" "exec (provision_finish E req sbx) s = exec (st_Save E sbx4) s4"
      by (simp_all add: step None Let_def s4_def [symmetric] sbx4_def [symmetric] sv(1) del: run_state_bind run_ask)
    then show ?thesis using sv i4 by (simp add: provisioned_def)
  qed
qed

lemma provision_steps_outcome:
  assumes "can_save E (ls_ID sbx) s"
  shows "provisioned s sbx (result (provision_steps E sbx req) s) (exec (provision_steps E sbx req) s) \<and>
    (\<forall>podID ip cfg. result (createPodSandboxCRI E sbx (cr_Containers req)) s = Inr (podID, ip, cfg) \<longrightarrow>
       ls_PauseID (fst (result (provision_steps E sbx req) s)) = podID)"
proof -
  define s1 where "s1 = exec (createPodSandboxCRI E sbx (cr_Containers req)) s"
  have d1: "lt_dir s1 = lt_dir s" by (simp add: s1_def books_dir)
  show ?thesis
  proof (cases "result (createPodSandboxCRI E sbx (cr_Containers req)) s")
    case (Inl err)
    then show ?thesis
      using d1 by (auto simp: provision_steps_def result_bind exec_bind s1_def provisioned_def simp del: run_state_bind)
  next
    case (Inr pod)
    obtain podID ip cfg where pod: "pod = (podID, ip, cfg)" by (cases pod)
    define m where "m = provision_containers E podID cfg (cr_Containers req) (sbx\<lparr> ls_PauseID := podID, ls_IP := ip \<rparr>)"
    obtain sbx1 e1 where r1: "result m s1 = (sbx1, e1)" by fastforce
    define s2 where "s2 = exec m s1"
    have d2: "lt_dir s2 = lt_dir s" by (simp add: s2_def m_def books_dir d1)
    have i1: "ls_ID sbx1 = ls_ID sbx" "ls_PauseID sbx1 = podID"
      using r1 provision_containers_identity [of E podID cfg "cr_Containers req" "sbx\<lparr> ls_PauseID := podID, ls_IP := ip \<rparr>" s1]
      by (simp_all add: m_def)
    note step = provision_steps_def result_bind exec_bind pod Inr r1 s1_def [symmetric] m_def [symmetric] s2_def [symmetric]
    show ?thesis
    proof (cases e1)
      case (Some err)
      then show ?thesis using d2 i1 by (auto simp: step provisioned_def simp del: run_state_bind)
    next
      case None
      have "can_save E (ls_ID sbx1) s2" using assms can_save_same [OF d2] i1 by simp
      from provision_finish_outcome [OF this, of req] show ?thesis
        by (simp add: step None i1 provisioned_def stored_same [OF d2] d2 split: prod.splits del: run_state_bind)
    qed
  qed
qed

lemma cleanup_stops_pod:
  assumes "ls_PauseID sbx \<noteq> []"
  shows "{EvStopPod (ls_PauseID sbx), EvRemovePod (ls_PauseID sbx)} \<subseteq> set (lt_events (exec (deleteSandboxRuntimeArtifacts E sbx) s))"
proof -
  define rest where "rest = do { cleanupHostPortPublish E sbx; cleanupSandboxNetworkPolicy E sbx; cleanupCNICache (ls_ID sbx);
     cleanupSandboxTmpfsMounts E (ls_ID sbx); cleanupSandboxVolumeMounts E (ls_ID sbx); cleanupSandboxParentCgroup E (ls_ID sbx) }"
  have "state_io_rel events_grow rest"
    unfolding rest_def cleanupSandboxNetworkPolicy_def cleanupSandboxTmpfsMounts_def cleanupSandboxVolumeMounts_def
      cleanupSandboxParentCgroup_def
    by (intro log.frame_rules log.eff_cleanupHostPortPublish log.eff_cleanupCNICache log.eff_cleanup_mounts)
  then have grow: "set (lt_events u) \<subseteq> set (lt_events (exec rest u))" for u
    by (auto simp: state_io_rel_def events_grow_def dest: set_mono_prefix)
  have "exec (deleteSandboxRuntimeArtifacts E sbx) s = exec rest (exec (stopAndRemovePodSandbox (ls_PauseID sbx)) s)"
    unfolding deleteSandboxRuntimeArtifacts_def rest_def using assms by (simp add: exec_bind del: run_state_bind)
  then show ?thesis
    using grow [of "exec (stopAndRemovePodSandbox (ls_PauseID sbx)) s"] assms
    by (auto simp: stopAndRemovePodSandbox_def emit_def)
qed

lemma provision_failed_outcome:
  assumes "can_save E (ls_ID sbx) s"
  shows "\<exists>sb. stored (exec (provision_failed E sbx) s) = (stored s)(ls_ID sbx \<mapsto> sb) \<and> ls_Phase sb = SandboxPhaseError \<and>
    ls_Error sb \<noteq> [] \<and> ls_PauseID sb = ls_PauseID sbx \<and>
    (ls_PauseID sb \<noteq> [] \<longrightarrow> {EvStopPod (ls_PauseID sb), EvRemovePod (ls_PauseID sb)} \<subseteq> set (lt_events (exec (provision_failed E sbx) s)))"
proof -
  define sbx1 where "sbx1 = setSandboxPhase (result (ask (le_now E)) s) sbx SandboxPhaseError (ls_Error sbx)"
  define sbx2 where "sbx2 = (if ls_Error sbx1 = [] then sbx1\<lparr> ls_Error := ''provision failed'' \<rparr> else sbx1)"
  define s1 where "s1 = exec (ask (le_now E)) s"
  have i: "ls_ID sbx2 = ls_ID sbx" "ls_PauseID sbx2 = ls_PauseID sbx" "ls_Phase sbx2 = SandboxPhaseError" "ls_Error sbx2 \<noteq> []"
    by (simp_all add: sbx2_def sbx1_def setSandboxPhase_def)
  have d1: "lt_dir s1 = lt_dir s" by (simp only: s1_def books_dir)
  have "stored (exec (st_Save E sbx2) s1) = (stored s)(ls_ID sbx \<mapsto> sbx2)"
    using save_works [of E sbx2 s1] assms i(1) can_save_same [OF d1] stored_same [OF d1] by auto
  moreover have ex: "exec (provision_failed E sbx) s = exec (deleteSandboxRuntimeArtifacts E sbx2) (exec (st_Save E sbx2) s1)"
    by (simp add: provision_failed_def exec_bind Let_def sbx1_def [symmetric] s1_def [symmetric] del: run_state_bind run_ask)
      (simp add: sbx2_def)
  ultimately show ?thesis
    using i cleanup_stops_pod [of sbx2 E "exec (st_Save E sbx2) s1"]
    by (intro exI [of _ sbx2]) (auto simp: stored_same [OF books_dir(5)])
qed

definition sample_create :: CreateSandboxRequest where
  "sample_create = sample_request\<lparr> cr_ID := ''sbx-0'' \<rparr>"


text \<open>
  A pod is known to the cleanup only by the id that provisioning records once the whole pod creation has succeeded.
  When creating the pod fails, the cleanup stops no pod, although one may run already.
\<close>

fun stops_pod :: "let_event \<Rightarrow> bool" where
  "stops_pod (EvStopPod p) = True"
| "stops_pod _ = False"

fun runs_pod :: "let_event \<Rightarrow> bool" where
  "runs_pod (EvRunPod p _ _) = True"
| "runs_pod _ = False"

text \<open>Events are added, but no pod is stopped.\<close>

definition no_stop :: "'f let_state \<Rightarrow> 'f let_state \<Rightarrow> bool" where
  "no_stop s t \<longleftrightarrow> (\<exists>es. lt_events t = lt_events s @ es \<and> \<not> list_ex stops_pod es)"

interpretation quiet: effect_rel no_stop
proof
  show "no_stop s s" for s :: "'a let_state" by (simp add: no_stop_def)
  show "no_stop s u" if "no_stop s t" "no_stop t u" for s t u :: "'a let_state"
    using that by (auto simp: no_stop_def)
qed

lemma quiet_prims:
  "state_io_rel no_stop (ask f)" "state_io_rel no_stop (on_fw m)"
  "\<not> stops_pod ev \<Longrightarrow> state_io_rel no_stop (emit ev)" "state_io_rel no_stop (st_Save E sb)"
proof -
  show "state_io_rel no_stop (ask f)" "state_io_rel no_stop (on_fw m)"
    by (rule state_io_relI, auto simp: no_stop_def on_fw_def split: prod.splits)+
  show "\<not> stops_pod ev \<Longrightarrow> state_io_rel no_stop (emit ev)"
    by (rule state_io_relI) (auto simp: no_stop_def emit_def)
  show "state_io_rel no_stop (st_Save E sb)"
    by (rule state_io_relI) (auto simp: no_stop_def st_Save_def split: option.splits fs_outcome.splits if_splits)
qed

lemmas quiet_rules = quiet.eff_ret quiet.eff_bind quiet.eff_if quiet.eff_case_option quiet.eff_case_prod quiet.eff_for_each
  quiet.eff_let quiet_prims

lemma cleanup_without_pod:
  assumes "ls_PauseID sbx = []"
  shows "state_io_rel no_stop (provision_failed E sbx)"
proof -
  have "state_io_rel no_stop (deleteSandboxRuntimeArtifacts E sb)" if "ls_PauseID sb = []" for sb
    unfolding deleteSandboxRuntimeArtifacts_def cleanupHostPortPublish_def cleanupSandboxNetworkPolicy_def cleanupCNICache_def
      cleanupSandboxTmpfsMounts_def cleanupSandboxVolumeMounts_def cleanupSandboxParentCgroup_def cleanup_mounts_def
      unmount_visited_def resolvePath_def isMountPoint_def run_command_def
    by (intro quiet_rules) (simp_all add: that)
  then show ?thesis
    unfolding provision_failed_def Let_def using assms
    by (intro quiet_rules) (auto simp: setSandboxPhase_def)
qed

theorem failed_pod_creation_stops_no_pod:
  assumes "ls_PauseID sbx = []" and "run_state (createPodSandboxCRI E sbx (cr_Containers req)) s = (Inl err, s1)"
  shows "\<exists>es. lt_events (exec (provisionSandboxSync E sbx req) s) = lt_events s1 @ es \<and> \<not> list_ex stops_pod es"
proof -
  have "exec (provisionSandboxSync E sbx req) s = exec (provision_failed E (sbx\<lparr> ls_Error := Error err \<rparr>)) s1"
    using assms(2) by (simp add: provisionSandboxSync_def provision_steps_def split: prod.splits)
  then show ?thesis
    using cleanup_without_pod [of "sbx\<lparr> ls_Error := Error err \<rparr>" E] assms(1)
    by (simp add: state_io_rel_def no_stop_def) 
qed

definition leaky_env :: "fw_alist let_env" where
  "leaky_env = sample_let_env\<lparr> le_podStatus := (\<lambda>_ _. Inl ErrNotExist) \<rparr>"

text \<open>
  The pod is started and then its status cannot be read: provisioning fails, and the pod is left running.
\<close>

theorem failed_pod_status_leaks_pod:
  "list_ex runs_pod (lt_events (exec (provisionSandboxSync leaky_env sample_stored sample_create) sample_let_state)) \<and>
   \<not> list_ex stops_pod (lt_events (exec (provisionSandboxSync leaky_env sample_stored sample_create) sample_let_state))"
proof -
  let ?m = "createPodSandboxCRI leaky_env sample_stored (cr_Containers sample_create)"
  have "result ?m sample_let_state = Inl ErrNotExist" by code_simp
  then obtain s1 where run: "run_state ?m sample_let_state = (Inl ErrNotExist, s1)" by (metis prod.collapse)
  have "list_ex runs_pod (lt_events (exec ?m sample_let_state))" by code_simp
  moreover have "\<not> list_ex stops_pod (lt_events (exec ?m sample_let_state))" by code_simp
  moreover have "ls_PauseID sample_stored = []" by code_simp
  ultimately show ?thesis using failed_pod_creation_stops_no_pod [OF _ run] run by auto
qed
section \<open>Giving a sandbox up\<close>

text \<open>
  The history of one sandbox: the times of the unhealthy observations in a row, oldest first. A healthy
  observation starts a new row; what happens to other sandboxes does not matter.
\<close>

inductive unhealthy_row :: "'f let_env \<Rightarrow> string \<Rightarrow> int list \<Rightarrow> 'f let_state \<Rightarrow> bool" for E i where
  row_start: "map_of (lt_since s) i = None \<Longrightarrow> unhealthy_row E i [] s"
| row_observe: "unhealthy_row E i ts s \<Longrightarrow>
    unhealthy_row E i (ts @ [le_now E (lt_tick s)]) (exec (shouldFinalizeUnhealthy E i) s)"
| row_clear: "unhealthy_row E i ts s \<Longrightarrow> unhealthy_row E i [] (exec (clearUnhealthy i) s)"
| row_other: "unhealthy_row E i ts s \<Longrightarrow> map_of (lt_since t) i = map_of (lt_since s) i \<Longrightarrow>
    map_of (lt_hits t) i = map_of (lt_hits s) i \<Longrightarrow> unhealthy_row E i ts t"

lemma row_counters:
  "unhealthy_row E i ts s \<Longrightarrow>
     (if ts = [] then map_of (lt_since s) i = None
      else map_of (lt_since s) i = Some (hd ts) \<and> map_of (lt_hits s) i = Some (int (length ts)))"
proof (induction rule: unhealthy_row.induct)
  case (row_observe ts s)
  then show ?case by (cases "ts = []") (auto simp: shouldFinalizeUnhealthy_def)
qed (auto simp: clearUnhealthy_def)

text \<open>
  C39: sbxlet gives a sandbox up only after it was unhealthy for a while. The verdict of an observation is positive
  exactly when earlier observations in the same row exist, the first of them is at least the grace
  period ago, and with this one there are at least the configured number of them; one healthy
  observation in between starts again.
\<close>

theorem shouldFinalizeUnhealthy_debounces:
  assumes "unhealthy_row E i ts s"
  shows "result (shouldFinalizeUnhealthy E i) s \<longleftrightarrow>
    ts \<noteq> [] \<and> le_ReconcileGrace E \<le> le_now E (lt_tick s) - hd ts \<and> le_ReconcileHits E \<le> int (length ts) + 1"
  using row_counters [OF assms] by (cases "ts = []") (auto simp: shouldFinalizeUnhealthy_def)

theorem shouldFinalizeUnhealthy_debounces_witness:
  "\<not> result (shouldFinalizeUnhealthy sample_let_env ''sbx-0'') sample_let_state \<and>
   (let s1 = exec (shouldFinalizeUnhealthy sample_let_env ''sbx-0'') sample_let_state;
        s2 = exec (shouldFinalizeUnhealthy sample_let_env ''sbx-0'') s1
    in result (shouldFinalizeUnhealthy sample_let_env ''sbx-0'') (s2\<lparr> lt_tick := 40 \<rparr>))"
proof -
  have r0: "unhealthy_row sample_let_env ''sbx-0'' [] sample_let_state"
    by (rule row_start) (simp add: sample_let_state_def)
  have now: "le_now sample_let_env = int" by (simp add: sample_let_env_def)
  have grace: "le_ReconcileGrace sample_let_env = 30" "le_ReconcileHits sample_let_env = 3" by (simp_all add: sample_let_env_def)
  have t0: "lt_tick sample_let_state = 0" by (simp add: sample_let_state_def)
  have t1: "lt_tick (exec (shouldFinalizeUnhealthy sample_let_env ''sbx-0'') sample_let_state) = 1"
    by (simp add: shouldFinalizeUnhealthy_def sample_let_state_def)
  have "unhealthy_row sample_let_env ''sbx-0'' [0, 1] (exec (shouldFinalizeUnhealthy sample_let_env ''sbx-0'')
     (exec (shouldFinalizeUnhealthy sample_let_env ''sbx-0'') sample_let_state))"
    using row_observe [OF row_observe [OF r0]] by (simp add: now t0 t1)
  then have "unhealthy_row sample_let_env ''sbx-0'' [0, 1] ((exec (shouldFinalizeUnhealthy sample_let_env ''sbx-0'')
     (exec (shouldFinalizeUnhealthy sample_let_env ''sbx-0'') sample_let_state))\<lparr> lt_tick := 40 \<rparr>)"
    by (rule row_other) simp_all
  then show ?thesis
    using shouldFinalizeUnhealthy_debounces [OF r0] shouldFinalizeUnhealthy_debounces [of sample_let_env "''sbx-0''" "[0, 1]"]
    by (simp add: Let_def now grace)
qed

section \<open>Paging\<close>

text \<open>A client that asks for a page and goes on with the returned cursor until there is none.\<close>

fun fetch_pages :: "'f let_env \<Rightarrow> nat \<Rightarrow> int \<Rightarrow> string \<Rightarrow> ('f let_state, (go_error + LetSandbox list) option) state" where
  "fetch_pages E 0 limit cursor = ret None"
| "fetch_pages E (Suc n) limit cursor = do {
     r \<leftarrow> ListSandboxesPage E cursor limit;
     case r of
       Inl err \<Rightarrow> ret (Some (Inl err))
     | Inr (page, nextCursor) \<Rightarrow>
         if nextCursor = [] then ret (Some (Inr page))
         else do {
           rest \<leftarrow> fetch_pages E n limit nextCursor;
           ret (map_option (map_sum id ((@) page)) rest) } }"

lemma insert_by_least: "sorted_wrt (<) (map ls_ID (x # xs)) \<Longrightarrow> insert_by (\<lambda>a b. ls_ID a < ls_ID b) x xs = x # xs"
  by (cases xs) auto

lemma sort_slice_id: "sorted_wrt (<) (map ls_ID all) \<Longrightarrow> sort_slice (\<lambda>a b. ls_ID a < ls_ID b) all = all"
proof (induction all)
  case (Cons x all)
  then show ?case using insert_by_least [of x all] by (simp add: sort_slice_def)
qed (simp add: sort_slice_def)

text \<open>The sandboxes after a cursor.\<close>

definition after :: "string \<Rightarrow> LetSandbox list \<Rightarrow> LetSandbox list" where
  "after cursor all = filter (\<lambda>sb. cursor < ls_ID sb) all"

lemma after_drop:
  assumes "sorted_wrt (<) (map ls_ID all)"
  shows "dropWhile (\<lambda>sb. \<not> cursor < ls_ID sb) all = after cursor all"
  using assms
proof (induction all)
  case (Cons x all)
  show ?case
  proof (cases "cursor < ls_ID x")
    case True
    then have "\<forall>sb \<in> set all. cursor < ls_ID sb" using Cons.prems by (auto intro: less_trans)
    then show ?thesis using True by (simp add: after_def filter_id_conv)
  qed (use Cons in \<open>auto simp: after_def\<close>)
qed (simp add: after_def)

lemma after_Nil: "\<forall>sb \<in> set all. ls_ID sb \<noteq> [] \<Longrightarrow> after [] all = all"
  by (induction all) (auto simp: after_def neq_Nil_conv)

lemma after_append: "after c (xs @ ys) = after c xs @ after c ys"
  by (simp add: after_def)

lemma after_after: "c \<le> d \<Longrightarrow> after d (after c all) = after d all"
  by (auto simp: after_def intro!: filter_cong dest: le_less_trans)

lemma page_limit_pos: "0 < nat (page_limit limit)"
  by (simp add: page_limit_def Let_def)

lemma page_of_after:
  assumes "sorted_wrt (<) (map ls_ID all)" and "\<forall>sb \<in> set all. ls_ID sb \<noteq> []"
  shows "page_of cursor limit all = (let k = nat (page_limit limit); rest = after cursor all in
    (take k rest, if k < length rest then ls_ID (rest ! (k - 1)) else []))"
proof -
  have rest: "drop (page_start cursor all) all = after cursor all"
  proof (cases "cursor = []")
    case True
    then show ?thesis using after_Nil [OF assms(2)] by (simp add: page_start_def)
  next
    case False
    then show ?thesis using after_drop [OF assms(1), of cursor] by (simp add: page_start_def dropWhile_eq_drop)
  qed
  have len: "page_start cursor all + length (after cursor all) = length all"
    unfolding rest [symmetric] by (auto simp: page_start_def length_takeWhile_le)
  define k where "k = nat (page_limit limit)"
  have k: "0 < k" unfolding k_def by (rule page_limit_pos)
  have "(page_start cursor all + length (take k (after cursor all)) < length all \<and> 0 < length (take k (after cursor all))) \<longleftrightarrow>
    k < length (after cursor all)" using len k by (auto simp: min_def)
  moreover have "last (take k (after cursor all)) = after cursor all ! (k - 1)" if "k < length (after cursor all)"
    using that k by (subst last_conv_nth) (auto simp: min_def)
  ultimately have "(if page_start cursor all + length (take k (after cursor all)) < length all \<and> 0 < length (take k (after cursor all))
      then ls_ID (last (take k (after cursor all))) else []) =
    (if k < length (after cursor all) then ls_ID (after cursor all ! (k - 1)) else [])" by presburger
  then show ?thesis unfolding page_of_def sort_slice_id [OF assms(1)] rest k_def [symmetric] Let_def by simp
qed

lemma after_next:
  assumes "sorted_wrt (<) (map ls_ID all)" and "0 < k" and "k < length (after cursor all)"
  shows "after (ls_ID (after cursor all ! (k - 1))) all = drop k (after cursor all)"
proof -
  let ?L = "after cursor all"
  have srt: "sorted_wrt (<) (map ls_ID ?L)" using assms(1) by (auto simp: after_def sorted_wrt_map sorted_wrt_filter)
  then have mono: "i < j \<Longrightarrow> j < length ?L \<Longrightarrow> ls_ID (?L ! i) < ls_ID (?L ! j)" for i j
    by (auto simp: sorted_wrt_iff_nth_less)
  let ?c = "ls_ID (?L ! (k - 1))"
  have "?L ! (k - 1) \<in> set ?L" using assms by auto
  then have "cursor < ?c" by (simp add: after_def)
  then have "after ?c all = after ?c ?L" by (simp add: after_after)
  also have "\<dots> = after ?c (take k ?L) @ after ?c (drop k ?L)" by (simp flip: after_append)
  also have "after ?c (take k ?L) = []"
  proof -
    have "\<not> ?c < ls_ID (?L ! i)" if "i < k" for i
      using mono [of i "k - 1"] that assms(3) by (cases "i = k - 1") (simp_all add: not_less_iff_gr_or_eq)
    then show ?thesis by (auto simp: after_def filter_empty_conv in_set_conv_nth)
  qed
  also have "after ?c (drop k ?L) = drop k ?L"
  proof -
    have "?c < ls_ID (?L ! (k + i))" if "k + i < length ?L" for i
      using mono [of "k - 1" "k + i"] that assms(2) by simp
    then show ?thesis unfolding after_def [of ?c] filter_id_conv by (auto simp: in_set_conv_nth)
  qed
  finally show ?thesis by simp
qed


lemma stored_ids_nonempty:
  fixes s :: "'f let_state"
  shows "dir_wf (lt_dir s) \<Longrightarrow> \<forall>sb \<in> set (dir_sandboxes (lt_dir s)). ls_ID sb \<noteq> []"
proof -
  have "ValidateSandboxID [] \<noteq> None" by code_simp
  then show "dir_wf (lt_dir s) \<Longrightarrow> \<forall>sb \<in> set (dir_sandboxes (lt_dir s)). ls_ID sb \<noteq> []"
    using stored_wf [of s] by (auto simp: set_dir_sandboxes ran_def)
qed

lemma refresh_all_ids: "map ls_ID (result (refresh_all E sbs out) s) = map ls_ID out @ map ls_ID sbs"
  by (induction sbs arbitrary: out s) (simp_all add: result_bind refresh_identity del: run_state_bind)

lemma page_run:
  assumes "dir_wf (lt_dir s)" and "le_fs E = (\<lambda>_. FsOk)"
  shows "\<exists>page. result (ListSandboxesPage E cursor limit) s = Inr (page, snd (page_of cursor limit (dir_sandboxes (lt_dir s)))) \<and>
    map ls_ID page = map ls_ID (fst (page_of cursor limit (dir_sandboxes (lt_dir s)))) \<and>
    lt_dir (exec (ListSandboxesPage E cursor limit) s) = lt_dir s"
proof -
  obtain n where "run_state (st_List E) s = (Inr (dir_sandboxes (lt_dir s)), s\<lparr> lt_tick := n \<rparr>)"
    using run_st_List [OF assms] by auto
  then have r: "result (ListSandboxesPage E cursor limit) s = Inr
      (result (refresh_all E (fst (page_of cursor limit (dir_sandboxes (lt_dir s)))) []) (s\<lparr> lt_tick := n \<rparr>),
       snd (page_of cursor limit (dir_sandboxes (lt_dir s))))"
    by (simp add: ListSandboxesPage_def result_bind Let_def split: prod.splits del: run_state_bind)
  then show ?thesis using same_dir [OF books.eff_reads(3)] by (auto simp: refresh_all_ids)
qed

lemma fetch_pages_after:
  assumes "dir_wf (lt_dir s)" and "le_fs E = (\<lambda>_. FsOk)" and "length (after cursor (dir_sandboxes (lt_dir s))) < n"
  shows "\<exists>page. result (fetch_pages E n limit cursor) s = Some (Inr page) \<and>
    map ls_ID page = map ls_ID (after cursor (dir_sandboxes (lt_dir s)))"
  using assms
proof (induction n arbitrary: s cursor)
  case (Suc n)
  let ?all = "dir_sandboxes (lt_dir s)" and ?k = "nat (page_limit limit)"
  let ?rest = "after cursor ?all"
  have srt: "sorted_wrt (<) (map ls_ID ?all)" by (rule sorted_dir_sandboxes [OF Suc.prems(1)])
  have ids: "\<forall>sb \<in> set ?all. ls_ID sb \<noteq> []"
    by (rule stored_ids_nonempty [OF Suc.prems(1)])
  obtain page where p: "result (ListSandboxesPage E cursor limit) s = Inr (page, if ?k < length ?rest then ls_ID (?rest ! (?k - 1)) else [])"
    "map ls_ID page = map ls_ID (take ?k ?rest)" "lt_dir (exec (ListSandboxesPage E cursor limit) s) = lt_dir s"
    using page_run [OF Suc.prems(1,2), of cursor limit] by (auto simp: page_of_after [OF srt ids] Let_def)
  show ?case
  proof (cases "?k < length ?rest")
    case False
    then show ?thesis using p by (simp add: result_bind del: run_state_bind)
  next
    case True
    let ?c = "ls_ID (?rest ! (?k - 1))" and ?t = "exec (ListSandboxesPage E cursor limit) s"
    have "?rest ! (?k - 1) \<in> set ?rest" using True by (intro nth_mem) simp
    then have "?c \<noteq> []" using ids by (auto simp: after_def)
    moreover have nxt: "after ?c ?all = drop ?k ?rest" by (rule after_next [OF srt page_limit_pos True])
    moreover have "length (after ?c ?all) < n" using Suc.prems(3) page_limit_pos [of limit] True unfolding nxt by simp
    ultimately obtain more where "result (fetch_pages E n limit ?c) ?t = Some (Inr more)" "map ls_ID more = map ls_ID (drop ?k ?rest)"
      using Suc.IH [of ?t ?c] Suc.prems(1,2) p(3) by auto
    then show ?thesis
      using p True \<open>?c \<noteq> []\<close> by (simp add: result_bind del: run_state_bind) (metis append_take_drop_id map_append)
  qed
qed simp

text \<open>
  C40: following the cursors of the listing terminates and misses nothing. A client that starts without a
  cursor and goes on with the cursor of each page is done after at most one request more than
  there are sandboxes, for every page size it asks for; the pages together list the ids of all
  stored sandboxes, each once and in order.
\<close>

theorem paging_enumerates_all:
  assumes "dir_wf (lt_dir s)" and "le_fs E = (\<lambda>_. FsOk)" and "card (dom (stored s)) < n"
  shows "\<exists>page. result (fetch_pages E n limit []) s = Some (Inr page) \<and> map ls_ID page = sorted_list_of_set (dom (stored s))"
proof -
  let ?all = "dir_sandboxes (lt_dir s)"
  have srt: "sorted_wrt (<) (map ls_ID ?all)" by (rule sorted_dir_sandboxes [OF assms(1)])
  have "set (map ls_ID ?all) = dom (stored s)"
    using stored_wf [OF assms(1)] by (force simp: set_dir_sandboxes [OF assms(1)] ran_def)
  then have ids: "map ls_ID ?all = sorted_list_of_set (dom (stored s))"
    using srt by (metis sorted_list_of_set.idem_if_sorted_distinct strict_sorted_iff)
  have "after [] ?all = ?all" by (rule after_Nil [OF stored_ids_nonempty [OF assms(1)]])
  moreover have "length ?all = card (dom (stored s))" using arg_cong [OF ids, of length] by simp
  ultimately show ?thesis
    using fetch_pages_after [OF assms(1,2), of "[]" n limit] assms(3) by (simp add: ids)
qed

definition sample_page_state :: "fw_alist let_state" where
  "sample_page_state = sample_let_state\<lparr> lt_dir := [(''sbx-0'', SandboxDir (Some (Some sample_stored)))] \<rparr>"

theorem paging_enumerates_all_witness:
  "\<exists>page. result (fetch_pages sample_let_env 2 1 []) sample_page_state = Some (Inr page) \<and> map ls_ID page = [''sbx-0'']"
proof -
  have i: "ls_ID sample_stored = ''sbx-0'' \<and> ValidateSandboxID ''sbx-0'' = None" by code_simp
  have "dom (stored sample_page_state) = {''sbx-0''}"
    by (auto simp: sample_page_state_def stored_def lookup_state_def dom_def split: option.splits if_splits)
  moreover have "dir_wf (lt_dir sample_page_state)" using i by (simp add: sample_page_state_def dir_wf_def)
  moreover have "le_fs sample_let_env = (\<lambda>_. FsOk)" by (simp add: sample_let_env_def)
  ultimately show ?thesis using paging_enumerates_all [of sample_page_state sample_let_env 2 1] by simp
qed

end
