(* ===== verification/Let_HttpProps.thy ===== *)
theory Let_HttpProps
  imports Let_Http Let_ServiceProps
begin

text \<open>
  Properties of the HTTP server of sbxlet: every request of the orchestrator's client reaches its handler with its
  arguments, a request without the secret changes nothing, every request keeps the state well-formed, and
  what a status request reports.
\<close>

section \<open>The orchestrator's requests\<close>

text \<open>
  The request that the client sends for a call. The bodies are encoded and decoded by \<open>encoding/json\<close>, and a body that is
  empty does not decode.
\<close>

definition ErrEOF :: go_error where "ErrEOF = ErrNew ''EOF''"

definition client_request :: "string \<Rightarrow> rpc_call \<Rightarrow> let_body http_req" where
  "client_request secret call =
     (let content = (case call of CallCreate _ _ \<Rightarrow> True | CallStatuses _ _ \<Rightarrow> True | _ \<Rightarrow> False) in
      \<lparr> rq_Method = fst (rpc_request call), rq_Target = snd (rpc_request call),
        rq_Header = SetRequestSecret (if content then [(''Content-Type'', ''application/json'')] else []) secret,
        rq_Body = \<lparr> lb_create = (case call of CallCreate _ req \<Rightarrow> Inr req | _ \<Rightarrow> Inl ErrEOF),
                    lb_ids = (case call of CallStatuses _ ids \<Rightarrow> Inr ids | _ \<Rightarrow> Inl ErrEOF) \<rparr> \<rparr>)"

fun call_handler :: "'f let_env \<Rightarrow> rpc_call \<Rightarrow> 'f let_handler" where
  "call_handler E (CallHealthz _) = http_healthz"
| "call_handler E (CallNodeStatus _) = http_nodeStatus E"
| "call_handler E (CallReconcile _) = http_reconcile E"
| "call_handler E (CallCreate _ req) = http_createSandbox E (Inr req)"
| "call_handler E (CallDelete _ sid) = http_deleteSandbox E sid"
| "call_handler E (CallStatuses _ ids) = http_sandboxStatuses E (Inr ids)"
| "call_handler E (CallList _ cursor limit) = http_list_page E cursor (if limit > 0 then limit else 20)"
| "call_handler E (CallGet _ sid) = http_getSandbox E sid"
| "call_handler E (CallContainerLogs _ sid name) = http_getContainerLogs E sid name"
| "call_handler E (CallSandboxLogs _ sid) = http_getSandboxLogs E sid"

text \<open>One segment of a path. The ids of sandboxes and the names of containers that sbxlet accepts are such segments.\<close>

definition segment :: "string \<Rightarrow> bool" where
  "segment s \<longleftrightarrow> s \<noteq> [] \<and> CHR ''/'' \<notin> set s"

fun plain_call :: "rpc_call \<Rightarrow> bool" where
  "plain_call (CallDelete _ sid) = segment sid"
| "plain_call (CallList _ _ limit) = (limit < 2 ^ 63)"
| "plain_call (CallGet _ sid) = segment sid"
| "plain_call (CallContainerLogs _ sid name) = (segment sid \<and> segment name)"
| "plain_call (CallSandboxLogs _ sid) = segment sid"
| "plain_call _ = True"

lemma routed:
  assumes "routes_as_documented router" and "(m, pat) \<in> set routes" and "match_route pat path = Some ps"
    and "list_all (\<lambda>(m', pat'). m' = m \<and> match_route pat' path \<noteq> None \<longrightarrow> pat' = pat) routes"
  shows "router routes m path = Some (pat, ps)"
proof -
  have "\<forall>pat'. (m, pat') \<in> set routes \<longrightarrow> match_route pat' path \<noteq> None \<longrightarrow> pat' = pat"
    using assms(4) by (auto simp: list_all_iff)
  then show ?thesis
    using assms(1) [unfolded routes_as_documented_def, rule_format, OF assms(2) assms(3)] by blast
qed

lemma let_patterns:
  "map (\<lambda>(m, pat, _). (m, pat)) let_routes =
     [(''GET'', ''/''), (''GET'', ''/swagger/*any''), (''GET'', ''/healthz''),
      (''GET'', ''/v1/node/status''), (''GET'', ''/v1/sandboxes''), (''GET'', ''/v1/sandboxes/:id''),
      (''GET'', ''/v1/sandboxes/:id/logs''), (''GET'', ''/v1/sandboxes/:id/containers/:name/logs''),
      (''POST'', ''/v1/sandboxes/statuses''), (''POST'', ''/v1/sandboxes''),
      (''DELETE'', ''/v1/sandboxes/:id''), (''POST'', ''/v1/reconcile'')]"
  by (simp add: let_routes_def)

lemma let_fixed_routes:
  assumes "routes_as_documented router"
  shows "router (map (\<lambda>(m, pat, _). (m, pat)) let_routes) ''GET'' ''/healthz'' = Some (''/healthz'', [])"
    and "router (map (\<lambda>(m, pat, _). (m, pat)) let_routes) ''GET'' ''/v1/node/status'' = Some (''/v1/node/status'', [])"
    and "router (map (\<lambda>(m, pat, _). (m, pat)) let_routes) ''GET'' ''/v1/sandboxes'' = Some (''/v1/sandboxes'', [])"
    and "router (map (\<lambda>(m, pat, _). (m, pat)) let_routes) ''POST'' ''/v1/sandboxes'' = Some (''/v1/sandboxes'', [])"
    and "router (map (\<lambda>(m, pat, _). (m, pat)) let_routes) ''POST'' ''/v1/sandboxes/statuses'' = Some (''/v1/sandboxes/statuses'', [])"
    and "router (map (\<lambda>(m, pat, _). (m, pat)) let_routes) ''POST'' ''/v1/reconcile'' = Some (''/v1/reconcile'', [])"
  unfolding let_patterns by (rule routed [OF assms]; simp add: match_route_def HasPrefix_def)+

lemma let_sandbox_routes:
  assumes "routes_as_documented router" and "segment sid"
  shows "router (map (\<lambda>(m, pat, _). (m, pat)) let_routes) ''GET'' (''/v1/sandboxes/'' @ sid) = Some (''/v1/sandboxes/:id'', [(''id'', sid)])"
    and "router (map (\<lambda>(m, pat, _). (m, pat)) let_routes) ''DELETE'' (''/v1/sandboxes/'' @ sid) = Some (''/v1/sandboxes/:id'', [(''id'', sid)])"
    and "router (map (\<lambda>(m, pat, _). (m, pat)) let_routes) ''GET'' (''/v1/sandboxes/'' @ sid @ ''/logs'') = Some (''/v1/sandboxes/:id/logs'', [(''id'', sid)])"
    and "segment name \<Longrightarrow> router (map (\<lambda>(m, pat, _). (m, pat)) let_routes) ''GET'' (''/v1/sandboxes/'' @ sid @ ''/containers/'' @ name @ ''/logs'') =
      Some (''/v1/sandboxes/:id/containers/:name/logs'', [(''id'', sid), (''name'', name)])"
  using assms(2) unfolding let_patterns segment_def
  by (intro routed [OF assms(1)]; simp add: match_route_def HasPrefix_def Split_none Split_first)+

lemma parse_target_plain: "CHR ''?'' \<notin> set p \<Longrightarrow> unescape False p = Some path \<Longrightarrow> parse_target p = Some (path, [])"
  by (simp add: parse_target_def Cut_char)

lemma sandbox_targets:
  "parse_target (sandbox_path sid) = Some (''/v1/sandboxes/'' @ sid, [])"
  "parse_target (sandbox_logs_path sid) = Some (''/v1/sandboxes/'' @ sid @ ''/logs'', [])"
  "parse_target (container_logs_path sid name) = Some (''/v1/sandboxes/'' @ sid @ ''/containers/'' @ name @ ''/logs'', [])"
  by (auto intro!: parse_target_plain simp: PathEscape_no_question unescape_roundtrip unescape_PathEscape sandbox_path_def
      sandbox_logs_path_def container_logs_path_def)

lemma fixed_targets:
  "parse_target ''/healthz'' = Some (''/healthz'', [])"
  "parse_target ''/v1/node/status'' = Some (''/v1/node/status'', [])"
  "parse_target ''/v1/sandboxes'' = Some (''/v1/sandboxes'', [])"
  "parse_target ''/v1/sandboxes/statuses'' = Some (''/v1/sandboxes/statuses'', [])"
  "parse_target ''/v1/reconcile'' = Some (''/v1/reconcile'', [])"
  by (simp_all add: parse_target_plain)

lemma list_target:
  assumes "limit < 2 ^ 63"
  obtains rawQuery where "parse_target (list_path cursor limit) = Some (''/v1/sandboxes'', rawQuery)"
    and "Query (ParseQuery rawQuery) ''cursor'' = cursor"
    and "Atoi (DefaultQuery (ParseQuery rawQuery) ''limit'' ''20'') = (if limit > 0 then limit else 20)"
proof -
  define q where "q = (if cursor \<noteq> [] then [(''cursor'', cursor)] else []) @ (if limit > 0 then [(''limit'', Itoa limit)] else [])"
  have "parse_target (list_path cursor limit) = Some (''/v1/sandboxes'', Encode q)"
  proof (cases "Encode q = []")
    case True
    then show ?thesis by (simp add: list_path_def q_def [symmetric] Let_def parse_target_def Cut_char)
  next
    case False
    have "Cut (''/v1/sandboxes'' @ CHR ''?'' # Encode q) ''?'' = Some (''/v1/sandboxes'', Encode q)" by (rule Cut_first) simp
    then show ?thesis using False by (simp add: list_path_def q_def [symmetric] Let_def parse_target_def)
  qed
  moreover have "Query q ''cursor'' = cursor" by (simp add: q_def Query_def)
  moreover have "Atoi (DefaultQuery q ''limit'' ''20'') = (if limit > 0 then limit else 20)"
  proof -
    have "DefaultQuery q ''limit'' ''20'' = (if limit > 0 then Itoa limit else ''20'')" by (simp add: q_def DefaultQuery_def)
    moreover have "Atoi ''20'' = 20" by (simp add: Atoi_def digits_val_def is_digit_def)
    ultimately show ?thesis using assms Atoi_Itoa [of limit] by simp
  qed
  ultimately show ?thesis using that ParseQuery_Encode [of q] by metis
qed

lemma secret_accepted: "secret \<noteq> [] \<Longrightarrow> TrimSpace secret = secret \<Longrightarrow> Middleware secret (SetRequestSecret h secret)"
  by (simp add: Middleware_def SetRequestSecret_def GetHeader_def tokenFromHeader_def TrimSpace_bearer EqualFold_def)

lemma serve_routed:
  assumes "parse_target (rq_Target r) = Some (path, rawQuery)"
    and "router (map (\<lambda>(m, pat, _). (m, pat)) let_routes) (rq_Method r) path = Some (pat, ps)"
    and "Middleware secret (rq_Header r)"
  shows "let_serve router E secret r = let_handle E (rq_Method r) pat ps (ParseQuery rawQuery) (rq_Body r)"
  using assms by (simp add: let_serve_def serve_def)

text \<open>
  C21: what the orchestrator asks of a node arrives. The request that its client sends for a call, with ids that are
  one path segment, is routed by sbxlet with the same secret to the handler of that call, with exactly the arguments of the
  call: the escaped path, the encoded query, the secret in the header and the body are all read back as they
  were. An absent or non-positive page size becomes 20.
\<close>

theorem client_requests_reach_their_handlers:
  assumes "routes_as_documented router" and "secret \<noteq> []" and "TrimSpace secret = secret" and "plain_call call"
  shows "let_serve router E secret (client_request secret call) = call_handler E call"
proof -
  note parts = client_request_def Let_def secret_accepted [OF assms(2,3)]
  note fixed = let_fixed_routes [OF assms(1)] and sandbox = let_sandbox_routes [OF assms(1), unfolded append_Cons append_Nil]
  show ?thesis
  proof (cases call)
    case (CallList url cursor limit)
    then obtain rawQuery where "parse_target (list_path cursor limit) = Some (''/v1/sandboxes'', rawQuery)"
      "Query (ParseQuery rawQuery) ''cursor'' = cursor"
      "Atoi (DefaultQuery (ParseQuery rawQuery) ''limit'' ''20'') = (if limit > 0 then limit else 20)"
      using list_target assms(4) by (metis plain_call.simps(2))
    then show ?thesis
      using CallList by (simp add: parts serve_routed fixed let_handle_def http_listSandboxes_def)
  qed (use assms(4) in \<open>simp_all add: parts let_serve_def serve_def sandbox_targets fixed_targets sandbox fixed let_handle_def Query_def\<close>)
qed

theorem client_requests_reach_their_handlers_witness:
  "let_serve first_match sample_let_env ''s3cret'' (client_request ''s3cret'' (CallContainerLogs ''http://n1'' ''a b%'' ''app'')) =
     http_getContainerLogs sample_let_env ''a b%'' ''app'' \<and>
   let_serve first_match sample_let_env ''s3cret'' (client_request ''s3cret'' (CallList ''http://n1'' ''x&limit=9'' 5)) =
     http_list_page sample_let_env ''x&limit=9'' 5"
proof -
  have "TrimSpace ''s3cret'' = ''s3cret''" by code_simp
  then show ?thesis
    using client_requests_reach_their_handlers [OF first_match_as_documented, of "''s3cret''" "CallContainerLogs ''http://n1'' ''a b%'' ''app''" sample_let_env]
      client_requests_reach_their_handlers [OF first_match_as_documented, of "''s3cret''" "CallList ''http://n1'' ''x&limit=9'' 5" sample_let_env]
    by (simp add: segment_def)
qed

section \<open>What requests can change\<close>

context let_frame
begin

lemma eff_readLogs: "eff (readLogLines E p pre m)" "eff (logFileSize E p)" "eff (readLogEntries E p pre ci sq)"
  unfolding readLogLines_def logFileSize_def readLogEntries_def by (intro frame_rules)+

lemma eff_collect_entries: "eff (collect_entries E sid names es sq tot)"
proof (induction names arbitrary: es sq tot)
  case (Cons n names)
  show ?case by (cases n) (auto simp: Cons.IH intro!: frame_rules eff_readLogs)
qed (simp add: eff_ret)

lemma eff_logs: "eff (GetContainerLogs E sid name)" "eff (GetSandboxLogs E sid)"
  unfolding GetContainerLogs_def GetSandboxLogs_def by (intro frame_rules eff_readLogs eff_collect_entries eff_st_Load)+

lemma eff_collect_statuses: "eff (collect_statuses E ids items missing)"
  by (induction ids arbitrary: items missing) (auto intro!: frame_rules eff_reads)

lemma eff_get_handlers:
  "eff http_healthz" "eff (http_nodeStatus E)" "eff (http_getSandbox E i)" "eff (http_listSandboxes E q)"
  "eff (http_sandboxStatuses E ids)" "eff (http_getContainerLogs E i name)" "eff (http_getSandboxLogs E i)"
  unfolding http_healthz_def http_nodeStatus_def http_getSandbox_def http_listSandboxes_def http_list_page_def
    http_sandboxStatuses_def http_getContainerLogs_def http_getSandboxLogs_def
  by (intro frame_rules eff_st_List eff_reads eff_logs eff_collect_statuses)+

lemma eff_serve_GET: "rq_Method r = ''GET'' \<Longrightarrow> eff (let_serve router E secret r)"
  unfolding let_serve_def serve_def let_handle_def
  by (auto intro!: frame_rules eff_get_handlers split: option.split)

end

context let_ops
begin

lemma eff_http_createSandbox: "eff (http_createSandbox E body)"
  unfolding http_createSandbox_def CreateSandboxAsync_def by (intro frame_rules eff_createSandbox)

lemma eff_let_serve: "eff (let_serve router E secret r)"
  unfolding let_serve_def serve_def let_handle_def http_deleteSandbox_def http_reconcile_def
  by (auto intro!: frame_rules eff_get_handlers eff_http_createSandbox eff_let_DeleteSandbox eff_ReconcileOnce split: option.split)

end

lemma let_serve_unauthorized:
  assumes "\<not> Middleware secret (rq_Header r)"
  shows "exec (let_serve router E secret r) s = s \<and>
    result (let_serve router E secret r) s \<in> {(200, LetHealthResponse True)} \<union> {200} \<times> range StaticFile \<union> {400, 401, 404} \<times> range LetErrorResponse"
  using assms
  by (auto simp: let_serve_def serve_def let_handle_def http_healthz_def let_routes_def split: option.splits)

section \<open>Status requests\<close>

text \<open>An id whose state the store cannot read: it is not valid, or its state file does not decode.\<close>

definition unreadable :: "'f let_state \<Rightarrow> string \<Rightarrow> bool" where
  "unreadable s i \<longleftrightarrow> ValidateSandboxID i \<noteq> None \<or> lookup_state i (lt_dir s) = Some None"

lemma validation_error_not_missing: "ValidateSandboxID i = Some err \<Longrightarrow> \<not> errors_Is err ErrNotExist"
  by (auto simp: ValidateSandboxID_def ErrNotExist_def Let_def split: if_splits)

lemma GetSandbox_cases:
  assumes fs: "le_fs E = (\<lambda>_. FsOk)" and wf: "dir_wf (lt_dir s)"
  shows "case result (let_GetSandbox E i) s of
     Inl err \<Rightarrow> if errors_Is err ErrNotExist then \<not> unreadable s i \<and> stored s i = None else unreadable s i
   | Inr sbx \<Rightarrow> \<not> unreadable s i \<and> stored s i \<noteq> None \<and> ls_ID sbx = i"
proof (cases "ValidateSandboxID i")
  case (Some err)
  then show ?thesis using validation_error_not_missing by (simp add: let_GetSandbox_def unreadable_def)
next
  case None
  show ?thesis
  proof (cases "lookup_state i (lt_dir s)")
    case (Some c)
    show ?thesis
    proof (cases c)
      case (Some sb)
      then have "stored s i = Some sb" using \<open>lookup_state i (lt_dir s) = Some c\<close> by (simp add: stored_def)
      then show ?thesis
        using stored_wf [OF wf] None Some \<open>lookup_state i (lt_dir s) = Some c\<close>
        by (simp add: let_GetSandbox_def st_Load_def fs bindE_def result_bind refresh_identity unreadable_def del: run_state_bind)
    qed (use None \<open>lookup_state i (lt_dir s) = Some c\<close> in
        \<open>simp add: let_GetSandbox_def st_Load_def fs bindE_def unreadable_def ErrNotExist_def ErrSyntax_def\<close>)
  qed (use None in \<open>simp add: let_GetSandbox_def st_Load_def fs bindE_def unreadable_def stored_def\<close>)
qed

lemma sync_ID: "sy_ID (toSandboxSyncStatus sbx) = ls_ID sbx"
  by (simp add: toSandboxSyncStatus_def)

lemma collect_statuses_cases:
  assumes "le_fs E = (\<lambda>_. FsOk)" and "dir_wf (lt_dir s)"
  shows "case result (collect_statuses E ids items missing) s of
     Inl _ \<Rightarrow> \<exists>i\<in>set ids. unreadable s i
   | Inr (its, ms) \<Rightarrow> (\<forall>i\<in>set ids. \<not> unreadable s i) \<and>
       map sy_ID its = map sy_ID items @ filter (\<lambda>i. stored s i \<noteq> None) ids \<and> ms = missing @ filter (\<lambda>i. stored s i = None) ids"
  using assms(2)
proof (induction ids arbitrary: items missing s)
  case (Cons i ids)
  define t where "t = exec (let_GetSandbox E i) s"
  have dir: "lt_dir t = lt_dir s" by (simp add: t_def same_dir [OF books.eff_reads(2)])
  have same: "unreadable t = unreadable s" "stored t = stored s"
    using dir stored_same by (auto simp: unreadable_def fun_eq_iff)
  note IH = Cons.IH [of t, unfolded same dir, OF Cons.prems]
  note got = GetSandbox_cases [OF assms(1) Cons.prems, of i]
  note step = result_bind t_def [symmetric] sync_ID
  show ?case
  proof (cases "result (let_GetSandbox E i) s")
    case (Inl err)
    then show ?thesis using got IH [of items "missing @ [i]"] by (auto simp: step simp del: run_state_bind split: sum.splits if_splits)
  next
    case (Inr sbx)
    then show ?thesis
      using got IH [of "items @ [toSandboxSyncStatus sbx]" missing] by (auto simp: step simp del: run_state_bind split: sum.splits)
  qed
qed simp

lemma clean_ids_sound:
  "distinct ids \<Longrightarrow> [] \<notin> set ids \<Longrightarrow> distinct (clean_ids raws ids) \<and> [] \<notin> set (clean_ids raws ids) \<and>
     set (clean_ids raws ids) = set ids \<union> (TrimSpace ` set raws - {[]})"
  by (induction raws arbitrary: ids) (auto simp: Let_def)

lemma sorted_missing: "sorted (sort_slice (<) (xs :: string list))"
proof -
  have "sorted_wrt (\<lambda>a b. \<not> b < a) (sort_slice (<) xs)" by (rule sorted_sort_slice) auto
  then show ?thesis by (simp add: not_less)
qed

text \<open>
  C35: what the orchestrator learns from a status request, when the disk does not fail. The ids are trimmed, and blank
  ones and repetitions are dropped; more than 200 are refused. If some id is not valid or some state file does not
  decode, the whole request fails. Otherwise every id is accounted for exactly once: the reported sandboxes are those
  that are stored, in the order of the request, and the missing ones, sorted, are those that are not.
\<close>

theorem sandbox_statuses_account_for_every_id:
  assumes "le_fs E = (\<lambda>_. FsOk)" and "let_ok s" and "ids = clean_ids raws []"
  shows "distinct ids \<and> set ids = TrimSpace ` set raws - {[]} \<and>
    (if length ids > 200 then fst (result (http_sandboxStatuses E (Inr raws)) s) = 400
     else if list_ex (unreadable s) ids then fst (result (http_sandboxStatuses E (Inr raws)) s) = 500
     else \<exists>items missing. result (http_sandboxStatuses E (Inr raws)) s =
            (200, LetStatusesResponse \<lparr> sr_Items = items, sr_Missing = missing \<rparr>) \<and>
          map sy_ID items = filter (\<lambda>i. stored s i \<noteq> None) ids \<and>
          sorted missing \<and> mset missing = mset (filter (\<lambda>i. stored s i = None) ids))"
proof -
  have wf: "dir_wf (lt_dir s)" using assms(2) by (simp add: let_ok_def)
  have ids: "distinct ids" "set ids = TrimSpace ` set raws - {[]}" using clean_ids_sound [of "[]" raws] assms(3) by auto
  note got = collect_statuses_cases [OF assms(1) wf, of ids "[]" "[]"]
  show ?thesis
  proof (cases "raws = []")
    case True
    then show ?thesis using ids assms(3) by (simp add: http_sandboxStatuses_def)
  next
    case False
    then show ?thesis
      using ids got assms(3) [symmetric]
      by (auto simp: http_sandboxStatuses_def result_bind respondError_def respondErrorMessage_def sorted_missing list_ex_iff
          simp del: run_state_bind split: sum.splits prod.splits)
  qed
qed

theorem sandbox_statuses_account_for_every_id_witness:
  "\<exists>items. result (http_sandboxStatuses sample_let_env (Inr ['' sbx-0'', ''  '', ''sbx-0''])) sample_let_state =
     (200, LetStatusesResponse \<lparr> sr_Items = items, sr_Missing = [''sbx-0''] \<rparr>)"
proof -
  have ids: "clean_ids ['' sbx-0'', ''  '', ''sbx-0''] [] = [''sbx-0'']" by code_simp
  have ok: "let_ok sample_let_state" by (simp add: let_ok_def sample_let_state_def dir_wf_def)
  have "ValidateSandboxID ''sbx-0'' = None" by code_simp
  then have "\<not> unreadable sample_let_state ''sbx-0''" "stored sample_let_state ''sbx-0'' = None"
    by (simp_all add: unreadable_def stored_def lookup_state_def sample_let_state_def)
  then show ?thesis
    using sandbox_statuses_account_for_every_id [OF _ ok ids [symmetric], of sample_let_env]
    by (auto simp: sample_let_env_def)
qed

end
