(* ===== verification/Let_Config.thy ===== *)
theory Let_Config
  imports Pkg_Util Orch_Config
begin

text \<open>
  \<open>sandboxd-let/config/config.go\<close>: the configuration of sbxlet from its file, the environment and the defaults. The
  file is absent, unreadable, not decodable, or a record of optional values. A duration is a
  number of nanoseconds; \<open>time.ParseDuration\<close> is the argument \<open>pd\<close>.
\<close>

definition DefaultConfigPath :: string where "DefaultConfigPath = ''/var/lib/sandboxd/sbxlet_config.json''"

definition DefaultContainerdAddr :: string where "DefaultContainerdAddr = ''/run/containerd/containerd.sock''"

definition DefaultStateBaseDir :: string where "DefaultStateBaseDir = ''/var/lib/sandboxd/sandboxes''"

definition DefaultLockDir :: string where "DefaultLockDir = ''/var/lib/sandboxd/locks''"

definition DefaultBridgeInterface :: string where "DefaultBridgeInterface = ''sbx-br0''"

definition DefaultSubnetCIDR :: string where "DefaultSubnetCIDR = ''10.89.0.0/16''"

definition DefaultCNIConfPath :: string where "DefaultCNIConfPath = ''/etc/cni/sandboxd.d/20-sbxnet.conflist''"

definition DefaultRuntimeBinary :: string where "DefaultRuntimeBinary = ''runsc''"

definition DefaultReconcileEvery :: int where "DefaultReconcileEvery = 15 * second"

definition DefaultReconcileGrace :: int where "DefaultReconcileGrace = 5 * second"

definition DefaultReconcileHits :: int where "DefaultReconcileHits = 2"

definition DefaultProvisionTimeout :: int where "DefaultProvisionTimeout = 240 * second"

definition DefaultContainerCreateTimeout :: int where "DefaultContainerCreateTimeout = 120 * second"

definition DefaultImagePullTimeout :: int where "DefaultImagePullTimeout = 480 * second"

record let_Config =
  lg_AppEnv :: string
  lg_HTTPAddr :: string
  lg_SharedSecret :: string
  lg_LogDir :: string
  lg_LogFilePrefix :: string
  lg_ContainerdAddress :: string
  lg_StateBaseDir :: string
  lg_LockDir :: string
  lg_CgroupParent :: string
  lg_BridgeInterface :: string
  lg_SubnetCIDR :: string
  lg_CNIConfPath :: string
  lg_ForwardHookChains :: "string list"
  lg_ReconcileInterval :: int
  lg_ReconcileGrace :: int
  lg_ReconcileHits :: int
  lg_RuntimeBinary :: string
  lg_DefaultEphemeralBytes :: int
  lg_RootfsRatioPercent :: int
  lg_TmpfsRatioPercent :: int
  lg_MaxAllocPercent :: int
  lg_ProvisionTimeout :: int
  lg_ContainerCreateTimeout :: int
  lg_ImagePullTimeout :: int

record sbxletFileConfig =
  lf_AppEnv :: "string option"
  lf_HTTPAddr :: "string option"
  lf_SharedSecret :: "string option"
  lf_LogDir :: "string option"
  lf_LogFilePrefix :: "string option"
  lf_ContainerdAddress :: "string option"
  lf_StateBaseDir :: "string option"
  lf_LockDir :: "string option"
  lf_CgroupParent :: "string option"
  lf_BridgeInterface :: "string option"
  lf_SubnetCIDR :: "string option"
  lf_CNIConfPath :: "string option"
  lf_ForwardHookChains :: "string list option"
  lf_ReconcileInterval :: "string option"
  lf_ReconcileGrace :: "string option"
  lf_ReconcileHits :: "int option"
  lf_RuntimeBinary :: "string option"
  lf_DefaultEphemeralStorage :: "string option"
  lf_RootfsRatioPercent :: "int option"
  lf_TmpfsRatioPercent :: "int option"
  lf_MaxAllocPercent :: "int option"
  lf_ProvisionTimeout :: "string option"
  lf_ContainerCreateTimeout :: "string option"
  lf_ImagePullTimeout :: "string option"

definition let_DefaultConfig :: let_Config where
  "let_DefaultConfig = \<lparr>
       lg_AppEnv = [],
       lg_HTTPAddr = '':8080'',
       lg_SharedSecret = [],
       lg_LogDir = [],
       lg_LogFilePrefix = ''sandboxd'',
       lg_ContainerdAddress = DefaultContainerdAddr,
       lg_StateBaseDir = DefaultStateBaseDir,
       lg_LockDir = DefaultLockDir,
       lg_CgroupParent = [],
       lg_BridgeInterface = DefaultBridgeInterface,
       lg_SubnetCIDR = DefaultSubnetCIDR,
       lg_CNIConfPath = DefaultCNIConfPath,
       lg_ForwardHookChains = [''FORWARD'', ''DOCKER-USER''],
       lg_ReconcileInterval = DefaultReconcileEvery,
       lg_ReconcileGrace = DefaultReconcileGrace,
       lg_ReconcileHits = DefaultReconcileHits,
       lg_RuntimeBinary = DefaultRuntimeBinary,
       lg_DefaultEphemeralBytes = 128 * 1024 * 1024,
       lg_RootfsRatioPercent = 80,
       lg_TmpfsRatioPercent = 20,
       lg_MaxAllocPercent = 90,
       lg_ProvisionTimeout = DefaultProvisionTimeout,
       lg_ContainerCreateTimeout = DefaultContainerCreateTimeout,
       lg_ImagePullTimeout = DefaultImagePullTimeout \<rparr>"

text \<open>\<open>assignString\<close> and \<open>assignInt\<close>, and the assignment of the chains.\<close>

definition assign :: "'a \<Rightarrow> 'a option \<Rightarrow> 'a" where
  "assign dst src = (case src of None \<Rightarrow> dst | Some v \<Rightarrow> v)"

definition assignDuration :: "(string \<Rightarrow> int option) \<Rightarrow> int \<Rightarrow> string option \<Rightarrow> int" where
  "assignDuration pd dst src = (case src of None \<Rightarrow> dst | Some s \<Rightarrow> (case pd s of Some v \<Rightarrow> v | None \<Rightarrow> dst))"

definition parseSizeBytes :: "quantity_parser \<Rightarrow> string \<Rightarrow> int \<Rightarrow> int" where
  "parseSizeBytes pq raw def =
     (case pq raw of Inl _ \<Rightarrow> def | Inr q \<Rightarrow> if q_Value q \<le> 0 then def else q_Value q)"

definition file_apply :: "quantity_parser \<Rightarrow> (string \<Rightarrow> int option) \<Rightarrow> sbxletFileConfig \<Rightarrow> let_Config \<Rightarrow> let_Config" where
  "file_apply pq pd f cfg = cfg\<lparr>
       lg_AppEnv := assign (lg_AppEnv cfg) (lf_AppEnv f),
       lg_HTTPAddr := assign (lg_HTTPAddr cfg) (lf_HTTPAddr f),
       lg_SharedSecret := assign (lg_SharedSecret cfg) (lf_SharedSecret f),
       lg_LogDir := assign (lg_LogDir cfg) (lf_LogDir f),
       lg_LogFilePrefix := assign (lg_LogFilePrefix cfg) (lf_LogFilePrefix f),
       lg_ContainerdAddress := assign (lg_ContainerdAddress cfg) (lf_ContainerdAddress f),
       lg_StateBaseDir := assign (lg_StateBaseDir cfg) (lf_StateBaseDir f),
       lg_LockDir := assign (lg_LockDir cfg) (lf_LockDir f),
       lg_CgroupParent := assign (lg_CgroupParent cfg) (lf_CgroupParent f),
       lg_BridgeInterface := assign (lg_BridgeInterface cfg) (lf_BridgeInterface f),
       lg_SubnetCIDR := assign (lg_SubnetCIDR cfg) (lf_SubnetCIDR f),
       lg_CNIConfPath := assign (lg_CNIConfPath cfg) (lf_CNIConfPath f),
       lg_ForwardHookChains := assign (lg_ForwardHookChains cfg) (lf_ForwardHookChains f),
       lg_ReconcileInterval := assignDuration pd (lg_ReconcileInterval cfg) (lf_ReconcileInterval f),
       lg_ReconcileGrace := assignDuration pd (lg_ReconcileGrace cfg) (lf_ReconcileGrace f),
       lg_ReconcileHits := assign (lg_ReconcileHits cfg) (lf_ReconcileHits f),
       lg_RuntimeBinary := assign (lg_RuntimeBinary cfg) (lf_RuntimeBinary f),
       lg_DefaultEphemeralBytes := (case lf_DefaultEphemeralStorage f of None \<Rightarrow> lg_DefaultEphemeralBytes cfg | Some s \<Rightarrow> parseSizeBytes pq s (lg_DefaultEphemeralBytes cfg)),
       lg_RootfsRatioPercent := assign (lg_RootfsRatioPercent cfg) (lf_RootfsRatioPercent f),
       lg_TmpfsRatioPercent := assign (lg_TmpfsRatioPercent cfg) (lf_TmpfsRatioPercent f),
       lg_MaxAllocPercent := assign (lg_MaxAllocPercent cfg) (lf_MaxAllocPercent f),
       lg_ProvisionTimeout := assignDuration pd (lg_ProvisionTimeout cfg) (lf_ProvisionTimeout f),
       lg_ContainerCreateTimeout := assignDuration pd (lg_ContainerCreateTimeout cfg) (lf_ContainerCreateTimeout f),
       lg_ImagePullTimeout := assignDuration pd (lg_ImagePullTimeout cfg) (lf_ImagePullTimeout f) \<rparr>"

text \<open>What reading and decoding the file gives.\<close>

datatype config_file = NoFile | ReadError go_error | ParseError go_error | FileConfig sbxletFileConfig

definition loadFile :: "quantity_parser \<Rightarrow> (string \<Rightarrow> int option) \<Rightarrow> (string \<Rightarrow> config_file) \<Rightarrow> string \<Rightarrow> let_Config \<Rightarrow> go_error + let_Config" where
  "loadFile pq pd file path0 cfg =
     (let path = TrimSpace path0 in
      if path = [] then Inr cfg
      else (case file path of
          NoFile \<Rightarrow> Inr cfg
        | ReadError err \<Rightarrow> Inl (Errorf ''read config file %q: %w'' [Quo path, Wrap err])
        | ParseError err \<Rightarrow> Inl (Errorf ''parse config file %q: %w'' [Quo path, Wrap err])
        | FileConfig f \<Rightarrow> Inr (file_apply pq pd f cfg)))"

definition csvEnvOrDefault :: "(string \<Rightarrow> string) \<Rightarrow> string \<Rightarrow> string list \<Rightarrow> string list" where
  "csvEnvOrDefault env key def =
     (let raw = TrimSpace (env key) in
      if raw = [] then def
      else let out = filter (\<lambda>p. p \<noteq> []) (map TrimSpace (Split raw (CHR '',''))) in if out = [] then def else out)"

definition applyEnvOverrides :: "quantity_parser \<Rightarrow> (string \<Rightarrow> int option) \<Rightarrow> (string \<Rightarrow> string) \<Rightarrow> let_Config \<Rightarrow> let_Config" where
  "applyEnvOverrides pq pd env cfg = cfg\<lparr>
       lg_AppEnv := Get env ''APP_ENV'' (lg_AppEnv cfg),
       lg_HTTPAddr := Get env ''HTTP_ADDR'' (lg_HTTPAddr cfg),
       lg_SharedSecret := Get env ''SBX_SHARED_SECRET'' (lg_SharedSecret cfg),
       lg_LogDir := Get env ''SANDBOX_LOG_DIR'' (lg_LogDir cfg),
       lg_LogFilePrefix := Get env ''SANDBOX_LOG_FILE_PREFIX'' (lg_LogFilePrefix cfg),
       lg_ContainerdAddress := Get env ''SANDBOX_CONTAINERD_ADDRESS'' (lg_ContainerdAddress cfg),
       lg_StateBaseDir := Get env ''SANDBOX_STATE_BASE_DIR'' (lg_StateBaseDir cfg),
       lg_LockDir := Get env ''SANDBOX_LOCK_DIR'' (lg_LockDir cfg),
       lg_CgroupParent := Get env ''SANDBOX_CGROUP_PARENT'' (lg_CgroupParent cfg),
       lg_BridgeInterface := Get env ''SANDBOX_BRIDGE_INTERFACE'' (lg_BridgeInterface cfg),
       lg_SubnetCIDR := Get env ''SANDBOX_SUBNET_CIDR'' (lg_SubnetCIDR cfg),
       lg_CNIConfPath := Get env ''SANDBOX_CNI_CONF_PATH'' (lg_CNIConfPath cfg),
       lg_RuntimeBinary := Get env ''SANDBOX_RUNTIME_BINARY'' (lg_RuntimeBinary cfg),
       lg_ForwardHookChains := csvEnvOrDefault env ''SANDBOX_FORWARD_HOOK_CHAINS'' (lg_ForwardHookChains cfg),
       lg_DefaultEphemeralBytes := parseSizeBytes pq (Get env ''SANDBOX_DEFAULT_EPHEMERAL_STORAGE'' []) (lg_DefaultEphemeralBytes cfg),
       lg_RootfsRatioPercent := GetInt env ''SANDBOX_EPHEMERAL_ROOTFS_PERCENT'' (lg_RootfsRatioPercent cfg),
       lg_TmpfsRatioPercent := GetInt env ''SANDBOX_EPHEMERAL_TMP_PERCENT'' (lg_TmpfsRatioPercent cfg),
       lg_MaxAllocPercent := GetInt env ''SANDBOX_MAX_ALLOC_PERCENT'' (lg_MaxAllocPercent cfg),
       lg_ProvisionTimeout := GetDuration pd env ''SANDBOX_PROVISION_TIMEOUT'' (lg_ProvisionTimeout cfg),
       lg_ContainerCreateTimeout := GetDuration pd env ''SANDBOX_CONTAINER_CREATE_TIMEOUT'' (lg_ContainerCreateTimeout cfg),
       lg_ImagePullTimeout := GetDuration pd env ''SANDBOX_IMAGE_PULL_TIMEOUT'' (lg_ImagePullTimeout cfg) \<rparr>"

text \<open>A conditional assignment per field; the two ratios are checked together.\<close>

definition WithConfigDefaults :: "let_Config \<Rightarrow> let_Config" where
  "WithConfigDefaults cfg =
     (let badRatio = (lg_RootfsRatioPercent cfg \<le> 0 \<or> lg_TmpfsRatioPercent cfg < 0 \<or>
                      i64 (lg_RootfsRatioPercent cfg + lg_TmpfsRatioPercent cfg) \<noteq> 100) in
      cfg\<lparr>
       lg_HTTPAddr := (if lg_HTTPAddr cfg = [] then '':8080'' else lg_HTTPAddr cfg),
       lg_LogFilePrefix := (if lg_LogFilePrefix cfg = [] then ''sandboxd'' else lg_LogFilePrefix cfg),
       lg_ContainerdAddress := (if lg_ContainerdAddress cfg = [] then DefaultContainerdAddr else lg_ContainerdAddress cfg),
       lg_StateBaseDir := (if lg_StateBaseDir cfg = [] then DefaultStateBaseDir else lg_StateBaseDir cfg),
       lg_LockDir := (if lg_LockDir cfg = [] then DefaultLockDir else lg_LockDir cfg),
       lg_BridgeInterface := (if lg_BridgeInterface cfg = [] then DefaultBridgeInterface else lg_BridgeInterface cfg),
       lg_SubnetCIDR := (if lg_SubnetCIDR cfg = [] then DefaultSubnetCIDR else lg_SubnetCIDR cfg),
       lg_CNIConfPath := (if lg_CNIConfPath cfg = [] then DefaultCNIConfPath else lg_CNIConfPath cfg),
       lg_ForwardHookChains := (if lg_ForwardHookChains cfg = [] then [''FORWARD'', ''DOCKER-USER''] else lg_ForwardHookChains cfg),
       lg_ReconcileInterval := (if lg_ReconcileInterval cfg \<le> 0 then DefaultReconcileEvery else lg_ReconcileInterval cfg),
       lg_ReconcileGrace := (if lg_ReconcileGrace cfg \<le> 0 then DefaultReconcileGrace else lg_ReconcileGrace cfg),
       lg_ReconcileHits := (if lg_ReconcileHits cfg < 1 then DefaultReconcileHits else lg_ReconcileHits cfg),
       lg_RuntimeBinary := (if lg_RuntimeBinary cfg = [] then DefaultRuntimeBinary else lg_RuntimeBinary cfg),
       lg_DefaultEphemeralBytes := (if lg_DefaultEphemeralBytes cfg \<le> 0 then 128 * 1024 * 1024 else lg_DefaultEphemeralBytes cfg),
       lg_RootfsRatioPercent := (if badRatio then 80 else lg_RootfsRatioPercent cfg),
       lg_TmpfsRatioPercent := (if badRatio then 20 else lg_TmpfsRatioPercent cfg),
       lg_MaxAllocPercent := (if lg_MaxAllocPercent cfg \<le> 0 \<or> lg_MaxAllocPercent cfg > 100 then 90 else lg_MaxAllocPercent cfg),
       lg_ProvisionTimeout := (if lg_ProvisionTimeout cfg \<le> 0 then DefaultProvisionTimeout else lg_ProvisionTimeout cfg),
       lg_ContainerCreateTimeout := (if lg_ContainerCreateTimeout cfg \<le> 0 then DefaultContainerCreateTimeout else lg_ContainerCreateTimeout cfg),
       lg_ImagePullTimeout := (if lg_ImagePullTimeout cfg \<le> 0 then DefaultImagePullTimeout else lg_ImagePullTimeout cfg) \<rparr>)"

definition let_Load :: "quantity_parser \<Rightarrow> (string \<Rightarrow> int option) \<Rightarrow> (string \<Rightarrow> config_file) \<Rightarrow> (string \<Rightarrow> string) \<Rightarrow> string \<Rightarrow> go_error + let_Config" where
  "let_Load pq pd file env path =
     (case loadFile pq pd file path let_DefaultConfig of
        Inl err \<Rightarrow> Inl err
      | Inr cfg \<Rightarrow> Inr (WithConfigDefaults (applyEnvOverrides pq pd env cfg)))"

section \<open>A loaded configuration is sane\<close>

definition sane :: "let_Config \<Rightarrow> bool" where
  "sane cfg \<longleftrightarrow>
     (\<forall>s \<in> set [lg_HTTPAddr cfg, lg_LogFilePrefix cfg, lg_ContainerdAddress cfg, lg_StateBaseDir cfg, lg_LockDir cfg,
        lg_BridgeInterface cfg, lg_SubnetCIDR cfg, lg_CNIConfPath cfg, lg_RuntimeBinary cfg]. s \<noteq> []) \<and>
     lg_ForwardHookChains cfg \<noteq> [] \<and>
     (\<forall>n \<in> set [lg_ReconcileInterval cfg, lg_ReconcileGrace cfg, lg_ReconcileHits cfg, lg_DefaultEphemeralBytes cfg,
        lg_ProvisionTimeout cfg, lg_ContainerCreateTimeout cfg, lg_ImagePullTimeout cfg]. 0 < n) \<and>
     0 < lg_RootfsRatioPercent cfg \<and> 0 \<le> lg_TmpfsRatioPercent cfg \<and>
     i64 (lg_RootfsRatioPercent cfg + lg_TmpfsRatioPercent cfg) = 100 \<and>
     0 < lg_MaxAllocPercent cfg \<and> lg_MaxAllocPercent cfg \<le> 100"

lemmas default_defs = DefaultContainerdAddr_def DefaultStateBaseDir_def DefaultLockDir_def DefaultBridgeInterface_def
  DefaultSubnetCIDR_def DefaultCNIConfPath_def DefaultRuntimeBinary_def DefaultReconcileEvery_def DefaultReconcileGrace_def
  DefaultReconcileHits_def DefaultProvisionTimeout_def DefaultContainerCreateTimeout_def DefaultImagePullTimeout_def second_def

lemma WithConfigDefaults_sane: "sane (WithConfigDefaults cfg)"
  by (simp add: sane_def WithConfigDefaults_def Let_def default_defs i64_def)

lemma WithConfigDefaults_id: "sane cfg \<Longrightarrow> WithConfigDefaults cfg = cfg"
  by (cases cfg) (simp add: sane_def WithConfigDefaults_def Let_def)

text \<open>
  Whatever the file and the environment say, a configuration that loads is within the ranges that the rest of the
  code relies on, and the defaults that \<open>New\<close> applies once more do not change it.
\<close>

theorem loaded_config_sane:
  assumes "let_Load pq pd file env path = Inr cfg"
  shows "sane cfg \<and> WithConfigDefaults cfg = cfg"
proof -
  have "sane cfg" using assms WithConfigDefaults_sane by (auto simp: let_Load_def split: sum.splits)
  then show ?thesis using WithConfigDefaults_id by blast
qed

end
