(* ===== verification/Adm_Aws.thy ===== *)
theory Adm_Aws
  imports Pkg_Util Effects
begin

text \<open>
  Package \<open>sandboxd-adm/awsx\<close>: the operations with which sbxadm builds a cluster out of cloud resources. The SDK of the
  cloud provider is a parameter: a call is recorded with its outcome, which the environment chooses, and what an answer
  contains comes from the environment too, for the tick of the call. Time limits and pauses are part of what the
  environment answers; a wait polls for a number of rounds that the environment chooses.
\<close>

section \<open>ecr.go, size.go and util.go\<close>

definition pattern_char :: "char \<Rightarrow> bool" where
  "pattern_char c \<longleftrightarrow> is_digit c \<or> (97 \<le> (of_char c :: nat) \<and> (of_char c :: nat) \<le> 122) \<or> c \<in> set ''._/*-''"

definition ecrRepoPatternRE :: "string \<Rightarrow> bool" where
  "ecrRepoPatternRE p \<longleftrightarrow> p \<noteq> [] \<and> list_all pattern_char p"

fun collect_patterns :: "string list \<Rightarrow> string list \<Rightarrow> go_error + string list" where
  "collect_patterns [] out = Inr out"
| "collect_patterns (raw # raws) out =
     (let p = TrimSpace raw in
      if p = [] then collect_patterns raws out
      else if \<not> ecrRepoPatternRE p then
        Inl (Errorf ''invalid ECR repository pattern %q (allowed: lowercase letters, digits, '.', '_', '/', '-', '*')'' [Quo p])
      else if p \<in> set out then collect_patterns raws out
      else collect_patterns raws (out @ [p]))"

definition ParseECRRepoPatterns :: "string \<Rightarrow> go_error + string list" where
  "ParseECRRepoPatterns raw0 =
     (let raw = TrimSpace raw0 in if raw = [] then Inr [] else collect_patterns (Split raw (CHR '','')) [])"

fun add_new :: "string list \<Rightarrow> string list \<Rightarrow> string list" where
  "add_new [] out = out"
| "add_new (p # ps) out = (if p \<noteq> [] \<and> p \<notin> set out then add_new ps (out @ [p]) else add_new ps out)"

definition MergeECRRepoPatterns :: "string list \<Rightarrow> string list \<Rightarrow> string list" where
  "MergeECRRepoPatterns existing additional = sort_slice (<) (add_new additional (add_new existing []))"

definition parseIntPrefix :: "string \<Rightarrow> go_error + int" where
  "parseIntPrefix s0 =
     (let s = TrimSpace s0 in
      case ParseInt64 s of
        None \<Rightarrow> Inl (Errorf ''invalid size value %q'' [Quo s])
      | Some n \<Rightarrow>
          if n < - (2 ^ 31) \<or> 2 ^ 31 \<le> n then Inl (Errorf ''invalid size value %q'' [Quo s])
          else if n \<le> 0 then Inl (Errorf ''size must be positive, got %q'' [Quo s])
          else Inr n)"

definition ParseSizeGiB :: "string \<Rightarrow> go_error + int" where
  "ParseSizeGiB raw =
     (let s = TrimSpace raw; upper = ToUpper s in
      if s = [] then Inl (Errorf ''empty size'' [])
      else if HasSuffix upper ''GI'' then parseIntPrefix (take (length s - 2) s)
      else if HasSuffix upper ''G'' then parseIntPrefix (take (length s - 1) s)
      else if HasSuffix upper ''MI'' then
        (case parseIntPrefix (take (length s - 2) s) of Inl err \<Rightarrow> Inl err | Inr v \<Rightarrow> Inr (max (v div 1024) 1))
      else parseIntPrefix s)"

definition AllocationIDFromARNOrID :: "string \<Rightarrow> go_error + string" where
  "AllocationIDFromARNOrID v0 =
     (let v = TrimSpace v0 in
      if v = [] then Inl (Errorf ''empty EIP ARN/allocation id'' [])
      else if \<not> HasPrefix v ''arn:'' then
        (if \<not> HasPrefix v ''eipalloc-'' then
           Inl (Errorf ''invalid EIP allocation id %q (expected eipalloc-xxxx or an EIP ARN)'' [Quo v])
         else Inr v)
      else (case Split v (CHR ''/'') of
          [_, i] \<Rightarrow>
            if HasPrefix i ''eipalloc-'' then Inr i
            else Inl (Errorf ''invalid EIP ARN %q (expected arn:aws:ec2:<region>:<account>:elastic-ip/eipalloc-xxxx)'' [Quo v])
        | _ \<Rightarrow> Inl (Errorf ''invalid EIP ARN %q (expected arn:aws:ec2:<region>:<account>:elastic-ip/eipalloc-xxxx)'' [Quo v])))"

section \<open>Calls\<close>

record IngressRule =
  ir_Port :: int
  ir_ToPort :: int
  ir_CIDR :: string
  ir_Description :: string
  ir_SourceSGID :: string

text \<open>What a node is started with (package \<open>userdata\<close>): the component, the version and the configuration.\<close>

type_synonym config_map = "(string \<times> string) list"

datatype user_data = UserData string string config_map

record LaunchSpec =
  lp_Name :: string
  lp_InstanceType :: string
  lp_SubnetID :: string
  lp_SecurityGroupIDs :: "string list"
  lp_RootVolumeSizeGB :: int
  lp_AssignPublicIP :: bool
  lp_UserData :: user_data
  lp_Tags :: "(string \<times> string) list"
  lp_IAMInstanceProfile :: string

datatype aws_call =
    DescribeInstanceTypes string
  | DescribeImages string
  | RunInstances string LaunchSpec
  | WaitRunning string
  | WaitStopped string
  | WaitTerminated string
  | DescribeInstances string
  | TerminateInstances string
  | StopInstances string
  | ModifyInstanceType string string
  | StartInstances string
  | AssociateAddress string string
  | DescribeAddresses string
  | DisassociateAddress string
  | AllocateAddress string
  | ReleaseAddress string
  | DescribeSGByName string string
  | DescribeSG string
  | CreateSG string string
  | RevokeIngress string
  | AuthorizeIngress string "IngressRule list"
  | DeleteSG string
  | GetRole string
  | CreateRole string
  | AttachRolePolicy string string
  | GetProfile string
  | CreateProfile string
  | AddRoleToProfile string string
  | RemoveRoleFromProfile string string
  | DeleteProfile string
  | DetachRolePolicy string string
  | PutRolePolicy string "string list"
  | DeleteRolePolicy string
  | DeleteRole string
  | DescribeVpcs string
  | DescribeSubnets "string list"
  | DescribeRouteTables string "string option"
  | DescribeVpcEndpoints string
  | DescribeInstanceInformation string
  | SendCommand string "string list"
  | GetCommandInvocation string string
  | OrchCreateNode string string string "(string \<times> string) list"
  | OrchCreateExternal string string string string
  | OrchDeleteNode string string
  | OrchDeleteExternal string string
  | GetItem string
  | PutItem string
  | DeleteItem string
  | ScanTable
  | DescribeTable
  | CreateTable
  | WaitTable

record aws_subnet =
  an_VpcId :: "string option"
  an_State :: string

record aws_route =
  ao_GatewayId :: "string option"
  ao_NatGatewayId :: "string option"
  ao_active :: bool

record adm_env =
  av_err :: "nat \<Rightarrow> aws_call \<Rightarrow> go_error option"
  av_code :: "go_error \<Rightarrow> string"
  av_message :: "go_error \<Rightarrow> string"
  av_iamMissing :: "go_error \<Rightarrow> bool"
  av_archs :: "nat \<Rightarrow> string list option"
  av_images :: "nat \<Rightarrow> (string \<times> string option) list"
  av_runID :: "nat \<Rightarrow> string option"
  av_net :: "nat \<Rightarrow> (string option \<times> string option) option"
  av_address :: "nat \<Rightarrow> (string option \<times> string option) option"
  av_alloc :: "nat \<Rightarrow> string \<times> string"
  av_sgByName :: "nat \<Rightarrow> (string \<times> (string \<times> string) list) option"
  av_newSG :: "nat \<Rightarrow> string"
  av_sgPerms :: "nat \<Rightarrow> nat option"
  av_vpc :: "nat \<Rightarrow> (string \<times> string option) option"
  av_subnets :: "nat \<Rightarrow> (string \<times> aws_subnet) list"
  av_routes :: "nat \<Rightarrow> aws_route list list"
  av_endpoints :: "nat \<Rightarrow> (bool \<times> string option) list"
  av_online :: "nat \<Rightarrow> bool"
  av_commandID :: "nat \<Rightarrow> string"
  av_invocation :: "nat \<Rightarrow> string \<times> string \<times> string"
  av_rounds :: "nat \<Rightarrow> nat"
  av_now :: "nat \<Rightarrow> int"
  av_random :: "nat \<Rightarrow> go_error + string"
  av_defaults :: "string \<Rightarrow> config_map option"
  av_override :: "nat \<Rightarrow> string \<Rightarrow> go_error + config_map"
  av_noTable :: "go_error \<Rightarrow> bool"
  av_encoded :: "config_map \<Rightarrow> string"

section \<open>store/types.go and the state\<close>

record ControlPlane =
  ctp_InstanceID :: string
  ctp_InstanceType :: string
  ctp_SubnetID :: string
  ctp_PublicEndpoint :: bool
  ctp_PublicEIPAllocID :: string
  ctp_PublicEIPManaged :: bool
  ctp_PublicIP :: string
  ctp_PrivateIP :: string
  ctp_RootVolumeSizeGB :: int
  ctp_ConfigJSON :: config_map

record Worker =
  wkr_Name :: string
  wkr_InstanceID :: string
  wkr_InstanceType :: string
  wkr_SubnetID :: string
  wkr_SecurityGroup :: string
  wkr_NodeLabels :: "(string \<times> string) list"
  wkr_PublicEIPAllocID :: string
  wkr_PublicEIPManaged :: bool
  wkr_PublicIP :: string
  wkr_PrivateIP :: string
  wkr_RootVolumeSizeGB :: int
  wkr_External :: string
  wkr_ConfigJSON :: config_map
  wkr_CreatedAt :: int
  wkr_UpdatedAt :: int

record Cluster =
  clu_Name :: string
  clu_Version :: string
  clu_Region :: string
  clu_VPCID :: string
  clu_PublicSubnets :: "string list"
  clu_PrivateSubnet :: "string list"
  clu_SharedSecret :: string
  clu_SecurityGroup :: string
  clu_CreatedAt :: int
  clu_UpdatedAt :: int
  clu_Revision :: int
  clu_WorkerSecurityGroup :: string
  clu_ControlPlaneInstanceProfile :: string
  clu_WorkerInstanceProfile :: string
  clu_WorkerECRRepoPatterns :: "string list"
  clu_ControlPlane :: ControlPlane
  clu_Workers :: "Worker list"

text \<open>
  An entry of the rollback stack (\<open>rollback.go\<close>): the function that it runs is one of these.
\<close>

datatype rollback_action =
    RbRestoreECR string string string "string list"
  | RbTerminate string
  | RbDisassociate string
  | RbDeleteNode string string
  | RbReleaseEIP string
  | RbDeleteSG string
  | RbDeleteProfile string

text \<open>The table of clusters, the calls with their ticks and outcomes, the rollback stack of the running operation, and the clock.\<close>

record adm_state =
  am_table :: "(string \<times> Cluster) list"
  am_calls :: "(nat \<times> aws_call \<times> bool) list"
  am_rollback :: "rollback_action list"
  am_tick :: nat

type_synonym 'a adm = "(adm_state, 'a) state"

definition adm_ask :: "(nat \<Rightarrow> 'a) \<Rightarrow> 'a adm" where
  "adm_ask f = State (\<lambda>s. (f (am_tick s), s\<lparr> am_tick := Suc (am_tick s) \<rparr>))"

text \<open>One call of the SDK: the tick, for what the answer contains, and the error.\<close>

definition sdk :: "adm_env \<Rightarrow> aws_call \<Rightarrow> (nat \<times> go_error option) adm" where
  "sdk E c = State (\<lambda>s. let t = am_tick s; e = av_err E t c in
     ((t, e), s\<lparr> am_tick := Suc t, am_calls := am_calls s @ [(t, c, e = None)] \<rparr>))"

text \<open>A call whose error is wrapped with a message.\<close>

definition call :: "adm_env \<Rightarrow> aws_call \<Rightarrow> string \<Rightarrow> go_arg list \<Rightarrow> (go_error + nat) adm" where
  "call E c f args = do {
     (t, e) \<leftarrow> sdk E c;
     ret (case e of None \<Rightarrow> Inr t | Some err \<Rightarrow> Inl (Errorf f (args @ [Wrap err]))) }"

definition or_empty :: "string option \<Rightarrow> string" where
  "or_empty v = (case v of None \<Rightarrow> [] | Some x \<Rightarrow> x)"

section \<open>errors.go\<close>

definition isNotFound :: "adm_env \<Rightarrow> go_error \<Rightarrow> bool" where
  "isNotFound E err \<longleftrightarrow> list_ex (Contains (av_code E err))
     [''NotFound'', ''InvalidGroup.NotFound'', ''InvalidInstanceID.NotFound'', ''InvalidAllocationID.NotFound'', ''InvalidAddress.NotFound'']"

definition isIncorrectInstanceStateForAlreadyStopped :: "adm_env \<Rightarrow> go_error \<Rightarrow> bool" where
  "isIncorrectInstanceStateForAlreadyStopped E err \<longleftrightarrow>
     Contains (av_code E err) ''IncorrectInstanceState'' \<and> Contains (ToLower (av_message E err)) ''stopped''"

section \<open>ec2.go\<close>

definition InstanceTypeArch :: "adm_env \<Rightarrow> string \<Rightarrow> (go_error + string) adm" where
  "InstanceTypeArch E instanceType =
     bindE (call E (DescribeInstanceTypes instanceType) ''describe instance type %q: %w'' [Quo instanceType]) (\<lambda>t.
       ret (case av_archs E t of
              None \<Rightarrow> Inl (Errorf ''instance type %q not found in this region'' [Quo instanceType])
            | Some archs \<Rightarrow>
                if ''x86_64'' \<in> set archs then Inr ''x86_64''
                else if ''arm64'' \<in> set archs then Inr ''arm64''
                else Inl (Errorf ''instance type %q has no x86_64/arm64 architecture'' [Quo instanceType])))"

text \<open>The newest image: a later one replaces the one so far only if both have a date and its date is greater.\<close>

definition newer_image :: "string \<times> string option \<Rightarrow> string \<times> string option \<Rightarrow> string \<times> string option" where
  "newer_image latest img =
     (case (snd img, snd latest) of (Some d, Some l) \<Rightarrow> if d > l then img else latest | _ \<Rightarrow> latest)"

definition LatestUbuntuAMIForInstanceType :: "adm_env \<Rightarrow> string \<Rightarrow> (go_error + string) adm" where
  "LatestUbuntuAMIForInstanceType E instanceType =
     bindE (InstanceTypeArch E instanceType) (\<lambda>arch.
     bindE (call E (DescribeImages arch) ''describe images (ubuntu 22.04 %s): %w'' [Str arch]) (\<lambda>t.
       ret (case av_images E t of
              [] \<Rightarrow> Inl (Errorf ''no ubuntu 22.04 %s AMI found in this region'' [Str arch])
            | img # imgs \<Rightarrow> Inr (fst (foldl newer_image img imgs)))))"

text \<open>The id of the instance is returned with an error too, when the instance was started.\<close>

definition LaunchInstance :: "adm_env \<Rightarrow> string \<Rightarrow> LaunchSpec \<Rightarrow> ((string \<times> string \<times> string) \<times> go_error option) adm" where
  "LaunchInstance E amiID spec = do {
     r \<leftarrow> call E (RunInstances amiID spec) ''run instance %q: %w'' [Quo (lp_Name spec)];
     case r of
       Inl err \<Rightarrow> ret (([], [], []), Some err)
     | Inr t \<Rightarrow> (case av_runID E t of
           None \<Rightarrow> ret (([], [], []), Some (Errorf ''run instance %q: no instance returned'' [Quo (lp_Name spec)]))
         | Some instanceID \<Rightarrow> do {
             w \<leftarrow> call E (WaitRunning instanceID) ''wait for instance %q running: %w'' [Quo instanceID];
             case w of
               Inl err \<Rightarrow> ret ((instanceID, [], []), Some err)
             | Inr _ \<Rightarrow> do {
                 d \<leftarrow> call E (DescribeInstances instanceID) ''describe instance %q after launch: %w'' [Quo instanceID];
                 ret (case d of
                        Inl err \<Rightarrow> ((instanceID, [], []), Some err)
                      | Inr t' \<Rightarrow> (case av_net E t' of
                            None \<Rightarrow> ((instanceID, [], []), Some (Errorf ''describe instance %q after launch'' [Quo instanceID]))
                          | Some (priv, pub) \<Rightarrow> ((instanceID, or_empty priv, or_empty pub), None))) } }) }"

definition TerminateInstance :: "adm_env \<Rightarrow> string \<Rightarrow> go_error option adm" where
  "TerminateInstance E instanceID =
     (if instanceID = [] then ret None
      else do {
        (_, e) \<leftarrow> sdk E (TerminateInstances instanceID);
        case e of
          Some err \<Rightarrow> ret (if isNotFound E err then None else Some (Errorf ''terminate instance %q: %w'' [Quo instanceID, Wrap err]))
        | None \<Rightarrow> do {
            w \<leftarrow> call E (WaitTerminated instanceID) ''wait for instance %q terminated: %w'' [Quo instanceID];
            ret (case w of Inl err \<Rightarrow> Some err | Inr _ \<Rightarrow> None) } })"

definition restart_as :: "adm_env \<Rightarrow> string \<Rightarrow> string \<Rightarrow> (go_error + unit) adm" where
  "restart_as E instanceID instanceType =
     bindE (call E (WaitStopped instanceID) ''wait for instance %q stopped: %w'' [Quo instanceID]) (\<lambda>_.
     bindE (call E (ModifyInstanceType instanceID instanceType) ''modify instance %q type to %q: %w'' [Quo instanceID, Quo instanceType]) (\<lambda>_.
     bindE (call E (StartInstances instanceID) ''start instance %q: %w'' [Quo instanceID]) (\<lambda>_.
     bindE (call E (WaitRunning instanceID) ''wait for instance %q running: %w'' [Quo instanceID]) (\<lambda>_. ret (Inr ())))))"

definition ResizeInstanceType :: "adm_env \<Rightarrow> string \<Rightarrow> string \<Rightarrow> (go_error + unit) adm" where
  "ResizeInstanceType E instanceID instanceType =
     (if instanceID = [] then ret (Inl (Errorf ''instance id is required'' []))
      else if instanceType = [] then ret (Inl (Errorf ''instance type is required'' []))
      else do {
        (_, e) \<leftarrow> sdk E (StopInstances instanceID);
        case e of
          Some err \<Rightarrow>
            if \<not> isIncorrectInstanceStateForAlreadyStopped E err
            then ret (Inl (Errorf ''stop instance %q: %w'' [Quo instanceID, Wrap err]))
            else restart_as E instanceID instanceType
        | None \<Rightarrow> restart_as E instanceID instanceType })"

definition DescribeInstanceNetwork :: "adm_env \<Rightarrow> string \<Rightarrow> (go_error + string \<times> string) adm" where
  "DescribeInstanceNetwork E instanceID =
     bindE (call E (DescribeInstances instanceID) ''describe instance %q: %w'' [Quo instanceID]) (\<lambda>t.
       ret (case av_net E t of
              None \<Rightarrow> Inl (Errorf ''instance %q not found'' [Quo instanceID])
            | Some (priv, pub) \<Rightarrow> Inr (or_empty priv, or_empty pub)))"

definition AssociateEIPByAllocationID :: "adm_env \<Rightarrow> string \<Rightarrow> string \<Rightarrow> (go_error + string) adm" where
  "AssociateEIPByAllocationID E instanceID allocationID =
     bindE (call E (AssociateAddress instanceID allocationID) ''associate eip %q to instance %q: %w'' [Quo allocationID, Quo instanceID]) (\<lambda>_.
     bindE (call E (DescribeAddresses allocationID) ''describe eip %q after association: %w'' [Quo allocationID]) (\<lambda>t.
       ret (case av_address E t of
              None \<Rightarrow> Inl (Errorf ''describe eip %q after association'' [Quo allocationID])
            | Some (ip, _) \<Rightarrow> Inr (or_empty ip))))"

definition DisassociateEIP :: "adm_env \<Rightarrow> string \<Rightarrow> go_error option adm" where
  "DisassociateEIP E allocationID =
     (if allocationID = [] then ret None
      else do {
        (t, e) \<leftarrow> sdk E (DescribeAddresses allocationID);
        case e of
          Some err \<Rightarrow> ret (if isNotFound E err then None else Some (Errorf ''describe eip %q: %w'' [Quo allocationID, Wrap err]))
        | None \<Rightarrow> (case av_address E t of
              Some (_, Some assoc) \<Rightarrow> do {
                (_, e') \<leftarrow> sdk E (DisassociateAddress assoc);
                ret (case e' of
                       None \<Rightarrow> None
                     | Some err \<Rightarrow> if isNotFound E err then None else Some (Errorf ''disassociate eip %q: %w'' [Quo allocationID, Wrap err])) }
            | _ \<Rightarrow> ret None) })"

section \<open>eip.go\<close>

definition AllocateEIP :: "adm_env \<Rightarrow> string \<Rightarrow> (go_error + string \<times> string) adm" where
  "AllocateEIP E name =
     bindE (call E (AllocateAddress name) ''allocate elastic ip %q: %w'' [Quo name]) (\<lambda>t. ret (Inr (av_alloc E t)))"

definition ReleaseEIP :: "adm_env \<Rightarrow> string \<Rightarrow> go_error option adm" where
  "ReleaseEIP E allocationID =
     (if allocationID = [] then ret None
      else do {
        d \<leftarrow> DisassociateEIP E allocationID;
        case d of
          Some err \<Rightarrow> ret (Some err)
        | None \<Rightarrow> do {
            (_, e) \<leftarrow> sdk E (ReleaseAddress allocationID);
            ret (case e of
                   None \<Rightarrow> None
                 | Some err \<Rightarrow> if isNotFound E err then None else Some (Errorf ''release elastic ip %q: %w'' [Quo allocationID, Wrap err])) } })"

section \<open>sg.go\<close>

definition findSecurityGroupByName :: "adm_env \<Rightarrow> string \<Rightarrow> string \<Rightarrow> (go_error + string \<times> bool) adm" where
  "findSecurityGroupByName E vpcID name =
     bindE (call E (DescribeSGByName vpcID name) ''describe security groups %q: %w'' [Quo name]) (\<lambda>t.
       ret (Inr (case av_sgByName E t of
                   None \<Rightarrow> ([], False)
                 | Some (i, tags) \<Rightarrow> (i, (''ManagedBy'', ''sbxadm'') \<in> set tags))))"

text \<open>The rules as they are sent: a rule without an upper port is for one port.\<close>

definition ingress_perm :: "IngressRule \<Rightarrow> IngressRule" where
  "ingress_perm r = r\<lparr> ir_ToPort := (if ir_ToPort r = 0 then ir_Port r else ir_ToPort r),
     ir_CIDR := (if ir_SourceSGID r \<noteq> [] then [] else ir_CIDR r) \<rparr>"

definition reconcileIngress :: "adm_env \<Rightarrow> string \<Rightarrow> IngressRule list \<Rightarrow> (go_error + unit) adm" where
  "reconcileIngress E sgID rules =
     bindE (call E (DescribeSG sgID) ''describe security group %q: %w'' [Quo sgID]) (\<lambda>t.
       case av_sgPerms E t of
         None \<Rightarrow> ret (Inl (Errorf ''security group %q disappeared'' [Quo sgID]))
       | Some n \<Rightarrow>
           bindE (if n > 0 then bindE (call E (RevokeIngress sgID) ''revoke existing ingress on %q: %w'' [Quo sgID]) (\<lambda>_. ret (Inr ()))
                  else ret (Inr ())) (\<lambda>_.
           if rules = [] then ret (Inr ())
           else bindE (call E (AuthorizeIngress sgID (map ingress_perm rules)) ''authorize ingress on %q: %w'' [Quo sgID]) (\<lambda>_. ret (Inr ()))))"

text \<open>The group of the name, found or created.\<close>

definition group_id :: "adm_env \<Rightarrow> string \<Rightarrow> string \<Rightarrow> (go_error + string) adm" where
  "group_id E vpcID name =
     bindE (findSecurityGroupByName E vpcID name) (\<lambda>(existing, managed).
       if existing \<noteq> [] then
         ret (if \<not> managed then Inl (Errorf ''security group %q already exists in vpc %q but is not managed by sbxadm (missing ManagedBy=sbxadm tag); refusing to take it over'' [Quo name, Quo vpcID])
              else Inr existing)
       else bindE (call E (CreateSG vpcID name) ''create security group %q: %w'' [Quo name]) (\<lambda>t. ret (Inr (av_newSG E t))))"

text \<open>The id of the group is returned with an error of its rules too.\<close>

definition EnsureSecurityGroup ::
  "adm_env \<Rightarrow> string \<Rightarrow> string \<Rightarrow> IngressRule list \<Rightarrow> (string \<times> go_error option) adm" where
  "EnsureSecurityGroup E vpcID name rules = do {
     g \<leftarrow> group_id E vpcID name;
     case g of
       Inl err \<Rightarrow> ret ([], Some err)
     | Inr sgID \<Rightarrow> do {
         r \<leftarrow> reconcileIngress E sgID rules;
         ret (sgID, case r of Inl err \<Rightarrow> Some err | Inr _ \<Rightarrow> None) } }"

definition DeleteSecurityGroup :: "adm_env \<Rightarrow> string \<Rightarrow> go_error option adm" where
  "DeleteSecurityGroup E sgID =
     (if sgID = [] then ret None
      else do {
        (_, e) \<leftarrow> sdk E (DeleteSG sgID);
        ret (case e of
               None \<Rightarrow> None
             | Some err \<Rightarrow> if isNotFound E err then None else Some (Errorf ''delete security group %q: %w'' [Quo sgID, Wrap err])) })"

section \<open>iam.go\<close>

definition ssmPolicy :: string where "ssmPolicy = ''arn:aws:iam::aws:policy/AmazonSSMManagedInstanceCore''"

fun attach_policies :: "adm_env \<Rightarrow> string \<Rightarrow> string list \<Rightarrow> (go_error + unit) adm" where
  "attach_policies E roleName [] = ret (Inr ())"
| "attach_policies E roleName (p # ps) =
     bindE (call E (AttachRolePolicy roleName p) ''attach policy %q to role %q: %w'' [Quo p, Quo roleName]) (\<lambda>_. attach_policies E roleName ps)"

text \<open>A call that may find the thing missing: \<open>Inr False\<close>.\<close>

definition exists_call :: "adm_env \<Rightarrow> aws_call \<Rightarrow> string \<Rightarrow> go_arg list \<Rightarrow> (go_error + bool) adm" where
  "exists_call E c f args = do {
     (_, e) \<leftarrow> sdk E c;
     ret (case e of
            None \<Rightarrow> Inr True
          | Some err \<Rightarrow> if av_iamMissing E err then Inr False else Inl (Errorf f (args @ [Wrap err]))) }"

definition ensure_role :: "adm_env \<Rightarrow> string \<Rightarrow> (go_error + unit) adm" where
  "ensure_role E roleName =
     bindE (exists_call E (GetRole roleName) ''get iam role %q: %w'' [Quo roleName]) (\<lambda>hasRole.
       if hasRole then ret (Inr ())
       else bindE (call E (CreateRole roleName) ''create iam role %q: %w'' [Quo roleName]) (\<lambda>_. ret (Inr ())))"

definition ensure_profile :: "adm_env \<Rightarrow> string \<Rightarrow> string \<Rightarrow> (go_error + string) adm" where
  "ensure_profile E roleName profileName =
     bindE (exists_call E (GetProfile profileName) ''get instance profile %q: %w'' [Quo profileName]) (\<lambda>hasProfile.
       if hasProfile then ret (Inr profileName)
       else bindE (call E (CreateProfile profileName) ''create instance profile %q: %w'' [Quo profileName]) (\<lambda>_.
            bindE (call E (AddRoleToProfile profileName roleName) ''add role %q to instance profile %q: %w'' [Quo roleName, Quo profileName]) (\<lambda>_.
            ret (Inr profileName))))"

definition EnsureInstanceProfile :: "adm_env \<Rightarrow> string \<Rightarrow> string list \<Rightarrow> (go_error + string) adm" where
  "EnsureInstanceProfile E name extraPolicyARNs =
     (let roleName = name @ ''-role''; profileName = name @ ''-profile'' in
      bindE (ensure_role E roleName) (\<lambda>_.
      bindE (attach_policies E roleName (ssmPolicy # extraPolicyARNs)) (\<lambda>_.
      ensure_profile E roleName profileName)))"

definition unless_missing :: "adm_env \<Rightarrow> aws_call \<Rightarrow> string \<Rightarrow> go_arg list \<Rightarrow> (go_error + unit) adm" where
  "unless_missing E c f args = bindE (exists_call E c f args) (\<lambda>_. ret (Inr ()))"

fun detach_policies :: "adm_env \<Rightarrow> string \<Rightarrow> string list \<Rightarrow> (go_error + unit) adm" where
  "detach_policies E roleName [] = ret (Inr ())"
| "detach_policies E roleName (p # ps) =
     bindE (unless_missing E (DetachRolePolicy roleName p) ''detach policy %q from role %q: %w'' [Quo p, Quo roleName]) (\<lambda>_. detach_policies E roleName ps)"

definition DeleteECRPullPolicy :: "adm_env \<Rightarrow> string \<Rightarrow> (go_error + unit) adm" where
  "DeleteECRPullPolicy E name =
     (let roleName = name @ ''-role'' in
      unless_missing E (DeleteRolePolicy roleName) ''delete ecr pull policy on role %q: %w'' [Quo roleName])"

definition DeleteInstanceProfile :: "adm_env \<Rightarrow> string \<Rightarrow> string list \<Rightarrow> (go_error + unit) adm" where
  "DeleteInstanceProfile E name extraPolicyARNs =
     (let roleName = name @ ''-role''; profileName = name @ ''-profile'' in
      bindE (unless_missing E (RemoveRoleFromProfile profileName roleName) ''remove role %q from instance profile %q: %w'' [Quo roleName, Quo profileName]) (\<lambda>_.
      bindE (unless_missing E (DeleteProfile profileName) ''delete instance profile %q: %w'' [Quo profileName]) (\<lambda>_.
      bindE (detach_policies E roleName (ssmPolicy # extraPolicyARNs)) (\<lambda>_.
      bindE (DeleteECRPullPolicy E name) (\<lambda>_.
      unless_missing E (DeleteRole roleName) ''delete role %q: %w'' [Quo roleName])))))"

text \<open>The policy grants pulling from the repositories of the patterns, in the region and account.\<close>

definition repository_arns :: "string \<Rightarrow> string \<Rightarrow> string list \<Rightarrow> string list" where
  "repository_arns region accountID patterns = map (\<lambda>p. ''arn:aws:ecr:'' @ region @ '':'' @ accountID @ '':repository/'' @ p) patterns"

definition PutECRPullPolicy :: "adm_env \<Rightarrow> string \<Rightarrow> string \<Rightarrow> string \<Rightarrow> string list \<Rightarrow> (go_error + unit) adm" where
  "PutECRPullPolicy E name region accountID patterns =
     (let roleName = name @ ''-role'' in
      bindE (call E (PutRolePolicy roleName (repository_arns region accountID patterns)) ''put ecr pull policy on role %q: %w'' [Quo roleName]) (\<lambda>_. ret (Inr ())))"

section \<open>network.go and egress.go\<close>

definition ValidateVPCAndGetCIDR :: "adm_env \<Rightarrow> string \<Rightarrow> (go_error + string) adm" where
  "ValidateVPCAndGetCIDR E vpcID =
     bindE (call E (DescribeVpcs vpcID) ''describe vpc %q: %w'' [Quo vpcID]) (\<lambda>t.
       ret (case av_vpc E t of
              None \<Rightarrow> Inl (Errorf ''vpc %q not found in this account/region'' [Quo vpcID])
            | Some (st, cidr) \<Rightarrow>
                if st \<noteq> ''available'' then Inl (Errorf ''vpc %q is not available (state=%s)'' [Quo vpcID, Str st])
                else if or_empty cidr = [] then Inl (Errorf ''vpc %q has no primary CIDR block'' [Quo vpcID])
                else Inr (or_empty cidr)))"

definition check_subnet :: "(string \<times> aws_subnet) list \<Rightarrow> string \<Rightarrow> string \<Rightarrow> go_error option" where
  "check_subnet known vpcID i =
     (case map_of (rev known) i of
        None \<Rightarrow> Some (Errorf ''subnet %q not found in this account/region'' [Quo i])
      | Some sn \<Rightarrow>
          if an_VpcId sn \<noteq> Some vpcID then Some (Errorf ''subnet %q does not belong to vpc %q'' [Quo i, Quo vpcID])
          else if an_State sn \<noteq> ''available'' then Some (Errorf ''subnet %q is not available (state=%s)'' [Quo i, Str (an_State sn)])
          else None)"

fun first_error :: "('a \<Rightarrow> go_error option) \<Rightarrow> 'a list \<Rightarrow> go_error option" where
  "first_error f [] = None"
| "first_error f (x # xs) = (case f x of Some err \<Rightarrow> Some err | None \<Rightarrow> first_error f xs)"

definition ValidateSubnets :: "adm_env \<Rightarrow> string \<Rightarrow> string list \<Rightarrow> (go_error + unit) adm" where
  "ValidateSubnets E vpcID subnetIDs =
     (if subnetIDs = [] then ret (Inl (Errorf ''at least one subnet id is required'' []))
      else bindE (call E (DescribeSubnets subnetIDs) ''describe subnets: %w'' []) (\<lambda>t.
        ret (case first_error (check_subnet (av_subnets E t) vpcID) subnetIDs of Some err \<Rightarrow> Inl err | None \<Rightarrow> Inr ())))"

definition effectiveRouteTables :: "adm_env \<Rightarrow> string \<Rightarrow> string \<Rightarrow> (go_error + aws_route list list) adm" where
  "effectiveRouteTables E vpcID subnetID =
     bindE (call E (DescribeRouteTables vpcID (Some subnetID)) ''describe route tables for subnet %q: %w'' [Quo subnetID]) (\<lambda>t.
       if av_routes E t \<noteq> [] then ret (Inr (av_routes E t))
       else bindE (call E (DescribeRouteTables vpcID None) ''describe main route table for vpc %q: %w'' [Quo vpcID]) (\<lambda>t'.
         ret (Inr (av_routes E t'))))"

definition SubnetHasIGWRoute :: "adm_env \<Rightarrow> string \<Rightarrow> string \<Rightarrow> (go_error + bool) adm" where
  "SubnetHasIGWRoute E vpcID subnetID =
     bindE (effectiveRouteTables E vpcID subnetID) (\<lambda>tables.
       ret (Inr (list_ex (list_ex (\<lambda>r. HasPrefix (or_empty (ao_GatewayId r)) ''igw-'' \<and> ao_active r)) tables)))"

definition subnetHasNATRoute :: "adm_env \<Rightarrow> string \<Rightarrow> string \<Rightarrow> (go_error + bool) adm" where
  "subnetHasNATRoute E vpcID subnetID =
     bindE (effectiveRouteTables E vpcID subnetID) (\<lambda>tables.
       ret (Inr (list_ex (list_ex (\<lambda>r. or_empty (ao_NatGatewayId r) \<noteq> [] \<and> ao_active r)) tables)))"

definition vpcHasSSMEndpoints :: "adm_env \<Rightarrow> string \<Rightarrow> (go_error + bool) adm" where
  "vpcHasSSMEndpoints E vpcID =
     bindE (call E (DescribeVpcEndpoints vpcID) ''describe vpc endpoints for vpc %q: %w'' [Quo vpcID]) (\<lambda>t.
       ret (Inr (list_all (\<lambda>suffix. list_ex (\<lambda>(ok, name). ok \<and> (case name of None \<Rightarrow> False | Some n \<Rightarrow> HasSuffix n (''.'' @ suffix)))
         (av_endpoints E t)) [''ssm'', ''ssmmessages'', ''ec2messages''])))"

record PrivateEgressCheck =
  pe_HasNATGateway :: bool
  pe_HasSSMVPCEndpoints :: bool

definition Sufficient :: "PrivateEgressCheck \<Rightarrow> bool" where
  "Sufficient c = pe_HasNATGateway c"

definition CheckPrivateEgress :: "adm_env \<Rightarrow> string \<Rightarrow> string \<Rightarrow> (go_error + PrivateEgressCheck) adm" where
  "CheckPrivateEgress E vpcID subnetID =
     bindE (subnetHasNATRoute E vpcID subnetID) (\<lambda>hasNAT.
     bindE (vpcHasSSMEndpoints E vpcID) (\<lambda>hasSSM.
       ret (Inr \<lparr> pe_HasNATGateway = hasNAT, pe_HasSSMVPCEndpoints = hasSSM \<rparr>)))"

section \<open>ssm.go\<close>

fun ssm_rounds :: "adm_env \<Rightarrow> string \<Rightarrow> nat \<Rightarrow> (go_error + unit) adm" where
  "ssm_rounds E instanceID 0 = ret (Inl (Errorf ''timed out waiting for SSM agent on %s to come online'' [Str instanceID]))"
| "ssm_rounds E instanceID (Suc n) = do {
     (t, e) \<leftarrow> sdk E (DescribeInstanceInformation instanceID);
     if e = None \<and> av_online E t then ret (Inr ()) else ssm_rounds E instanceID n }"

definition WaitForSSMOnline :: "adm_env \<Rightarrow> string \<Rightarrow> (go_error + unit) adm" where
  "WaitForSSMOnline E instanceID = do { n \<leftarrow> adm_ask (av_rounds E); ssm_rounds E instanceID (Suc n) }"

fun command_rounds :: "adm_env \<Rightarrow> string \<Rightarrow> string \<Rightarrow> nat \<Rightarrow> (go_error + string \<times> string \<times> string) adm" where
  "command_rounds E commandID instanceID 0 =
     ret (Inl (Errorf ''timed out waiting for ssm command %s on %s'' [Str commandID, Str instanceID]))"
| "command_rounds E commandID instanceID (Suc n) = do {
     (t, e) \<leftarrow> sdk E (GetCommandInvocation commandID instanceID);
     if e = None \<and> snd (snd (av_invocation E t)) \<in> set [''Success'', ''Failed'', ''Cancelled'', ''TimedOut''] then ret (Inr (av_invocation E t))
     else command_rounds E commandID instanceID n }"

definition RunShellCommand :: "adm_env \<Rightarrow> string \<Rightarrow> string list \<Rightarrow> (go_error + string \<times> string \<times> string) adm" where
  "RunShellCommand E instanceID commands =
     bindE (call E (SendCommand instanceID commands) ''send ssm command to %s: %w'' [Str instanceID]) (\<lambda>t. do {
       n \<leftarrow> adm_ask (av_rounds E);
       command_rounds E (av_commandID E t) instanceID (Suc n) })"

text \<open>The script polls the health endpoint for the given number of seconds, at least 30, and prints one of two markers.\<close>

definition health_script :: "int \<Rightarrow> int \<Rightarrow> string" where
  "health_script port timeout_secs = Join
     [[],
      ''end=$(( $(date +%s) + '' @ Itoa (max timeout_secs 30) @ '' ))'',
      ''while [ \"$(date +%s)\" -lt \"$end\" ]; do'',
      ''  if curl -fsS -m 3 http://127.0.0.1:'' @ Itoa port @ ''/healthz >/dev/null 2>&1; then'',
      ''    echo SBX_HEALTHY_OK'',
      ''    exit 0'',
      ''  fi'',
      ''  sleep 5'',
      ''done'',
      ''echo SBX_NOT_HEALTHY'',
      ''exit 1'',
      []] [CHR 0x0A]"

text \<open>\<open>time.Duration.String\<close> of a positive number of seconds.\<close>

definition duration_text :: "int \<Rightarrow> string" where
  "duration_text t =
     (if t \<ge> 3600 then Itoa (t div 3600) @ ''h'' else []) @
     (if t \<ge> 60 then Itoa (t mod 3600 div 60) @ ''m'' else []) @ Itoa (t mod 60) @ ''s''"

definition WaitForLocalHealthz :: "adm_env \<Rightarrow> string \<Rightarrow> int \<Rightarrow> int \<Rightarrow> (go_error + unit) adm" where
  "WaitForLocalHealthz E instanceID port timeout_secs =
     bindE (RunShellCommand E instanceID [health_script port timeout_secs]) (\<lambda>(stdout, _, status).
       ret (if status \<noteq> ''Success'' \<or> \<not> Contains stdout ''SBX_HEALTHY_OK''
            then Inl (Errorf ''service on %s:%d did not become healthy within %s (ssm status=%s)''
              [Str instanceID, Dec port, Str (duration_text timeout_secs), Str status])
            else Inr ()))"

end
