(* ===== verification/Adm_Store.thy ===== *)
theory Adm_Store
  imports Adm_Aws
begin

text \<open>
  Package \<open>sandboxd-adm/store\<close>: the records of the clusters in a DynamoDB table. A conditional write is one step: the
  service evaluates the condition on the stored item and writes, or fails. The item of a cluster is the cluster, which has a revision.
\<close>

definition ErrClusterExists :: go_error where "ErrClusterExists = ErrNew ''cluster already exists''"

definition ErrClusterNotFound :: go_error where "ErrClusterNotFound = ErrNew ''cluster not found''"

definition ErrClusterModified :: go_error where "ErrClusterModified = ErrNew ''cluster was modified concurrently; retry''"

definition EnsureTable :: "adm_env \<Rightarrow> string \<Rightarrow> (go_error + bool) adm" where
  "EnsureTable E table = do {
     (_, e) \<leftarrow> sdk E DescribeTable;
     case e of
       None \<Rightarrow> ret (Inr False)
     | Some err \<Rightarrow>
         if \<not> av_noTable E err then ret (Inl (Errorf ''describe table %q: %w'' [Quo table, Wrap err]))
         else bindE (call E CreateTable ''create table %q: %w'' [Quo table]) (\<lambda>_.
              bindE (call E WaitTable ''wait for table %q: %w'' [Quo table]) (\<lambda>_. ret (Inr True))) }"

definition GetCluster :: "adm_env \<Rightarrow> string \<Rightarrow> (go_error + Cluster) adm" where
  "GetCluster E name =
     bindE (call E (GetItem name) ''get cluster %q: %w'' [Quo name]) (\<lambda>_. do {
       tab \<leftarrow> gets am_table;
       ret (case map_of tab name of None \<Rightarrow> Inl ErrClusterNotFound | Some c \<Rightarrow> Inr c) })"

definition ListClusters :: "adm_env \<Rightarrow> (go_error + Cluster list) adm" where
  "ListClusters E = bindE (call E ScanTable ''list clusters: %w'' []) (\<lambda>_. do { tab \<leftarrow> gets am_table; ret (Inr (map snd tab)) })"

definition PutNewCluster :: "adm_env \<Rightarrow> Cluster \<Rightarrow> (go_error + unit) adm" where
  "PutNewCluster E c =
     bindE (call E (PutItem (clu_Name c)) ''put cluster %q: %w'' [Quo (clu_Name c)]) (\<lambda>_. do {
       tab \<leftarrow> gets am_table;
       if map_of tab (clu_Name c) \<noteq> None then ret (Inl ErrClusterExists)
       else do { modify (am_table_update (map_put (clu_Name c) (c\<lparr> clu_Revision := 1 \<rparr>))); ret (Inr ()) } })"

definition SaveCluster :: "adm_env \<Rightarrow> Cluster \<Rightarrow> (go_error + unit) adm" where
  "SaveCluster E c =
     bindE (call E (PutItem (clu_Name c)) ''save cluster %q: %w'' [Quo (clu_Name c)]) (\<lambda>_. do {
       tab \<leftarrow> gets am_table;
       case map_of tab (clu_Name c) of
         None \<Rightarrow> ret (Inl ErrClusterModified)
       | Some old \<Rightarrow>
           if clu_Revision old \<noteq> clu_Revision c then ret (Inl ErrClusterModified)
           else do { modify (am_table_update (map_put (clu_Name c) (c\<lparr> clu_Revision := i64 (clu_Revision c + 1) \<rparr>))); ret (Inr ()) } })"

definition DeleteCluster_item :: "adm_env \<Rightarrow> string \<Rightarrow> (go_error + unit) adm" where
  "DeleteCluster_item E name =
     bindE (call E (DeleteItem name) ''delete cluster %q: %w'' [Quo name]) (\<lambda>_. do {
       tab \<leftarrow> gets am_table;
       if map_of tab name = None then ret (Inl ErrClusterNotFound)
       else do { modify (am_table_update (map_del name)); ret (Inr ()) } })"

end
