(* ===== verification/Adm_Orchestrate.thy ===== *)
theory Adm_Orchestrate
  imports Adm_Store
begin

text \<open>
  Package \<open>sandboxd-adm/orchestrate\<close> and the configuration part of \<open>userdata\<close>: creating, deleting and resizing clusters and
  workers. An operation that creates resources pushes the way to undo each of them on the rollback stack right after
  it has it; the stack runs when the operation ends with an error. A JSON configuration is
  the map from its keys to their values, a string value as itself. Progress messages are left out.
\<close>

section \<open>userdata\<close>

definition copy_map :: "config_map \<Rightarrow> config_map \<Rightarrow> config_map" where
  "copy_map dst src = foldl (\<lambda>m (k, v). map_put k v m) dst src"

definition MergeConfig :: "adm_env \<Rightarrow> string \<Rightarrow> string \<Rightarrow> string \<Rightarrow> config_map \<Rightarrow> config_map \<Rightarrow> (go_error + config_map) adm" where
  "MergeConfig E component overridePath sharedSecret dynamicDefaults finalOverrides =
     (case av_defaults E component of
        None \<Rightarrow> ret (Inl (Errorf ''no default config for component %q'' [Quo component]))
      | Some def \<Rightarrow>
          let base = copy_map def dynamicDefaults in
          bindE (if overridePath \<noteq> [] then do {
                   r \<leftarrow> adm_ask (\<lambda>t. av_override E t overridePath);
                   ret (case r of
                          Inl err \<Rightarrow> Inl (Errorf ''read override config %q: %w'' [Quo overridePath, Wrap err])
                        | Inr override \<Rightarrow> Inr (copy_map base override)) }
                 else ret (Inr base)) (\<lambda>base1.
          let base2 = copy_map base1 finalOverrides in
          ret (Inr (if sharedSecret \<noteq> [] then map_put ''shared_secret'' sharedSecret base2 else base2))))"

text \<open>The script that a node boots with; the text of a merged configuration is never blank.\<close>

definition Render :: "string \<Rightarrow> string \<Rightarrow> config_map \<Rightarrow> go_error + user_data" where
  "Render component version config =
     (if component \<noteq> ''sbxorch'' \<and> component \<noteq> ''sbxlet'' then Inl (Errorf ''unsupported component %q'' [Quo component])
      else if TrimSpace version = [] then Inl (Errorf ''version is required'' [])
      else Inr (UserData component version config))"

section \<open>rollback.go\<close>

definition as_result :: "go_error option adm \<Rightarrow> (go_error + unit) adm" where
  "as_result m = do { e \<leftarrow> m; ret (case e of None \<Rightarrow> Inr () | Some err \<Rightarrow> Inl err) }"

fun run_action :: "adm_env \<Rightarrow> rollback_action \<Rightarrow> (go_error + unit) adm" where
  "run_action E (RbRestoreECR roleBase region accountID prev) =
     (if prev = [] then DeleteECRPullPolicy E roleBase else PutECRPullPolicy E roleBase region accountID prev)"
| "run_action E (RbTerminate instanceID) = as_result (TerminateInstance E instanceID)"
| "run_action E (RbDisassociate allocID) = as_result (DisassociateEIP E allocID)"
| "run_action E (RbDeleteNode server name) = bindE (call E (OrchDeleteNode server name) ''%w'' []) (\<lambda>_. ret (Inr ()))"
| "run_action E (RbReleaseEIP allocID) = as_result (ReleaseEIP E allocID)"
| "run_action E (RbDeleteSG sgID) = as_result (DeleteSecurityGroup E sgID)"
| "run_action E (RbDeleteProfile name) = DeleteInstanceProfile E name []"

definition rollback_add :: "rollback_action \<Rightarrow> unit adm" where
  "rollback_add a = modify (am_rollback_update (\<lambda>as. as @ [a]))"

text \<open>The actions run in the reverse order; an error of one does not stop the others.\<close>

definition rollback_run :: "adm_env \<Rightarrow> unit adm" where
  "rollback_run E = do {
     actions \<leftarrow> gets am_rollback;
     for_each (rev actions) (\<lambda>a. do { _ \<leftarrow> run_action E a; ret () }) }"

text \<open>The deferred \<open>rollback.run\<close> of an operation: a successful one clears the stack.\<close>

definition with_rollback :: "adm_env \<Rightarrow> (go_error + 'a) adm \<Rightarrow> (go_error + 'a) adm" where
  "with_rollback E body = do {
     modify (am_rollback_update (\<lambda>_. []));
     r \<leftarrow> body;
     (case r of Inl _ \<Rightarrow> rollback_run E | Inr _ \<Rightarrow> ret ());
     ret r }"

text \<open>A step that obtains a resource, and \<open>rollback.add\<close> right after it.\<close>

definition acquire :: "(go_error + 'a) adm \<Rightarrow> ('a \<Rightarrow> rollback_action) \<Rightarrow> ('a \<Rightarrow> (go_error + 'b) adm) \<Rightarrow> (go_error + 'b) adm" where
  "acquire m act k = bindE m (\<lambda>x. do { rollback_add (act x); k x })"

definition wrapE :: "string \<Rightarrow> (go_error + 'a) adm \<Rightarrow> (go_error + 'a) adm" where
  "wrapE f m = do { r \<leftarrow> m; ret (case r of Inl err \<Rightarrow> Inl (Errorf f [Wrap err]) | Inr v \<Rightarrow> Inr v) }"

text \<open>The callers look at the error first.\<close>

definition checked :: "('a \<times> go_error option) adm \<Rightarrow> (go_error + 'a) adm" where
  "checked m = do { (v, e) \<leftarrow> m; ret (case e of None \<Rightarrow> Inr v | Some err \<Rightarrow> Inl err) }"

section \<open>Constants and helpers\<close>

definition orchAPIPort :: int where "orchAPIPort = 8082"
definition letAPIPort :: int where "letAPIPort = 8081"
definition workerPortRangeFrom :: int where "workerPortRangeFrom = 10000"
definition workerPortRangeTo :: int where "workerPortRangeTo = 32767"
definition orchHealthTimeout :: int where "orchHealthTimeout = 360"
definition letHealthTimeout :: int where "letHealthTimeout = 600"
definition defaultOrchRootVolumeGiB :: int where "defaultOrchRootVolumeGiB = 16"
definition defaultWorkerRootVolumeGiB :: int where "defaultWorkerRootVolumeGiB = 64"

definition pickSubnet :: "string list \<Rightarrow> string" where
  "pickSubnet ids = (case ids of [] \<Rightarrow> [] | i # _ \<Rightarrow> i)"

definition resolveClusterSharedSecret :: "adm_env \<Rightarrow> string \<Rightarrow> (go_error + string \<times> bool) adm" where
  "resolveClusterSharedSecret E raw =
     (let trimmed = TrimSpace raw in
      if trimmed = [] then do { r \<leftarrow> adm_ask (av_random E); ret (case r of Inl err \<Rightarrow> Inl err | Inr secret \<Rightarrow> Inr (secret, False)) }
      else if length trimmed < 8 then ret (Inl (Errorf ''explicit shared secret must be at least 8 characters'' []))
      else ret (Inr (trimmed, True)))"

definition resolveOrchServer :: "string \<Rightarrow> Cluster \<Rightarrow> string" where
  "resolveOrchServer explicit cluster =
     (if TrimSpace explicit \<noteq> [] then explicit
      else if ctp_PublicIP (clu_ControlPlane cluster) \<noteq> [] then
        ''http://'' @ ctp_PublicIP (clu_ControlPlane cluster) @ '':'' @ Itoa orchAPIPort
      else if ctp_PrivateIP (clu_ControlPlane cluster) \<noteq> [] then
        ''http://'' @ ctp_PrivateIP (clu_ControlPlane cluster) @ '':'' @ Itoa orchAPIPort
      else [])"

definition root_volume :: "string \<Rightarrow> int \<Rightarrow> string \<Rightarrow> go_error + int" where
  "root_volume raw def flag_text =
     (if TrimSpace raw \<noteq> [] then
        (case ParseSizeGiB raw of Inl err \<Rightarrow> Inl (Errorf (flag_text @ '': %w'') [Wrap err]) | Inr v \<Rightarrow> Inr v)
      else Inr def)"

definition eip_allocation :: "string \<Rightarrow> string \<Rightarrow> go_error + string" where
  "eip_allocation raw flag_text =
     (if raw \<noteq> [] then
        (case AllocationIDFromARNOrID raw of Inl err \<Rightarrow> Inl (Errorf (flag_text @ '': %w'') [Wrap err]) | Inr v \<Rightarrow> Inr v)
      else Inr [])"

section \<open>worker.go\<close>

record CreateWorkerInput =
  cw_Name :: string
  cw_Version :: string
  cw_ClusterName :: string
  cw_InstanceType :: string
  cw_RuntimeBinary :: string
  cw_RootVolume :: string
  cw_External :: string
  cw_PublicEIP :: string
  cw_NodeLabels :: "(string \<times> string) list"
  cw_ConfigPath :: string
  cw_ECRRepos :: string
  cw_OrchServer :: string

definition register_worker :: "adm_env \<Rightarrow> string \<Rightarrow> string \<Rightarrow> string \<Rightarrow> string \<Rightarrow> (string \<times> string) list \<Rightarrow> (go_error + unit) adm" where
  "register_worker E orchServer name privateIP external labels =
     (if orchServer \<noteq> [] then
        acquire (call E (OrchCreateNode orchServer name privateIP labels) ''register node %q with orchestrator: %w'' [Quo name])
          (\<lambda>_. RbDeleteNode orchServer name) (\<lambda>_.
          bindE (call E (OrchCreateExternal orchServer (name @ ''-external'') name external) ''register external for node %q: %w'' [Quo name])
            (\<lambda>_. ret (Inr ())))
      else ret (Inr ()))"

text \<open>The instance is up: from its address to the saved record.\<close>

definition worker_started ::
  "adm_env \<Rightarrow> CreateWorkerInput \<Rightarrow> Cluster \<Rightarrow> string \<Rightarrow> int \<Rightarrow> string \<Rightarrow> string list \<Rightarrow> config_map \<Rightarrow> string \<Rightarrow>
   string \<times> string \<times> string \<Rightarrow> (go_error + unit) adm" where
  "worker_started E inp cluster name rootGiB eipAllocID merged configJSON subnetID ids =
     (case ids of (instanceID, privateIP, launchIP) \<Rightarrow>
      bindE (if eipAllocID \<noteq> [] then
               acquire (AssociateEIPByAllocationID E instanceID eipAllocID) (\<lambda>_. RbDisassociate eipAllocID) (\<lambda>ip. ret (Inr ip))
             else ret (Inr launchIP)) (\<lambda>publicIP.
      let external = (if TrimSpace (cw_External inp) = [] then publicIP else TrimSpace (cw_External inp)) in
      bindE (wrapE ''sbxlet instance never reached SSM: %w'' (WaitForSSMOnline E instanceID)) (\<lambda>_.
      bindE (wrapE ''sbxlet health check failed: %w (tail /var/log/sbxadm-userdata.log on the instance via SSM for details)''
               (WaitForLocalHealthz E instanceID letAPIPort letHealthTimeout)) (\<lambda>_.
      bindE (register_worker E (resolveOrchServer (cw_OrchServer inp) cluster) name privateIP external (cw_NodeLabels inp)) (\<lambda>_. do {
        now \<leftarrow> adm_ask (av_now E);
        wrapE ''persist worker: %w'' (SaveCluster E (cluster\<lparr> clu_Workers := clu_Workers cluster @
            [\<lparr> wkr_Name = name, wkr_InstanceID = instanceID, wkr_InstanceType = cw_InstanceType inp, wkr_SubnetID = subnetID,
               wkr_SecurityGroup = clu_WorkerSecurityGroup cluster, wkr_NodeLabels = cw_NodeLabels inp,
               wkr_PublicEIPAllocID = eipAllocID, wkr_PublicEIPManaged = False, wkr_PublicIP = publicIP,
               wkr_PrivateIP = privateIP, wkr_RootVolumeSizeGB = rootGiB, wkr_External = external,
               wkr_ConfigJSON = configJSON, wkr_CreatedAt = now, wkr_UpdatedAt = now \<rparr>],
            clu_WorkerECRRepoPatterns := merged, clu_UpdatedAt := now \<rparr>)) })))))"

definition worker_launch ::
  "adm_env \<Rightarrow> CreateWorkerInput \<Rightarrow> Cluster \<Rightarrow> string \<Rightarrow> int \<Rightarrow> string \<Rightarrow> string \<Rightarrow> string list \<Rightarrow> (go_error + unit) adm" where
  "worker_launch E inp cluster name rootGiB runtimeBinary eipAllocID merged =
     bindE (LatestUbuntuAMIForInstanceType E (cw_InstanceType inp)) (\<lambda>amiID.
     bindE (wrapE ''build sbxlet config: %w'' (MergeConfig E ''sbxlet'' (cw_ConfigPath inp) (clu_SharedSecret cluster) []
              [(''runtime_binary'', runtimeBinary)])) (\<lambda>configJSON.
     bindE (wrapE ''render sbxlet userdata: %w'' (ret (Render ''sbxlet'' (cw_Version inp) configJSON))) (\<lambda>script.
     let subnets = clu_PublicSubnets cluster; subnetID = subnets ! (length (clu_Workers cluster) mod length subnets) in
     acquire (wrapE ''launch worker instance: %w'' (checked (LaunchInstance E amiID
         \<lparr> lp_Name = ''sbxcluster-'' @ cw_ClusterName inp @ ''-worker-'' @ name, lp_InstanceType = cw_InstanceType inp,
           lp_SubnetID = subnetID, lp_SecurityGroupIDs = [clu_WorkerSecurityGroup cluster], lp_RootVolumeSizeGB = rootGiB,
           lp_AssignPublicIP = (eipAllocID = []), lp_UserData = script,
           lp_Tags = [(''sbxadm/cluster'', cw_ClusterName inp), (''sbxadm/role'', ''worker''), (''sbxadm/worker'', name)],
           lp_IAMInstanceProfile = clu_WorkerInstanceProfile cluster \<rparr>)))
       (\<lambda>(instanceID, _). RbTerminate instanceID)
       (worker_started E inp cluster name rootGiB eipAllocID merged configJSON subnetID))))"

definition worker_create ::
  "adm_env \<Rightarrow> string \<Rightarrow> CreateWorkerInput \<Rightarrow> Cluster \<Rightarrow> string \<Rightarrow> string list \<Rightarrow> int \<Rightarrow> string \<Rightarrow> string \<Rightarrow> (go_error + unit) adm" where
  "worker_create E accountID inp cluster name newECRPatterns rootGiB runtimeBinary eipAllocID =
     (let prev = clu_WorkerECRRepoPatterns cluster; roleBase = ''sbxcluster-'' @ cw_ClusterName inp @ ''-worker'' in
      if newECRPatterns \<noteq> [] then
        let merged = MergeECRRepoPatterns prev newECRPatterns in
        acquire (wrapE ''grant ecr pull access: %w'' (PutECRPullPolicy E roleBase (clu_Region cluster) accountID merged))
          (\<lambda>_. RbRestoreECR roleBase (clu_Region cluster) accountID prev)
          (\<lambda>_. worker_launch E inp cluster name rootGiB runtimeBinary eipAllocID merged)
      else worker_launch E inp cluster name rootGiB runtimeBinary eipAllocID prev)"

text \<open>The checks before anything is created.\<close>

definition worker_runtime :: "string \<Rightarrow> go_error + string" where
  "worker_runtime raw =
     (let v = ToLower (TrimSpace raw); rb = (if v = [] then ''runsc'' else v) in
      if rb \<noteq> ''runsc'' \<and> rb \<noteq> ''runc''
      then Inl (Errorf ''--runtime-binary: unsupported value %q (expected runsc or runc)'' [Quo raw]) else Inr rb)"

definition CreateWorker :: "adm_env \<Rightarrow> string \<Rightarrow> CreateWorkerInput \<Rightarrow> (go_error + unit) adm" where
  "CreateWorker E accountID inp =
     (let name = TrimSpace (cw_Name inp) in
      if name = [] then ret (Inl (Errorf ''worker name is required'' []))
      else bindE (wrapE ''--ecr-repos: %w'' (ret (ParseECRRepoPatterns (cw_ECRRepos inp)))) (\<lambda>newECRPatterns.
      bindE (GetCluster E (cw_ClusterName inp)) (\<lambda>cluster.
      if list_ex (\<lambda>w. wkr_Name w = name) (clu_Workers cluster) then
        ret (Inl (Errorf ''worker %q already exists in cluster %q'' [Quo name, Quo (cw_ClusterName inp)]))
      else if clu_PublicSubnets cluster = [] then
        ret (Inl (Errorf ''cluster %q has no public subnets recorded; workers always launch in a public subnet'' [Quo (cw_ClusterName inp)]))
      else bindE (ret (root_volume (cw_RootVolume inp) defaultWorkerRootVolumeGiB ''--root-volume-size'')) (\<lambda>rootGiB.
      bindE (ret (worker_runtime (cw_RuntimeBinary inp))) (\<lambda>runtimeBinary.
      bindE (ret (eip_allocation (cw_PublicEIP inp) ''--public-eip'')) (\<lambda>eipAllocID.
      with_rollback E (worker_create E accountID inp cluster name newECRPatterns rootGiB runtimeBinary eipAllocID)))))))"

text \<open>The address is cleaned up as well as possible; only the error of the termination counts.\<close>

definition teardownWorker :: "adm_env \<Rightarrow> Worker \<Rightarrow> go_error option adm" where
  "teardownWorker E w = do {
     _ \<leftarrow> (if wkr_PublicEIPAllocID w \<noteq> [] then
             (if wkr_PublicEIPManaged w then ReleaseEIP E (wkr_PublicEIPAllocID w) else DisassociateEIP E (wkr_PublicEIPAllocID w))
           else ret None);
     TerminateInstance E (wkr_InstanceID w) }"

text \<open>The first worker of the name, and the workers without it.\<close>

definition find_worker :: "string \<Rightarrow> Worker list \<Rightarrow> Worker option" where
  "find_worker name ws = find (\<lambda>w. wkr_Name w = name) ws"

fun drop_worker :: "string \<Rightarrow> Worker list \<Rightarrow> Worker list" where
  "drop_worker name [] = []"
| "drop_worker name (w # ws) = (if wkr_Name w = name then ws else w # drop_worker name ws)"

fun replace_worker :: "string \<Rightarrow> Worker \<Rightarrow> Worker list \<Rightarrow> Worker list" where
  "replace_worker name new [] = []"
| "replace_worker name new (w # ws) = (if wkr_Name w = name then new # ws else w # replace_worker name new ws)"

definition DeleteWorker :: "adm_env \<Rightarrow> string \<Rightarrow> string \<Rightarrow> string \<Rightarrow> (go_error + unit) adm" where
  "DeleteWorker E clusterName workerName orchServer =
     bindE (GetCluster E clusterName) (\<lambda>cluster.
       case find_worker workerName (clu_Workers cluster) of
         None \<Rightarrow> ret (Inl (Errorf ''worker %q not found in cluster %q'' [Quo workerName, Quo clusterName]))
       | Some worker \<Rightarrow> do {
           let orchSrv = resolveOrchServer orchServer cluster;
           (if orchSrv \<noteq> [] then do {
              _ \<leftarrow> (if wkr_External worker \<noteq> [] then sdk E (OrchDeleteExternal orchSrv (workerName @ ''-external'')) else ret (0, None));
              _ \<leftarrow> sdk E (OrchDeleteNode orchSrv workerName);
              ret () }
            else ret ());
           bindE (as_result (teardownWorker E worker)) (\<lambda>_. do {
             now \<leftarrow> adm_ask (av_now E);
             wrapE ''persist cluster after worker deletion: %w''
               (SaveCluster E (cluster\<lparr> clu_Workers := drop_worker workerName (clu_Workers cluster), clu_UpdatedAt := now \<rparr>)) }) })"

end
