(* ===== verification/Adm_Cluster.thy ===== *)
theory Adm_Cluster
  imports Adm_Orchestrate Orch_Validate
begin

text \<open>
  The rest of package \<open>sandboxd-adm/orchestrate\<close>: the operations on a cluster (\<open>cluster.go\<close>), changing the type of an
  instance (\<open>resize.go\<close>) and the configuration file of sbxctl on the control plane (\<open>sbxctl_config.go\<close>).
\<close>

section \<open>cluster.go\<close>

record CreateClusterInput =
  cc_Name :: string
  cc_Version :: string
  cc_VPCID :: string
  cc_PublicSubnetIDs :: "string list"
  cc_PrivateSubnetIDs :: "string list"
  cc_Region :: string
  cc_OrchInstanceType :: string
  cc_OrchPublicEndpoint :: bool
  cc_OrchPublicEIP :: string
  cc_OrchRootVolume :: string
  cc_OrchConfigPath :: string
  cc_SharedSecret :: string

text \<open>What the steps have obtained so far.\<close>

record cluster_parts =
  cl_name :: string
  cl_rootGiB :: int
  cl_eipAllocID :: string
  cl_eipManaged :: bool
  cl_orchSGID :: string
  cl_workerSGID :: string
  cl_cpProfile :: string
  cl_workerProfile :: string

fun check_igw_routes :: "adm_env \<Rightarrow> string \<Rightarrow> string list \<Rightarrow> (go_error + unit) adm" where
  "check_igw_routes E vpcID [] = ret (Inr ())"
| "check_igw_routes E vpcID (sn # sns) =
     bindE (wrapE ''check public subnet igw route: %w'' (SubnetHasIGWRoute E vpcID sn)) (\<lambda>hasIGW.
       if \<not> hasIGW then
         ret (Inl (Errorf ''subnet %s was passed as --public-subnet but has no 0.0.0.0/0 route to an internet gateway; workers (and a --orch-public-endpoint control plane) launch here and would never finish booting. Attach an internet gateway with a default route to this subnet, or pass a real public subnet'' [Str sn]))
       else check_igw_routes E vpcID sns)"

definition check_private_egress :: "adm_env \<Rightarrow> CreateClusterInput \<Rightarrow> (go_error + unit) adm" where
  "check_private_egress E inp =
     (if \<not> cc_OrchPublicEndpoint inp then
        let target = pickSubnet (cc_PrivateSubnetIDs inp) in
        bindE (wrapE ''check private subnet egress: %w'' (CheckPrivateEgress E (cc_VPCID inp) target)) (\<lambda>egress.
          ret (if \<not> Sufficient egress then
                 Inl (Errorf ''private subnet %s has no route to a NAT gateway, so the control plane would never finish booting (it needs internet egress for both the SSM agent and to download the sandboxd-o release from GitHub). SSM VPC endpoints present: %v (not sufficient on their own -- the release download still needs general internet egress). Add a NAT gateway with a 0.0.0.0/0 route in this subnet's route table, or pass --orch-public-endpoint instead''
                   [Str target, Str (if pe_HasSSMVPCEndpoints egress then ''true'' else ''false'')])
               else Inr ()))
      else ret (Inr ()))"

text \<open>The checks before anything is created: the CIDR of the VPC.\<close>

definition validate_network :: "adm_env \<Rightarrow> CreateClusterInput \<Rightarrow> (go_error + string) adm" where
  "validate_network E inp =
     bindE (ValidateVPCAndGetCIDR E (cc_VPCID inp)) (\<lambda>vpcCIDR.
     bindE (wrapE ''public subnets: %w'' (ValidateSubnets E (cc_VPCID inp) (cc_PublicSubnetIDs inp))) (\<lambda>_.
     bindE (wrapE ''private subnets: %w'' (ValidateSubnets E (cc_VPCID inp) (cc_PrivateSubnetIDs inp))) (\<lambda>_.
     bindE (check_igw_routes E (cc_VPCID inp) (cc_PublicSubnetIDs inp)) (\<lambda>_.
     bindE (check_private_egress E inp) (\<lambda>_. ret (Inr vpcCIDR))))))"

definition new_cluster ::
  "CreateClusterInput \<Rightarrow> cluster_parts \<Rightarrow> string \<Rightarrow> config_map \<Rightarrow> string \<Rightarrow> string \<Rightarrow> string \<Rightarrow> string \<Rightarrow> int \<Rightarrow> Cluster" where
  "new_cluster inp p sharedSecret configJSON subnetID instanceID privateIP publicIP now =
     \<lparr> clu_Name = cl_name p, clu_Version = cc_Version inp, clu_Region = cc_Region inp, clu_VPCID = cc_VPCID inp,
       clu_PublicSubnets = cc_PublicSubnetIDs inp, clu_PrivateSubnet = cc_PrivateSubnetIDs inp, clu_SharedSecret = sharedSecret,
       clu_SecurityGroup = cl_orchSGID p, clu_CreatedAt = now, clu_UpdatedAt = now, clu_Revision = 0,
       clu_WorkerSecurityGroup = cl_workerSGID p, clu_ControlPlaneInstanceProfile = cl_cpProfile p,
       clu_WorkerInstanceProfile = cl_workerProfile p, clu_WorkerECRRepoPatterns = [],
       clu_ControlPlane =
         \<lparr> ctp_InstanceID = instanceID, ctp_InstanceType = cc_OrchInstanceType inp, ctp_SubnetID = subnetID,
           ctp_PublicEndpoint = cc_OrchPublicEndpoint inp, ctp_PublicEIPAllocID = cl_eipAllocID p,
           ctp_PublicEIPManaged = cl_eipManaged p, ctp_PublicIP = publicIP, ctp_PrivateIP = privateIP,
           ctp_RootVolumeSizeGB = cl_rootGiB p, ctp_ConfigJSON = configJSON \<rparr>,
       clu_Workers = [] \<rparr>"

text \<open>
  The control plane is up: from its address to the new record. An address that the user gave is disassociated when the
  operation fails later, never released.
\<close>

definition control_plane_started ::
  "adm_env \<Rightarrow> CreateClusterInput \<Rightarrow> cluster_parts \<Rightarrow> string \<Rightarrow> config_map \<Rightarrow> string \<Rightarrow> string \<times> string \<times> string \<Rightarrow> (go_error + unit) adm" where
  "control_plane_started E inp p sharedSecret configJSON subnetID ids =
     (case ids of (instanceID, privateIP, launchIP) \<Rightarrow>
      bindE (if cl_eipAllocID p \<noteq> [] then
               (if cl_eipManaged p then AssociateEIPByAllocationID E instanceID (cl_eipAllocID p)
                else acquire (AssociateEIPByAllocationID E instanceID (cl_eipAllocID p)) (\<lambda>_. RbDisassociate (cl_eipAllocID p)) (\<lambda>ip. ret (Inr ip)))
             else ret (Inr launchIP)) (\<lambda>publicIP.
      bindE (wrapE ''sbxorch instance never reached SSM: %w'' (WaitForSSMOnline E instanceID)) (\<lambda>_.
      bindE (wrapE ''sbxorch health check failed: %w (tail /var/log/sbxadm-userdata.log on the instance via SSM for details)''
               (WaitForLocalHealthz E instanceID orchAPIPort orchHealthTimeout)) (\<lambda>_. do {
        now \<leftarrow> adm_ask (av_now E);
        wrapE ''persist cluster: %w''
          (PutNewCluster E (new_cluster inp p sharedSecret configJSON subnetID instanceID privateIP publicIP now)) }))))"

definition launch_control_plane :: "adm_env \<Rightarrow> CreateClusterInput \<Rightarrow> cluster_parts \<Rightarrow> (go_error + unit) adm" where
  "launch_control_plane E inp p =
     bindE (LatestUbuntuAMIForInstanceType E (cc_OrchInstanceType inp)) (\<lambda>amiID.
     bindE (wrapE ''resolve shared secret: %w'' (resolveClusterSharedSecret E (cc_SharedSecret inp))) (\<lambda>(sharedSecret, _).
     bindE (wrapE ''build sbxorch config: %w'' (MergeConfig E ''sbxorch'' (cc_OrchConfigPath inp) sharedSecret [] [])) (\<lambda>configJSON.
     bindE (wrapE ''render sbxorch userdata: %w'' (ret (Render ''sbxorch'' (cc_Version inp) configJSON))) (\<lambda>script.
     let subnetID = pickSubnet (if cc_OrchPublicEndpoint inp then cc_PublicSubnetIDs inp else cc_PrivateSubnetIDs inp) in
     acquire (wrapE ''launch control plane instance: %w'' (checked (LaunchInstance E amiID
         \<lparr> lp_Name = ''sbxcluster-'' @ cl_name p @ ''-orch'', lp_InstanceType = cc_OrchInstanceType inp, lp_SubnetID = subnetID,
           lp_SecurityGroupIDs = [cl_orchSGID p], lp_RootVolumeSizeGB = cl_rootGiB p, lp_AssignPublicIP = False,
           lp_UserData = script, lp_Tags = [(''sbxadm/cluster'', cl_name p), (''sbxadm/role'', ''orch'')],
           lp_IAMInstanceProfile = cl_cpProfile p \<rparr>)))
       (\<lambda>(instanceID, _). RbTerminate instanceID)
       (control_plane_started E inp p sharedSecret configJSON subnetID)))))"

definition orch_rules :: "string \<Rightarrow> IngressRule list" where
  "orch_rules cidr =
     [\<lparr> ir_Port = orchAPIPort, ir_ToPort = 0, ir_CIDR = cidr, ir_Description = ''sbxorch api (sbxctl/sbxadm)'', ir_SourceSGID = [] \<rparr>]"

definition worker_rules :: "string \<Rightarrow> IngressRule list" where
  "worker_rules orchSGID =
     [\<lparr> ir_Port = workerPortRangeFrom, ir_ToPort = workerPortRangeTo, ir_CIDR = ''0.0.0.0/0'',
        ir_Description = ''sandbox workload public ports'', ir_SourceSGID = [] \<rparr>,
      \<lparr> ir_Port = letAPIPort, ir_ToPort = 0, ir_CIDR = [], ir_Description = ''sbxlet api from control plane'', ir_SourceSGID = orchSGID \<rparr>]"

text \<open>The groups and the profiles; the group of the control plane comes first, since the rules of the workers' refer to it.\<close>

definition create_parts :: "adm_env \<Rightarrow> CreateClusterInput \<Rightarrow> string \<Rightarrow> string \<Rightarrow> int \<Rightarrow> string \<times> bool \<Rightarrow> (go_error + unit) adm" where
  "create_parts E inp name vpcCIDR rootGiB eip =
     (let cp = ''sbxcluster-'' @ name @ ''-control-plane''; wk = ''sbxcluster-'' @ name @ ''-worker'' in
      acquire (wrapE ''create orch security group: %w'' (checked (EnsureSecurityGroup E (cc_VPCID inp) (''sbxcluster-'' @ name @ ''-orch-sg'')
          (orch_rules (if cc_OrchPublicEndpoint inp then ''0.0.0.0/0'' else vpcCIDR)))))
        RbDeleteSG (\<lambda>orchSGID.
      acquire (wrapE ''create worker security group: %w'' (checked (EnsureSecurityGroup E (cc_VPCID inp) (''sbxcluster-'' @ name @ ''-worker-sg'')
          (worker_rules orchSGID))))
        RbDeleteSG (\<lambda>workerSGID.
      acquire (wrapE ''control plane instance profile: %w'' (EnsureInstanceProfile E cp [])) (\<lambda>_. RbDeleteProfile cp) (\<lambda>cpProfile.
      acquire (wrapE ''worker instance profile: %w'' (EnsureInstanceProfile E wk [])) (\<lambda>_. RbDeleteProfile wk) (\<lambda>workerProfile.
      launch_control_plane E inp
        \<lparr> cl_name = name, cl_rootGiB = rootGiB, cl_eipAllocID = fst eip, cl_eipManaged = snd eip, cl_orchSGID = orchSGID,
          cl_workerSGID = workerSGID, cl_cpProfile = cpProfile, cl_workerProfile = workerProfile \<rparr>)))))"

definition cluster_create :: "adm_env \<Rightarrow> CreateClusterInput \<Rightarrow> string \<Rightarrow> string \<Rightarrow> int \<Rightarrow> string \<Rightarrow> (go_error + unit) adm" where
  "cluster_create E inp name vpcCIDR rootGiB eipAllocID =
     (if cc_OrchPublicEndpoint inp \<and> eipAllocID = [] then
        acquire (wrapE ''allocate control plane eip: %w'' (AllocateEIP E (''sbxcluster-'' @ name @ ''-orch-eip'')))
          (\<lambda>(allocID, _). RbReleaseEIP allocID)
          (\<lambda>(allocID, _). create_parts E inp name vpcCIDR rootGiB (allocID, True))
      else create_parts E inp name vpcCIDR rootGiB (eipAllocID, False))"

definition CreateCluster :: "adm_env \<Rightarrow> CreateClusterInput \<Rightarrow> (go_error + unit) adm" where
  "CreateCluster E inp =
     (let name = TrimSpace (cc_Name inp) in
      if name = [] then ret (Inl (Errorf ''cluster name is required'' []))
      else if cc_OrchPublicEIP inp \<noteq> [] \<and> \<not> cc_OrchPublicEndpoint inp then
        ret (Inl (Errorf ''--orch-public-eip requires --orch-public-endpoint'' []))
      else do {
        g \<leftarrow> GetCluster E name;
        case g of
          Inr _ \<Rightarrow> ret (Inl (Errorf ''cluster %q already exists'' [Quo name]))
        | Inl err \<Rightarrow>
            if err \<noteq> ErrClusterNotFound then ret (Inl (Errorf ''check existing cluster: %w'' [Wrap err]))
            else bindE (validate_network E inp) (\<lambda>vpcCIDR.
                 bindE (ret (root_volume (cc_OrchRootVolume inp) defaultOrchRootVolumeGiB ''--orch-root-volume-size'')) (\<lambda>rootGiB.
                 bindE (ret (eip_allocation (cc_OrchPublicEIP inp) ''--orch-public-eip'')) (\<lambda>eipAllocID.
                 with_rollback E (cluster_create E inp name vpcCIDR rootGiB eipAllocID)))) })"

fun teardown_workers :: "adm_env \<Rightarrow> Worker list \<Rightarrow> (go_error + unit) adm" where
  "teardown_workers E [] = ret (Inr ())"
| "teardown_workers E (w # ws) = do {
     e \<leftarrow> teardownWorker E w;
     case e of
       Some err \<Rightarrow> ret (Inl (Errorf ''delete worker %q: %w'' [Quo (wkr_Name w), Wrap err]))
     | None \<Rightarrow> teardown_workers E ws }"

text \<open>The instances must be gone; the address, the groups and the profiles are cleaned up as well as possible.\<close>

definition DeleteCluster :: "adm_env \<Rightarrow> string \<Rightarrow> (go_error + unit) adm" where
  "DeleteCluster E name =
     bindE (GetCluster E name) (\<lambda>cluster.
     let cp = clu_ControlPlane cluster in
     bindE (teardown_workers E (clu_Workers cluster)) (\<lambda>_. do {
       _ \<leftarrow> (if ctp_PublicEIPAllocID cp \<noteq> [] then
               (if ctp_PublicEIPManaged cp then ReleaseEIP E (ctp_PublicEIPAllocID cp) else DisassociateEIP E (ctp_PublicEIPAllocID cp))
             else ret None);
       bindE (wrapE ''terminate control plane instance: %w'' (as_result (TerminateInstance E (ctp_InstanceID cp)))) (\<lambda>_. do {
         _ \<leftarrow> DeleteSecurityGroup E (clu_WorkerSecurityGroup cluster);
         _ \<leftarrow> DeleteSecurityGroup E (clu_SecurityGroup cluster);
         _ \<leftarrow> DeleteInstanceProfile E (''sbxcluster-'' @ name @ ''-control-plane'') [];
         _ \<leftarrow> DeleteInstanceProfile E (''sbxcluster-'' @ name @ ''-worker'') [];
         wrapE ''delete cluster record: %w'' (DeleteCluster_item E name) }) }))"

definition maskSecret :: "string \<Rightarrow> string" where
  "maskSecret secret =
     (case secret of
        [] \<Rightarrow> []
      | [c] \<Rightarrow> [c]
      | [c, _] \<Rightarrow> [c, CHR ''*'']
      | c # cs \<Rightarrow> c # replicate (length secret - 2) (CHR ''*'') @ [last secret])"

section \<open>resize.go\<close>

definition ResizeControlPlane :: "adm_env \<Rightarrow> string \<Rightarrow> string \<Rightarrow> (go_error + unit) adm" where
  "ResizeControlPlane E rawCluster rawType =
     (let clusterName = TrimSpace rawCluster; instanceType = TrimSpace rawType in
      if clusterName = [] then ret (Inl (Errorf ''cluster name is required'' []))
      else if instanceType = [] then ret (Inl (Errorf ''instance type is required'' []))
      else bindE (GetCluster E clusterName) (\<lambda>cluster.
        let cp = clu_ControlPlane cluster in
        if ctp_InstanceType cp = instanceType then ret (Inr ())
        else bindE (InstanceTypeArch E instanceType) (\<lambda>_.
             bindE (ResizeInstanceType E (ctp_InstanceID cp) instanceType) (\<lambda>_.
             bindE (DescribeInstanceNetwork E (ctp_InstanceID cp)) (\<lambda>(privateIP, publicIP).
             bindE (wrapE ''control plane instance never reached SSM after resize: %w'' (WaitForSSMOnline E (ctp_InstanceID cp))) (\<lambda>_.
             bindE (wrapE ''sbxorch health check failed after resize: %w''
                      (WaitForLocalHealthz E (ctp_InstanceID cp) orchAPIPort orchHealthTimeout)) (\<lambda>_. do {
               now \<leftarrow> adm_ask (av_now E);
               wrapE ''persist cluster after control plane resize: %w'' (SaveCluster E (cluster\<lparr>
                 clu_ControlPlane := cp\<lparr> ctp_PrivateIP := privateIP, ctp_PublicIP := publicIP, ctp_InstanceType := instanceType \<rparr>,
                 clu_UpdatedAt := now \<rparr>)) })))))))"

definition shouldRefreshWorkerExternal :: "string \<Rightarrow> string \<Rightarrow> string \<Rightarrow> string \<Rightarrow> bool" where
  "shouldRefreshWorkerExternal publicEIPAllocID external0 oldPublicIP newPublicIP =
     (if publicEIPAllocID \<noteq> [] \<or> newPublicIP = [] \<or> newPublicIP = oldPublicIP then False
      else let external = TrimSpace external0 in
        if external = [] \<or> external = oldPublicIP then True else ParseIP external \<noteq> None)"

text \<open>The external address that the worker has after the resize: the registered one is replaced when it must be refreshed and a server is known.\<close>

definition refresh_external :: "adm_env \<Rightarrow> string \<Rightarrow> Cluster \<Rightarrow> Worker \<Rightarrow> string \<Rightarrow> string \<Rightarrow> (go_error + string) adm" where
  "refresh_external E orchServer cluster worker workerName publicIP =
     (if shouldRefreshWorkerExternal (wkr_PublicEIPAllocID worker) (wkr_External worker) (wkr_PublicIP worker) publicIP then
        let orchSrv = resolveOrchServer orchServer cluster in
        if orchSrv = [] then ret (Inr (wkr_External worker))
        else bindE (call E (OrchCreateExternal orchSrv (workerName @ ''-external'') workerName publicIP)
                      ''refresh external object after worker resize: %w'' []) (\<lambda>_. ret (Inr publicIP))
      else ret (Inr (wkr_External worker)))"

definition ResizeWorker :: "adm_env \<Rightarrow> string \<Rightarrow> string \<Rightarrow> string \<Rightarrow> string \<Rightarrow> (go_error + unit) adm" where
  "ResizeWorker E rawCluster rawWorker rawType orchServer =
     (let clusterName = TrimSpace rawCluster; workerName = TrimSpace rawWorker; instanceType = TrimSpace rawType in
      if clusterName = [] then ret (Inl (Errorf ''cluster name is required'' []))
      else if workerName = [] then ret (Inl (Errorf ''worker name is required'' []))
      else if instanceType = [] then ret (Inl (Errorf ''instance type is required'' []))
      else bindE (GetCluster E clusterName) (\<lambda>cluster.
        case find_worker workerName (clu_Workers cluster) of
          None \<Rightarrow> ret (Inl (Errorf ''worker %q not found in cluster %q'' [Quo workerName, Quo clusterName]))
        | Some worker \<Rightarrow>
            if wkr_InstanceType worker = instanceType then ret (Inr ())
            else bindE (InstanceTypeArch E instanceType) (\<lambda>_.
                 bindE (ResizeInstanceType E (wkr_InstanceID worker) instanceType) (\<lambda>_.
                 bindE (DescribeInstanceNetwork E (wkr_InstanceID worker)) (\<lambda>(privateIP, publicIP). do {
                   updated \<leftarrow> adm_ask (av_now E);
                   bindE (refresh_external E orchServer cluster worker workerName publicIP) (\<lambda>external.
                   bindE (wrapE ''worker instance never reached SSM after resize: %w'' (WaitForSSMOnline E (wkr_InstanceID worker))) (\<lambda>_.
                   bindE (wrapE ''sbxlet health check failed after resize: %w''
                            (WaitForLocalHealthz E (wkr_InstanceID worker) letAPIPort letHealthTimeout)) (\<lambda>_. do {
                     now \<leftarrow> adm_ask (av_now E);
                     wrapE ''persist cluster after worker resize: %w'' (SaveCluster E (cluster\<lparr>
                       clu_Workers := replace_worker workerName (worker\<lparr> wkr_PrivateIP := privateIP, wkr_PublicIP := publicIP,
                         wkr_InstanceType := instanceType, wkr_UpdatedAt := updated, wkr_External := external \<rparr>) (clu_Workers cluster),
                       clu_UpdatedAt := now \<rparr>)) }))) })))))"

section \<open>sbxctl\_config.go\<close>

definition push_commands :: "string \<Rightarrow> string list" where
  "push_commands b64 =
     (let dst = ''/var/lib/sandboxd/sbxctl_config.json''; tmp = dst @ ''.tmp'' in
      [''set -e'', ''mkdir -p /var/lib/sandboxd'',
       ''echo '' @ b64 @ '' | base64 -d > '' @ tmp,
       ''test -s '' @ tmp,
       ''chmod 0644 '' @ tmp,
       ''mv -f '' @ tmp @ '' '' @ dst,
       ''echo WROTE $(wc -c < '' @ dst @ '') bytes''])"

definition UpdateSbxctlConfig :: "adm_env \<Rightarrow> string \<Rightarrow> (go_error + unit) adm" where
  "UpdateSbxctlConfig E clusterName =
     bindE (GetCluster E clusterName) (\<lambda>cluster.
     let cp = clu_ControlPlane cluster in
     if \<not> ctp_PublicEndpoint cp then
       ret (Inl (Errorf ''cluster %q control plane is not publicly accessible; update-sbxctl-config requires --orch-public-endpoint at cluster creation time'' [Quo clusterName]))
     else let server = ''http://'' @ ctp_PublicIP cp @ '':'' @ Itoa orchAPIPort in
       bindE (wrapE ''build sbxctl config: %w'' (MergeConfig E ''sbxctl'' [] (clu_SharedSecret cluster) [(''server'', server)] [])) (\<lambda>configJSON.
       bindE (RunShellCommand E (ctp_InstanceID cp) (push_commands (av_encoded E configJSON))) (\<lambda>(stdout, stderr, status).
         ret (if status \<noteq> ''Success'' then
                Inl (Errorf ''pushing sbxctl_config.json failed (ssm status=%s): stdout=%q stderr=%q'' [Str status, Quo stdout, Quo stderr])
              else Inr ()))))"

end
