(* ===== verification/Adm_Props.thy ===== *)
theory Adm_Props
  imports Adm_Cluster
begin

text \<open>
  What sbxadm leaves behind in the cloud. The calls that succeeded, replayed in order, give the resources that exist
  (\<open>live\<close>) and the policy of each role (\<open>granted\<close>). The locale \<open>adm_frame\<close> carries a relation between states that every call
  but the ones that build something respects through the operations of \<open>awsx\<close>; it is interpreted on the relation that the
  rollback stack covers what was created, on the one that the table of clusters stays, and on the one that the policies stay.
\<close>

section \<open>The resources that exist\<close>

datatype cloud_resource =
    Instance string
  | Address string
  | Group string
  | Role string
  | Profile string
  | Node_object string string

definition created :: "adm_env \<Rightarrow> nat \<Rightarrow> aws_call \<Rightarrow> cloud_resource set" where
  "created E t c =
     (case c of
        RunInstances _ _ \<Rightarrow> (case av_runID E t of Some i \<Rightarrow> {Instance i} | None \<Rightarrow> {})
      | AllocateAddress _ \<Rightarrow> {Address (fst (av_alloc E t))}
      | CreateSG _ _ \<Rightarrow> {Group (av_newSG E t)}
      | CreateRole r \<Rightarrow> {Role r}
      | CreateProfile p \<Rightarrow> {Profile p}
      | OrchCreateNode server name _ _ \<Rightarrow> {Node_object server name}
      | _ \<Rightarrow> {})"

definition removed :: "aws_call \<Rightarrow> cloud_resource set" where
  "removed c =
     (case c of
        TerminateInstances i \<Rightarrow> {Instance i}
      | ReleaseAddress a \<Rightarrow> {Address a}
      | DeleteSG g \<Rightarrow> {Group g}
      | DeleteRole r \<Rightarrow> {Role r}
      | DeleteProfile p \<Rightarrow> {Profile p}
      | OrchDeleteNode server name \<Rightarrow> {Node_object server name}
      | _ \<Rightarrow> {})"

fun replay :: "adm_env \<Rightarrow> cloud_resource set \<Rightarrow> nat \<times> aws_call \<times> bool \<Rightarrow> cloud_resource set" where
  "replay E L (t, c, ok) = (if ok then (L - removed c) \<union> created E t c else L)"

definition live :: "adm_env \<Rightarrow> adm_state \<Rightarrow> cloud_resource set" where
  "live E s = foldl (replay E) {} (am_calls s)"

text \<open>The inline policy of a role, as the resources that it names.\<close>

fun replay_grant :: "(string \<Rightarrow> string list) \<Rightarrow> nat \<times> aws_call \<times> bool \<Rightarrow> string \<Rightarrow> string list" where
  "replay_grant g (t, PutRolePolicy r res, True) = g(r := res)"
| "replay_grant g (t, DeleteRolePolicy r, True) = g(r := [])"
| "replay_grant g _ = g"

definition granted :: "adm_state \<Rightarrow> string \<Rightarrow> string list" where
  "granted s = foldl replay_grant (\<lambda>_. []) (am_calls s)"

text \<open>What an action of the rollback stack takes away; without an id it does nothing.\<close>

definition undone :: "rollback_action \<Rightarrow> cloud_resource set" where
  "undone a =
     (case a of
        RbTerminate i \<Rightarrow> if i = [] then {} else {Instance i}
      | RbReleaseEIP i \<Rightarrow> if i = [] then {} else {Address i}
      | RbDeleteSG g \<Rightarrow> if g = [] then {} else {Group g}
      | RbDeleteProfile b \<Rightarrow> {Role (b @ ''-role''), Profile (b @ ''-profile'')}
      | RbDeleteNode server name \<Rightarrow> {Node_object server name}
      | _ \<Rightarrow> {})"

section \<open>What is asked of the cloud\<close>

text \<open>The calls that take things away, and the ones that complete a thing that was created by another call.\<close>

definition cleans_up :: "aws_call \<Rightarrow> bool" where
  "cleans_up c =
     (case c of
        TerminateInstances _ \<Rightarrow> True | WaitTerminated _ \<Rightarrow> True | DescribeAddresses _ \<Rightarrow> True | DisassociateAddress _ \<Rightarrow> True
      | ReleaseAddress _ \<Rightarrow> True | DeleteSG _ \<Rightarrow> True | RemoveRoleFromProfile _ _ \<Rightarrow> True | DeleteProfile _ \<Rightarrow> True
      | DetachRolePolicy _ _ \<Rightarrow> True | DeleteRolePolicy _ \<Rightarrow> True | DeleteRole _ \<Rightarrow> True | OrchDeleteNode _ _ \<Rightarrow> True | _ \<Rightarrow> False)"

definition completes :: "aws_call \<Rightarrow> bool" where
  "completes c =
     (case c of
        WaitRunning _ \<Rightarrow> True | DescribeInstances _ \<Rightarrow> True | DescribeSG _ \<Rightarrow> True | RevokeIngress _ \<Rightarrow> True
      | AuthorizeIngress _ _ \<Rightarrow> True | AttachRolePolicy _ _ \<Rightarrow> True | CreateProfile _ \<Rightarrow> True | AddRoleToProfile _ _ \<Rightarrow> True | _ \<Rightarrow> False)"

definition cleanup_works :: "adm_env \<Rightarrow> bool" where
  "cleanup_works E \<longleftrightarrow> (\<forall>t c. cleans_up c \<longrightarrow> av_err E t c = None)"

text \<open>A created thing is described when it is asked for, the calls that complete it succeed, and a lookup of a profile finds it or says that it is missing.\<close>

definition creation_completes :: "adm_env \<Rightarrow> bool" where
  "creation_completes E \<longleftrightarrow>
     (\<forall>t c. completes c \<longrightarrow> av_err E t c = None) \<and> (\<forall>t. av_net E t \<noteq> None) \<and> (\<forall>t. av_sgPerms E t \<noteq> None) \<and>
     (\<forall>t p e. av_err E t (GetProfile p) = Some e \<longrightarrow> av_iamMissing E e)"

text \<open>The ids that the cloud gives out are not empty.\<close>

definition proper_ids :: "adm_env \<Rightarrow> bool" where
  "proper_ids E \<longleftrightarrow> (\<forall>t. av_runID E t \<noteq> Some [] \<and> fst (av_alloc E t) \<noteq> [] \<and> av_newSG E t \<noteq> [])"

section \<open>Frames\<close>

definition builds :: "aws_call \<Rightarrow> bool" where
  "builds c =
     (case c of
        RunInstances _ _ \<Rightarrow> True | AllocateAddress _ \<Rightarrow> True | CreateSG _ _ \<Rightarrow> True | CreateRole _ \<Rightarrow> True
      | CreateProfile _ \<Rightarrow> True | OrchCreateNode _ _ _ _ \<Rightarrow> True | PutRolePolicy _ _ \<Rightarrow> True | DeleteRolePolicy _ \<Rightarrow> True | _ \<Rightarrow> False)"

text \<open>When the operation fails, the states before and after it are related.\<close>

definition fails_within :: "('s \<Rightarrow> 's \<Rightarrow> bool) \<Rightarrow> ('s, 'e + 'a) state \<Rightarrow> bool" where
  "fails_within R m \<longleftrightarrow> (\<forall>s e. result m s = Inl e \<longrightarrow> R s (exec m s))"

locale adm_frame = effect_rel R for R :: "adm_state \<Rightarrow> adm_state \<Rightarrow> bool" +
  fixes E :: adm_env
  assumes frame_tick: "R s (s\<lparr> am_tick := Suc (am_tick s) \<rparr>)"
    and frame_sdk: "\<not> builds c \<Longrightarrow> state_io_rel R (sdk E c)"
begin

lemma frame_ask: "state_io_rel R (adm_ask f)"
  by (rule state_io_relI) (simp add: adm_ask_def frame_tick)

lemma frame_call: "\<not> builds c \<Longrightarrow> state_io_rel R (call E c f args)"
  unfolding call_def by (intro eff_intros frame_sdk)

lemma frame_wrapE: "state_io_rel R m \<Longrightarrow> state_io_rel R (wrapE f m)"
  unfolding wrapE_def by (intro eff_intros)

lemma frame_as_result: "state_io_rel R m \<Longrightarrow> state_io_rel R (as_result m)"
  unfolding as_result_def by (intro eff_intros)

lemma frame_checked: "state_io_rel R m \<Longrightarrow> state_io_rel R (checked m)"
  unfolding checked_def by (intro eff_intros)

lemma fails_same: "state_io_rel R m \<Longrightarrow> fails_within R m"
  by (simp add: fails_within_def state_io_rel_def)

lemma fails_ret: "fails_within R (ret r)"
  by (simp add: fails_within_def R_refl)

lemma fails_bindE: "state_io_rel R m \<Longrightarrow> (\<And>x. fails_within R (f x)) \<Longrightarrow> fails_within R (bindE m f)"
  by (auto simp: fails_within_def state_io_rel_def exec_bindE result_bindE split: sum.splits intro: R_trans)

lemma fails_bind: "state_io_rel R m \<Longrightarrow> (\<And>x. fails_within R (f x)) \<Longrightarrow> fails_within R (State_Monad.bind m f)"
  by (auto simp: fails_within_def state_io_rel_def exec_bind result_bind simp del: run_state_bind intro: R_trans)

lemma fails_wrapE: "fails_within R m \<Longrightarrow> fails_within R (wrapE f m)"
  by (auto simp: fails_within_def wrapE_def exec_bind result_bind split: sum.splits simp del: run_state_bind)

lemma fails_if: "(b \<Longrightarrow> fails_within R m) \<Longrightarrow> (\<not> b \<Longrightarrow> fails_within R n) \<Longrightarrow> fails_within R (if b then m else n)"
  by simp

lemma fails_let: "(\<And>x. fails_within R (f x)) \<Longrightarrow> fails_within R (let x = v in f x)"
  by simp

lemma fails_case_prod: "(\<And>x y. fails_within R (f x y)) \<Longrightarrow> fails_within R (case p of (x, y) \<Rightarrow> f x y)"
  by (cases p) simp

lemma fails_case_sum:
  "(\<And>x. fails_within R (f x)) \<Longrightarrow> (\<And>x. fails_within R (g x)) \<Longrightarrow> fails_within R (case r of Inl x \<Rightarrow> f x | Inr x \<Rightarrow> g x)"
  by (cases r) simp_all

lemmas fails_intros = fails_ret fails_bindE fails_bind fails_wrapE fails_if fails_let fails_case_prod fails_case_sum

lemmas frame_intros = eff_intros frame_ask frame_sdk frame_call frame_wrapE frame_as_result frame_checked

lemma frame_InstanceTypeArch: "state_io_rel R (InstanceTypeArch E i)"
  unfolding InstanceTypeArch_def by (intro frame_intros) (simp add: builds_def)

lemma frame_LatestAMI: "state_io_rel R (LatestUbuntuAMIForInstanceType E i)"
  unfolding LatestUbuntuAMIForInstanceType_def by (intro frame_intros frame_InstanceTypeArch) (simp add: builds_def)

lemma frame_AssociateEIP: "state_io_rel R (AssociateEIPByAllocationID E i a)"
  unfolding AssociateEIPByAllocationID_def by (intro frame_intros) (simp_all add: builds_def)

lemma frame_DisassociateEIP: "state_io_rel R (DisassociateEIP E a)"
  unfolding DisassociateEIP_def by (intro frame_intros) (simp_all add: builds_def)

lemma frame_ReleaseEIP: "state_io_rel R (ReleaseEIP E a)"
  unfolding ReleaseEIP_def by (intro frame_intros frame_DisassociateEIP) (simp add: builds_def)

lemma frame_TerminateInstance: "state_io_rel R (TerminateInstance E i)"
  unfolding TerminateInstance_def by (intro frame_intros) (simp_all add: builds_def)

lemma frame_DeleteSecurityGroup: "state_io_rel R (DeleteSecurityGroup E g)"
  unfolding DeleteSecurityGroup_def by (intro frame_intros) (simp add: builds_def)

lemma frame_ssm_rounds: "state_io_rel R (ssm_rounds E i n)"
  by (induction n) (auto intro!: frame_intros simp: builds_def)

lemma frame_command_rounds: "state_io_rel R (command_rounds E k i n)"
  by (induction n) (auto intro!: frame_intros simp: builds_def)

lemma frame_WaitForSSMOnline: "state_io_rel R (WaitForSSMOnline E i)"
  unfolding WaitForSSMOnline_def by (intro frame_intros frame_ssm_rounds)

lemma frame_WaitForLocalHealthz: "state_io_rel R (WaitForLocalHealthz E i p t)"
  unfolding WaitForLocalHealthz_def RunShellCommand_def
  by (intro frame_intros frame_command_rounds) (simp add: builds_def)

lemma frame_MergeConfig: "state_io_rel R (MergeConfig E c p s d f)"
  unfolding MergeConfig_def by (intro frame_intros)

lemma frame_resolveSecret: "state_io_rel R (resolveClusterSharedSecret E raw)"
  unfolding resolveClusterSharedSecret_def by (intro frame_intros)

lemma frame_GetCluster: "state_io_rel R (GetCluster E n)"
  unfolding GetCluster_def by (intro frame_intros) (simp add: builds_def)

lemma frame_reconcileIngress: "state_io_rel R (reconcileIngress E g rules)"
  unfolding reconcileIngress_def by (intro frame_intros) (simp_all add: builds_def)

lemma frame_findSecurityGroup: "state_io_rel R (findSecurityGroupByName E v n)"
  unfolding findSecurityGroupByName_def by (intro frame_intros) (simp add: builds_def)

lemma frame_attach_policies: "state_io_rel R (attach_policies E r ps)"
  by (induction ps) (auto intro!: frame_intros simp: builds_def)

lemma frame_effectiveRouteTables: "state_io_rel R (effectiveRouteTables E v sn)"
  unfolding effectiveRouteTables_def by (intro frame_intros) (simp_all add: builds_def)

lemma frame_check_igw_routes: "state_io_rel R (check_igw_routes E v sns)"
  by (induction sns) (auto intro!: frame_intros frame_effectiveRouteTables simp: SubnetHasIGWRoute_def)

lemma frame_validate_network: "state_io_rel R (validate_network E inp)"
  unfolding validate_network_def ValidateVPCAndGetCIDR_def ValidateSubnets_def check_private_egress_def CheckPrivateEgress_def
    subnetHasNATRoute_def vpcHasSSMEndpoints_def
  by (intro frame_intros frame_effectiveRouteTables frame_check_igw_routes) (simp_all add: builds_def)

lemmas frame_ops = frame_LatestAMI frame_validate_network frame_AssociateEIP frame_WaitForSSMOnline frame_WaitForLocalHealthz frame_MergeConfig
  frame_resolveSecret frame_GetCluster frame_ReleaseEIP frame_DisassociateEIP frame_TerminateInstance frame_DeleteSecurityGroup
  frame_reconcileIngress frame_findSecurityGroup frame_attach_policies

end

section \<open>The replay of a call\<close>

lemma run_adm_ask [simp]: "run_state (adm_ask f) s = (f (am_tick s), s\<lparr> am_tick := Suc (am_tick s) \<rparr>)"
  by (simp add: adm_ask_def)

lemma run_sdk:
  "run_state (sdk E c) s = ((am_tick s, av_err E (am_tick s) c),
     s\<lparr> am_tick := Suc (am_tick s), am_calls := am_calls s @ [(am_tick s, c, av_err E (am_tick s) c = None)] \<rparr>)"
  by (simp add: sdk_def Let_def)

lemma result_sdk: "result (sdk E c) s = (am_tick s, av_err E (am_tick s) c)"
  by (simp add: run_sdk)

lemma rollback_kept_sdk [simp]: "am_rollback (exec (sdk E c) s) = am_rollback s" "am_tick (exec (sdk E c) s) = Suc (am_tick s)"
  by (simp_all add: run_sdk)

lemma live_sdk:
  "live E (exec (sdk E c) s) =
     (if av_err E (am_tick s) c = None then (live E s - removed c) \<union> created E (am_tick s) c else live E s)"
  by (simp add: live_def run_sdk)

lemma live_frame [simp]:
  "live E (am_tick_update f s) = live E s" "live E (am_rollback_update g s) = live E s" "live E (am_table_update h s) = live E s"
  by (simp_all add: live_def)

lemma granted_frame [simp]:
  "granted (am_tick_update f s) = granted s" "granted (am_rollback_update g s) = granted s" "granted (am_table_update h s) = granted s"
  by (simp_all add: granted_def)

lemma created_not_builds: "\<not> builds c \<Longrightarrow> created E t c = {}"
  by (cases c) (simp_all add: builds_def created_def)

lemma granted_sdk: "granted (exec (sdk E c) s) = replay_grant (granted s) (am_tick s, c, av_err E (am_tick s) c = None)"
  by (simp add: granted_def run_sdk)

lemma replay_grant_not_builds: "\<not> builds c \<Longrightarrow> replay_grant g (t, c, ok) = g"
  by (cases c) (simp_all add: builds_def)

section \<open>The rollback stack covers what was created\<close>

definition covered :: "adm_env \<Rightarrow> adm_state \<Rightarrow> adm_state \<Rightarrow> bool" where
  "covered E s t \<longleftrightarrow>
     set (am_rollback s) \<subseteq> set (am_rollback t) \<and> live E t \<subseteq> live E s \<union> \<Union> (undone ` set (am_rollback t))"

interpretation cov: adm_frame "covered E" E for E
proof unfold_locales
  show "covered E s s" for s by (auto simp: covered_def)
  show "covered E s t \<Longrightarrow> covered E t u \<Longrightarrow> covered E s u" for s t u unfolding covered_def by blast
  show "covered E s (s\<lparr> am_tick := Suc (am_tick s) \<rparr>)" for s by (simp add: covered_def)
  show "\<not> builds c \<Longrightarrow> state_io_rel (covered E) (sdk E c)" for c
  proof -
    assume "\<not> builds c"
    then have "live E (exec (sdk E c) s) \<subseteq> live E s" for s by (auto simp: live_sdk created_not_builds)
    moreover have "am_rollback (exec (sdk E c) s) = am_rollback s" for s by (simp add: run_sdk)
    ultimately show ?thesis by (auto simp: state_io_rel_def covered_def)
  qed
qed

interpretation tab: adm_frame "\<lambda>s t. am_table t = am_table s" E for E
  by unfold_locales (auto simp: state_io_rel_def run_sdk)

interpretation grt: adm_frame "\<lambda>s t. granted t = granted s" E for E
  by unfold_locales (auto simp: state_io_rel_def granted_sdk replay_grant_not_builds)

definition adds_only :: "adm_env \<Rightarrow> cloud_resource set \<Rightarrow> adm_state \<Rightarrow> adm_state \<Rightarrow> bool" where
  "adds_only E A s t \<longleftrightarrow> am_rollback t = am_rollback s \<and> live E t \<subseteq> live E s \<union> A"

interpretation adds: adm_frame "adds_only E A" E for E A
proof unfold_locales
  show "adds_only E A s s" for s by (simp add: adds_only_def)
  show "adds_only E A s t \<Longrightarrow> adds_only E A t u \<Longrightarrow> adds_only E A s u" for s t u by (auto simp: adds_only_def)
  show "adds_only E A s (s\<lparr> am_tick := Suc (am_tick s) \<rparr>)" for s by (simp add: adds_only_def)
  show "\<not> builds c \<Longrightarrow> state_io_rel (adds_only E A) (sdk E c)" for c
    by (auto simp: state_io_rel_def adds_only_def live_sdk created_not_builds)
qed

text \<open>A step that obtains the resources of its rollback action, or nothing when it fails.\<close>

definition obtains_only :: "adm_env \<Rightarrow> (go_error + 'a) adm \<Rightarrow> ('a \<Rightarrow> rollback_action) \<Rightarrow> bool" where
  "obtains_only E m act \<longleftrightarrow> (\<forall>s. am_rollback (exec m s) = am_rollback s \<and>
     live E (exec m s) \<subseteq> live E s \<union> (case result m s of Inl _ \<Rightarrow> {} | Inr x \<Rightarrow> undone (act x)))"

lemma eff_acquire:
  assumes "obtains_only E m act" and "\<And>x. state_io_rel (covered E) (k x)"
  shows "state_io_rel (covered E) (acquire m act k)"
  unfolding state_io_rel_def
proof
  fix s
  define t where "t = exec m s"
  have t: "am_rollback t = am_rollback s" "live E t \<subseteq> live E s \<union> (case result m s of Inl _ \<Rightarrow> {} | Inr x \<Rightarrow> undone (act x))"
    using assms(1) by (auto simp: obtains_only_def t_def)
  show "covered E s (exec (acquire m act k) s)"
  proof (cases "result m s")
    case (Inl e)
    then show ?thesis using t by (simp add: acquire_def bindE_def exec_bind covered_def t_def del: run_state_bind) blast
  next
    case (Inr x)
    let ?u = "am_rollback_update (\<lambda>as. as @ [act x]) t"
    have "covered E s ?u" using t Inr by (auto simp: covered_def)
    moreover have "covered E ?u (exec (k x) ?u)" using assms(2) by (simp add: state_io_rel_def)
    ultimately have "covered E s (exec (k x) ?u)" by (rule cov.R_trans)
    then show ?thesis using Inr by (simp add: acquire_def bindE_def exec_bind rollback_add_def t_def del: run_state_bind)
  qed
qed

lemma obtains_wrapE: "obtains_only E m act \<Longrightarrow> obtains_only E (wrapE f m) act"
  by (auto simp: obtains_only_def wrapE_def exec_bind result_bind split: sum.splits simp del: run_state_bind)

lemma exec_call: "exec (call E c f args) s = exec (sdk E c) s"
  by (simp add: call_def exec_bind prod.case_eq_if del: run_state_bind)

lemma result_call:
  "result (call E c f args) s =
     (case av_err E (am_tick s) c of None \<Rightarrow> Inr (am_tick s) | Some err \<Rightarrow> Inl (Errorf f (args @ [Wrap err])))"
  by (simp add: call_def result_bind run_sdk prod.case_eq_if split: option.split del: run_state_bind)

lemmas adm_run = exec_bind result_bind exec_bindE result_bindE exec_call result_call

lemma obtains_Launch:
  assumes "creation_completes E" "proper_ids E"
  shows "obtains_only E (checked (LaunchInstance E ami spec)) (\<lambda>(i, _). RbTerminate i)"
proof -
  have ok: "av_err E t (WaitRunning i) = None" "av_err E t (DescribeInstances i) = None" "av_net E t \<noteq> None" for t i
    using assms by (auto simp: creation_completes_def completes_def)
  have "created E t (WaitRunning i) = {}" "created E t (DescribeInstances i) = {}" for t i by (simp_all add: created_def)
  then show ?thesis
    using assms(2) by (auto simp: obtains_only_def proper_ids_def checked_def LaunchInstance_def adm_run live_sdk ok created_def removed_def undone_def
      split: option.splits sum.splits prod.splits if_splits simp del: run_state_bind)
qed

lemma obtains_Allocate: "proper_ids E \<Longrightarrow> obtains_only E (AllocateEIP E name) (\<lambda>(a, _). RbReleaseEIP a)"
  by (auto simp: obtains_only_def proper_ids_def AllocateEIP_def adm_run live_sdk created_def removed_def undone_def prod.case_eq_if
    split: option.splits sum.splits if_splits simp del: run_state_bind)

lemma obtains_Node: "obtains_only E (call E (OrchCreateNode server name ip labels) f args) (\<lambda>_. RbDeleteNode server name)"
  by (auto simp: obtains_only_def adm_run live_sdk created_def removed_def undone_def split: option.splits)

lemma obtains_Put: "obtains_only E (PutECRPullPolicy E b region acct ps) act"
  by (auto simp: obtains_only_def PutECRPullPolicy_def Let_def adm_run live_sdk created_def removed_def
    split: option.splits sum.splits if_splits simp del: run_state_bind)

lemma reconcile_completes: "creation_completes E \<Longrightarrow> result (reconcileIngress E g rules) s = Inr ()"
  by (auto simp: reconcileIngress_def adm_run creation_completes_def completes_def split: option.splits sum.splits if_splits
    simp del: run_state_bind)

text \<open>A resource is obtained by the first part, and the rest completes it without an error.\<close>

lemma obtains_then:
  assumes m: "obtains_only E m got" and k: "\<And>x. state_io_rel (adds_only E (undone (got x))) (k x)"
    and ok: "\<And>x s. \<exists>y. result (k x) s = Inr y \<and> act y = got x"
  shows "obtains_only E (bindE m k) act"
  unfolding obtains_only_def
proof
  fix s
  show "am_rollback (exec (bindE m k) s) = am_rollback s \<and>
     live E (exec (bindE m k) s) \<subseteq> live E s \<union> (case result (bindE m k) s of Inl _ \<Rightarrow> {} | Inr x \<Rightarrow> undone (act x))"
  proof (cases "result m s")
    case (Inl e)
    then show ?thesis using m [unfolded obtains_only_def, rule_format, of s] by (simp add: adm_run)
  next
    case (Inr x)
    obtain y where y: "result (k x) (exec m s) = Inr y" "act y = got x" using ok by blast
    have "adds_only E (undone (got x)) (exec m s) (exec (k x) (exec m s))" using k by (simp add: state_io_rel_def)
    then show ?thesis using m [unfolded obtains_only_def, rule_format, of s] Inr y by (auto simp: adm_run adds_only_def)
  qed
qed

lemma checked_EnsureSecurityGroup:
  "checked (EnsureSecurityGroup E vpc name rules) =
     bindE (group_id E vpc name) (\<lambda>g. bindE (reconcileIngress E g rules) (\<lambda>_. ret (Inr g)))"
  by (rule state_ext)
    (auto simp: checked_def EnsureSecurityGroup_def bindE_def prod_eq_iff exec_bind result_bind split: sum.split simp del: run_state_bind)

lemma obtains_Group:
  assumes "creation_completes E" "proper_ids E"
  shows "obtains_only E (checked (EnsureSecurityGroup E vpc name rules)) RbDeleteSG"
  unfolding checked_EnsureSecurityGroup
proof (rule obtains_then [where got = RbDeleteSG])
  have "adds_only E {} s (exec (findSecurityGroupByName E vpc name) s)" for s
    using adds.frame_findSecurityGroup by (simp add: state_io_rel_def)
  then show "obtains_only E (group_id E vpc name) RbDeleteSG"
    using assms(2) by (auto simp: proper_ids_def obtains_only_def group_id_def adm_run live_sdk created_def removed_def undone_def adds_only_def prod.case_eq_if
      split: option.splits sum.splits if_splits simp del: run_state_bind)
  show "state_io_rel (adds_only E (undone (RbDeleteSG g))) (bindE (reconcileIngress E g rules) (\<lambda>_. ret (Inr g)))" for g
    by (intro adds.frame_intros adds.frame_ops)
  show "\<exists>y. result (bindE (reconcileIngress E g rules) (\<lambda>_. ret (Inr g))) s = Inr y \<and> RbDeleteSG y = RbDeleteSG g" for g s
    by (simp add: result_bindE reconcile_completes [OF assms(1)])
qed

lemma attach_completes: "creation_completes E \<Longrightarrow> result (attach_policies E r ps) s = Inr ()"
  by (induction ps arbitrary: s) (auto simp: adm_run creation_completes_def completes_def split: option.splits sum.splits
    simp del: run_state_bind)

lemma exists_call_run:
  "exec (exists_call E c f args) s = exec (sdk E c) s"
  "result (exists_call E c f args) s = (case av_err E (am_tick s) c of
     None \<Rightarrow> Inr True | Some err \<Rightarrow> if av_iamMissing E err then Inr False else Inl (Errorf f (args @ [Wrap err])))"
  by (simp_all add: exists_call_def exec_bind result_bind prod.case_eq_if run_sdk split: option.split del: run_state_bind)

lemma profile_completes: "creation_completes E \<Longrightarrow> \<exists>y. result (ensure_profile E r p) s = Inr y"
  by (auto simp: ensure_profile_def adm_run exists_call_run creation_completes_def completes_def split: option.splits sum.splits
    simp del: run_state_bind)

lemma eff_creates: "(\<And>t. created E t c \<subseteq> A) \<Longrightarrow> state_io_rel (adds_only E A) (sdk E c)"
  by (auto simp: state_io_rel_def adds_only_def live_sdk split: if_splits)

lemma obtains_Profile:
  assumes "creation_completes E"
  shows "obtains_only E (EnsureInstanceProfile E name ps) (\<lambda>_. RbDeleteProfile name)"
  unfolding EnsureInstanceProfile_def Let_def
proof (rule obtains_then [where got = "\<lambda>_. RbDeleteProfile name"])
  let ?r = "name @ ''-role''" and ?p = "name @ ''-profile''"
  show "obtains_only E (ensure_role E ?r) (\<lambda>_. RbDeleteProfile name)"
    by (auto simp: obtains_only_def ensure_role_def adm_run exists_call_run live_sdk created_def removed_def undone_def
      split: option.splits sum.splits if_splits simp del: run_state_bind)
  have "state_io_rel (adds_only E {Profile ?p, Role ?r}) (ensure_profile E ?r ?p)"
    unfolding ensure_profile_def exists_call_def call_def
    by (intro adds.frame_intros eff_creates) (auto simp: created_def builds_def)
  then show "state_io_rel (adds_only E (undone (RbDeleteProfile name)))
      (bindE (attach_policies E ?r (ssmPolicy # ps)) (\<lambda>_. ensure_profile E ?r ?p))"
    by (intro adds.eff_bindE adds.frame_ops) (simp add: undone_def insert_commute)
  show "\<exists>y. result (bindE (attach_policies E ?r (ssmPolicy # ps)) (\<lambda>_. ensure_profile E ?r ?p)) s = Inr y \<and>
      RbDeleteProfile name = RbDeleteProfile name" for s
    using profile_completes [OF assms] by (simp add: result_bindE attach_completes [OF assms] del: attach_policies.simps)
qed

section \<open>The operations\<close>

lemma eff_table: "state_io_rel (covered E) (modify (am_table_update h))"
  by (auto simp: state_io_rel_def covered_def)

lemma eff_SaveCluster: "state_io_rel (covered E) (SaveCluster E c)"
  unfolding SaveCluster_def by (intro cov.frame_intros eff_table) (simp add: builds_def)

lemma eff_PutNewCluster: "state_io_rel (covered E) (PutNewCluster E c)"
  unfolding PutNewCluster_def by (intro cov.frame_intros eff_table) (simp add: builds_def)

lemmas obtains_steps = obtains_wrapE obtains_Launch obtains_Allocate obtains_Node obtains_Put obtains_Group obtains_Profile

lemma obtains_Associate: "obtains_only E (AssociateEIPByAllocationID E i a) act"
proof -
  have "adds_only E {} s (exec (AssociateEIPByAllocationID E i a) s)" for s
    using adds.frame_AssociateEIP by (simp add: state_io_rel_def)
  then show ?thesis by (auto simp: obtains_only_def adds_only_def)
qed

lemmas eff_ops = cov.frame_intros cov.frame_ops eff_acquire eff_SaveCluster eff_PutNewCluster obtains_steps obtains_Associate

lemma eff_register_worker: "state_io_rel (covered E) (register_worker E server name ip external labels)"
  unfolding register_worker_def by (intro eff_ops) (simp add: builds_def)

lemma eff_worker_create:
  "creation_completes E \<Longrightarrow> proper_ids E \<Longrightarrow> state_io_rel (covered E) (worker_create E acct inp cluster name pats gib rb eip)"
  unfolding worker_create_def worker_launch_def worker_started_def by (intro eff_ops eff_register_worker)

lemma eff_cluster_create:
  "creation_completes E \<Longrightarrow> proper_ids E \<Longrightarrow> state_io_rel (covered E) (cluster_create E inp name cidr gib eip)"
  unfolding cluster_create_def create_parts_def launch_control_plane_def control_plane_started_def by (intro eff_ops)

text \<open>An action of the stack takes away what it undoes.\<close>

lemma live_cleanup: "cleanup_works E \<Longrightarrow> cleans_up c \<Longrightarrow> live E (exec (sdk E c) s) = (live E s - removed c) \<union> created E (am_tick s) c"
  by (simp add: live_sdk cleanup_works_def)

lemma clean_result: "cleanup_works E \<Longrightarrow> cleans_up c \<Longrightarrow> av_err E t c = None"
  by (simp add: cleanup_works_def)

lemma exec_Disassociate:
  assumes "cleanup_works E"
  shows "live E (exec (DisassociateEIP E a) s) = live E s \<and> result (DisassociateEIP E a) s = None"
  by (auto simp: DisassociateEIP_def adm_run run_sdk prod.case_eq_if clean_result [OF assms] cleans_up_def
      live_def created_def removed_def split: option.split prod.split simp del: run_state_bind)

lemma detach_adds: "live E (exec (detach_policies E r ps) s) \<subseteq> live E s \<and> (cleanup_works E \<longrightarrow> result (detach_policies E r ps) s = Inr ())"
proof (induction ps arbitrary: s)
  case (Cons p ps)
  have "live E (exec (sdk E (DetachRolePolicy r p)) s) \<subseteq> live E s"
    by (simp add: live_sdk created_def removed_def)
  then show ?case using Cons [of "exec (sdk E (DetachRolePolicy r p)) s"]
    by (auto simp: unless_missing_def adm_run exists_call_run clean_result cleans_up_def split: option.splits sum.splits if_splits simp del: run_state_bind)
qed simp

lemma run_unless:
  "exec (unless_missing E c f args) s = exec (sdk E c) s"
  "cleanup_works E \<Longrightarrow> cleans_up c \<Longrightarrow> result (unless_missing E c f args) s = Inr ()"
  by (auto simp: unless_missing_def adm_run exists_call_run clean_result split: sum.split simp del: run_state_bind)

lemma profile_undone:
  assumes "cleanup_works E"
  shows "live E (exec (DeleteInstanceProfile E b []) s) \<subseteq> live E s - {Role (b @ ''-role''), Profile (b @ ''-profile'')}"
proof -
  have d: "live E (exec (detach_policies E r ps) t) \<subseteq> live E t" "result (detach_policies E r ps) t = Inr ()" for r ps t
    using detach_adds [of E r ps t] assms by auto
  show ?thesis
    by (auto simp: d(2) DeleteInstanceProfile_def DeleteECRPullPolicy_def Let_def adm_run run_unless assms cleans_up_def
        live_cleanup created_def removed_def dest!: d(1) [THEN subsetD] simp del: run_state_bind detach_policies.simps)
qed

lemma terminate_undone:
  "cleanup_works E \<Longrightarrow> i \<noteq> [] \<Longrightarrow> live E (exec (TerminateInstance E i) s) = live E s - {Instance i}"
  by (simp add: TerminateInstance_def adm_run result_sdk live_cleanup clean_result cleans_up_def created_def removed_def del: run_state_bind)

lemma release_undone:
  "cleanup_works E \<Longrightarrow> a \<noteq> [] \<Longrightarrow> live E (exec (ReleaseEIP E a) s) = live E s - {Address a}"
  using exec_Disassociate [of E a s]
  by (simp add: ReleaseEIP_def adm_run result_sdk live_cleanup clean_result cleans_up_def created_def removed_def del: run_state_bind)

lemma group_undone:
  "cleanup_works E \<Longrightarrow> g \<noteq> [] \<Longrightarrow> live E (exec (DeleteSecurityGroup E g) s) = live E s - {Group g}"
  by (simp add: DeleteSecurityGroup_def adm_run result_sdk live_cleanup clean_result cleans_up_def created_def removed_def del: run_state_bind)

lemma exec_as_result: "exec (as_result m) s = exec m s"
  by (simp add: as_result_def exec_bind del: run_state_bind)

lemma run_action_undoes:
  assumes "cleanup_works E"
  shows "live E (exec (run_action E a) s) \<subseteq> live E s - undone a"
proof (cases a)
  case (RbRestoreECR b r acct prev)
  then show ?thesis
    by (auto simp: DeleteECRPullPolicy_def PutECRPullPolicy_def Let_def adm_run run_unless live_sdk created_def removed_def undone_def
      split: option.splits sum.splits if_splits simp del: run_state_bind)
next
  case (RbTerminate i)
  then show ?thesis using terminate_undone [OF assms, of i s] by (cases "i = []") (auto simp: exec_as_result undone_def TerminateInstance_def)
next
  case (RbDisassociate i)
  then show ?thesis using exec_Disassociate [OF assms] by (simp add: exec_as_result undone_def)
next
  case (RbDeleteNode server name)
  then show ?thesis
    by (auto simp: adm_run live_cleanup [OF assms] clean_result [OF assms] cleans_up_def created_def removed_def undone_def split: sum.splits)
next
  case (RbReleaseEIP i)
  then show ?thesis using release_undone [OF assms, of i s] by (cases "i = []") (auto simp: exec_as_result undone_def ReleaseEIP_def)
next
  case (RbDeleteSG i)
  then show ?thesis using group_undone [OF assms, of i s] by (cases "i = []") (auto simp: exec_as_result undone_def DeleteSecurityGroup_def)
next
  case (RbDeleteProfile b)
  then show ?thesis using profile_undone [OF assms] by (simp add: undone_def)
qed

lemma rollback_undoes:
  assumes "cleanup_works E"
  shows "live E (exec (for_each as (\<lambda>a. do { _ \<leftarrow> run_action E a; ret () })) s) \<subseteq> live E s - \<Union> (undone ` set as)"
proof (induction as arbitrary: s)
  case (Cons a as)
  let ?t = "exec (run_action E a) s"
  have "live E (exec (for_each as (\<lambda>a. do { _ \<leftarrow> run_action E a; ret () })) ?t) \<subseteq> live E ?t - \<Union> (undone ` set as)" by (rule Cons)
  then show ?case using run_action_undoes [OF assms, of a s] by (auto simp: exec_bind simp del: run_state_bind)
qed simp

lemma with_rollback_undoes:
  assumes "cleanup_works E" "state_io_rel (covered E) body" "result (with_rollback E body) s = Inl err"
  shows "live E (exec (with_rollback E body) s) \<subseteq> live E s"
proof -
  let ?s = "s\<lparr> am_rollback := [] \<rparr>"
  define t where "t = exec body ?s"
  have r: "result body ?s = Inl err" using assms(3) by (simp add: with_rollback_def result_bind del: run_state_bind)
  have "covered E ?s t" using assms(2) by (simp add: state_io_rel_def t_def)
  then have "live E t \<subseteq> live E s \<union> \<Union> (undone ` set (am_rollback t))" by (simp add: covered_def)
  then have "live E (exec (rollback_run E) t) \<subseteq> live E s"
    using rollback_undoes [OF assms(1), of "rev (am_rollback t)" t]
    by (auto simp: rollback_run_def exec_bind simp del: run_state_bind)
  then show ?thesis using r by (simp add: with_rollback_def exec_bind t_def del: run_state_bind)
qed

section \<open>The table of clusters\<close>

abbreviation same_table :: "adm_state \<Rightarrow> adm_state \<Rightarrow> bool" where
  "same_table s t \<equiv> am_table t = am_table s"

lemma tab_sdk: "state_io_rel same_table (sdk E c)"
  by (simp add: state_io_rel_def run_sdk)

lemma tab_call: "state_io_rel same_table (call E c f args)"
  by (simp add: state_io_rel_def exec_call run_sdk)

lemma tab_rollback: "state_io_rel same_table (modify (am_rollback_update g))"
  by (simp add: state_io_rel_def)

lemmas tab_intros = tab.eff_ret tab.eff_gets tab.eff_bind tab.eff_if tab.eff_case_option tab.eff_case_sum tab.eff_case_prod tab.eff_bindE
  tab.eff_let tab.eff_for_each tab.frame_ask tab_sdk tab_call tab_rollback tab.frame_wrapE tab.frame_as_result tab.frame_checked tab.frame_ops

lemma tab_LaunchInstance: "state_io_rel same_table (LaunchInstance E a sp)"
  unfolding LaunchInstance_def by (intro tab_intros)

lemma tab_EnsureSecurityGroup: "state_io_rel same_table (EnsureSecurityGroup E v n r)"
  unfolding EnsureSecurityGroup_def group_id_def by (intro tab_intros)

lemma tab_EnsureInstanceProfile: "state_io_rel same_table (EnsureInstanceProfile E n ps)"
  unfolding EnsureInstanceProfile_def ensure_role_def ensure_profile_def exists_call_def by (intro tab_intros)

lemma tab_AllocateEIP: "state_io_rel same_table (AllocateEIP E n)"
  unfolding AllocateEIP_def by (intro tab_intros)

lemma tab_detach: "state_io_rel same_table (detach_policies E r ps)"
  by (induction ps) (auto simp: unless_missing_def exists_call_def intro!: tab_intros)

lemma tab_DeleteInstanceProfile: "state_io_rel same_table (DeleteInstanceProfile E n ps)"
  unfolding DeleteInstanceProfile_def DeleteECRPullPolicy_def unless_missing_def exists_call_def by (intro tab_intros tab_detach)

lemma tab_PutECR: "state_io_rel same_table (PutECRPullPolicy E b r a ps)"
  unfolding PutECRPullPolicy_def by (intro tab_intros)

lemma tab_DeleteECR: "state_io_rel same_table (DeleteECRPullPolicy E b)"
  unfolding DeleteECRPullPolicy_def unless_missing_def exists_call_def by (intro tab_intros)

lemma tab_run_action: "state_io_rel same_table (run_action E a)"
  by (cases a) (auto intro!: tab_intros tab_PutECR tab_DeleteECR tab_DeleteInstanceProfile)

lemma tab_rollback_run: "state_io_rel same_table (rollback_run E)"
  unfolding rollback_run_def by (intro tab_intros tab_run_action)

lemma fails_acquire:
  "state_io_rel same_table m \<Longrightarrow> (\<And>x. fails_within same_table (k x)) \<Longrightarrow> fails_within same_table (acquire m act k)"
  unfolding acquire_def rollback_add_def by (intro tab.fails_bindE tab.fails_bind tab_rollback)

lemma fails_with_rollback: "fails_within same_table body \<Longrightarrow> fails_within same_table (with_rollback E body)"
  using tab_rollback_run [of E]
  by (auto simp: fails_within_def with_rollback_def state_io_rel_def exec_bind result_bind split: sum.splits simp del: run_state_bind)

lemma fails_SaveCluster: "fails_within same_table (SaveCluster E c)"
  by (auto simp: fails_within_def SaveCluster_def adm_run run_sdk split: option.splits sum.splits if_splits simp del: run_state_bind)

lemma fails_PutNewCluster: "fails_within same_table (PutNewCluster E c)"
  by (auto simp: fails_within_def PutNewCluster_def adm_run run_sdk split: option.splits sum.splits if_splits simp del: run_state_bind)

lemmas table_fails = tab.fails_intros fails_acquire fails_with_rollback fails_SaveCluster fails_PutNewCluster

lemma tab_register: "state_io_rel same_table (register_worker E server name ip external labels)"
  unfolding register_worker_def acquire_def rollback_add_def by (intro tab_intros)

lemma worker_create_clean: "fails_within same_table (worker_create E acct inp cluster name pats gib rb eip)"
  unfolding worker_create_def worker_launch_def worker_started_def
  by (intro table_fails tab_intros tab_LaunchInstance tab_PutECR tab_register; (unfold acquire_def rollback_add_def)?; intro tab_intros)

lemma cluster_create_clean: "fails_within same_table (cluster_create E inp name cidr gib eip)"
  unfolding cluster_create_def create_parts_def launch_control_plane_def control_plane_started_def
  by (intro table_fails tab_intros tab_LaunchInstance tab_EnsureSecurityGroup tab_EnsureInstanceProfile tab_AllocateEIP;
    (unfold acquire_def rollback_add_def)?; intro tab_intros)

section \<open>Failed operations\<close>

definition no_new :: "adm_env \<Rightarrow> adm_state \<Rightarrow> adm_state \<Rightarrow> bool" where
  "no_new E s t \<longleftrightarrow> live E t \<subseteq> live E s"

interpretation nonew: adm_frame "no_new E" E for E
proof unfold_locales
  show "\<not> builds c \<Longrightarrow> state_io_rel (no_new E) (sdk E c)" for c
    by (auto simp: state_io_rel_def no_new_def live_sdk created_not_builds)
qed (auto simp: no_new_def)

lemma fails_rolled_back:
  "cleanup_works E \<Longrightarrow> state_io_rel (covered E) body \<Longrightarrow> fails_within (no_new E) (with_rollback E body)"
  unfolding fails_within_def no_new_def using with_rollback_undoes by blast


text \<open>A cloud in which everything works but one call: looking for the security group.\<close>

definition broken_cloud :: "(aws_call \<Rightarrow> bool) \<Rightarrow> adm_env" where
  "broken_cloud fails =
     \<lparr> av_err = (\<lambda>t c. if fails c then Some (ErrNew ''broken'') else None), av_code = (\<lambda>_. []), av_message = (\<lambda>_. []),
       av_iamMissing = (\<lambda>_. True), av_archs = (\<lambda>_. Some [''x86_64'']), av_images = (\<lambda>_. [(''ami-1'', None)]),
       av_runID = (\<lambda>_. Some ''i-1''), av_net = (\<lambda>_. Some (Some ''10.0.0.5'', None)), av_address = (\<lambda>_. Some (Some ''1.2.3.4'', None)),
       av_alloc = (\<lambda>_. (''eipalloc-1'', ''1.2.3.4'')), av_sgByName = (\<lambda>_. None), av_newSG = (\<lambda>_. ''sg-1''), av_sgPerms = (\<lambda>_. Some 0),
       av_vpc = (\<lambda>_. Some (''available'', Some ''10.0.0.0/16'')),
       av_subnets = (\<lambda>_. [(''s1'', \<lparr> an_VpcId = Some ''v'', an_State = ''available'' \<rparr>)]),
       av_routes = (\<lambda>_. [[\<lparr> ao_GatewayId = Some ''igw-1'', ao_NatGatewayId = None, ao_active = True \<rparr>]]), av_endpoints = (\<lambda>_. []),
       av_online = (\<lambda>_. True), av_commandID = (\<lambda>_. ''c''), av_invocation = (\<lambda>_. (''SBX_HEALTHY_OK'', [], ''Success'')),
       av_rounds = (\<lambda>_. 0), av_now = (\<lambda>_. 0), av_random = (\<lambda>_. Inr ''secret''), av_defaults = (\<lambda>_. Some []),
       av_override = (\<lambda>_ _. Inr []), av_noTable = (\<lambda>_. False), av_encoded = (\<lambda>_. []) \<rparr>"

definition no_groups :: "aws_call \<Rightarrow> bool" where
  "no_groups c = (case c of DescribeSGByName _ _ \<Rightarrow> True | _ \<Rightarrow> False)"

definition small_cluster :: CreateClusterInput where
  "small_cluster = \<lparr> cc_Name = ''c'', cc_Version = ''v1'', cc_VPCID = ''v'', cc_PublicSubnetIDs = [''s1''], cc_PrivateSubnetIDs = [''s1''],
     cc_Region = ''r'', cc_OrchInstanceType = ''t'', cc_OrchPublicEndpoint = True, cc_OrchPublicEIP = [], cc_OrchRootVolume = [],
     cc_OrchConfigPath = [], cc_SharedSecret = [] \<rparr>"

definition adm_start :: adm_state where
  "adm_start = \<lparr> am_table = [], am_calls = [], am_rollback = [], am_tick = 0 \<rparr>"

lemma run_with_rollback: "result (with_rollback E body) s = result body (s\<lparr> am_rollback := [] \<rparr>)"
  by (simp add: with_rollback_def result_bind del: run_state_bind)

lemma result_wrapE: "result (wrapE f m) s = (case result m s of Inl err \<Rightarrow> Inl (Errorf f [Wrap err]) | Inr v \<Rightarrow> Inr v)"
  by (simp add: wrapE_def result_bind del: run_state_bind)

lemma exec_wrapE: "exec (wrapE f m) s = exec m s"
  by (simp add: wrapE_def exec_bind del: run_state_bind)

lemma result_acquire:
  "result (acquire m act k) s = (case result m s of Inl e \<Rightarrow> Inl e | Inr x \<Rightarrow> result (k x) (am_rollback_update (\<lambda>as. as @ [act x]) (exec m s)))"
  by (simp add: acquire_def rollback_add_def result_bindE result_bind split: sum.split del: run_state_bind)

lemma broken_answers:
  "av_err (broken_cloud fails) t c = (if fails c then Some (ErrNew ''broken'') else None)"
  "av_vpc (broken_cloud fails) t = Some (''available'', Some ''10.0.0.0/16'')"
  "av_subnets (broken_cloud fails) t = [(''s1'', \<lparr> an_VpcId = Some ''v'', an_State = ''available'' \<rparr>)]"
  "av_routes (broken_cloud fails) t = [[\<lparr> ao_GatewayId = Some ''igw-1'', ao_NatGatewayId = None, ao_active = True \<rparr>]]"
  "av_alloc (broken_cloud fails) t = (''eipalloc-1'', ''1.2.3.4'')" "av_newSG (broken_cloud fails) t = ''sg-1''"
  "av_runID (broken_cloud fails) t = Some ''i-1''" "av_net (broken_cloud fails) t = Some (Some ''10.0.0.5'', None)"
  "av_sgPerms (broken_cloud fails) t = Some 0" "av_iamMissing (broken_cloud fails) e"
  "av_archs (broken_cloud fails) t = Some [''x86_64'']" "av_images (broken_cloud fails) t = [(''ami-1'', None)]"
  "av_defaults (broken_cloud fails) k = Some []"
  by (simp_all add: broken_cloud_def)

lemma small_igw: "result (SubnetHasIGWRoute (broken_cloud no_groups) v sn) s = Inr True"
  by (simp add: SubnetHasIGWRoute_def effectiveRouteTables_def adm_run broken_answers no_groups_def or_empty_def HasPrefix_def
    del: run_state_bind)

lemma small_subnets: "result (ValidateSubnets (broken_cloud no_groups) ''v'' [''s1'']) s = Inr ()"
  by (simp add: ValidateSubnets_def adm_run broken_answers no_groups_def check_subnet_def del: run_state_bind)

lemma small_vpc: "result (ValidateVPCAndGetCIDR (broken_cloud no_groups) v) s = Inr ''10.0.0.0/16''"
  by (simp add: ValidateVPCAndGetCIDR_def adm_run broken_answers no_groups_def or_empty_def del: run_state_bind)

lemma small_network: "result (validate_network (broken_cloud no_groups) small_cluster) s = Inr ''10.0.0.0/16''"
  by (simp add: validate_network_def small_cluster_def check_private_egress_def result_bindE result_wrapE small_igw small_subnets small_vpc)

lemma small_create: "\<exists>err. result (cluster_create (broken_cloud no_groups) small_cluster name cidr g []) s = Inl err"
  by (simp add: cluster_create_def create_parts_def small_cluster_def result_acquire result_wrapE AllocateEIP_def checked_EnsureSecurityGroup
    group_id_def findSecurityGroupByName_def Let_def adm_run broken_answers no_groups_def del: run_state_bind)

lemma small_texts: "TrimSpace (cc_Name small_cluster) = ''c'' \<and> TrimSpace (cc_OrchRootVolume small_cluster) = []"
  by code_simp

lemma small_inputs:
  "TrimSpace (cc_Name small_cluster) = ''c''" "cc_OrchPublicEIP small_cluster = []" "cc_OrchPublicEndpoint small_cluster"
  "root_volume (cc_OrchRootVolume small_cluster) g f = Inr g" "eip_allocation [] f = Inr []"
  using small_texts by (simp_all add: root_volume_def eip_allocation_def) (simp_all add: small_cluster_def)

lemma no_cluster_yet: "am_table s = [] \<Longrightarrow> result (GetCluster (broken_cloud no_groups) n) s = Inl ErrClusterNotFound"
  by (simp add: GetCluster_def adm_run broken_answers no_groups_def run_sdk del: run_state_bind)

lemma small_cluster_fails: "\<exists>err. result (CreateCluster (broken_cloud no_groups) small_cluster) adm_start = Inl err"
  using small_create [of "''c''" "''10.0.0.0/16''" defaultOrchRootVolumeGiB]
  by (simp add: CreateCluster_def Let_def result_bind result_bindE small_inputs no_cluster_yet adm_start_def small_network run_with_rollback
    del: run_state_bind)

lemma broken_cloud_ok:
  "(\<And>c. cleans_up c \<or> completes c \<Longrightarrow> \<not> fails c) \<Longrightarrow>
   cleanup_works (broken_cloud fails) \<and> creation_completes (broken_cloud fails) \<and> proper_ids (broken_cloud fails)"
  by (auto simp: cleanup_works_def creation_completes_def proper_ids_def broken_answers)

lemma no_groups_ok: "cleans_up c \<or> completes c \<Longrightarrow> \<not> no_groups c"
  by (cases c) (simp_all add: cleans_up_def completes_def no_groups_def)


text \<open>
  The same of a worker: a failed \<open>CreateWorker\<close> leaves no instance and no node object behind, and the record of the cluster unchanged.
\<close>

theorem failed_worker_leaves_nothing:
  assumes "cleanup_works E" "creation_completes E" "proper_ids E" "result (CreateWorker E acct inp) s = Inl err"
  shows "live E (exec (CreateWorker E acct inp) s) \<subseteq> live E s \<and> am_table (exec (CreateWorker E acct inp) s) = am_table s"
proof -
  have "fails_within (no_new E) (CreateWorker E acct inp)" unfolding CreateWorker_def
    by (intro nonew.fails_intros nonew.eff_ret nonew.frame_wrapE nonew.frame_ops fails_rolled_back eff_worker_create assms)
  moreover have "fails_within same_table (CreateWorker E acct inp)" unfolding CreateWorker_def
    by (intro table_fails tab_intros worker_create_clean)
  ultimately show ?thesis using assms(4) by (simp add: fails_within_def no_new_def)
qed

text \<open>
  Without the assumption about the completion of a creation this does not hold: an instance that was started and then is not
  seen running is returned by \<open>LaunchInstance\<close> together with the error, and the caller returns before the instance is on the
  rollback stack. The instance stays, and no record names it.
\<close>

definition never_running :: "aws_call \<Rightarrow> bool" where
  "never_running c = (case c of WaitRunning _ \<Rightarrow> True | _ \<Rightarrow> False)"

lemma unfinished_launch:
  fixes f act k ami spec
  defines "m \<equiv> acquire (wrapE f (checked (LaunchInstance (broken_cloud never_running) ami spec))) act k"
  shows "(\<exists>err. result m s = Inl err) \<and> Instance ''i-1'' \<in> live (broken_cloud never_running) (exec m s) \<and> am_rollback (exec m s) = am_rollback s"
  unfolding m_def
  by (auto simp: acquire_def exec_bindE exec_wrapE result_bindE result_wrapE checked_def LaunchInstance_def adm_run live_sdk broken_answers
    never_running_def created_def removed_def prod.case_eq_if result_sdk simp del: run_state_bind)

definition small_worker :: CreateWorkerInput where
  "small_worker = \<lparr> cw_Name = ''w'', cw_Version = ''v1'', cw_ClusterName = ''c'', cw_InstanceType = ''t'', cw_RuntimeBinary = [],
     cw_RootVolume = [], cw_External = [], cw_PublicEIP = [], cw_NodeLabels = [], cw_ConfigPath = [], cw_ECRRepos = [], cw_OrchServer = [] \<rparr>"

definition one_cluster :: adm_state where
  "one_cluster = adm_start\<lparr> am_table := [(''c'', new_cluster small_cluster
     \<lparr> cl_name = ''c'', cl_rootGiB = 16, cl_eipAllocID = [], cl_eipManaged = False, cl_orchSGID = ''sg-o'', cl_workerSGID = ''sg-w'',
       cl_cpProfile = ''p'', cl_workerProfile = ''q'' \<rparr> ''secret'' [] ''s1'' ''i-0'' ''10.0.0.4'' [] 0)] \<rparr>"

lemma small_worker_texts:
  "TrimSpace (cw_Name small_worker) = ''w'' \<and> TrimSpace (cw_RootVolume small_worker) = [] \<and>
   ParseECRRepoPatterns (cw_ECRRepos small_worker) = Inr [] \<and> worker_runtime (cw_RuntimeBinary small_worker) = Inr ''runsc'' \<and>
   isl (Render ''sbxlet'' (cw_Version small_worker) []) = False"
  by code_simp

lemma small_worker_launch:
  "(\<exists>err. result (worker_launch (broken_cloud never_running) small_worker cluster name g rb eip merged) s = Inl err) \<and>
   Instance ''i-1'' \<in> live (broken_cloud never_running) (exec (worker_launch (broken_cloud never_running) small_worker cluster name g rb eip merged) s) \<and>
   am_rollback (exec (worker_launch (broken_cloud never_running) small_worker cluster name g rb eip merged) s) = am_rollback s"
proof -
  let ?E = "broken_cloud never_running"
  have ami: "result (LatestUbuntuAMIForInstanceType ?E t) u = Inr ''ami-1''"
      "am_rollback (exec (LatestUbuntuAMIForInstanceType ?E t) u) = am_rollback u" for t u
    by (simp_all add: LatestUbuntuAMIForInstanceType_def InstanceTypeArch_def adm_run broken_answers never_running_def del: run_state_bind)
  obtain conf where conf: "result (MergeConfig ?E k [] sec [] fin) u = Inr (conf sec fin)" "exec (MergeConfig ?E k [] sec [] fin) u = u" for k sec fin u
    by (simp add: MergeConfig_def broken_answers adm_run Let_def copy_map_def del: run_state_bind)
  have "cw_Version small_worker = ''v1''" "cw_ConfigPath small_worker = []" by (simp_all add: small_worker_def)
  moreover have "TrimSpace ''v1'' = ''v1''" by code_simp
  ultimately show ?thesis
    by (simp add: unfinished_launch worker_launch_def result_bindE exec_bindE result_wrapE exec_wrapE ami conf Render_def Let_def)
qed

theorem unfinished_worker_leaks_instance:
  defines "E \<equiv> broken_cloud never_running"
  shows "cleanup_works E \<and> proper_ids E \<and> isl (result (CreateWorker E acct small_worker) one_cluster) \<and>
    live E one_cluster = {} \<and> Instance ''i-1'' \<in> live E (exec (CreateWorker E acct small_worker) one_cluster) \<and>
    am_table (exec (CreateWorker E acct small_worker) one_cluster) = am_table one_cluster"
proof -
  let ?b = "worker_create E acct small_worker (snd (hd (am_table one_cluster))) ''w'' [] defaultWorkerRootVolumeGiB ''runsc'' []"
  let ?s = "exec (GetCluster E ''c'') one_cluster"
  have in_s: "TrimSpace (cw_Name small_worker) = ''w''" "ParseECRRepoPatterns (cw_ECRRepos small_worker) = Inr []"
      "worker_runtime (cw_RuntimeBinary small_worker) = Inr ''runsc''" "TrimSpace (cw_RootVolume small_worker) = []"
      "cw_ClusterName small_worker = ''c''" "cw_PublicEIP small_worker = []"
    using small_worker_texts by (simp_all add: small_worker_def)
  have get: "result (GetCluster E ''c'') one_cluster = Inr (snd (hd (am_table one_cluster)))"
    by (simp add: E_def GetCluster_def adm_run broken_answers never_running_def run_sdk one_cluster_def adm_start_def del: run_state_bind)
  have wk: "clu_Workers (snd (hd (am_table one_cluster))) = []" "clu_PublicSubnets (snd (hd (am_table one_cluster))) = [''s1'']"
    by (simp_all add: one_cluster_def new_cluster_def small_cluster_def)
  have run: "run_state (CreateWorker E acct small_worker) one_cluster = run_state (with_rollback E ?b) ?s"
    by (simp add: prod_eq_iff CreateWorker_def in_s Let_def result_bindE exec_bindE result_wrapE exec_wrapE get wk root_volume_def eip_allocation_def
      del: run_state_bind)
  have b: "\<exists>err. result ?b u = Inl err" "Instance ''i-1'' \<in> live E (exec ?b u)" "am_rollback (exec ?b u) = am_rollback u" for u
    using small_worker_launch by (simp_all add: worker_create_def E_def)
  then obtain err where err: "result ?b (?s\<lparr> am_rollback := [] \<rparr>) = Inl err" by blast
  have "Instance ''i-1'' \<in> live E (exec (with_rollback E ?b) ?s)" "isl (result (with_rollback E ?b) ?s)"
    using b(2,3) err by (simp_all add: with_rollback_def rollback_run_def exec_bind result_bind del: run_state_bind)
  moreover have "cleanup_works E" "proper_ids E"
    by (auto simp: E_def cleanup_works_def proper_ids_def broken_answers never_running_def cleans_up_def split: aws_call.splits)
  moreover have "am_table (exec (with_rollback E ?b) ?s) = am_table one_cluster"
  proof -
    have "fails_within same_table (with_rollback E ?b)" by (intro fails_with_rollback worker_create_clean)
    then have "am_table (exec (with_rollback E ?b) ?s) = am_table ?s" using err by (simp add: fails_within_def run_with_rollback)
    then show ?thesis using tab.frame_GetCluster [of E "''c''"] by (simp add: state_io_rel_def)
  qed
  ultimately show ?thesis unfolding run by (simp add: live_def one_cluster_def adm_start_def)
qed

end
