(* ===== verification/Adm_Saves.thy ===== *)
theory Adm_Saves
  imports Adm_Props
begin

text \<open>
  Several operators at once. Each of them reads the record of a cluster, works on it for minutes, and saves it
  (\<open>CreateWorker\<close>, \<open>DeleteWorker\<close>, \<open>ResizeWorker\<close>, \<open>ResizeControlPlane\<close>): the state is the table and the copy that each operator
  holds, and the operations of the store are its steps, in any order.
\<close>

inductive operator_step :: "adm_env \<Rightarrow> adm_state \<times> (nat \<Rightarrow> Cluster option) \<Rightarrow> adm_state \<times> (nat \<Rightarrow> Cluster option) \<Rightarrow> bool" for E where
  reads: "operator_step E (s, held) (exec (GetCluster E n) s, held(k := (case result (GetCluster E n) s of Inr c \<Rightarrow> Some c | Inl _ \<Rightarrow> None)))"
| saves: "held k = Some c \<Longrightarrow> clu_Name c' = clu_Name c \<Longrightarrow> clu_Revision c' = clu_Revision c \<Longrightarrow>
    operator_step E (s, held) (exec (SaveCluster E c') s, held(k := None))"
| creates: "operator_step E (s, held) (exec (PutNewCluster E c) s, held)"

inductive_cases operator_stepE: "operator_step E (s, held) q"

lemma run_GetCluster:
  "am_table (exec (GetCluster E n) s) = am_table s"
  "result (GetCluster E n) s = Inr c \<Longrightarrow> map_of (am_table s) n = Some c"
  by (auto simp: GetCluster_def adm_run run_sdk split: option.splits sum.splits simp del: run_state_bind)

lemma run_SaveCluster:
  "result (SaveCluster E c) s = Inr () \<Longrightarrow> \<exists>old. map_of (am_table s) (clu_Name c) = Some old \<and> clu_Revision old = clu_Revision c \<and>
     am_table (exec (SaveCluster E c) s) = map_put (clu_Name c) (c\<lparr> clu_Revision := i64 (clu_Revision c + 1) \<rparr>) (am_table s)"
  by (auto simp: SaveCluster_def adm_run run_sdk split: option.splits sum.splits if_splits simp del: run_state_bind)

lemma run_PutNewCluster:
  "result (PutNewCluster E c) s = Inr () \<Longrightarrow> map_of (am_table s) (clu_Name c) = None \<and>
     am_table (exec (PutNewCluster E c) s) = map_put (clu_Name c) (c\<lparr> clu_Revision := 1 \<rparr>) (am_table s)"
  by (auto simp: PutNewCluster_def adm_run run_sdk split: option.splits sum.splits if_splits simp del: run_state_bind)

text \<open>The copies are not newer than the stored record, and one with its revision is the record.\<close>

definition records_ok :: "int \<Rightarrow> (string \<times> Cluster) list \<Rightarrow> bool" where
  "records_ok n tab \<longleftrightarrow>
     (\<forall>name d. map_of tab name = Some d \<longrightarrow> clu_Name d = name \<and> 1 \<le> clu_Revision d \<and> clu_Revision d \<le> n)"

definition copy_ok :: "(string \<times> Cluster) list \<Rightarrow> Cluster \<Rightarrow> bool" where
  "copy_ok tab c \<longleftrightarrow> (\<exists>d. map_of tab (clu_Name c) = Some d \<and> clu_Revision c \<le> clu_Revision d \<and> (clu_Revision c = clu_Revision d \<longrightarrow> c = d))"

definition copies_ok :: "int \<Rightarrow> adm_state \<times> (nat \<Rightarrow> Cluster option) \<Rightarrow> bool" where
  "copies_ok n q \<longleftrightarrow> records_ok n (am_table (fst q)) \<and> (\<forall>k c. snd q k = Some c \<longrightarrow> copy_ok (am_table (fst q)) c)"

lemma records_ok_more: "records_ok n tab \<Longrightarrow> records_ok (n + 1) tab"
  unfolding records_ok_def by fastforce

lemma copy_ok_stored: "records_ok n tab \<Longrightarrow> map_of tab m = Some c \<Longrightarrow> copy_ok tab c"
  by (auto simp: records_ok_def copy_ok_def)

lemma copies_ok_table:
  assumes "copies_ok n (s, held)" "am_table t = am_table s" "\<And>k c. held' k = Some c \<Longrightarrow> held k = Some c \<or> map_of (am_table s) (clu_Name c) = Some c"
  shows "copies_ok (n + 1) (t, held')"
  using assms copy_ok_stored records_ok_more unfolding copies_ok_def by fastforce

text \<open>A written record with a greater revision than the stored one.\<close>

lemma copies_ok_put:
  assumes "copies_ok n (s, held)" "am_table t = map_put (clu_Name d) d (am_table s)" "1 \<le> clu_Revision d" "clu_Revision d \<le> n + 1"
    and "\<And>old. map_of (am_table s) (clu_Name d) = Some old \<Longrightarrow> clu_Revision old < clu_Revision d"
    and "\<And>k c. held' k = Some c \<Longrightarrow> held k = Some c"
  shows "copies_ok (n + 1) (t, held')"
proof -
  have "records_ok (n + 1) (am_table t)" using assms(1-4) records_ok_more [of n "am_table s"] by (auto simp: copies_ok_def records_ok_def)
  moreover have "copy_ok (am_table t) c" if "copy_ok (am_table s) c" for c
    using that assms(2,5) by (cases "clu_Name c = clu_Name d") (fastforce simp: copy_ok_def)+
  ultimately show ?thesis using assms(1,6) unfolding copies_ok_def by (metis fst_conv snd_conv)
qed

lemma operator_step_ok:
  assumes "copies_ok n (s, held)" "operator_step E (s, held) q" "0 \<le> n" "n < 2 ^ 63 - 1"
  shows "copies_ok (n + 1) q"
  using assms(2)
proof (cases rule: operator_step.cases)
  case (reads m k)
  have "map_of (am_table s) (clu_Name c) = Some c" if "result (GetCluster E m) s = Inr c" for c
    using assms(1) run_GetCluster(2) [OF that] by (auto simp: copies_ok_def records_ok_def)
  then show ?thesis unfolding reads
    by (intro copies_ok_table [OF assms(1)] run_GetCluster) (auto split: sum.splits if_splits)
next
  case (saves k c c')
  show ?thesis
  proof (cases "result (SaveCluster E c') s")
    case (Inl e)
    then have "am_table (exec (SaveCluster E c') s) = am_table s" using fails_SaveCluster by (simp add: fails_within_def)
    then show ?thesis using saves by (auto intro!: copies_ok_table [OF assms(1)] split: if_splits)
  next
    case (Inr u)
    then obtain old where old: "map_of (am_table s) (clu_Name c') = Some old" "clu_Revision old = clu_Revision c'"
        "am_table (exec (SaveCluster E c') s) = map_put (clu_Name c') (c'\<lparr> clu_Revision := i64 (clu_Revision c' + 1) \<rparr>) (am_table s)"
      using run_SaveCluster by fastforce
    then have "1 \<le> clu_Revision c' \<and> clu_Revision c' \<le> n" using assms(1) unfolding copies_ok_def records_ok_def by (metis fst_conv)
    then have "i64 (clu_Revision c' + 1) = clu_Revision c' + 1" using assms(4) by (simp add: in64_def)
    then show ?thesis using saves old \<open>1 \<le> clu_Revision c' \<and> clu_Revision c' \<le> n\<close>
      by (auto intro!: copies_ok_put [OF assms(1), where d = "c'\<lparr> clu_Revision := clu_Revision c' + 1 \<rparr>"] split: if_splits)
  qed
next
  case (creates c)
  show ?thesis
  proof (cases "result (PutNewCluster E c) s")
    case (Inl e)
    then have "am_table (exec (PutNewCluster E c) s) = am_table s" using fails_PutNewCluster by (simp add: fails_within_def)
    then show ?thesis using creates by (auto intro!: copies_ok_table [OF assms(1)])
  next
    case (Inr u)
    then show ?thesis using creates run_PutNewCluster [of E c s] assms(3)
      by (auto intro!: copies_ok_put [OF assms(1), where d = "c\<lparr> clu_Revision := 1 \<rparr>"])
  qed
qed

lemma operator_steps_ok:
  "(operator_step E ^^ n) (s, held) q \<Longrightarrow> am_table s = [] \<Longrightarrow> held = (\<lambda>_. None) \<Longrightarrow> int n < 2 ^ 63 \<Longrightarrow> copies_ok (int n) q"
proof (induction n arbitrary: q)
  case 0
  then show ?case by (auto simp: copies_ok_def records_ok_def)
next
  case (Suc n)
  then obtain t held' where "(operator_step E ^^ n) (s, held) (t, held')" "operator_step E (t, held') q" by (metis relpowp_Suc_E surj_pair)
  then show ?case using Suc operator_step_ok [of "int n" t held' E q] by (simp add: add.commute)
qed


text \<open>An operator that created the cluster reads it and saves it.\<close>

definition calm :: adm_env where
  "calm = broken_cloud (\<lambda>_. False)"

definition some_cluster :: Cluster where
  "some_cluster = snd (hd (am_table one_cluster))"

definition after_create :: adm_state where
  "after_create = exec (PutNewCluster calm some_cluster) adm_start"

lemma after_create_table: "am_table after_create = [(''c'', some_cluster\<lparr> clu_Revision := 1 \<rparr>)]" "clu_Name some_cluster = ''c''"
  by (simp_all add: after_create_def PutNewCluster_def calm_def adm_run run_sdk broken_answers adm_start_def some_cluster_def one_cluster_def
    new_cluster_def del: run_state_bind)

lemma calm_get: "map_of (am_table s) n = Some c \<Longrightarrow> result (GetCluster calm n) s = Inr c"
  by (simp add: GetCluster_def calm_def adm_run run_sdk broken_answers del: run_state_bind)

lemma calm_save:
  "map_of (am_table s) (clu_Name c) = Some old \<Longrightarrow> clu_Revision old = clu_Revision c \<Longrightarrow> result (SaveCluster calm c) s = Inr ()"
  by (simp add: SaveCluster_def calm_def adm_run run_sdk broken_answers del: run_state_bind)


text \<open>
  With deletions it does not hold: a cluster that is created again starts with revision 1 again, so a copy of the deleted one with
  that revision is saved over it.
\<close>

theorem recreated_cluster_is_overwritten:
  assumes "clu_Name new = clu_Name old" "clu_Revision old = 1" "map_of (am_table s) (clu_Name old) = Some old"
  defines "t \<equiv> exec (PutNewCluster calm new) (exec (DeleteCluster_item calm (clu_Name old)) s)"
  shows "map_of (am_table t) (clu_Name old) = Some (new\<lparr> clu_Revision := 1 \<rparr>) \<and>
    map_of (am_table (exec (SaveCluster calm old) t)) (clu_Name old) = Some (old\<lparr> clu_Revision := 2 \<rparr>)"
  using assms(1-3)
  by (simp add: t_def PutNewCluster_def DeleteCluster_item_def SaveCluster_def calm_def adm_run run_sdk broken_answers in64_def
    del: run_state_bind)

end
