(* ===== verification/Spec2Isabelle.thy ===== *)
theory Spec2Isabelle
  imports Orch_HttpProps Orch_NodeProps Let_Isolation Let_HttpProps Let_Config Adm_Saves
begin

text \<open>
  A verification development for sandboxd-o.
\<close>

text \<open>
  C23: a request that does not carry the shared secret of the server changes nothing, at the orchestrator and at sbxlet
  alike: however it is routed and whatever it contains, the state after it is the state before it. It is answered with the
  health check, with a static page or with an error.
\<close>

theorem requests_without_secret_change_nothing:
  assumes "\<not> Middleware secret (rq_Header r)" and "\<not> Middleware nodeSecret (rq_Header q)"
  shows "exec (api_serve router E allow secret r) s = s \<and>
    result (api_serve router E allow secret r) s \<in>
      {(200, ApiHealth True)} \<union> {200} \<times> range ApiStatic \<union> {400, 401, 404} \<times> range ApiError \<and>
    exec (let_serve router' F nodeSecret q) t = t \<and>
    result (let_serve router' F nodeSecret q) t \<in>
      {(200, LetHealthResponse True)} \<union> {200} \<times> range StaticFile \<union> {400, 401, 404} \<times> range LetErrorResponse"
  using api_serve_unauthorized [OF assms(1)] let_serve_unauthorized [OF assms(2)] by blast

theorem requests_without_secret_change_nothing_witness:
  "exec (api_serve first_match sample_env (\<lambda>_. True) ''s3cret'' sample_get) sample_state = sample_state \<and>
   exec (let_serve first_match sample_let_env ''s3cret'' (client_request ''guess'' (CallDelete ''http://n1'' ''sbx-0''))) sample_let_state = sample_let_state"
proof -
  have none: "\<not> Middleware ''s3cret'' (rq_Header sample_get)" by code_simp
  have wrong: "\<not> Middleware ''s3cret'' (rq_Header (client_request ''guess'' (CallDelete ''http://n1'' ''sbx-0'')))" by code_simp
  show ?thesis using requests_without_secret_change_nothing [OF none wrong] by blast
qed

end
